(* ===== verification/Prelude.thy ===== *)
theory Prelude
  imports
    "HOL-Library.Word"
    "HOL-Library.AList"
    "HOL-Library.Multiset"
    "HOL-Library.Char_ord"
    "HOL-Library.List_Lexorder"
    "HOL-Library.Monad_Syntax"
begin

text \<open>
  Shared vocabulary of the development: the Go types the model uses (strings, fixed-width
  integers, instants and durations, slices, maps), their operations, and the generic lemmas
  the component theories rest on.

  Conventions.
  \<^item> \<open>'a option\<close> as the result of an operation: \<^term>\<open>None\<close> is a Go run-time panic (nil
    dereference, index out of range). A Go \<open>error\<close> result is a value \<^term>\<open>Inl msg\<close> of a sum.
  \<^item> A pointer field that may be nil is an \<open>option\<close>; a slice that may be nil is a
    \<open>slice\<close>, because \<open>reflect.DeepEqual\<close> and the JSON encoding tell nil from empty.
  \<^item> A Go map is an association list with distinct keys. Go visits the entries of a map in
    an unspecified order; loops whose result depends on it take the order as a parameter.
\<close>

section \<open>Strings, integers, instants\<close>

type_synonym uid = string
type_synonym u16 = "16 word"
type_synonym u32 = "32 word"
type_synonym u64 = "64 word"

text \<open>
  An instant is the number of nanoseconds since Go's zero time, so \<open>IsZero\<close> is equality
  with 0. A duration is an \<open>int64\<close> of nanoseconds; arithmetic on durations wraps around.
\<close>

type_synonym time = int
type_synonym duration = int

definition i64 :: "int \<Rightarrow> int" where
  "i64 x = (x + 2 ^ 63) mod 2 ^ 64 - 2 ^ 63"

definition is_i64 :: "int \<Rightarrow> bool" where
  "is_i64 x \<longleftrightarrow> - (2 ^ 63) \<le> x \<and> x < 2 ^ 63"

text \<open>\<open>t.Sub(u)\<close> and \<open>time.Since\<close> saturate at the ends of the duration range.\<close>

definition time_sub :: "time \<Rightarrow> time \<Rightarrow> duration" where
  "time_sub t u = max (- (2 ^ 63)) (min (2 ^ 63 - 1) (t - u))"

definition second :: duration where "second = 1000000000"
definition minute :: duration where "minute = 60 * second"
definition hour :: duration where "hour = 60 * minute"

text \<open>\<open>g++\<close> on an \<open>int64\<close> counter.\<close>

definition inc :: "int \<Rightarrow> int" where
  "inc g = i64 (g + 1)"

lemma i64_id: "is_i64 x \<Longrightarrow> i64 x = x"
  by (simp add: i64_def is_i64_def)

lemma is_i64_i64 [simp]: "is_i64 (i64 x)"
proof -
  have "0 \<le> (x + 2 ^ 63) mod 2 ^ 64" "(x + 2 ^ 63) mod 2 ^ 64 < 2 ^ 64"
    by simp_all
  then show ?thesis by (simp add: i64_def is_i64_def)
qed

lemma inc_neq [simp]: "inc g \<noteq> g"
proof
  assume eq: "inc g = g"
  have "inc g = (g + 1 + 2 ^ 63) mod 2 ^ 64 - 2 ^ 63" by (simp add: inc_def i64_def)
  with eq have "(g + 1 + 2 ^ 63) mod 2 ^ 64 = g + 2 ^ 63" by simp
  then have "(g + 1 + 2 ^ 63) mod (2 ^ 64) = (g + 2 ^ 63) mod (2 ^ 64)"
    by (metis mod_mod_trivial)
  then have "(2::int) ^ 64 dvd 1"
    by (simp add: mod_eq_dvd_iff)
  then show False by simp
qed

lemma inc_less: "is_i64 (g + 1) \<Longrightarrow> g < inc g"
  by (simp add: inc_def i64_id)

lemma time_sub_le_iff: "- (2 ^ 63) \<le> d \<Longrightarrow> d < 2 ^ 63 - 1 \<Longrightarrow> time_sub t u \<le> d \<longleftrightarrow> t - u \<le> d"
  by (auto simp: time_sub_def)

lemma time_sub_less_iff: "- (2 ^ 63) < d \<Longrightarrow> d \<le> 2 ^ 63 - 1 \<Longrightarrow> time_sub t u < d \<longleftrightarrow> t - u < d"
  by (auto simp: time_sub_def)

lemma time_sub_self [simp]: "time_sub t t = 0"
  by (simp add: time_sub_def)

lemma time_sub_mono: "t \<le> t' \<Longrightarrow> time_sub t u \<le> time_sub t' u"
  by (auto simp: time_sub_def)

section \<open>Slices\<close>

type_synonym 'a slice = "'a list option"

definition els :: "'a slice \<Rightarrow> 'a list" where
  "els s = (case s of None \<Rightarrow> [] | Some xs \<Rightarrow> xs)"

lemma els_simps [simp]: "els None = []" "els (Some xs) = xs"
  by (simp_all add: els_def)

section \<open>Maps\<close>

text \<open>
  The interface of a Go map: lookup, assignment and \<open>delete\<close>. Every map of the model is an
  instance: the ones the code iterates over are association lists, the ones it only reads
  and writes by key are partial functions.
\<close>

locale go_map =
  fixes lookup :: "'m \<Rightarrow> 'k \<Rightarrow> 'v option"
    and assign :: "'k \<Rightarrow> 'v \<Rightarrow> 'm \<Rightarrow> 'm"
    and remove :: "'k \<Rightarrow> 'm \<Rightarrow> 'm"
    and inv :: "'m \<Rightarrow> bool"
  assumes lookup_assign: "lookup (assign k v m) k' = (if k' = k then Some v else lookup m k')"
    and lookup_remove: "lookup (remove k m) k' = (if k' = k then None else lookup m k')"
    and inv_assign: "inv m \<Longrightarrow> inv (assign k v m)"
    and inv_remove: "inv m \<Longrightarrow> inv (remove k m)"
begin

lemma lookup_assign_same: "lookup (assign k v m) k = Some v"
  by (simp add: lookup_assign)

lemma lookup_remove_same: "lookup (remove k m) k = None"
  by (simp add: lookup_remove)

lemma lookup_removes:
  "lookup (fold remove ks m) k' = (if k' \<in> set ks then None else lookup m k')"
  by (induction ks arbitrary: m) (auto simp: lookup_remove)

lemma inv_removes: "inv m \<Longrightarrow> inv (fold remove ks m)"
  by (induction ks arbitrary: m) (auto simp: inv_remove)

end

type_synonym ('k, 'v) gomap = "('k \<times> 'v) list"

definition mkeys :: "('k, 'v) gomap \<Rightarrow> 'k list" where
  "mkeys m = map fst m"

definition mvals :: "('k, 'v) gomap \<Rightarrow> 'v list" where
  "mvals m = map snd m"

definition wf_map :: "('k, 'v) gomap \<Rightarrow> bool" where
  "wf_map m \<longleftrightarrow> distinct (mkeys m)"

text \<open>Apply a function to every value, as a loop over the pointers stored in the map does.\<close>

definition mmap :: "('v \<Rightarrow> 'v) \<Rightarrow> ('k, 'v) gomap \<Rightarrow> ('k, 'v) gomap" where
  "mmap f m = map (\<lambda>(k, v). (k, f v)) m"

text \<open>Write through the pointer stored under a key; nothing happens when the key is absent.\<close>

definition madj :: "'k \<Rightarrow> ('v \<Rightarrow> 'v) \<Rightarrow> ('k, 'v) gomap \<Rightarrow> ('k, 'v) gomap" where
  "madj k f m = map (\<lambda>(k', v). (k', if k' = k then f v else v)) m"

interpretation gm: go_map map_of AList.update AList.delete wf_map
  by unfold_locales
    (auto simp: update_conv' delete_conv' wf_map_def mkeys_def distinct_update distinct_delete)

interpretation fm: go_map "\<lambda>m k. m k" "\<lambda>k v m. m(k \<mapsto> v)" "\<lambda>k m. m(k := None)" "\<lambda>_. True"
  by unfold_locales auto

lemma mkeys_mmap [simp]: "mkeys (mmap f m) = mkeys m"
  by (induction m) (auto simp: mmap_def mkeys_def)

lemma mkeys_madj [simp]: "mkeys (madj k f m) = mkeys m"
  by (induction m) (auto simp: madj_def mkeys_def)

lemma wf_map_mmap [simp]: "wf_map (mmap f m) = wf_map m"
  by (simp add: wf_map_def)

lemma wf_map_madj [simp]: "wf_map (madj k f m) = wf_map m"
  by (simp add: wf_map_def)

lemma map_of_mmap: "map_of (mmap f m) k = map_option f (map_of m k)"
  by (induction m) (auto simp: mmap_def)

lemma map_of_madj: "map_of (madj k f m) k' = map_option (if k' = k then f else id) (map_of m k')"
  by (induction m) (auto simp: madj_def)

lemma map_of_madj_same [simp]: "map_of (madj k f m) k = map_option f (map_of m k)"
  by (simp add: map_of_madj)

lemma map_of_madj_other [simp]: "k' \<noteq> k \<Longrightarrow> map_of (madj k f m) k' = map_of m k'"
  by (simp add: map_of_madj option.map_id)

lemma map_of_in_mkeys: "map_of m k = Some v \<Longrightarrow> k \<in> set (mkeys m)"
  by (auto simp: mkeys_def dest: map_of_SomeD intro: rev_image_eqI)

lemma map_of_mkeys_iff: "(map_of m k \<noteq> None) \<longleftrightarrow> k \<in> set (mkeys m)"
  by (auto simp: mkeys_def map_of_eq_None_iff)

lemma mkeys_lookup: "k \<in> set (mkeys m) \<Longrightarrow> \<exists>v. map_of m k = Some v"
  using map_of_mkeys_iff by fastforce

lemma map_of_filter_key:
  "map_of (filter (\<lambda>(k, v). P k) m) k = (if P k then map_of m k else None)"
  by (induction m) auto

lemma wf_map_filter: "wf_map m \<Longrightarrow> wf_map (filter P m)"
  by (auto simp: wf_map_def mkeys_def distinct_map_filter)

lemma map_of_filter_wf:
  "wf_map m \<Longrightarrow> map_of (filter P m) k =
     (case map_of m k of Some v \<Rightarrow> if P (k, v) then Some v else None | None \<Rightarrow> None)"
  by (induction m) (auto simp: wf_map_def mkeys_def map_of_eq_None_iff split: option.splits)

lemma wf_map_mem: "wf_map m \<Longrightarrow> (k, v) \<in> set m \<longleftrightarrow> map_of m k = Some v"
  by (simp add: wf_map_def mkeys_def)

text \<open>Loops that delete the entries of some values from a map, by the key the value carries.\<close>

lemma fold_delete: "fold AList.delete ks m = filter (\<lambda>(k, v). k \<notin> set ks) m"
proof (induction ks arbitrary: m)
  case (Cons k ks)
  then show ?case by (auto simp: AList.delete_eq intro: filter_cong)
qed (simp add: filter_id_conv)

lemma fold_delete_entries:
  assumes "wf_map m" and "\<And>k v. (k, v) \<in> set m \<Longrightarrow> key v = k"
  shows "fold (\<lambda>(k, v). AList.delete (key v)) (filter P m) m = filter (\<lambda>x. \<not> P x) m"
proof -
  have "fold (\<lambda>(k, v). AList.delete (key v)) (filter P m) m =
      filter (\<lambda>(k, v). k \<notin> set (map (\<lambda>(k, v). key v) (filter P m))) m"
    using fold_delete [of "map (\<lambda>(k, v). key v) (filter P m)" m]
    by (simp add: fold_map comp_def case_prod_unfold)
  also have "\<dots> = filter (\<lambda>x. \<not> P x) m"
  proof (rule filter_cong [OF refl], clarify)
    fix k v assume kv: "(k, v) \<in> set m"
    have "k \<in> set (map (\<lambda>(k, v). key v) (filter P m)) \<longleftrightarrow> (\<exists>w. (k, w) \<in> set m \<and> P (k, w))"
      using assms(2) by force
    also have "\<dots> \<longleftrightarrow> P (k, v)" using kv wf_map_mem [OF assms(1)] by auto
    finally show "(k \<notin> set (map (\<lambda>(k, v). key v) (filter P m))) = (\<not> P (k, v))" by blast
  qed
  finally show ?thesis .
qed

lemma fold_delete_values:
  assumes "wf_map m" and "\<And>k v. (k, v) \<in> set m \<Longrightarrow> key v = k"
  shows "fold (\<lambda>v. AList.delete (key v)) (filter P (mvals m)) m = filter (\<lambda>(k, v). \<not> P v) m"
proof -
  have "fold (\<lambda>v. AList.delete (key v)) (filter P (mvals m)) m =
      fold (\<lambda>(k, v). AList.delete (key v)) (filter (\<lambda>(k, v). P v) m) m"
    by (simp add: mvals_def filter_map fold_map comp_def case_prod_unfold)
  then show ?thesis
    using fold_delete_entries [of m key "\<lambda>(k, v). P v", OF assms] by (simp add: case_prod_unfold)
qed

section \<open>Loops that may panic\<close>

text \<open>
  A loop over a slice whose body may panic: the state after the last iteration, or \<open>None\<close> when
  an iteration dereferences a nil pointer.
\<close>

fun ofold :: "('a \<Rightarrow> 's \<Rightarrow> 's option) \<Rightarrow> 'a list \<Rightarrow> 's \<Rightarrow> 's option" where
  "ofold f [] s = Some s"
| "ofold f (x # xs) s = Option.bind (f x s) (ofold f xs)"

lemma ofold_append: "ofold f (xs @ ys) s = Option.bind (ofold f xs s) (ofold f ys)"
  by (induction xs arbitrary: s) (auto split: Option.bind_splits)

text \<open>A loop does not panic and keeps an invariant when each iteration does.\<close>

lemma ofold_invariant:
  assumes "\<And>x s. x \<in> set xs \<Longrightarrow> I s \<Longrightarrow> \<exists>s'. f x s = Some s' \<and> I s'" and "I s"
  shows "\<exists>s'. ofold f xs s = Some s' \<and> I s'"
  using assms
proof (induction xs arbitrary: s)
  case (Cons x xs)
  obtain s' where "f x s = Some s'" "I s'" using Cons.prems by force
  then show ?case using Cons by (simp add: Cons.IH)
qed simp

end
