(* ===== verification/Go_Strings.thy ===== *)
theory Go_Strings
  imports Prelude
begin

text \<open>
  The string functions of the Go standard library the code uses (\<open>strings\<close>, \<open>strconv\<close>,
  \<open>fmt\<close>), on byte strings. White space and letter case are the ASCII ones. Errors are
  values: a message, or a format with the string argument it quotes. Also the name prefix of
  the objects the program manages (\<open>internal/common/common.go\<close>).
\<close>

section \<open>Errors\<close>

datatype go_error = Err string | Errq string string

type_synonym 'a res = "go_error + 'a"

definition guard :: "bool \<Rightarrow> go_error \<Rightarrow> unit res" where
  "guard bad e = (if bad then Inl e else Inr ())"

text \<open>A sequence of checks, each returning early with its error.\<close>

fun first_err :: "unit res list \<Rightarrow> unit res" where
  "first_err [] = Inr ()"
| "first_err (Inl e # cs) = Inl e"
| "first_err (Inr u # cs) = first_err cs"

lemma guard_ok [simp]: "guard b e = Inr u \<longleftrightarrow> \<not> b"
  by (simp add: guard_def)

lemma first_err_ok: "first_err cs = Inr () \<longleftrightarrow> (\<forall>c \<in> set cs. c = Inr ())"
  by (induction cs rule: first_err.induct) auto

lemma first_err_append_ok [simp]:
  "first_err (as @ bs) = Inr () \<longleftrightarrow> first_err as = Inr () \<and> first_err bs = Inr ()"
  by (auto simp: first_err_ok)

lemma first_err_Cons_ok [simp]:
  "first_err (c # cs) = Inr () \<longleftrightarrow> c = Inr () \<and> first_err cs = Inr ()"
  by (simp add: first_err_ok)

section \<open>Characters and trimming\<close>

definition is_space :: "char \<Rightarrow> bool" where
  "is_space c \<longleftrightarrow> c \<in> {CHR 0x09, CHR 0x0A, CHR 0x0B, CHR 0x0C, CHR 0x0D, CHR 0x20}"

definition is_digit :: "char \<Rightarrow> bool" where
  "is_digit c \<longleftrightarrow> 48 \<le> (of_char c :: nat) \<and> (of_char c :: nat) \<le> 57"

definition is_lower :: "char \<Rightarrow> bool" where
  "is_lower c \<longleftrightarrow> 97 \<le> (of_char c :: nat) \<and> (of_char c :: nat) \<le> 122"

definition is_upper :: "char \<Rightarrow> bool" where
  "is_upper c \<longleftrightarrow> 65 \<le> (of_char c :: nat) \<and> (of_char c :: nat) \<le> 90"

definition to_lower :: "char \<Rightarrow> char" where
  "to_lower c = (if is_upper c then char_of (of_char c + 32 :: nat) else c)"

definition to_upper :: "char \<Rightarrow> char" where
  "to_upper c = (if is_lower c then char_of (of_char c - 32 :: nat) else c)"

definition ToLower :: "string \<Rightarrow> string" where "ToLower s = map to_lower s"
definition ToUpper :: "string \<Rightarrow> string" where "ToUpper s = map to_upper s"

definition TrimSpace :: "string \<Rightarrow> string" where
  "TrimSpace s = rev (dropWhile is_space (rev (dropWhile is_space s)))"

fun HasPrefix :: "string \<Rightarrow> string \<Rightarrow> bool" where
  "HasPrefix s [] = True"
| "HasPrefix [] (p # ps) = False"
| "HasPrefix (c # cs) (p # ps) = (c = p \<and> HasPrefix cs ps)"

definition TrimPrefix :: "string \<Rightarrow> string \<Rightarrow> string" where
  "TrimPrefix s p = (if HasPrefix s p then drop (length p) s else s)"

definition newline :: char where "newline = CHR 0x0A"

lemma HasPrefix_append [simp]: "HasPrefix (p @ s) p"
  by (induction p) (auto split: list.splits)

lemma HasPrefix_iff: "HasPrefix s p \<longleftrightarrow> (\<exists>t. s = p @ t)"
  by (induction s p rule: HasPrefix.induct) auto

lemma TrimPrefix_append [simp]: "TrimPrefix (p @ s) p = s"
  by (simp add: TrimPrefix_def)

section \<open>Splitting, joining and paths\<close>

text \<open>\<open>strings.Split\<close> with a separator of one character and \<open>strings.Join\<close>.\<close>

fun Split :: "char \<Rightarrow> string \<Rightarrow> string list" where
  "Split sep [] = [[]]"
| "Split sep (c # cs) =
     (if c = sep then [] # Split sep cs
      else case Split sep cs of [] \<Rightarrow> [[c]] | w # ws \<Rightarrow> (c # w) # ws)"

fun JoinStr :: "string \<Rightarrow> string list \<Rightarrow> string" where
  "JoinStr sep [] = []"
| "JoinStr sep [w] = w"
| "JoinStr sep (w # ws) = w @ sep @ JoinStr sep ws"

lemma Split_neq_Nil [simp]: "Split sep s \<noteq> []"
  by (induction s) (auto split: list.splits)

lemma JoinStr_Cons: "ws \<noteq> [] \<Longrightarrow> JoinStr sep (w # ws) = w @ sep @ JoinStr sep ws"
  by (cases ws) auto

lemma JoinStr_Split: "JoinStr [sep] (Split sep s) = s"
proof (induction s)
  case (Cons c cs)
  then show ?case
    by (cases "Split sep cs"; cases "tl (Split sep cs)") (auto simp: JoinStr_Cons)
qed simp

lemma Split_plain: "sep \<notin> set w \<Longrightarrow> Split sep w = [w]"
  by (induction w) auto

lemma Split_append: "sep \<notin> set w \<Longrightarrow> Split sep (w @ sep # s) = w # Split sep s"
  by (induction w) auto

lemma Split_JoinStr:
  assumes "ws \<noteq> []" and "\<forall>w \<in> set ws. sep \<notin> set w"
  shows "Split sep (JoinStr [sep] ws) = ws"
  using assms by (induction "[sep]" ws rule: JoinStr.induct) (auto simp: Split_plain Split_append)

text \<open>\<open>path/filepath\<close>: the lexical clean-up of a path, and joining with it.\<close>

fun clean_segments :: "bool \<Rightarrow> string list \<Rightarrow> string list \<Rightarrow> string list" where
  "clean_segments rooted acc [] = rev acc"
| "clean_segments rooted acc (s # ss) =
     (if s = [] \<or> s = ''.'' then clean_segments rooted acc ss
      else if s = ''..'' then
        (case acc of
           [] \<Rightarrow> clean_segments rooted (if rooted then [] else [s]) ss
         | a # as \<Rightarrow> if a = ''..'' then clean_segments rooted (s # acc) ss
                     else clean_segments rooted as ss)
      else clean_segments rooted (s # acc) ss)"

definition CleanPath :: "string \<Rightarrow> string" where
  "CleanPath p =
     (let rooted = (p \<noteq> [] \<and> hd p = CHR ''/'');
          b = JoinStr ''/'' (clean_segments rooted [] (Split (CHR ''/'') p))
      in if rooted then CHR ''/'' # b else if b = [] then ''.'' else b)"

definition JoinPath :: "string list \<Rightarrow> string" where
  "JoinPath es =
     (case dropWhile (\<lambda>e. e = []) es of [] \<Rightarrow> [] | es' \<Rightarrow> CleanPath (JoinStr ''/'' es'))"

section \<open>Managed object names\<close>

definition hysteronPrefix :: string where "hysteronPrefix = ''hysteron_''"

definition HysteronName :: "string \<Rightarrow> string" where
  "HysteronName n = hysteronPrefix @ n"

definition NameFromHysteronName :: "string \<Rightarrow> string" where
  "NameFromHysteronName n = TrimPrefix n hysteronPrefix"

definition IsHysteronName :: "string \<Rightarrow> bool" where
  "IsHysteronName n = HasPrefix n hysteronPrefix"

lemma HysteronName_inj [simp]: "HysteronName a = HysteronName b \<longleftrightarrow> a = b"
  by (simp add: HysteronName_def)

lemma NameFromHysteronName_HysteronName [simp]: "NameFromHysteronName (HysteronName n) = n"
  by (simp add: NameFromHysteronName_def HysteronName_def)

lemma IsHysteronName_iff: "IsHysteronName s \<longleftrightarrow> (\<exists>n. s = HysteronName n)"
  by (simp add: IsHysteronName_def HysteronName_def HasPrefix_iff)

section \<open>Replication slot names\<close>

text \<open>The regular expression \<open>^[a-z0-9_]+$\<close>.\<close>

definition IsValidReplSlotName :: "string \<Rightarrow> bool" where
  "IsValidReplSlotName n \<longleftrightarrow>
     n \<noteq> [] \<and> list_all (\<lambda>c. is_lower c \<or> is_digit c \<or> c = CHR ''_'') n"

end
