(* ===== verification/Pg_Wal.thy ===== *)
theory Pg_Wal
  imports Go_Strings
begin

text \<open>
  WAL positions and WAL file names (\<open>internal/postgresql/utils.go\<close>): the textual LSN, the
  segment file name of a position, and the test that a server still has the WAL another one
  needs. The test compares file names as strings; it is shown to compare positions.
\<close>

section \<open>Hexadecimal formatting and parsing\<close>

definition hexdig :: "nat \<Rightarrow> char" where
  "hexdig n = ''0123456789ABCDEF'' ! n"

text \<open>\<open>%0wX\<close> for a number of at most \<open>w\<close> digits, and \<open>%X\<close>.\<close>

fun hexpad :: "nat \<Rightarrow> nat \<Rightarrow> string" where
  "hexpad 0 n = []"
| "hexpad (Suc w) n = hexpad w (n div 16) @ [hexdig (n mod 16)]"

fun hexmin :: "nat \<Rightarrow> string" where
  "hexmin n = (if n < 16 then [hexdig n] else hexmin (n div 16) @ [hexdig (n mod 16)])"

declare hexmin.simps [simp del]

text \<open>The digit loop of \<open>strconv.ParseUint\<close>.\<close>

definition digit_val :: "char \<Rightarrow> nat option" where
  "digit_val c =
     (let n = of_char c :: nat in
      if is_digit c then Some (n - 48)
      else if is_lower c then Some (n - 97 + 10)
      else if is_upper c then Some (n - 65 + 10)
      else None)"

fun parse_digits :: "nat \<Rightarrow> nat \<Rightarrow> nat \<Rightarrow> string \<Rightarrow> nat res" where
  "parse_digits base mx acc [] = Inr acc"
| "parse_digits base mx acc (c # cs) =
     (case digit_val c of
        None \<Rightarrow> Inl (Err ''invalid syntax'')
      | Some d \<Rightarrow>
          if d \<ge> base then Inl (Err ''invalid syntax'')
          else if acc * base + d > mx then Inl (Err ''value out of range'')
          else parse_digits base mx (acc * base + d) cs)"

definition ParseUint :: "string \<Rightarrow> nat \<Rightarrow> nat \<Rightarrow> nat res" where
  "ParseUint s base bits =
     (if s = [] then Inl (Err ''invalid syntax'') else parse_digits base (2 ^ bits - 1) 0 s)"

fun split_on :: "char \<Rightarrow> string \<Rightarrow> string list" where
  "split_on c [] = [[]]"
| "split_on c (x # xs) =
     (if x = c then [] # split_on c xs
      else case split_on c xs of [] \<Rightarrow> [[x]] | p # ps \<Rightarrow> (x # p) # ps)"

section \<open>LSN\<close>

definition PGLsnToInt :: "string \<Rightarrow> u64 res" where
  "PGLsnToInt lsn =
     (case split_on (CHR ''/'') lsn of
        [p, q] \<Rightarrow>
          (case ParseUint p 16 32 of Inl e \<Rightarrow> Inl e
           | Inr a \<Rightarrow>
               (case ParseUint q 16 32 of Inl e \<Rightarrow> Inl e
                | Inr b \<Rightarrow> Inr (or (push_bit 32 (word_of_nat a)) (word_of_nat b))))
      | _ \<Rightarrow> Inl (Errq ''bad pg_lsn: %s'' lsn))"

definition IntToPGLSN :: "u64 \<Rightarrow> string" where
  "IntToPGLSN lsn =
     hexmin (unat (drop_bit 32 lsn)) @ ''/'' @ hexmin (unat (and lsn 0xFFFFFFFF))"

section \<open>WAL file names\<close>

definition WalSegSize :: u32 where "WalSegSize = 16 * 1024 * 1024"

definition IsWalFileName :: "string \<Rightarrow> bool" where
  "IsWalFileName name \<longleftrightarrow>
     length name = 24 \<and> list_all (\<lambda>c. c \<in> set ''0123456789ABCDEF'') name"

definition XlogPosToWalFileNameNoTimeline :: "u64 \<Rightarrow> u32 \<Rightarrow> string" where
  "XlogPosToWalFileNameNoTimeline xLogPos walSegSize =
     (let fid = (ucast (drop_bit 32 xLogPos) :: u32);
          offset = (ucast xLogPos :: u32);
          seg = offset div walSegSize
      in hexpad 8 (unat fid) @ hexpad 8 (unat seg))"

definition WalFileNameNoTimeLine :: "string \<Rightarrow> string res" where
  "WalFileNameNoTimeLine name =
     (if \<not> IsWalFileName name then Inl (Err ''bad wal file name'')
      else Inr (take 16 (drop 8 name)))"

definition IsRequiredWalAvailable :: "u64 \<Rightarrow> string \<Rightarrow> u32 \<Rightarrow> bool res" where
  "IsRequiredWalAvailable requiredXLogPos oldestWalFile walSegSize =
     (if oldestWalFile = [] then Inr True
      else case WalFileNameNoTimeLine oldestWalFile of
          Inl e \<Rightarrow> Inl e
        | Inr older \<Rightarrow>
            Inr (XlogPosToWalFileNameNoTimeline requiredXLogPos walSegSize \<ge> older))"

section \<open>Digits\<close>

lemma hexdig_less16: "n < 16 \<Longrightarrow> n \<in> {0, 1, 2, 3, 4, 5, 6, 7, 8, 9, 10, 11, 12, 13, 14, 15::nat}"
  using lessThan_iff [of n 16] by (auto simp: lessThan_nat_numeral lessThan_Suc)

lemma digit_val_hexdig: "n < 16 \<Longrightarrow> digit_val (hexdig n) = Some n"
  by (drule hexdig_less16)
    (auto simp: hexdig_def digit_val_def is_digit_def is_lower_def is_upper_def)

lemma hexdig_in: "n < 16 \<Longrightarrow> hexdig n \<in> set ''0123456789ABCDEF''"
  unfolding hexdig_def by (rule nth_mem) simp

lemma hexdig_no_slash: "n < 16 \<Longrightarrow> hexdig n \<noteq> CHR ''/''"
  using hexdig_in [of n] by auto

lemma of_char_hexdig:
  "n < 16 \<Longrightarrow> (of_char (hexdig n) :: nat) = (if n < 10 then 48 + n else 55 + n)"
  by (drule hexdig_less16) (auto simp: hexdig_def)

lemma hexdig_less: "a < 16 \<Longrightarrow> b < 16 \<Longrightarrow> hexdig a < hexdig b \<longleftrightarrow> a < b"
  by (auto simp: less_char_def of_char_hexdig)

lemma hexdig_eq: "a < 16 \<Longrightarrow> b < 16 \<Longrightarrow> hexdig a = hexdig b \<longleftrightarrow> a = b"
  by (metis digit_val_hexdig option.inject)

section \<open>String order of equally long numerals\<close>

lemma snoc_less:
  "length xs = length ys \<Longrightarrow>
     xs @ [x] < ys @ [y] \<longleftrightarrow> xs < ys \<or> xs = ys \<and> x < (y :: char)"
  by (induction xs ys rule: list_induct2) auto

lemma append_less:
  "length xs = length ys \<Longrightarrow>
     xs @ us < ys @ vs \<longleftrightarrow> xs < ys \<or> xs = ys \<and> us < (vs :: string)"
  by (induction xs ys rule: list_induct2) auto

lemma length_hexpad [simp]: "length (hexpad w n) = w"
  by (induction w arbitrary: n) simp_all

lemma set_hexpad: "set (hexpad w n) \<subseteq> set ''0123456789ABCDEF''"
  by (induction w arbitrary: n) (use hexdig_in in auto)

lemma div_mod_less:
  "(a div n < b div n \<or> a div n = b div n \<and> a mod n < b mod n) \<longleftrightarrow> a < (b :: nat)"
proof (cases "a div n" "b div n" rule: linorder_cases)
  case less
  then show ?thesis using div_le_mono [of b a n] by linarith
next
  case equal
  have "a mod n < b mod n \<longleftrightarrow> b div n * n + a mod n < b div n * n + b mod n"
    by (simp only: nat_add_left_cancel_less)
  also have "\<dots> \<longleftrightarrow> a < b"
    using equal div_mult_mod_eq [of a n] div_mult_mod_eq [of b n] by metis
  finally show ?thesis using equal by simp
next
  case greater
  then show ?thesis using div_le_mono [of a b n] by linarith
qed

lemma div_mod_eq: "(a div 16 = b div 16 \<and> a mod 16 = b mod 16) \<longleftrightarrow> a = (b :: nat)"
  by (metis div_mult_mod_eq)

lemma hexpad_less:
  "a < 16 ^ w \<Longrightarrow> b < 16 ^ w \<Longrightarrow> hexpad w a < hexpad w b \<longleftrightarrow> a < b"
  "a < 16 ^ w \<Longrightarrow> b < 16 ^ w \<Longrightarrow> hexpad w a = hexpad w b \<longleftrightarrow> a = b"
proof (induction w arbitrary: a b)
  case (Suc w)
  have lt: "a div 16 < 16 ^ w" if "a < 16 ^ Suc w" for a :: nat
    using that by (auto simp: less_mult_imp_div_less)
  { case 1
    then show ?case
      using Suc.IH [OF lt [OF 1(1)] lt [OF 1(2)]] div_mod_less [of a 16 b]
      by (simp add: snoc_less hexdig_less) }
  { case 2
    have "hexpad (Suc w) a = hexpad (Suc w) b \<longleftrightarrow>
        a div 16 = b div 16 \<and> a mod 16 = b mod 16"
      using Suc.IH(2) [OF lt [OF 2(1)] lt [OF 2(2)]] by (simp add: hexdig_eq)
    then show ?case by (simp only: div_mod_eq) }
qed simp_all


section \<open>Positions and file names\<close>

lemma unat_hi: "unat (drop_bit 32 (p :: u64)) = unat p div 2 ^ 32"
  by (simp add: drop_bit_eq_div unat_div)

lemma unat_u64_less: "unat (p :: u64) < 2 ^ 64"
  using unsigned_less [of p] by simp

lemma u64_hi: "unat (ucast (drop_bit 32 (p :: u64)) :: u32) = unat p div 2 ^ 32"
  using unat_u64_less [of p]
  by (simp add: unsigned_ucast_eq take_bit_eq_mod unat_hi less_mult_imp_div_less)

lemma u64_lo: "unat (ucast (p :: u64) :: u32) = unat p mod 2 ^ 32"
  by (simp add: unsigned_ucast_eq take_bit_eq_mod)

lemma XlogPos_segment:
  "XlogPosToWalFileNameNoTimeline p seg =
     hexpad 8 (unat p div 2 ^ 32) @ hexpad 8 (unat p mod 2 ^ 32 div unat seg)"
  unfolding XlogPosToWalFileNameNoTimeline_def Let_def
  by (simp only: u64_hi u64_lo [of p] unat_div)

text \<open>
  The name of the WAL segment that starts at position \<open>start\<close> of timeline \<open>t\<close>, as the
  PostgreSQL server writes it.
\<close>

definition wal_file_name :: "u32 \<Rightarrow> u64 \<Rightarrow> u32 \<Rightarrow> string" where
  "wal_file_name t start seg = hexpad 8 (unat t) @ XlogPosToWalFileNameNoTimeline start seg"

lemma IsWalFileName_wal_file_name [simp]: "IsWalFileName (wal_file_name t start seg)"
proof -
  have "list_all (\<lambda>c. c \<in> set ''0123456789ABCDEF'') (hexpad w n)" for w n
    unfolding list_all_iff using set_hexpad by (rule ballI [OF subsetD])
  then show ?thesis
    by (simp only: IsWalFileName_def wal_file_name_def XlogPos_segment list_all_append
        length_append length_hexpad) simp
qed

lemma WalFileNameNoTimeLine_wal_file_name:
  "WalFileNameNoTimeLine (wal_file_name t start seg) =
     Inr (XlogPosToWalFileNameNoTimeline start seg)"
  by (simp add: WalFileNameNoTimeLine_def) (simp add: wal_file_name_def XlogPos_segment)

lemma segment_names_le:
  fixes p q :: u64 and seg :: u32
  assumes "seg \<noteq> 0" and "unat p mod 2 ^ 32 mod unat seg = 0"
  shows "XlogPosToWalFileNameNoTimeline p seg \<le> XlogPosToWalFileNameNoTimeline q seg \<longleftrightarrow> p \<le> q"
proof -
  let ?h = "\<lambda>p. unat (p :: u64) div 2 ^ 32" and ?l = "\<lambda>p. unat (p :: u64) mod 2 ^ 32"
  have pos: "0 < unat seg" using assms(1) by (simp add: unat_gt_0)
  have hb: "?h p < 16 ^ 8" for p using unat_u64_less [of p] by (simp add: less_mult_imp_div_less)
  have lb: "?l p div unat seg < 16 ^ 8" for p
    by (rule le_less_trans [OF div_le_dividend]) simp
  have lo: "?l q div unat seg < ?l p div unat seg \<longleftrightarrow> ?l q < ?l p"
    using assms(2) pos by (metis div_less_iff_less_mult dvd_div_mult_self dvd_eq_mod_eq_0)
  have "XlogPosToWalFileNameNoTimeline q seg < XlogPosToWalFileNameNoTimeline p seg \<longleftrightarrow>
      ?h q < ?h p \<or> ?h q = ?h p \<and> ?l q < ?l p"
    by (simp only: XlogPos_segment append_less length_hexpad hexpad_less [OF hb hb]
        hexpad_less [OF lb lb] lo)
  also have "\<dots> \<longleftrightarrow> unat q < unat p"
    by (rule div_mod_less)
  finally show ?thesis by (simp add: word_less_nat_alt not_less [symmetric])
qed

section \<open>LSN round trip\<close>

lemma parse_digits_append:
  "parse_digits b mx acc (xs @ ys) =
     (case parse_digits b mx acc xs of Inl e \<Rightarrow> Inl e | Inr v \<Rightarrow> parse_digits b mx v ys)"
  by (induction b mx acc xs rule: parse_digits.induct) (auto split: option.splits)

lemma parse_hexmin: "n \<le> mx \<Longrightarrow> parse_digits 16 mx 0 (hexmin n) = Inr n"
proof (induction n rule: hexmin.induct)
  case (1 n)
  then show ?case
    by (subst hexmin.simps)
      (auto simp: parse_digits_append digit_val_hexdig div_le_dividend [THEN order_trans])
qed

lemma hexmin_not_Nil [simp]: "hexmin n \<noteq> []"
  by (subst hexmin.simps) simp

lemma ParseUint_hexmin: "n < 2 ^ bits \<Longrightarrow> ParseUint (hexmin n) 16 bits = Inr n"
  by (simp add: ParseUint_def parse_hexmin)

lemma hexmin_no_slash: "CHR ''/'' \<notin> set (hexmin n)"
proof (induction n rule: hexmin.induct)
  case (1 n)
  then show ?case
    using hexdig_no_slash [of n] hexdig_no_slash [of "n mod 16"]
    by (subst hexmin.simps) auto
qed

lemma split_on_none: "c \<notin> set xs \<Longrightarrow> split_on c xs = [xs]"
  by (induction xs) auto

lemma split_on_append: "c \<notin> set xs \<Longrightarrow> split_on c (xs @ c # ys) = xs # split_on c ys"
  by (induction xs) auto

section \<open>Properties\<close>

text \<open>
  C31. A position of a standby is served by a server whose oldest WAL file is the segment
  starting at \<open>start\<close> exactly when it is not before \<open>start\<close>: the string comparison of the
  file names is the comparison of the positions, whatever the timelines.
\<close>

theorem IsRequiredWalAvailable_iff:
  fixes pos start :: u64 and seg :: u32
  assumes "seg \<noteq> 0" and "unat start mod 2 ^ 32 mod unat seg = 0"
  shows "IsRequiredWalAvailable pos (wal_file_name t start seg) seg = Inr (start \<le> pos)"
proof -
  have "wal_file_name t start seg \<noteq> []"
    using IsWalFileName_wal_file_name [of t start seg] by (auto simp: IsWalFileName_def)
  then show ?thesis
    by (simp add: IsRequiredWalAvailable_def WalFileNameNoTimeLine_wal_file_name
        segment_names_le [OF assms])
qed

theorem IsRequiredWalAvailable_iff_witness:
  "IsRequiredWalAvailable 0x300000100 (wal_file_name 7 0x2FE000000 0x1000000) 0x1000000 =
     Inr (0x2FE000000 \<le> (0x300000100 :: u64)) \<and> 0x2FE000000 \<le> (0x300000100 :: u64) \<and>
   IsRequiredWalAvailable 0x2FDFFFFFF (wal_file_name 7 0x2FE000000 0x1000000) 0x1000000 =
     Inr (0x2FE000000 \<le> (0x2FDFFFFFF :: u64)) \<and> \<not> 0x2FE000000 \<le> (0x2FDFFFFFF :: u64)"
proof -
  have s: "(0x1000000 :: u32) \<noteq> 0"
    by simp
  have a: "unat (0x2FE000000 :: u64) mod 2 ^ 32 mod unat (0x1000000 :: u32) = 0"
    by simp
  have c: "0x2FE000000 \<le> (0x300000100 :: u64)" "\<not> 0x2FE000000 \<le> (0x2FDFFFFFF :: u64)"
    by simp_all
  show ?thesis
    by (intro conjI IsRequiredWalAvailable_iff s a c)
qed

text \<open>
  C32. Printing an LSN and parsing it back gives the same 64-bit position.
\<close>

theorem PGLsnToInt_IntToPGLSN: "PGLsnToInt (IntToPGLSN n) = Inr n"
proof -
  have hi: "unat (drop_bit 32 n) < 2 ^ 32"
    using unat_u64_less [of n] by (simp add: unat_hi less_mult_imp_div_less)
  have mask: "and n 0xFFFFFFFF = take_bit 32 n"
    by (simp add: take_bit_eq_mask mask_eq_exp_minus_1)
  have lo: "unat (and n 0xFFFFFFFF) < 2 ^ 32"
    unfolding mask by (simp only: unsigned_take_bit_eq take_bit_nat_less_exp)
  have "or (push_bit 32 (drop_bit 32 n)) (and n 0xFFFFFFFF) = n"
    unfolding mask by (rule bit_eqI) (auto simp: bit_simps)
  then show ?thesis
    by (simp add: PGLsnToInt_def IntToPGLSN_def split_on_append split_on_none hexmin_no_slash
        ParseUint_hexmin [OF hi] ParseUint_hexmin [OF lo])
qed

end
