(* ===== verification/Slices.thy ===== *)
theory Slices
  imports Prelude
begin

text \<open>The slice helpers of \<open>internal/utils/slices/slice.go\<close>.\<close>

fun equal_elements :: "string list \<Rightarrow> string list \<Rightarrow> bool" where
  "equal_elements (a # as) (b # bs) = (if a \<noteq> b then False else equal_elements as bs)"
| "equal_elements _ _ = True"

definition CompareStringSlice :: "string list \<Rightarrow> string list \<Rightarrow> bool" where
  "CompareStringSlice a b =
     (if length a \<noteq> length b then False else equal_elements a b)"

definition CompareStringSliceNoOrder :: "string list \<Rightarrow> string list \<Rightarrow> bool" where
  "CompareStringSliceNoOrder a b =
     (if length a \<noteq> length b then False else equal_elements (sort a) (sort b))"

definition CommonElements :: "string list \<Rightarrow> string list \<Rightarrow> string list" where
  "CommonElements a b = filter (\<lambda>v. v \<in> set b) a"

definition Difference :: "string list \<Rightarrow> string list \<Rightarrow> string list" where
  "Difference a b = filter (\<lambda>v. v \<notin> set b) a"

lemma equal_elements_iff: "length a = length b \<Longrightarrow> equal_elements a b \<longleftrightarrow> a = b"
  by (induction a b rule: equal_elements.induct) auto

lemma CompareStringSlice_iff [simp]: "CompareStringSlice a b \<longleftrightarrow> a = b"
  by (auto simp: CompareStringSlice_def equal_elements_iff)

text \<open>The order-insensitive comparison is equality of the multisets of elements.\<close>

lemma CompareStringSliceNoOrder_mset:
  "CompareStringSliceNoOrder a b \<longleftrightarrow> mset a = mset b"
proof
  assume "CompareStringSliceNoOrder a b"
  then have "sort a = sort b"
    by (auto simp: CompareStringSliceNoOrder_def equal_elements_iff split: if_splits)
  then show "mset a = mset b" by (metis mset_sort)
next
  assume m: "mset a = mset b"
  then have "sort a = sort b" by (metis properties_for_sort mset_sort sorted_sort)
  moreover have "length a = length b" using m by (rule mset_eq_length)
  ultimately show "CompareStringSliceNoOrder a b"
    by (simp add: CompareStringSliceNoOrder_def equal_elements_iff)
qed

lemma CompareStringSliceNoOrder_set:
  "CompareStringSliceNoOrder a b \<Longrightarrow> set a = set b"
  by (metis CompareStringSliceNoOrder_mset set_mset_mset)

lemma set_CommonElements [simp]: "set (CommonElements a b) = set a \<inter> set b"
  by (auto simp: CommonElements_def)

lemma set_Difference [simp]: "set (Difference a b) = set a - set b"
  by (auto simp: Difference_def)

lemma CommonElements_Difference_mset:
  "mset (CommonElements a b) + mset (Difference a b) = mset a"
  by (simp add: CommonElements_def Difference_def mset_filter multiset_partition [symmetric])

lemma CommonElements_empty_iff: "CommonElements a b = [] \<longleftrightarrow> set a \<inter> set b = {}"
  by (metis set_CommonElements set_empty)

end
