(* ===== verification/Cluster_Types.thy ===== *)
theory Cluster_Types
  imports Prelude
begin

text \<open>
  The cluster data model (\<open>internal/cluster/types_*.go\<close>, \<open>member.go\<close>, \<open>manual_switch.go\<close>)
  and the role of an instance (\<open>internal/common/common.go\<close>). Each struct is a record whose
  fields carry a prefix naming the struct. A string-typed enumeration is a datatype with one
  constructor per declared constant and one for every other string, which the JSON decoder
  lets through. Pointers to \<open>Spec\<close>, \<open>Cluster\<close> and \<open>Proxy\<close> objects are never nil in
  cluster data that passed validation and are plain fields.
\<close>

section \<open>Enumerations\<close>

datatype role = RoleUndefined | RoleMaster | RoleStandby | RoleOther string

datatype follow_type = FollowTypeInternal | FollowTypeExternal | FollowTypeOther string

datatype cluster_phase =
  ClusterPhaseInitializing | ClusterPhaseNormal | ClusterPhaseOther string

datatype cluster_role = ClusterRoleMaster | ClusterRoleStandby | ClusterRoleOther string

datatype cluster_init_mode =
  ClusterInitModeNew | ClusterInitModePITR | ClusterInitModeExisting | ClusterInitModeOther string

datatype db_init_mode =
  DBInitModeNone | DBInitModeExisting | DBInitModeNew | DBInitModePITR | DBInitModeResync
| DBInitModeOther string

datatype repl_slot_type =
  ReplicationSlotTypePhysical | ReplicationSlotTypeLogical | ReplicationSlotTypeEmpty
| ReplicationSlotTypeOther string

datatype su_repl_access_mode = SUReplAccessAll | SUReplAccessStrict | SUReplAccessOther string

datatype replication_tls_mode =
  ReplicationTLSModePrefer | ReplicationTLSModeRequire | ReplicationTLSModeVerifyCA
| ReplicationTLSModeVerifyFull | ReplicationTLSModeEmpty | ReplicationTLSModeOther string

datatype manual_switch_mode =
  ManualSwitchModeSwitchover | ManualSwitchModeFailover | ManualSwitchModeOther string

section \<open>Bootstrap and replication settings\<close>

text \<open>PostgreSQL parameters: a possibly nil map, kept as its entries in key order.\<close>

type_synonym pg_parameters = "(string \<times> string) slice"

definition pg_param :: "pg_parameters \<Rightarrow> string \<Rightarrow> string option" where
  "pg_param ps k = map_of (els ps) k"

record new_config =
  nc_Locale :: string
  nc_Encoding :: string
  nc_DataChecksums :: bool

record archive_recovery_settings =
  ars_RestoreCommand :: string

record recovery_target_settings =
  rts_RecoveryTarget :: string
  rts_RecoveryTargetLsn :: string
  rts_RecoveryTargetName :: string
  rts_RecoveryTargetTime :: string
  rts_RecoveryTargetXid :: string
  rts_RecoveryTargetTimeline :: string

record standby_settings =
  ss_PrimaryConninfo :: string
  ss_PrimarySlotName :: string
  ss_RecoveryMinApplyDelay :: string

record pitr_config =
  pc_ArchiveRecoverySettings :: "archive_recovery_settings option"
  pc_RecoveryTargetSettings :: "recovery_target_settings option"
  pc_DataRestoreCommand :: string

record existing_config =
  ec_KeeperUID :: uid

record standby_config =
  sc_StandbySettings :: "standby_settings option"
  sc_ArchiveRecoverySettings :: "archive_recovery_settings option"
  sc_NoStream :: bool

record follow_config =
  fc_StandbySettings :: "standby_settings option"
  fc_ArchiveRecoverySettings :: "archive_recovery_settings option"
  fc_Type :: follow_type
  fc_DBUID :: uid

record managed_logical_slot =
  mls_Name :: string
  mls_Database :: string
  mls_Plugin :: string

record slot_matcher =
  sm_Name :: string
  sm_Type :: repl_slot_type
  sm_Database :: string
  sm_Plugin :: string

section \<open>Cluster\<close>

record cluster_spec =
  cs_SleepInterval :: "duration option"
  cs_RequestTimeout :: "duration option"
  cs_ConvergenceTimeout :: "duration option"
  cs_InitTimeout :: "duration option"
  cs_SyncTimeout :: "duration option"
  cs_DBWaitReadyTimeout :: "duration option"
  cs_FailInterval :: "duration option"
  cs_EnableFailsafeMode :: "bool option"
  cs_FailsafeProbeInterval :: "duration option"
  cs_FailsafeProbeTimeout :: "duration option"
  cs_FailsafeMaxMissingPeers :: "u16 option"
  cs_FailsafeTTL :: "duration option"
  cs_DeadKeeperRemovalInterval :: "duration option"
  cs_ProxyCheckInterval :: "duration option"
  cs_ProxyTimeout :: "duration option"
  cs_MaxStandbys :: "u16 option"
  cs_MaxStandbysPerSender :: "u16 option"
  cs_MaxStandbyLag :: "u32 option"
  cs_SynchronousReplication :: "bool option"
  cs_ReplicationTLSMode :: "replication_tls_mode option"
  cs_UnsafeAutoFailback :: "bool option"
  cs_AutoFailbackMinUptime :: "duration option"
  cs_AutoFailbackCooldown :: "duration option"
  cs_MinSynchronousStandbys :: "u16 option"
  cs_MaxSynchronousStandbys :: "u16 option"
  cs_AdditionalWalSenders :: "u16 option"
  cs_UsePgrewind :: "bool option"
  cs_CheckpointBeforePgrewind :: "bool option"
  cs_InitMode :: "cluster_init_mode option"
  cs_MergePgParameters :: "bool option"
  cs_Role :: "cluster_role option"
  cs_NewConfig :: "new_config option"
  cs_PITRConfig :: "pitr_config option"
  cs_ExistingConfig :: "existing_config option"
  cs_StandbyConfig :: "standby_config option"
  cs_DefaultSUReplAccessMode :: "su_repl_access_mode option"
  cs_PGParameters :: pg_parameters
  cs_AutomaticPgRestart :: "bool option"
  cs_MemberReplicationSlotTTL :: "duration option"
  cs_BeforeStopCommand :: string
  cs_PrePromoteCommand :: string
  cs_AdditionalMasterReplicationSlots :: "string slice"
  cs_IgnoreMasterReplicationSlots :: "string slice"
  cs_IgnoreMasterReplicationSlotMatchers :: "slot_matcher slice"
  cs_ManagedLogicalReplicationSlots :: "managed_logical_slot slice"
  cs_PGHBA :: "string slice"
  cs_PGIdent :: "string slice"
  cs_EnableLogicalSlotFailover :: bool

record manual_switch_request =
  msr_TargetKeeperUID :: uid
  msr_Mode :: manual_switch_mode

record cluster_status =
  cst_PauseUntil :: "time option"
  cst_ManualSwitch :: "manual_switch_request option"
  cst_Phase :: cluster_phase
  cst_Master :: uid
  cst_PauseReason :: string
  cst_CurrentGeneration :: int
  cst_Paused :: bool

record cluster =
  cl_ChangeTime :: time
  cl_Spec :: cluster_spec
  cl_UID :: uid
  cl_Status :: cluster_status
  cl_Generation :: int

section \<open>Keepers\<close>

record binary_version =
  bv_Maj :: int
  bv_Min :: int

record keeper_status =
  kst_LastHealthyTime :: time
  kst_CanBeMaster :: "bool option"
  kst_CanBeSynchronousReplica :: "bool option"
  kst_BootUUID :: string
  kst_Hostname :: string
  kst_NodeName :: string
  kst_PostgresBinaryVersion :: binary_version
  kst_MasterPriority :: int
  kst_Healthy :: bool
  kst_ForceFail :: bool

record keeper =
  k_ChangeTime :: time
  k_UID :: uid
  k_Status :: keeper_status
  k_Generation :: int

section \<open>Databases\<close>

record timeline_history =
  tlh_Reason :: string
  tlh_TimelineID :: u64
  tlh_SwitchPoint :: u64

type_synonym timelines_history = "timeline_history slice"

record db_spec =
  dbs_NewConfig :: "new_config option"
  dbs_PITRConfig :: "pitr_config option"
  dbs_PGParameters :: pg_parameters
  dbs_FollowConfig :: "follow_config option"
  dbs_KeeperUID :: uid
  dbs_InitMode :: db_init_mode
  dbs_Role :: role
  dbs_BeforeStopCommand :: string
  dbs_PrePromoteCommand :: string
  dbs_ReplicationTLSMode :: replication_tls_mode
  dbs_AdditionalReplicationSlots :: "string slice"
  dbs_IgnoreReplicationSlots :: "string slice"
  dbs_IgnoreReplicationSlotMatchers :: "slot_matcher slice"
  dbs_ManagedLogicalReplicationSlots :: "managed_logical_slot slice"
  dbs_PGHBA :: "string slice"
  dbs_PGIdent :: "string slice"
  dbs_Followers :: "uid slice"
  dbs_SynchronousStandbys :: "uid slice"
  dbs_ExternalSynchronousStandbys :: "string slice"
  dbs_RequestTimeout :: duration
  dbs_MaxStandbys :: u16
  dbs_AdditionalWalSenders :: u16
  dbs_NoStream :: bool
  dbs_EnableLogicalSlotFailover :: bool
  dbs_SynchronousReplication :: bool
  dbs_UsePgrewind :: bool
  dbs_CheckpointBeforePgrewind :: bool
  dbs_IncludeConfig :: bool

record db_status =
  dst_PGParameters :: pg_parameters
  dst_OrphanMemberSlots :: "(string \<times> time) slice"
  dst_ManagedLogicalSlots :: "(string \<times> u64) slice"
  dst_ListenAddress :: string
  dst_Port :: string
  dst_SystemID :: string
  dst_OlderWalFile :: string
  dst_TimelinesHistory :: timelines_history
  dst_CurSynchronousStandbys :: "uid slice"
  dst_SynchronousStandbys :: "uid slice"
  dst_CurrentGeneration :: int
  dst_TimelineID :: u64
  dst_XLogPos :: u64
  dst_Healthy :: bool

record db =
  db_ChangeTime :: time
  db_Spec :: db_spec
  db_UID :: uid
  db_Status :: db_status
  db_Generation :: int

section \<open>Proxies and cluster data\<close>

record proxy_spec =
  pxs_MasterDBUID :: uid
  pxs_EnabledProxies :: "uid slice"

record proxy =
  px_ChangeTime :: time
  px_UID :: uid
  px_Spec :: proxy_spec
  px_Generation :: int

type_synonym keepers = "(uid, keeper) gomap"
type_synonym dbs = "(uid, db) gomap"

record cluster_data =
  cd_ChangeTime :: time
  cd_Cluster :: cluster
  cd_Keepers :: keepers
  cd_DBs :: dbs
  cd_Proxy :: proxy
  cd_FormatVersion :: u64

section \<open>Published member state\<close>

record postgres_state =
  pgs_PGParameters :: pg_parameters
  pgs_ManagedLogicalSlots :: "(string \<times> u64) slice"
  pgs_UID :: uid
  pgs_ListenAddress :: string
  pgs_Port :: string
  pgs_SystemID :: string
  pgs_OlderWalFile :: string
  pgs_TimelinesHistory :: timelines_history
  pgs_SynchronousStandbys :: "uid slice"
  pgs_Generation :: int
  pgs_TimelineID :: u64
  pgs_XLogPos :: u64
  pgs_Healthy :: bool

record keeper_info =
  ki_PostgresState :: "postgres_state option"
  ki_CanBeMaster :: "bool option"
  ki_CanBeSynchronousReplica :: "bool option"
  ki_InfoUID :: uid
  ki_UID :: uid
  ki_ClusterUID :: uid
  ki_BootUUID :: string
  ki_Hostname :: string
  ki_NodeName :: string
  ki_PostgresBinaryVersion :: binary_version
  ki_MasterPriority :: int

type_synonym keepers_info = "(uid, keeper_info) gomap"

record proxy_listener_info =
  pli_Mode :: string
  pli_Address :: string
  pli_Port :: string
  pli_Active :: bool

record proxy_info =
  pi_InfoUID :: uid
  pi_UID :: uid
  pi_Hostname :: string
  pi_NodeName :: string
  pi_Listeners :: "proxy_listener_info slice"
  pi_Generation :: int
  pi_ProxyTimeout :: duration

type_synonym proxies_info = "(uid, proxy_info) gomap"

section \<open>Constants and constructors\<close>

definition CurrentCDFormatVersion :: u64 where "CurrentCDFormatVersion = 1"
definition NoGeneration :: int where "NoGeneration = 0"
definition InitialGeneration :: int where "InitialGeneration = 1"

definition NewKeeperFromKeeperInfo :: "time \<Rightarrow> keeper_info \<Rightarrow> keeper" where
  "NewKeeperFromKeeperInfo now ki =
     \<lparr>k_ChangeTime = 0, k_UID = ki_UID ki,
      k_Status = \<lparr>kst_LastHealthyTime = now, kst_CanBeMaster = None,
        kst_CanBeSynchronousReplica = None, kst_BootUUID = ki_BootUUID ki,
        kst_Hostname = ki_Hostname ki, kst_NodeName = ki_NodeName ki,
        kst_PostgresBinaryVersion = \<lparr>bv_Maj = 0, bv_Min = 0\<rparr>,
        kst_MasterPriority = ki_MasterPriority ki, kst_Healthy = True, kst_ForceFail = False\<rparr>,
      k_Generation = InitialGeneration\<rparr>"

text \<open>The zero value of \<open>ClusterSpec\<close>.\<close>

definition zero_cluster_spec :: cluster_spec where
  "zero_cluster_spec = \<lparr>cs_SleepInterval = None, cs_RequestTimeout = None,
     cs_ConvergenceTimeout = None, cs_InitTimeout = None, cs_SyncTimeout = None,
     cs_DBWaitReadyTimeout = None, cs_FailInterval = None, cs_EnableFailsafeMode = None,
     cs_FailsafeProbeInterval = None, cs_FailsafeProbeTimeout = None,
     cs_FailsafeMaxMissingPeers = None, cs_FailsafeTTL = None,
     cs_DeadKeeperRemovalInterval = None, cs_ProxyCheckInterval = None, cs_ProxyTimeout = None,
     cs_MaxStandbys = None, cs_MaxStandbysPerSender = None, cs_MaxStandbyLag = None,
     cs_SynchronousReplication = None, cs_ReplicationTLSMode = None,
     cs_UnsafeAutoFailback = None, cs_AutoFailbackMinUptime = None,
     cs_AutoFailbackCooldown = None, cs_MinSynchronousStandbys = None,
     cs_MaxSynchronousStandbys = None, cs_AdditionalWalSenders = None, cs_UsePgrewind = None,
     cs_CheckpointBeforePgrewind = None, cs_InitMode = None, cs_MergePgParameters = None,
     cs_Role = None, cs_NewConfig = None, cs_PITRConfig = None, cs_ExistingConfig = None,
     cs_StandbyConfig = None, cs_DefaultSUReplAccessMode = None, cs_PGParameters = None,
     cs_AutomaticPgRestart = None, cs_MemberReplicationSlotTTL = None,
     cs_BeforeStopCommand = [], cs_PrePromoteCommand = [],
     cs_AdditionalMasterReplicationSlots = None, cs_IgnoreMasterReplicationSlots = None,
     cs_IgnoreMasterReplicationSlotMatchers = None, cs_ManagedLogicalReplicationSlots = None,
     cs_PGHBA = None, cs_PGIdent = None, cs_EnableLogicalSlotFailover = False\<rparr>"

definition NewCluster :: "time \<Rightarrow> uid \<Rightarrow> cluster_spec \<Rightarrow> cluster" where
  "NewCluster now u spec =
     \<lparr>cl_ChangeTime = now, cl_Spec = spec, cl_UID = u,
      cl_Status = \<lparr>cst_PauseUntil = None, cst_ManualSwitch = None,
        cst_Phase = ClusterPhaseInitializing, cst_Master = [], cst_PauseReason = [],
        cst_CurrentGeneration = 0, cst_Paused = False\<rparr>,
      cl_Generation = InitialGeneration\<rparr>"

definition NewClusterData :: "cluster \<Rightarrow> cluster_data" where
  "NewClusterData c =
     \<lparr>cd_ChangeTime = 0, cd_Cluster = c, cd_Keepers = [], cd_DBs = [],
      cd_Proxy = \<lparr>px_ChangeTime = 0, px_UID = [],
        px_Spec = \<lparr>pxs_MasterDBUID = [], pxs_EnabledProxies = None\<rparr>, px_Generation = 0\<rparr>,
      cd_FormatVersion = CurrentCDFormatVersion\<rparr>"

text \<open>
  \<open>FindDB\<close> returns the first database assigned to the keeper that the map iteration meets.
  At most one database is assigned to a keeper (\<open>wf_cd\<close> below), so the order is immaterial.
\<close>

definition FindDB :: "cluster_data \<Rightarrow> keeper \<Rightarrow> db option" where
  "FindDB cd k = find (\<lambda>d. dbs_KeeperUID (db_Spec d) = k_UID k) (mvals (cd_DBs cd))"

definition SortedKeys :: "keepers \<Rightarrow> uid list" where
  "SortedKeys ks = sort (mkeys ks)"

fun GetTimelineHistory :: "timeline_history list \<Rightarrow> u64 \<Rightarrow> timeline_history option" where
  "GetTimelineHistory [] i = None"
| "GetTimelineHistory (h # hs) i =
     (if tlh_TimelineID h = i then Some h else GetTimelineHistory hs i)"

definition PauseActive :: "cluster_status \<Rightarrow> time \<Rightarrow> bool" where
  "PauseActive s now =
     (if \<not> cst_Paused s then False
      else case cst_PauseUntil s of None \<Rightarrow> True | Some t \<Rightarrow> now < t)"

end
