(* ===== verification/Timeline.thy ===== *)
theory Timeline
  imports Cluster_Types
begin

text \<open>
  Timeline divergence (\<open>internal/cluster/timeline.go\<close>): whether the state of one database is on
  the branch of WAL history another database followed.
\<close>

datatype divergence_reason =
  TimelineDivergenceNone
| TimelineDivergenceFollowedTimelineOlder
| TimelineDivergenceSameTimelineDifferentSwitchPoint
| TimelineDivergenceFollowedForkedBeforeCurrentPosition

record branch_divergence =
  tbd_Reason :: divergence_reason
  tbd_FollowedSwitchPoint :: u64
  tbd_CurrentSwitchPoint :: u64
  tbd_Different :: bool

definition no_divergence :: branch_divergence where
  "no_divergence = \<lparr>tbd_Reason = TimelineDivergenceNone, tbd_FollowedSwitchPoint = 0,
     tbd_CurrentSwitchPoint = 0, tbd_Different = False\<rparr>"

definition DetectTimelineBranchDivergence ::
  "u64 \<Rightarrow> timelines_history \<Rightarrow> u64 \<Rightarrow> u64 \<Rightarrow> timelines_history \<Rightarrow> u64 \<Rightarrow> branch_divergence" where
  "DetectTimelineBranchDivergence followedTimelineID followedTimelineHistory followedXLogPos
     currentTimelineID currentTimelineHistory currentXLogPos =
     (if followedTimelineID < currentTimelineID then
        no_divergence\<lparr>tbd_Different := True,
          tbd_Reason := TimelineDivergenceFollowedTimelineOlder\<rparr>
      else if followedTimelineID = currentTimelineID then
        (if currentTimelineID \<le> 1 then no_divergence
         else case (GetTimelineHistory (els followedTimelineHistory) (currentTimelineID - 1),
                    GetTimelineHistory (els currentTimelineHistory) (currentTimelineID - 1)) of
             (Some f, Some c) \<Rightarrow>
               if tlh_SwitchPoint f \<noteq> tlh_SwitchPoint c then
                 \<lparr>tbd_Reason = TimelineDivergenceSameTimelineDifferentSwitchPoint,
                  tbd_FollowedSwitchPoint = tlh_SwitchPoint f,
                  tbd_CurrentSwitchPoint = tlh_SwitchPoint c, tbd_Different = True\<rparr>
               else no_divergence
           | _ \<Rightarrow> no_divergence)
      else case GetTimelineHistory (els followedTimelineHistory) currentTimelineID of
          Some f \<Rightarrow>
            if tlh_SwitchPoint f < currentXLogPos then
              \<lparr>tbd_Reason = TimelineDivergenceFollowedForkedBeforeCurrentPosition,
               tbd_FollowedSwitchPoint = tlh_SwitchPoint f,
               tbd_CurrentSwitchPoint = currentXLogPos, tbd_Different = True\<rparr>
            else no_divergence
        | None \<Rightarrow> no_divergence)"

section \<open>Reference semantics: histories produced by promotions\<close>

text \<open>
  A server starts on timeline 1 with no history. A promotion at position \<open>sp\<close> ends the current
  timeline there and starts the next one: PostgreSQL appends the ended timeline and its switch
  point to the history.
\<close>

definition promote :: "u64 \<times> timeline_history list \<Rightarrow> u64 \<Rightarrow> u64 \<times> timeline_history list" where
  "promote st sp = (case st of (i, h) \<Rightarrow>
     (i + 1, h @ [\<lparr>tlh_Reason = [], tlh_TimelineID = i, tlh_SwitchPoint = sp\<rparr>]))"

definition promotions :: "u64 list \<Rightarrow> u64 \<times> timeline_history list" where
  "promotions sps = foldl promote (1, []) sps"

lemma promotions_snoc [simp]: "promotions (sps @ [sp]) = promote (promotions sps) sp"
  by (simp add: promotions_def)

lemma promotions_Nil [simp]: "promotions [] = (1, [])"
  by (simp add: promotions_def)

lemma GetTimelineHistory_append:
  "GetTimelineHistory (as @ bs) i =
     (case GetTimelineHistory as i of Some h \<Rightarrow> Some h | None \<Rightarrow> GetTimelineHistory bs i)"
  by (induction as) auto

lemma promotions_id: "fst (promotions sps) = word_of_nat (length sps + 1)"
  by (induction sps rule: rev_induct)
    (simp_all add: promote_def case_prod_beta ac_simps)

lemma unat_small [simp]: "n < 2 ^ 64 \<Longrightarrow> unat (word_of_nat n :: u64) = n"
  by (simp add: unsigned_of_nat take_bit_nat_eq_self)

lemma word_of_nat_eq: "m < 2 ^ 64 \<Longrightarrow> n < 2 ^ 64 \<Longrightarrow> (word_of_nat m :: u64) = word_of_nat n \<longleftrightarrow> m = n"
  by (metis unat_small)

lemma word_of_nat_less: "m < 2 ^ 64 \<Longrightarrow> n < 2 ^ 64 \<Longrightarrow> (word_of_nat m :: u64) < word_of_nat n \<longleftrightarrow> m < n"
  by (simp add: word_less_nat_alt)

lemma promotions_history:
  assumes "length sps < 2 ^ 63" and "n < 2 ^ 63"
  shows "GetTimelineHistory (snd (promotions sps)) (word_of_nat (n + 1)) =
    (if n < length sps then
       Some \<lparr>tlh_Reason = [], tlh_TimelineID = word_of_nat (n + 1), tlh_SwitchPoint = sps ! n\<rparr>
     else None)"
  using assms(1)
proof (induction sps rule: rev_induct)
  case (snoc sp sps)
  have "fst (promotions sps) = word_of_nat (n + 1) \<longleftrightarrow> length sps = n"
    using snoc.prems assms(2) word_of_nat_eq [of "length sps + 1" "n + 1"]
    by (simp add: promotions_id)
  then show ?case
    using snoc by (auto simp: promote_def GetTimelineHistory_append nth_append split: prod.splits)
qed simp



end
