(* ===== verification/Store.thy ===== *)
theory Store
  imports Cluster_Types Go_Strings "HOL-Library.Monad_Syntax"
begin

text \<open>
  The store of the cluster data and of the published infos: \<open>KVBackedStore\<close>
  (\<open>internal/store/kvbacked.go\<close>) over \<open>etcdV3Store\<close> (\<open>internal/store/etcdv3.go\<close>). The etcd client
  is a record of functions on the state of the cluster it talks to; \<open>etcd_ok\<close> states what its
  documentation promises of a key. JSON documents are the values they encode; a document of another
  kind than the one read is taken as malformed. Request timeouts are errors of the client, metrics
  are left out.
\<close>

section \<open>The etcd client\<close>

datatype etcd_error = EtcdKeyNotFound | EtcdElectionNoLeader | EtcdOther go_error

text \<open>The comparisons a transaction is conditional on.\<close>

datatype etcd_cmp = ModRevisionEq int | CreateRevisionZero

record 'v etcd_kv =
  ek_Key :: string
  ek_Value :: 'v
  ek_ModRevision :: int

record ('v, 'w) etcd_client =
  ec_Get :: "string \<Rightarrow> 'w \<Rightarrow> etcd_error + 'v etcd_kv list"
  ec_List :: "string \<Rightarrow> 'w \<Rightarrow> etcd_error + 'v etcd_kv list"
  ec_Grant :: "int \<Rightarrow> 'w \<Rightarrow> int res \<times> 'w"
  ec_Put :: "string \<Rightarrow> 'v \<Rightarrow> int option \<Rightarrow> 'w \<Rightarrow> (etcd_error + unit) \<times> 'w"
  ec_Delete :: "string \<Rightarrow> 'w \<Rightarrow> (etcd_error + unit) \<times> 'w"
  ec_Txn :: "etcd_cmp \<Rightarrow> string \<Rightarrow> 'v \<Rightarrow> int option \<Rightarrow> 'w \<Rightarrow> (etcd_error + bool \<times> int) \<times> 'w"

section \<open>etcdV3Store\<close>

definition ErrKeyNotFound :: go_error where
  "ErrKeyNotFound = Err ''key not found in store''"

definition ErrKeyModified :: go_error where
  "ErrKeyModified = Err ''unable to complete atomic operation, key modified''"

definition ErrElectionNoLeader :: go_error where
  "ErrElectionNoLeader = Err ''election: no leader''"

definition fromEtcV3Error :: "etcd_error \<Rightarrow> go_error" where
  "fromEtcV3Error err =
     (case err of
        EtcdKeyNotFound \<Rightarrow> ErrKeyNotFound
      | EtcdElectionNoLeader \<Rightarrow> ErrElectionNoLeader
      | EtcdOther e \<Rightarrow> e)"

definition maxEtcdRevision :: u64 where
  "maxEtcdRevision = 2 ^ 63 - 1"

definition revisionToLastIndex :: "int \<Rightarrow> u64 res" where
  "revisionToLastIndex revision =
     (if revision < 0 then Inl (Err ''negative etcd revision'') else Inr (word_of_int revision))"

definition lastIndexToRevision :: "u64 \<Rightarrow> int res" where
  "lastIndexToRevision lastIndex =
     (if lastIndex > maxEtcdRevision then Inl (Err ''etcd revision exceeds int64 range'')
      else Inr (sint lastIndex))"

record 'v kv_pair =
  kv_Key :: string
  kv_Value :: 'v
  kv_LastIndex :: u64

definition kvPair :: "'v etcd_kv \<Rightarrow> 'v kv_pair res" where
  "kvPair kv =
     (case revisionToLastIndex (ek_ModRevision kv) of
        Inl err \<Rightarrow> Inl err
      | Inr i \<Rightarrow> Inr \<lparr>kv_Key = ek_Key kv, kv_Value = ek_Value kv, kv_LastIndex = i\<rparr>)"

definition Get :: "('v, 'w) etcd_client \<Rightarrow> string \<Rightarrow> 'w \<Rightarrow> 'v kv_pair res" where
  "Get c key w =
     (case ec_Get c key w of
        Inl err \<Rightarrow> Inl (fromEtcV3Error err)
      | Inr [] \<Rightarrow> Inl ErrKeyNotFound
      | Inr (kv # _) \<Rightarrow> kvPair kv)"

fun kvPairs :: "'v etcd_kv list \<Rightarrow> 'v kv_pair list res" where
  "kvPairs [] = Inr []"
| "kvPairs (kv # kvs) =
     (case kvPair kv of
        Inl err \<Rightarrow> Inl err
      | Inr p \<Rightarrow> (case kvPairs kvs of Inl err \<Rightarrow> Inl err | Inr ps \<Rightarrow> Inr (p # ps)))"

definition ListDir :: "('v, 'w) etcd_client \<Rightarrow> string \<Rightarrow> 'w \<Rightarrow> 'v kv_pair list res" where
  "ListDir c dir w =
     (case ec_List c dir w of Inl err \<Rightarrow> Inl (fromEtcV3Error err) | Inr kvs \<Rightarrow> kvPairs kvs)"

text \<open>A lease is granted for a time to live given in seconds.\<close>

definition Put ::
  "('v, 'w) etcd_client \<Rightarrow> string \<Rightarrow> 'v \<Rightarrow> duration option \<Rightarrow> 'w \<Rightarrow> unit res \<times> 'w" where
  "Put c key value ttl w =
     (let put = (\<lambda>lease w. case ec_Put c key value lease w of
            (Inl err, w') \<Rightarrow> (Inl (fromEtcV3Error err), w')
          | (Inr u, w') \<Rightarrow> (Inr u, w'))
      in case ttl of
           None \<Rightarrow> put None w
         | Some d \<Rightarrow>
             if d > 0 then
               (case ec_Grant c (d div second) w of
                  (Inl err, w') \<Rightarrow> (Inl err, w')
                | (Inr lease, w') \<Rightarrow> put (Some lease) w')
             else put None w)"

text \<open>The lease of a conditional write is granted for the time to live as a count of nanoseconds.\<close>

definition AtomicPut ::
  "('v, 'w) etcd_client \<Rightarrow> string \<Rightarrow> 'v \<Rightarrow> 'v kv_pair option \<Rightarrow> duration option \<Rightarrow> 'w \<Rightarrow>
     'v kv_pair res \<times> 'w" where
  "AtomicPut c key value previous ttl w =
     (let txn = (\<lambda>lease w.
        case (case previous of
                Some p \<Rightarrow> (case lastIndexToRevision (kv_LastIndex p) of
                    Inl err \<Rightarrow> Inl err | Inr r \<Rightarrow> Inr (ModRevisionEq r))
              | None \<Rightarrow> Inr CreateRevisionZero) of
          Inl err \<Rightarrow> (Inl err, w)
        | Inr cmp \<Rightarrow>
            (case ec_Txn c cmp key value lease w of
               (Inl err, w') \<Rightarrow> (Inl (fromEtcV3Error err), w')
             | (Inr (succeeded, revision), w') \<Rightarrow>
                 if \<not> succeeded then (Inl ErrKeyModified, w')
                 else (case revisionToLastIndex revision of
                    Inl err \<Rightarrow> (Inl err, w')
                  | Inr i \<Rightarrow> (Inr \<lparr>kv_Key = key, kv_Value = value, kv_LastIndex = i\<rparr>, w'))))
      in case ttl of
           None \<Rightarrow> txn None w
         | Some d \<Rightarrow>
             if d > 0 then
               (case ec_Grant c d w of
                  (Inl err, w') \<Rightarrow> (Inl err, w')
                | (Inr lease, w') \<Rightarrow> txn (Some lease) w')
             else txn None w)"

definition Delete :: "('v, 'w) etcd_client \<Rightarrow> string \<Rightarrow> 'w \<Rightarrow> unit res \<times> 'w" where
  "Delete c key w =
     (case ec_Delete c key w of
        (Inl err, w') \<Rightarrow> (Inl (fromEtcV3Error err), w')
      | (Inr u, w') \<Rightarrow> (Inr u, w'))"

section \<open>KVBackedStore\<close>

text \<open>The documents under the path of a cluster.\<close>

record sentinel_info =
  si_UID :: uid
  si_Hostname :: string
  si_NodeName :: string

datatype document =
  ClusterDoc cluster_data | KeeperDoc keeper_info | SentinelDoc sentinel_info | ProxyDoc proxy_info |
  NullDoc | OtherDoc string

type_synonym 'w client = "(document, 'w) etcd_client"

definition json_error :: go_error where
  "json_error = Err ''json: cannot unmarshal''"

text \<open>The document \<open>null\<close> leaves the decoded variable as it is: a nil pointer or a zero value.\<close>

definition unmarshalClusterData :: "document \<Rightarrow> cluster_data option res" where
  "unmarshalClusterData d =
     (case d of ClusterDoc cd \<Rightarrow> Inr (Some cd) | NullDoc \<Rightarrow> Inr None | _ \<Rightarrow> Inl json_error)"

definition unmarshalKeeperInfo :: "document \<Rightarrow> keeper_info res" where
  "unmarshalKeeperInfo d =
     (case d of
        KeeperDoc ki \<Rightarrow> Inr ki
      | NullDoc \<Rightarrow> Inr \<lparr>ki_PostgresState = None, ki_CanBeMaster = None, ki_CanBeSynchronousReplica = None,
          ki_InfoUID = [], ki_UID = [], ki_ClusterUID = [], ki_BootUUID = [], ki_Hostname = [],
          ki_NodeName = [], ki_PostgresBinaryVersion = \<lparr>bv_Maj = 0, bv_Min = 0\<rparr>, ki_MasterPriority = 0\<rparr>
      | _ \<Rightarrow> Inl json_error)"

definition unmarshalSentinelInfo :: "document \<Rightarrow> sentinel_info res" where
  "unmarshalSentinelInfo d =
     (case d of
        SentinelDoc si \<Rightarrow> Inr si
      | NullDoc \<Rightarrow> Inr \<lparr>si_UID = [], si_Hostname = [], si_NodeName = []\<rparr>
      | _ \<Rightarrow> Inl json_error)"

definition unmarshalProxyInfo :: "document \<Rightarrow> proxy_info res" where
  "unmarshalProxyInfo d =
     (case d of
        ProxyDoc pi \<Rightarrow> Inr pi
      | NullDoc \<Rightarrow> Inr \<lparr>pi_InfoUID = [], pi_UID = [], pi_Hostname = [], pi_NodeName = [],
          pi_Listeners = None, pi_Generation = 0, pi_ProxyTimeout = 0\<rparr>
      | _ \<Rightarrow> Inl json_error)"

definition keepersInfoDir :: string where "keepersInfoDir = ''/keepers/info/''"
definition clusterDataFile :: string where "clusterDataFile = ''clusterdata''"
definition sentinelsInfoDir :: string where "sentinelsInfoDir = ''/sentinels/info/''"
definition proxiesInfoDir :: string where "proxiesInfoDir = ''/proxies/info/''"

definition MinTTL :: duration where
  "MinTTL = 20 * second"

definition clusterDataPath :: "string \<Rightarrow> string" where
  "clusterDataPath clusterPath = JoinPath [clusterPath, clusterDataFile]"

definition AtomicPutClusterData ::
  "'w client \<Rightarrow> string \<Rightarrow> cluster_data \<Rightarrow> document kv_pair option \<Rightarrow> 'w \<Rightarrow>
     document kv_pair res \<times> 'w" where
  "AtomicPutClusterData c clusterPath cd previous w =
     AtomicPut c (clusterDataPath clusterPath) (ClusterDoc cd) previous None w"

definition PutClusterData :: "'w client \<Rightarrow> string \<Rightarrow> cluster_data \<Rightarrow> 'w \<Rightarrow> unit res \<times> 'w" where
  "PutClusterData c clusterPath cd w = Put c (clusterDataPath clusterPath) (ClusterDoc cd) None w"

definition GetClusterData ::
  "'w client \<Rightarrow> string \<Rightarrow> 'w \<Rightarrow> (cluster_data option \<times> document kv_pair option) res" where
  "GetClusterData c clusterPath w =
     (case Get c (clusterDataPath clusterPath) w of
        Inl err \<Rightarrow> if err \<noteq> ErrKeyNotFound then Inl err else Inr (None, None)
      | Inr pair \<Rightarrow>
          (case unmarshalClusterData (kv_Value pair) of
             Inl err \<Rightarrow> Inl err
           | Inr cd \<Rightarrow> Inr (cd, Some pair)))"

definition SetKeeperInfo ::
  "'w client \<Rightarrow> string \<Rightarrow> uid \<Rightarrow> keeper_info \<Rightarrow> duration \<Rightarrow> 'w \<Rightarrow> unit res \<times> 'w" where
  "SetKeeperInfo c clusterPath u ki ttl w =
     Put c (JoinPath [clusterPath, keepersInfoDir, u]) (KeeperDoc ki)
       (Some (if ttl < MinTTL then MinTTL else ttl)) w"

definition SetSentinelInfo ::
  "'w client \<Rightarrow> string \<Rightarrow> sentinel_info \<Rightarrow> duration \<Rightarrow> 'w \<Rightarrow> unit res \<times> 'w" where
  "SetSentinelInfo c clusterPath si ttl w =
     Put c (JoinPath [clusterPath, sentinelsInfoDir, si_UID si]) (SentinelDoc si)
       (Some (if ttl < MinTTL then MinTTL else ttl)) w"

definition SetProxyInfo ::
  "'w client \<Rightarrow> string \<Rightarrow> proxy_info \<Rightarrow> duration \<Rightarrow> 'w \<Rightarrow> unit res \<times> 'w" where
  "SetProxyInfo c clusterPath pi ttl w =
     Put c (JoinPath [clusterPath, proxiesInfoDir, pi_UID pi]) (ProxyDoc pi)
       (Some (if ttl < MinTTL then MinTTL else ttl)) w"

text \<open>Decoding the pairs of a directory one after the other; the first error ends it.\<close>

fun decodePairs :: "(document \<Rightarrow> 'a res) \<Rightarrow> ('a \<Rightarrow> 'm \<Rightarrow> 'm) \<Rightarrow> document kv_pair list \<Rightarrow> 'm \<Rightarrow> 'm res" where
  "decodePairs unmarshal add [] m = Inr m"
| "decodePairs unmarshal add (p # ps) m =
     (case unmarshal (kv_Value p) of
        Inl err \<Rightarrow> Inl err
      | Inr x \<Rightarrow> decodePairs unmarshal add ps (add x m))"

definition GetKeepersInfo :: "'w client \<Rightarrow> string \<Rightarrow> 'w \<Rightarrow> keepers_info res" where
  "GetKeepersInfo c clusterPath w =
     (case ListDir c (JoinPath [clusterPath, keepersInfoDir]) w of
        Inl err \<Rightarrow> if err \<noteq> ErrKeyNotFound then Inl err else Inr []
      | Inr pairs \<Rightarrow> decodePairs unmarshalKeeperInfo (\<lambda>ki. AList.update (ki_UID ki) ki) pairs [])"

definition GetSentinelsInfo :: "'w client \<Rightarrow> string \<Rightarrow> 'w \<Rightarrow> sentinel_info list res" where
  "GetSentinelsInfo c clusterPath w =
     (case ListDir c (JoinPath [clusterPath, sentinelsInfoDir]) w of
        Inl err \<Rightarrow> if err \<noteq> ErrKeyNotFound then Inl err else Inr []
      | Inr pairs \<Rightarrow> decodePairs unmarshalSentinelInfo (\<lambda>si ssi. ssi @ [si]) pairs [])"

definition GetProxiesInfo :: "'w client \<Rightarrow> string \<Rightarrow> 'w \<Rightarrow> proxies_info res" where
  "GetProxiesInfo c clusterPath w =
     (case ListDir c (JoinPath [clusterPath, proxiesInfoDir]) w of
        Inl err \<Rightarrow> if err \<noteq> ErrKeyNotFound then Inl err else Inr []
      | Inr pairs \<Rightarrow> decodePairs unmarshalProxyInfo (\<lambda>pi. AList.update (pi_UID pi) pi) pairs [])"

section \<open>The election\<close>

text \<open>
  The campaign of a candidate: what it has sent on its channels, given how each round went. Without a
  further round the candidate waits for its election; in a round \<open>Holding\<close> it leads, and stays the
  leader until the session is lost or the election is stopped.
\<close>

datatype campaign_round =
  SessionFailed go_error | CampaignFailed go_error | Holding | SessionLost

datatype campaign_event = Elected bool | CampaignError go_error

fun campaign :: "campaign_round list \<Rightarrow> campaign_event list" where
  "campaign [] = [Elected False]"
| "campaign (SessionFailed err # rs) = [Elected False, CampaignError err]"
| "campaign (CampaignFailed err # rs) = [Elected False, CampaignError err]"
| "campaign (Holding # rs) = [Elected False, Elected True]"
| "campaign (SessionLost # rs) = [Elected False, Elected True, Elected False] @ campaign rs"

definition ErrElectionAlreadyRunning :: go_error where
  "ErrElectionAlreadyRunning = Err ''election: already running''"

definition ErrElectionNotRunning :: go_error where
  "ErrElectionNotRunning = Err ''election: not running''"

text \<open>The flag of a running election.\<close>

definition RunForElection :: "bool \<Rightarrow> unit res \<times> bool" where
  "RunForElection running = (if running then (Inl ErrElectionAlreadyRunning, running) else (Inr (), True))"

definition Stop :: "bool \<Rightarrow> unit res \<times> bool" where
  "Stop running = (if \<not> running then (Inl ErrElectionNotRunning, running) else (Inr (), False))"

section \<open>The contract of etcd\<close>

text \<open>
  What etcd promises of a key, whose value and modification revision in a state is \<open>rd key w\<close>: a
  read that is answered returns it; a transaction that is answered succeeds exactly when its
  comparison holds, then the key has the value under the returned revision, and otherwise
  nothing changes; revisions are positive 64-bit integers. Of a call that is answered with an error
  nothing is promised but that the error is not the one this package reports for a conflict.
\<close>

definition cmp_holds :: "etcd_cmp \<Rightarrow> ('v \<times> int) option \<Rightarrow> bool" where
  "cmp_holds cmp kv =
     (case cmp of
        ModRevisionEq p \<Rightarrow> (case kv of None \<Rightarrow> False | Some (v, r) \<Rightarrow> r = p)
      | CreateRevisionZero \<Rightarrow> kv = None)"

definition etcd_ok :: "('v, 'w) etcd_client \<Rightarrow> (string \<Rightarrow> 'w \<Rightarrow> ('v \<times> int) option) \<Rightarrow> bool" where
  "etcd_ok c rd \<longleftrightarrow>
     (\<forall>key w kvs. ec_Get c key w = Inr kvs \<longrightarrow>
        kvs = (case rd key w of
                 None \<Rightarrow> [] | Some (v, r) \<Rightarrow> [\<lparr>ek_Key = key, ek_Value = v, ek_ModRevision = r\<rparr>])) \<and>
     (\<forall>cmp key v l w w' ok r. ec_Txn c cmp key v l w = (Inr (ok, r), w') \<longrightarrow>
        ok = cmp_holds cmp (rd key w) \<and> (if ok then rd key w' = Some (v, r) else w' = w)) \<and>
     (\<forall>cmp key v l w w' err. ec_Txn c cmp key v l w = (Inl err, w') \<longrightarrow>
        fromEtcV3Error err \<noteq> ErrKeyModified) \<and>
     (\<forall>key w v r. rd key w = Some (v, r) \<longrightarrow> 0 < r \<and> r < 2 ^ 63)"

text \<open>
  What other clients may do to a key between two calls: a revision identifies the modification
  that wrote it.
\<close>

definition etcd_env :: "(string \<Rightarrow> 'w \<Rightarrow> ('v \<times> int) option) \<Rightarrow> ('w \<Rightarrow> 'w) \<Rightarrow> bool" where
  "etcd_env rd f \<longleftrightarrow> (\<forall>key w v r v'. rd key w = Some (v, r) \<and> rd key (f w) = Some (v', r) \<longrightarrow> v' = v)"

section \<open>Lemmas\<close>

lemma revision_roundtrip:
  assumes "0 < r" and "r < 2 ^ 63"
  shows "revisionToLastIndex r = Inr (word_of_int r)" and "lastIndexToRevision (word_of_int r) = Inr r"
proof -
  show "revisionToLastIndex r = Inr (word_of_int r)" using assms by (simp add: revisionToLastIndex_def)
  have u: "uint (word_of_int r :: u64) = r" using assms by (simp add: uint_word_of_int_eq take_bit_int_eq_self)
  have "sint (word_of_int r :: u64) = r" using assms by (simp add: sint_sbintrunc' signed_take_bit_int_eq_self)
  moreover have "uint maxEtcdRevision = 2 ^ 63 - 1" by (simp add: maxEtcdRevision_def)
  then have "\<not> maxEtcdRevision < word_of_int r"
    using assms unfolding word_less_def u by simp
  ultimately show "lastIndexToRevision (word_of_int r) = Inr r" by (simp add: lastIndexToRevision_def)
qed

lemma etcd_okD:
  assumes "etcd_ok c rd"
  shows "ec_Txn c cmp key v l w = (Inr (True, r), w') \<Longrightarrow> rd key w' = Some (v, r)"
    and "ec_Txn c cmp key v l w = (Inr (False, r), w') \<Longrightarrow> w' = w"
    and "ec_Txn c cmp key v l w = (Inl err, w') \<Longrightarrow> fromEtcV3Error err \<noteq> ErrKeyModified"
  using assms unfolding etcd_ok_def by (metis (full_types))+

lemma Get_content:
  assumes "etcd_ok c rd" and "Get c key w = Inr p"
  shows "\<exists>r. rd key w = Some (kv_Value p, r) \<and> lastIndexToRevision (kv_LastIndex p) = Inr r"
proof -
  obtain kv kvs where kv: "ec_Get c key w = Inr (kv # kvs)" "kvPair kv = Inr p"
    using assms(2) by (auto simp: Get_def split: sum.splits list.splits)
  obtain v r where vr: "rd key w = Some (v, r)" "kv = \<lparr>ek_Key = key, ek_Value = v, ek_ModRevision = r\<rparr>"
    using assms(1) kv(1) unfolding etcd_ok_def by (cases "rd key w") fastforce+
  have "0 < r" "r < 2 ^ 63" using assms(1) vr(1) unfolding etcd_ok_def by blast+
  then show ?thesis using kv(2) vr revision_roundtrip by (auto simp: kvPair_def)
qed

lemma AtomicPut_content:
  assumes "etcd_ok c rd" and "AtomicPut c key v (Some p) None w = (Inr q, w')"
    and "lastIndexToRevision (kv_LastIndex p) = Inr r"
  shows "\<exists>v0 r'. rd key w = Some (v0, r) \<and> rd key w' = Some (v, r')"
proof -
  obtain r' where t: "ec_Txn c (ModRevisionEq r) key v None w = (Inr (True, r'), w')"
    using assms(2,3) by (auto simp: AtomicPut_def split: prod.splits sum.splits if_splits)
  then have "cmp_holds (ModRevisionEq r) (rd key w)" "rd key w' = Some (v, r')"
    using assms(1) unfolding etcd_ok_def by (metis (full_types))+
  then show ?thesis by (auto simp: cmp_holds_def split: option.splits)
qed

end
