(* ===== verification/Cluster_Spec.thy ===== *)
theory Cluster_Spec
  imports Cluster_Types Go_Strings
begin

text \<open>
  The cluster specification (\<open>internal/cluster/defaults.go\<close>, \<open>constants.go\<close>, \<open>validate.go\<close>,
  \<open>update.go\<close>): default values, validation and replacement of the specification, with what an
  accepted specification guarantees to the code that reads it.
\<close>

section \<open>Defaults\<close>

definition DefaultDBNotIncreasingXLogPosTimes :: int where
  "DefaultDBNotIncreasingXLogPosTimes = 10"
definition DefaultSleepInterval :: duration where "DefaultSleepInterval = 5 * second"
definition DefaultRequestTimeout :: duration where "DefaultRequestTimeout = 10 * second"
definition DefaultConvergenceTimeout :: duration where "DefaultConvergenceTimeout = 30 * second"
definition DefaultInitTimeout :: duration where "DefaultInitTimeout = 5 * minute"
definition DefaultSyncTimeout :: duration where "DefaultSyncTimeout = 0"
definition DefaultDBWaitReadyTimeout :: duration where "DefaultDBWaitReadyTimeout = 60 * second"
definition DefaultFailInterval :: duration where "DefaultFailInterval = 30 * second"
definition DefaultDeadKeeperRemovalInterval :: duration where
  "DefaultDeadKeeperRemovalInterval = 48 * hour"
definition DefaultProxyCheckInterval :: duration where "DefaultProxyCheckInterval = 5 * second"
definition DefaultProxyTimeout :: duration where "DefaultProxyTimeout = 15 * second"
definition DefaultMaxStandbys :: u16 where "DefaultMaxStandbys = 20"
definition DefaultMaxStandbysPerSender :: u16 where "DefaultMaxStandbysPerSender = 3"
definition DefaultMaxStandbyLag :: u32 where "DefaultMaxStandbyLag = 1024 * 1204"
definition DefaultSynchronousReplication :: bool where "DefaultSynchronousReplication = False"
definition DefaultReplicationTLSMode :: replication_tls_mode where
  "DefaultReplicationTLSMode = ReplicationTLSModePrefer"
definition DefaultUnsafeAutoFailback :: bool where "DefaultUnsafeAutoFailback = False"
definition DefaultAutoFailbackMinUptime :: duration where
  "DefaultAutoFailbackMinUptime = 60 * second"
definition DefaultAutoFailbackCooldown :: duration where
  "DefaultAutoFailbackCooldown = 5 * minute"
definition DefaultMinSynchronousStandbys :: u16 where "DefaultMinSynchronousStandbys = 1"
definition DefaultMaxSynchronousStandbys :: u16 where "DefaultMaxSynchronousStandbys = 1"
definition DefaultAdditionalWalSenders :: u16 where "DefaultAdditionalWalSenders = 5"
definition DefaultUsePgrewind :: bool where "DefaultUsePgrewind = False"
definition DefaultMergePGParameter :: bool where "DefaultMergePGParameter = True"
definition DefaultRole :: cluster_role where "DefaultRole = ClusterRoleMaster"
definition DefaultSUReplAccess :: su_repl_access_mode where
  "DefaultSUReplAccess = SUReplAccessAll"
definition DefaultAutomaticPgRestart :: bool where "DefaultAutomaticPgRestart = False"
definition DefaultEnableFailsafeMode :: bool where "DefaultEnableFailsafeMode = False"
definition DefaultFailsafeProbeInterval :: duration where
  "DefaultFailsafeProbeInterval = 2 * second"
definition DefaultFailsafeProbeTimeout :: duration where
  "DefaultFailsafeProbeTimeout = 1 * second"
definition DefaultFailsafeMaxMissingPeers :: u16 where "DefaultFailsafeMaxMissingPeers = 0"
definition DefaultFailsafeTTL :: duration where "DefaultFailsafeTTL = 15 * second"

definition dflt :: "'a \<Rightarrow> 'a option \<Rightarrow> 'a option" where
  "dflt d x = (case x of None \<Rightarrow> Some d | Some v \<Rightarrow> Some v)"

lemma dflt_simps [simp]: "dflt d None = Some d" "dflt d (Some v) = Some v"
  by (simp_all add: dflt_def)

lemma dflt_idem [simp]: "dflt d (dflt d x) = dflt d x"
  by (cases x) simp_all

lemma dflt_neq_None [simp]: "dflt d x \<noteq> None"
  by (cases x) simp_all

definition WithDefaults :: "cluster_spec \<Rightarrow> cluster_spec" where
  "WithDefaults c = c
    \<lparr>cs_SleepInterval := dflt DefaultSleepInterval (cs_SleepInterval c),
     cs_RequestTimeout := dflt DefaultRequestTimeout (cs_RequestTimeout c),
     cs_ConvergenceTimeout := dflt DefaultConvergenceTimeout (cs_ConvergenceTimeout c),
     cs_InitTimeout := dflt DefaultInitTimeout (cs_InitTimeout c),
     cs_SyncTimeout := dflt DefaultSyncTimeout (cs_SyncTimeout c),
     cs_DBWaitReadyTimeout := dflt DefaultDBWaitReadyTimeout (cs_DBWaitReadyTimeout c),
     cs_FailInterval := dflt DefaultFailInterval (cs_FailInterval c),
     cs_EnableFailsafeMode := dflt DefaultEnableFailsafeMode (cs_EnableFailsafeMode c),
     cs_FailsafeProbeInterval := dflt DefaultFailsafeProbeInterval (cs_FailsafeProbeInterval c),
     cs_FailsafeProbeTimeout := dflt DefaultFailsafeProbeTimeout (cs_FailsafeProbeTimeout c),
     cs_FailsafeMaxMissingPeers :=
       dflt DefaultFailsafeMaxMissingPeers (cs_FailsafeMaxMissingPeers c),
     cs_FailsafeTTL := dflt DefaultFailsafeTTL (cs_FailsafeTTL c),
     cs_DeadKeeperRemovalInterval :=
       dflt DefaultDeadKeeperRemovalInterval (cs_DeadKeeperRemovalInterval c),
     cs_ProxyCheckInterval := dflt DefaultProxyCheckInterval (cs_ProxyCheckInterval c),
     cs_ProxyTimeout := dflt DefaultProxyTimeout (cs_ProxyTimeout c),
     cs_MaxStandbys := dflt DefaultMaxStandbys (cs_MaxStandbys c),
     cs_MaxStandbysPerSender := dflt DefaultMaxStandbysPerSender (cs_MaxStandbysPerSender c),
     cs_MaxStandbyLag := dflt DefaultMaxStandbyLag (cs_MaxStandbyLag c),
     cs_SynchronousReplication :=
       dflt DefaultSynchronousReplication (cs_SynchronousReplication c),
     cs_UnsafeAutoFailback := dflt DefaultUnsafeAutoFailback (cs_UnsafeAutoFailback c),
     cs_AutoFailbackMinUptime := dflt DefaultAutoFailbackMinUptime (cs_AutoFailbackMinUptime c),
     cs_AutoFailbackCooldown := dflt DefaultAutoFailbackCooldown (cs_AutoFailbackCooldown c),
     cs_UsePgrewind := dflt DefaultUsePgrewind (cs_UsePgrewind c),
     cs_MinSynchronousStandbys :=
       dflt DefaultMinSynchronousStandbys (cs_MinSynchronousStandbys c),
     cs_MaxSynchronousStandbys :=
       dflt DefaultMaxSynchronousStandbys (cs_MaxSynchronousStandbys c),
     cs_AdditionalWalSenders := dflt DefaultAdditionalWalSenders (cs_AdditionalWalSenders c),
     cs_MergePgParameters := dflt DefaultMergePGParameter (cs_MergePgParameters c),
     cs_DefaultSUReplAccessMode := dflt DefaultSUReplAccess (cs_DefaultSUReplAccessMode c),
     cs_Role := dflt DefaultRole (cs_Role c),
     cs_AutomaticPgRestart := dflt DefaultAutomaticPgRestart (cs_AutomaticPgRestart c)\<rparr>"

definition DefSpec :: "cluster \<Rightarrow> cluster_spec" where
  "DefSpec c = WithDefaults (cl_Spec c)"

section \<open>Validation\<close>

definition validateHATiming :: "duration \<Rightarrow> duration \<Rightarrow> duration \<Rightarrow> unit res" where
  "validateHATiming sleepInterval requestTimeout failInterval =
     guard (i64 (sleepInterval + i64 (2 * requestTimeout)) > failInterval)
       (Err ''invalid HA timing: sleepInterval + 2*requestTimeout must be less than or equal to failInterval'')"

definition validateReplicationSlotName :: "string \<Rightarrow> unit res" where
  "validateReplicationSlotName s =
     guard (\<not> IsValidReplSlotName s) (Errq ''wrong replication slot name: %q'' s)"

definition validateReplicationSlot :: "string \<Rightarrow> unit res" where
  "validateReplicationSlot s = first_err
     [validateReplicationSlotName s,
      guard (IsHysteronName s) (Errq ''replication slot name is reserved: %q'' s)]"

definition blank :: "string \<Rightarrow> bool" where
  "blank s \<longleftrightarrow> TrimSpace s = []"

definition validateReplicationSlotMatcher :: "slot_matcher \<Rightarrow> unit res" where
  "validateReplicationSlotMatcher m = first_err
     [if sm_Name m \<noteq> [] then validateReplicationSlotName (sm_Name m) else Inr (),
      (case sm_Type m of
         ReplicationSlotTypeOther t \<Rightarrow> Inl (Errq ''wrong replication slot matcher type: %q'' t)
       | _ \<Rightarrow> Inr ()),
      guard (sm_Type m = ReplicationSlotTypePhysical \<and>
             (\<not> blank (sm_Database m) \<or> \<not> blank (sm_Plugin m)))
        (Err ''physical replication slot matcher cannot define database or plugin''),
      guard ((\<not> blank (sm_Database m) \<or> \<not> blank (sm_Plugin m)) \<and>
             sm_Type m \<noteq> ReplicationSlotTypeEmpty \<and> sm_Type m \<noteq> ReplicationSlotTypeLogical)
        (Err ''replication slot matcher with database or plugin must have logical type''),
      guard (sm_Name m = [] \<and> sm_Type m = ReplicationSlotTypeEmpty \<and>
             blank (sm_Database m) \<and> blank (sm_Plugin m))
        (Err ''empty replication slot matcher is not allowed'')]"

definition validateRecoveryTargetSettings :: "recovery_target_settings option \<Rightarrow> unit res" where
  "validateRecoveryTargetSettings settings =
     (case settings of None \<Rightarrow> Inr ()
      | Some s \<Rightarrow>
        (let recoveryTarget = TrimSpace (rts_RecoveryTarget s);
             targets = length (filter (\<lambda>v. v \<noteq> [])
               [recoveryTarget, TrimSpace (rts_RecoveryTargetLsn s),
                TrimSpace (rts_RecoveryTargetName s), TrimSpace (rts_RecoveryTargetTime s),
                TrimSpace (rts_RecoveryTargetXid s)])
         in first_err
           [guard (recoveryTarget \<noteq> [] \<and> recoveryTarget \<noteq> ''immediate'')
              (Errq ''recoveryTarget must be immediate when defined, got %q''
                 (rts_RecoveryTarget s)),
            guard (targets > 1) (Err ''only one recovery target selector can be set'')]))"

fun validateLogicalSlots :: "string set \<Rightarrow> managed_logical_slot list \<Rightarrow> unit res" where
  "validateLogicalSlots seen [] = Inr ()"
| "validateLogicalSlots seen (s # ss) = first_err
     [validateReplicationSlotName (mls_Name s),
      guard (mls_Name s \<in> seen)
        (Errq ''duplicated managedLogicalReplicationSlots name: %q'' (mls_Name s)),
      guard (blank (mls_Database s))
        (Errq ''managedLogicalReplicationSlots database undefined for slot %q'' (mls_Name s)),
      guard (blank (mls_Plugin s))
        (Errq ''managedLogicalReplicationSlots plugin undefined for slot %q'' (mls_Name s)),
      validateLogicalSlots (insert (mls_Name s) seen) ss]"

text \<open>The checks of \<open>Validate\<close> in source order, on the specification with defaults.\<close>

definition negative :: "duration option \<Rightarrow> bool" where
  "negative d \<longleftrightarrow> the d < 0"

definition validateDurations :: "cluster_spec \<Rightarrow> unit res" where
  "validateDurations s = first_err
     [guard (negative (cs_SleepInterval s)) (Err ''sleepInterval must be positive''),
      guard (negative (cs_RequestTimeout s)) (Err ''requestTimeout must be positive''),
      guard (negative (cs_ConvergenceTimeout s)) (Err ''convergenceTimeout must be positive''),
      guard (negative (cs_InitTimeout s)) (Err ''initTimeout must be positive''),
      guard (negative (cs_SyncTimeout s)) (Err ''syncTimeout must be positive''),
      guard (negative (cs_DBWaitReadyTimeout s)) (Err ''dbWaitReadyTimeout must be positive''),
      guard (negative (cs_FailInterval s)) (Err ''failInterval must be positive''),
      guard (negative (cs_AutoFailbackMinUptime s))
        (Err ''autoFailbackMinUptime must be positive''),
      guard (negative (cs_AutoFailbackCooldown s))
        (Err ''autoFailbackCooldown must be positive''),
      guard (negative (cs_FailsafeProbeInterval s))
        (Err ''failsafeProbeInterval must be positive''),
      guard (negative (cs_FailsafeProbeTimeout s))
        (Err ''failsafeProbeTimeout must be positive''),
      guard (negative (cs_FailsafeTTL s)) (Err ''failsafeTTL must be positive''),
      guard (the (cs_FailsafeProbeTimeout s) > the (cs_FailsafeProbeInterval s))
        (Err ''failsafeProbeTimeout should be less than or equal to failsafeProbeInterval''),
      guard (the (cs_FailsafeTTL s) < the (cs_FailsafeProbeInterval s))
        (Err ''failsafeTTL should be greater than or equal to failsafeProbeInterval''),
      guard (negative (cs_DeadKeeperRemovalInterval s))
        (Err ''deadKeeperRemovalInterval must be positive''),
      guard (negative (cs_ProxyCheckInterval s)) (Err ''proxyCheckInterval must be positive''),
      guard (negative (cs_ProxyTimeout s)) (Err ''proxyTimeout must be positive''),
      guard (the (cs_ProxyCheckInterval s) \<ge> the (cs_ProxyTimeout s))
        (Err ''proxyCheckInterval should be less than proxyTimeout''),
      validateHATiming (the (cs_SleepInterval s)) (the (cs_RequestTimeout s))
        (the (cs_FailInterval s))]"

definition validateLimits :: "cluster_spec \<Rightarrow> unit res" where
  "validateLimits s = first_err
     [guard (the (cs_MaxStandbys s) < 1) (Err ''maxStandbys must be at least 1''),
      guard (the (cs_MaxStandbysPerSender s) < 1)
        (Err ''maxStandbysPerSender must be at least 1''),
      guard (the (cs_MaxSynchronousStandbys s) < 1)
        (Err ''maxSynchronousStandbys must be at least 1''),
      guard (the (cs_MaxSynchronousStandbys s) < the (cs_MinSynchronousStandbys s))
        (Err ''maxSynchronousStandbys must be greater or equal to minSynchronousStandbys''),
      (case cs_ReplicationTLSMode s of
         Some (ReplicationTLSModeOther m) \<Rightarrow> Inl (Errq ''unknown replicationTLSMode: %q'' m)
       | Some ReplicationTLSModeEmpty \<Rightarrow> Inl (Errq ''unknown replicationTLSMode: %q'' [])
       | _ \<Rightarrow> Inr ()),
      guard (cs_InitMode s = None) (Err ''initMode undefined'')]"

definition validateSlots :: "cluster_spec \<Rightarrow> unit res" where
  "validateSlots s = first_err
     (map validateReplicationSlot (els (cs_AdditionalMasterReplicationSlots s)) @
      map validateReplicationSlotName (els (cs_IgnoreMasterReplicationSlots s)) @
      map validateReplicationSlotMatcher (els (cs_IgnoreMasterReplicationSlotMatchers s)) @
      [guard (case cs_MemberReplicationSlotTTL s of None \<Rightarrow> False | Some d \<Rightarrow> d < 0)
         (Err ''memberReplicationSlotTTL must be positive''),
       validateLogicalSlots {} (els (cs_ManagedLogicalReplicationSlots s)),
       guard (els (cs_ManagedLogicalReplicationSlots s) \<noteq> [] \<and>
              ToLower (TrimSpace (case pg_param (cs_PGParameters s) ''wal_level'' of
                None \<Rightarrow> [] | Some v \<Rightarrow> v)) \<noteq> ''logical'')
         (Err ''managedLogicalReplicationSlots requires pgParameters.wal_level to be set to logical''),
       guard (cs_EnableLogicalSlotFailover s \<and> els (cs_ManagedLogicalReplicationSlots s) = [])
         (Err ''enableLogicalSlotFailover requires managedLogicalReplicationSlots to be configured''),
       (if cs_EnableLogicalSlotFailover s then
          case pg_param (cs_PGParameters s) ''hot_standby_feedback'' of
            None \<Rightarrow> Inr ()
          | Some raw \<Rightarrow> guard (ToLower (TrimSpace raw) \<notin> {''on'', ''true'', ''1''})
              (Err ''enableLogicalSlotFailover requires pgParameters.hot_standby_feedback to be enabled (on/true/1)'')
        else Inr ())] @
      map (\<lambda>e. guard (newline \<in> set e) (Err ''pgHBA entries cannot contain newline characters''))
        (els (cs_PGHBA s)) @
      map (\<lambda>e. guard (newline \<in> set e)
        (Err ''pgIdent entries cannot contain newline characters'')) (els (cs_PGIdent s)))"

definition initModeName :: "cluster_init_mode \<Rightarrow> string" where
  "initModeName m = (case m of ClusterInitModeNew \<Rightarrow> ''new'' | ClusterInitModePITR \<Rightarrow> ''pitr''
     | ClusterInitModeExisting \<Rightarrow> ''existing'' | ClusterInitModeOther x \<Rightarrow> x)"

definition validateInitMode :: "cluster_spec \<Rightarrow> unit res" where
  "validateInitMode s =
     (case the (cs_InitMode s) of
        ClusterInitModeNew \<Rightarrow>
          guard (cs_Role s = Some ClusterRoleStandby)
            (Err ''invalid cluster role standby when initMode is new'')
      | ClusterInitModeExisting \<Rightarrow>
          (case cs_ExistingConfig s of
             None \<Rightarrow> Inl (Err ''existingConfig undefined. Required when initMode is existing'')
           | Some ec \<Rightarrow> guard (ec_KeeperUID ec = []) (Err ''existingConfig.keeperUID undefined''))
      | ClusterInitModePITR \<Rightarrow>
          (case cs_PITRConfig s of
             None \<Rightarrow> Inl (Err ''pitrConfig undefined. Required when initMode is pitr'')
           | Some pc \<Rightarrow> first_err
               [guard (pc_DataRestoreCommand pc = [])
                  (Err ''pitrConfig.DataRestoreCommand undefined''),
                guard (pc_RecoveryTargetSettings pc \<noteq> None \<and>
                       cs_Role s = Some ClusterRoleStandby)
                  (Err ''cannot define pitrConfig.RecoveryTargetSettings when required cluster role is standby''),
                validateRecoveryTargetSettings (pc_RecoveryTargetSettings pc)])
      | ClusterInitModeOther x \<Rightarrow> Inl (Errq ''unknown initMode: %q'' x))"

definition validateRole :: "cluster_spec \<Rightarrow> unit res" where
  "validateRole s = first_err
     [(case the (cs_DefaultSUReplAccessMode s) of
         SUReplAccessOther x \<Rightarrow> Inl (Errq ''unknown defaultSUReplAccessMode: %q'' x)
       | _ \<Rightarrow> Inr ()),
      (case the (cs_Role s) of
         ClusterRoleMaster \<Rightarrow> Inr ()
       | ClusterRoleStandby \<Rightarrow> guard (cs_StandbyConfig s = None)
           (Err ''standbyConfig undefined. Required when cluster role is standby'')
       | ClusterRoleOther x \<Rightarrow>
           Inl (Errq ''unknown role: %q'' (initModeName (the (cs_InitMode s)))))]"

definition Validate :: "cluster_spec \<Rightarrow> unit res" where
  "Validate c =
     (let s = WithDefaults c in first_err
        [validateDurations s, validateLimits s, validateSlots s, validateInitMode s,
         validateRole s])"

section \<open>Replacing the specification\<close>

text \<open>
  \<open>UpdateSpec\<close> dereferences the init mode of both specifications; the new one has it because
  it is valid, and the result is \<open>None\<close> (a nil dereference) when the current one has not.
\<close>

definition UpdateSpec :: "cluster \<Rightarrow> cluster_spec \<Rightarrow> cluster res option" where
  "UpdateSpec c nextSpec =
     (case Validate nextSpec of
        Inl e \<Rightarrow> Some (Inl (Err ''invalid cluster spec''))
      | Inr _ \<Rightarrow> do {
          let currentDefaults = WithDefaults (cl_Spec c);
          let nextDefaults = WithDefaults nextSpec;
          cm \<leftarrow> cs_InitMode currentDefaults;
          nm \<leftarrow> cs_InitMode nextDefaults;
          if cm \<noteq> nm then Some (Inl (Err ''cannot change cluster init mode''))
          else if cs_Role currentDefaults = Some ClusterRoleMaster \<and>
                  cs_Role nextDefaults = Some ClusterRoleStandby
          then Some (Inl (Err ''cannot update a cluster from master role to standby role''))
          else Some (Inr (c\<lparr>cl_Spec := nextSpec\<rparr>))
        })"

section \<open>What an accepted specification guarantees\<close>

text \<open>The fields the defaults fill.\<close>

lemma WithDefaults_fields [simp]:
  "cs_SleepInterval (WithDefaults c) = dflt DefaultSleepInterval (cs_SleepInterval c)"
  "cs_RequestTimeout (WithDefaults c) = dflt DefaultRequestTimeout (cs_RequestTimeout c)"
  "cs_ConvergenceTimeout (WithDefaults c) =
     dflt DefaultConvergenceTimeout (cs_ConvergenceTimeout c)"
  "cs_InitTimeout (WithDefaults c) = dflt DefaultInitTimeout (cs_InitTimeout c)"
  "cs_SyncTimeout (WithDefaults c) = dflt DefaultSyncTimeout (cs_SyncTimeout c)"
  "cs_FailInterval (WithDefaults c) = dflt DefaultFailInterval (cs_FailInterval c)"
  "cs_MaxStandbys (WithDefaults c) = dflt DefaultMaxStandbys (cs_MaxStandbys c)"
  "cs_MaxStandbysPerSender (WithDefaults c) =
     dflt DefaultMaxStandbysPerSender (cs_MaxStandbysPerSender c)"
  "cs_MinSynchronousStandbys (WithDefaults c) =
     dflt DefaultMinSynchronousStandbys (cs_MinSynchronousStandbys c)"
  "cs_MaxSynchronousStandbys (WithDefaults c) =
     dflt DefaultMaxSynchronousStandbys (cs_MaxSynchronousStandbys c)"
  "cs_SynchronousReplication (WithDefaults c) =
     dflt DefaultSynchronousReplication (cs_SynchronousReplication c)"
  "cs_Role (WithDefaults c) = dflt DefaultRole (cs_Role c)"
  "cs_InitMode (WithDefaults c) = cs_InitMode c"
  "cs_ExistingConfig (WithDefaults c) = cs_ExistingConfig c"
  "cs_PITRConfig (WithDefaults c) = cs_PITRConfig c"
  "cs_StandbyConfig (WithDefaults c) = cs_StandbyConfig c"
  by (simp_all add: WithDefaults_def)

lemma WithDefaults_idem [simp]: "WithDefaults (WithDefaults c) = WithDefaults c"
  by (simp add: WithDefaults_def)

lemmas validate_defs =
  Validate_def Let_def validateDurations_def validateLimits_def validateSlots_def
  validateInitMode_def validateRole_def negative_def

text \<open>The sections of \<open>Validate\<close> that accept.\<close>

lemma Validate_ok:
  "Validate c = Inr () \<longleftrightarrow>
     validateDurations (WithDefaults c) = Inr () \<and> validateLimits (WithDefaults c) = Inr () \<and>
     validateSlots (WithDefaults c) = Inr () \<and> validateInitMode (WithDefaults c) = Inr () \<and>
     validateRole (WithDefaults c) = Inr ()"
  by (simp add: Validate_def Let_def)

text \<open>A valid specification has every pointer that the sentinel dereferences.\<close>

definition valid_shape :: "cluster_spec \<Rightarrow> bool" where
  "valid_shape s \<longleftrightarrow>
     (case cs_InitMode s of
        Some ClusterInitModeNew \<Rightarrow> cs_Role s = Some ClusterRoleMaster
      | Some ClusterInitModeExisting \<Rightarrow>
          (case cs_ExistingConfig s of None \<Rightarrow> False | Some ec \<Rightarrow> ec_KeeperUID ec \<noteq> [])
      | Some ClusterInitModePITR \<Rightarrow> cs_PITRConfig s \<noteq> None
      | _ \<Rightarrow> False) \<and>
     (case cs_Role s of
        Some ClusterRoleMaster \<Rightarrow> True
      | Some ClusterRoleStandby \<Rightarrow> cs_StandbyConfig s \<noteq> None
      | _ \<Rightarrow> False)"

lemma Validate_shape:
  assumes "Validate c = Inr ()"
  shows "valid_shape (WithDefaults c)"
proof -
  have l: "validateLimits (WithDefaults c) = Inr ()"
    and i: "validateInitMode (WithDefaults c) = Inr ()"
    and r: "validateRole (WithDefaults c) = Inr ()"
    using assms by (simp_all add: Validate_ok)
  obtain m where m: "cs_InitMode c = Some m"
    using l by (auto simp: validateLimits_def)
  obtain ro where ro: "dflt DefaultRole (cs_Role c) = Some ro"
    by (metis dflt_neq_None option.exhaust)
  show ?thesis
    using i r m ro
    by (cases m; cases ro)
      (auto simp: valid_shape_def validateInitMode_def validateRole_def split: option.splits)
qed

lemma Validate_sync_bounds:
  assumes "Validate c = Inr ()"
  shows "the (cs_MaxSynchronousStandbys (WithDefaults c)) \<noteq> 0 \<and>
    the (cs_MinSynchronousStandbys (WithDefaults c)) \<le>
      the (cs_MaxSynchronousStandbys (WithDefaults c)) \<and>
    the (cs_MaxStandbysPerSender (WithDefaults c)) \<noteq> 0"
  using assms by (auto simp: Validate_ok validateLimits_def not_less)

end
