(* ===== verification/Sentinel_Types.thy ===== *)
theory Sentinel_Types
  imports Cluster_Spec
begin

text \<open>
  The state of a sentinel between two passes (\<open>internal/runtime/sentinel/types.go\<close>), what one
  pass takes from its environment, and the invariant of the cluster data it works on. The maps
  of the sentinel are only read and written by key and are functions; the two histories are
  iterated and are association lists. Channels, mutexes, the store client and the logger are
  not part of the state.
\<close>

section \<open>Sentinel state\<close>

record keeper_info_history =
  kih_Timer :: time
  kih_KeeperInfo :: keeper_info
  kih_Seen :: bool

record db_convergence_info =
  dci_Timer :: time
  dci_Generation :: int

record proxy_info_history =
  pih_ProxyInfo :: proxy_info
  pih_Timer :: time

type_synonym keeper_info_histories = "(uid, keeper_info_history) gomap"
type_synonym proxy_info_histories = "(uid, proxy_info_history) gomap"

record sentinel =
  s_initialClusterSpec :: "cluster_spec option"
  s_keeperErrorTimers :: "uid \<rightharpoonup> time"
  s_dbErrorTimers :: "uid \<rightharpoonup> time"
  s_dbNotIncreasingXLogPos :: "uid \<rightharpoonup> int"
  s_dbIncreasingXLogPosObservedAt :: "uid \<rightharpoonup> time"
  s_keeperHealthySince :: "uid \<rightharpoonup> time"
  s_autoFailbackLastSwitchAt :: time
  s_dbConvergenceInfos :: "uid \<rightharpoonup> db_convergence_info"
  s_leaderRaceBackoffTimers :: "uid \<rightharpoonup> time"
  s_forceFailedKeeperUIDs :: "uid list"
  s_keeperInfoHistories :: keeper_info_histories
  s_proxyInfoHistories :: proxy_info_histories
  s_uid :: uid
  s_lastLeadershipCount :: nat
  s_leadershipCount :: nat
  s_sleepInterval :: duration
  s_requestTimeout :: duration
  s_leader :: bool
  s_dcsDegradedSeen :: bool
  s_lastCheckSuccessUnixNano :: int

section \<open>Environment of a pass\<close>

text \<open>
  One pass reads the clock many times; the model reads it once, at \<open>now\<close>. \<open>uidFn i\<close> is the
  result of the \<open>i\<close>-th call of the injected UID generator in the pass, \<open>randFn n\<close> that of the
  injected random chooser, and \<open>rng i ks\<close> the order in which the \<open>i\<close>-th order-sensitive loop
  of the code meets the keys \<open>ks\<close> of a map.
\<close>

record env =
  now :: time
  uidFn :: "nat \<Rightarrow> uid"
  randFn :: "nat \<Rightarrow> nat"
  rng :: "nat \<Rightarrow> uid list \<Rightarrow> uid list"

text \<open>
  What the language and the generators promise: a loop over a map meets every key once, a
  random index is in range, and a new UID is neither empty nor in use.
\<close>

definition good_env :: "env \<Rightarrow> bool" where
  "good_env e \<longleftrightarrow> (\<forall>i ks. mset (rng e i ks) = mset ks) \<and> (\<forall>n > 0. randFn e n < n)"

definition fresh_uids :: "env \<Rightarrow> cluster_data \<Rightarrow> bool" where
  "fresh_uids e cd \<longleftrightarrow> inj (uidFn e) \<and> (\<forall>i. uidFn e i \<noteq> [] \<and> uidFn e i \<notin> set (mkeys (cd_DBs cd)))"

text \<open>The values of a map in the order of an order-sensitive loop.\<close>

definition iter :: "env \<Rightarrow> nat \<Rightarrow> (uid, 'a) gomap \<Rightarrow> 'a list" where
  "iter e i m = List.map_filter (map_of m) (rng e i (mkeys m))"

lemma good_env_set: "good_env e \<Longrightarrow> set (rng e i ks) = set ks"
  by (metis good_env_def set_mset_mset)

lemma good_env_distinct: "good_env e \<Longrightarrow> distinct (rng e i ks) = distinct ks"
  by (metis good_env_def mset_eq_imp_distinct_iff)

lemma mvals_by_key: "wf_map m \<Longrightarrow> map (\<lambda>k. the (map_of m k)) (mkeys m) = mvals m"
  by (auto simp: mkeys_def mvals_def wf_map_def map_of_is_SomeI)

lemma mset_iter:
  assumes "good_env e" and "wf_map m"
  shows "mset (iter e i m) = mset (mvals m)"
proof -
  have "filter (\<lambda>k. map_of m k \<noteq> None) (rng e i (mkeys m)) = rng e i (mkeys m)"
    using mkeys_lookup by (fastforce simp: filter_id_conv good_env_set [OF assms(1)])
  then have "iter e i m = map (\<lambda>k. the (map_of m k)) (rng e i (mkeys m))"
    by (simp add: iter_def map_filter_def comp_def)
  then have "mset (iter e i m) = mset (map (\<lambda>k. the (map_of m k)) (mkeys m))"
    using assms(1) by (simp add: good_env_def)
  then show ?thesis by (simp only: mvals_by_key [OF assms(2)])
qed

lemma set_iter: "good_env e \<Longrightarrow> wf_map m \<Longrightarrow> set (iter e i m) = set (mvals m)"
  by (metis mset_iter set_mset_mset)

section \<open>Invariant of the cluster data\<close>

text \<open>
  Keepers and databases are stored under their own UID; every database belongs to a registered
  keeper and no keeper has two of them.
\<close>

definition wf_keepers :: "keepers \<Rightarrow> bool" where
  "wf_keepers ks \<longleftrightarrow> wf_map ks \<and> list_all (\<lambda>(u, k). k_UID k = u) ks"

definition wf_dbs :: "keepers \<Rightarrow> dbs \<Rightarrow> bool" where
  "wf_dbs ks ds \<longleftrightarrow> wf_map ds \<and>
     list_all (\<lambda>(u, d). db_UID d = u \<and> dbs_KeeperUID (db_Spec d) \<in> set (mkeys ks)) ds \<and>
     distinct (map (\<lambda>d. dbs_KeeperUID (db_Spec d)) (mvals ds))"

definition wf_cd :: "cluster_data \<Rightarrow> bool" where
  "wf_cd cd \<longleftrightarrow> wf_keepers (cd_Keepers cd) \<and> wf_dbs (cd_Keepers cd) (cd_DBs cd)"

lemma wf_keepers_map [dest]: "wf_keepers ks \<Longrightarrow> wf_map ks"
  by (simp add: wf_keepers_def)

lemma wf_dbs_map [dest]: "wf_dbs ks ds \<Longrightarrow> wf_map ds"
  by (simp add: wf_dbs_def)

lemma wf_dbs_mem:
  assumes "wf_dbs ks ds" and "d \<in> set (mvals ds)"
  shows "map_of ds (db_UID d) = Some d" and "dbs_KeeperUID (db_Spec d) \<in> set (mkeys ks)"
  using assms
  by (auto simp: wf_dbs_def wf_map_def mkeys_def mvals_def list_all_iff)

lemma wf_dbs_lookup:
  assumes "wf_dbs ks ds" and "map_of ds u = Some d"
  shows "db_UID d = u" and "dbs_KeeperUID (db_Spec d) \<in> set (mkeys ks)"
  using assms by (auto simp: wf_dbs_def list_all_iff dest!: map_of_SomeD)

lemma wf_keepers_lookup:
  assumes "wf_keepers ks" and "map_of ks u = Some k"
  shows "k_UID k = u"
  using assms by (auto simp: wf_keepers_def list_all_iff dest!: map_of_SomeD)

lemma map_of_mvals: "map_of m k = Some v \<Longrightarrow> v \<in> set (mvals m)"
  by (force simp: mvals_def dest: map_of_SomeD)

end
