(* ===== verification/Sentinel_Health.thy ===== *)
theory Sentinel_Health
  imports Sentinel_Types
begin

text \<open>
  Error timers, WAL progress counters and convergence tracking
  (\<open>internal/runtime/sentinel/health.go\<close>).
\<close>

section \<open>Operations\<close>

datatype convergence_state = Converging | Converged | ConvergenceFailed

definition SetKeeperError :: "time \<Rightarrow> uid \<Rightarrow> sentinel \<Rightarrow> sentinel" where
  "SetKeeperError t u s =
     (case s_keeperErrorTimers s u of
        None \<Rightarrow> s\<lparr>s_keeperErrorTimers := (s_keeperErrorTimers s)(u \<mapsto> t)\<rparr>
      | Some _ \<Rightarrow> s)"

definition CleanKeeperError :: "uid \<Rightarrow> sentinel \<Rightarrow> sentinel" where
  "CleanKeeperError u s = s\<lparr>s_keeperErrorTimers := (s_keeperErrorTimers s)(u := None)\<rparr>"

definition SetDBError :: "time \<Rightarrow> uid \<Rightarrow> sentinel \<Rightarrow> sentinel" where
  "SetDBError t u s =
     (case s_dbErrorTimers s u of
        None \<Rightarrow> s\<lparr>s_dbErrorTimers := (s_dbErrorTimers s)(u \<mapsto> t)\<rparr>
      | Some _ \<Rightarrow> s)"

definition CleanDBError :: "uid \<Rightarrow> sentinel \<Rightarrow> sentinel" where
  "CleanDBError u s = s\<lparr>s_dbErrorTimers := (s_dbErrorTimers s)(u := None)\<rparr>"

definition SetDBNotIncreasingXLogPos :: "uid \<Rightarrow> sentinel \<Rightarrow> sentinel" where
  "SetDBNotIncreasingXLogPos u s =
     s\<lparr>s_dbNotIncreasingXLogPos := (s_dbNotIncreasingXLogPos s)
       (u \<mapsto> (case s_dbNotIncreasingXLogPos s u of None \<Rightarrow> 1 | Some n \<Rightarrow> inc n))\<rparr>"

definition CleanDBNotIncreasingXLogPos :: "uid \<Rightarrow> sentinel \<Rightarrow> sentinel" where
  "CleanDBNotIncreasingXLogPos u s =
     s\<lparr>s_dbNotIncreasingXLogPos := (s_dbNotIncreasingXLogPos s)(u := None)\<rparr>"

definition isKeeperHealthy :: "time \<Rightarrow> sentinel \<Rightarrow> cluster_data \<Rightarrow> keeper \<Rightarrow> bool" where
  "isKeeperHealthy t s cd k =
     (case s_keeperErrorTimers s (k_UID k) of
        None \<Rightarrow> True
      | Some t0 \<Rightarrow> if time_sub t t0 > the (cs_FailInterval (DefSpec (cd_Cluster cd))) then False
          else True)"

definition isDBHealthy :: "time \<Rightarrow> sentinel \<Rightarrow> cluster_data \<Rightarrow> db \<Rightarrow> bool" where
  "isDBHealthy t s cd d =
     (case s_dbErrorTimers s (db_UID d) of
        None \<Rightarrow> True
      | Some t0 \<Rightarrow> if time_sub t t0 > the (cs_FailInterval (DefSpec (cd_Cluster cd))) then False
          else True)"

definition isDBIncreasingXLogPos :: "sentinel \<Rightarrow> db \<Rightarrow> bool" where
  "isDBIncreasingXLogPos s d =
     (case s_dbNotIncreasingXLogPos s (db_UID d) of
        None \<Rightarrow> True
      | Some n \<Rightarrow> if n > DefaultDBNotIncreasingXLogPosTimes then False else True)"

definition updateDBConvergenceInfo :: "time \<Rightarrow> db \<Rightarrow> sentinel \<Rightarrow> sentinel" where
  "updateDBConvergenceInfo t d s =
     (if dst_CurrentGeneration (db_Status d) = db_Generation d
      then s\<lparr>s_dbConvergenceInfos := (s_dbConvergenceInfos s)(db_UID d := None)\<rparr>
      else
        (let nd = \<lparr>dci_Timer = t, dci_Generation = db_Generation d\<rparr>;
             s' = s\<lparr>s_dbConvergenceInfos := (s_dbConvergenceInfos s)(db_UID d \<mapsto> nd)\<rparr>
         in case s_dbConvergenceInfos s (db_UID d) of
              None \<Rightarrow> s'
            | Some i \<Rightarrow> if dci_Generation i \<noteq> db_Generation d then s' else s))"

definition updateDBConvergenceInfos :: "time \<Rightarrow> cluster_data \<Rightarrow> sentinel \<Rightarrow> sentinel" where
  "updateDBConvergenceInfos t cd s = fold (updateDBConvergenceInfo t) (mvals (cd_DBs cd)) s"

definition dbConvergenceState ::
  "time \<Rightarrow> db \<Rightarrow> duration \<Rightarrow> sentinel \<Rightarrow> convergence_state \<times> sentinel" where
  "dbConvergenceState t d timeout s =
     (if dst_CurrentGeneration (db_Status d) = db_Generation d then (Converged, s)
      else if timeout \<noteq> 0 then
        (let (i, s') =
           (case s_dbConvergenceInfos s (db_UID d) of
              Some i \<Rightarrow> (i, s)
            | None \<Rightarrow>
                (let i = \<lparr>dci_Timer = t, dci_Generation = db_Generation d\<rparr>
                 in (i, s\<lparr>s_dbConvergenceInfos :=
                           (s_dbConvergenceInfos s)(db_UID d \<mapsto> i)\<rparr>)))
         in if time_sub t (dci_Timer i) > timeout then (ConvergenceFailed, s') else (Converging, s'))
      else (Converging, s))"

section \<open>The contract of an error timer\<close>

text \<open>
  Keepers and databases have the same error timer: the first error of a run of errors starts
  it, a success clears it, and the component is unhealthy once the run is longer than the fail
  interval.
\<close>

locale error_timer =
  fixes timer :: "'s \<Rightarrow> uid \<rightharpoonup> time"
    and set_error :: "time \<Rightarrow> uid \<Rightarrow> 's \<Rightarrow> 's"
    and clean_error :: "uid \<Rightarrow> 's \<Rightarrow> 's"
    and healthy :: "time \<Rightarrow> 's \<Rightarrow> duration \<Rightarrow> uid \<Rightarrow> bool"
  assumes timer_set: "timer (set_error t u s) u' =
      (if u' = u \<and> timer s u = None then Some t else timer s u')"
    and timer_clean: "timer (clean_error u s) u' = (if u' = u then None else timer s u')"
    and healthy_iff: "healthy t s fi u \<longleftrightarrow>
      (case timer s u of None \<Rightarrow> True | Some t0 \<Rightarrow> time_sub t t0 \<le> fi)"
begin

text \<open>A history of observations of one component: the instant and whether it was an error.\<close>

definition observe :: "uid \<Rightarrow> (time \<times> bool) list \<Rightarrow> 's \<Rightarrow> 's" where
  "observe u evs s =
     fold (\<lambda>(t, bad) s. if bad then set_error t u s else clean_error u s) evs s"

lemma observe_snoc:
  "observe u (evs @ [(t, bad)]) s =
     (if bad then set_error t u (observe u evs s) else clean_error u (observe u evs s))"
  by (simp add: observe_def)

lemma observe_append: "observe u (as @ bs) s = observe u bs (observe u as s)"
  by (simp add: observe_def)

lemma timer_errors_running:
  "\<forall>(t, bad) \<in> set evs. bad \<Longrightarrow> timer s u = Some t0 \<Longrightarrow> timer (observe u evs s) u = Some t0"
  by (induction evs rule: rev_induct) (auto simp: observe_snoc timer_set observe_def)

lemma timer_run:
  assumes "timer (observe u pre s) u = None" and "\<forall>(t, bad) \<in> set run. bad"
  shows "timer (observe u (pre @ (t0, True) # run) s) u = Some t0"
proof -
  have "pre @ (t0, True) # run = (pre @ [(t0, True)]) @ run" by simp
  moreover have "timer (observe u (pre @ [(t0, True)]) s) u = Some t0"
    using assms(1) by (simp add: observe_snoc timer_set)
  ultimately show ?thesis
    using timer_errors_running [OF assms(2)] by (simp only: observe_append)
qed

text \<open>
  After a success at the end of \<open>pre\<close>, an error at \<open>t0\<close> and further errors only, the component
  is unhealthy at \<open>t\<close> exactly when the run has lasted longer than the fail interval.
\<close>

lemma unhealthy_after_run:
  assumes "pre = [] \<and> timer s u = None \<or> (\<exists>pre' t'. pre = pre' @ [(t', False)])"
    and "\<forall>(t, bad) \<in> set run. bad"
  shows "\<not> healthy t (observe u (pre @ (t0, True) # run) s) fi u \<longleftrightarrow> fi < time_sub t t0"
proof -
  have "timer (observe u pre s) u = None"
    using assms(1) by (auto simp: observe_snoc timer_clean) (simp add: observe_def)
  then show ?thesis
    using timer_run [OF _ assms(2), of u pre s t0] by (auto simp: healthy_iff)
qed

lemma healthy_after_success: "healthy t (observe u (pre @ [(t', False)]) s) fi u"
  by (simp add: healthy_iff observe_snoc timer_clean)

end

definition keeper_healthy :: "time \<Rightarrow> sentinel \<Rightarrow> duration \<Rightarrow> uid \<Rightarrow> bool" where
  "keeper_healthy t s fi u =
     (case s_keeperErrorTimers s u of None \<Rightarrow> True | Some t0 \<Rightarrow> time_sub t t0 \<le> fi)"

definition db_healthy :: "time \<Rightarrow> sentinel \<Rightarrow> duration \<Rightarrow> uid \<Rightarrow> bool" where
  "db_healthy t s fi u =
     (case s_dbErrorTimers s u of None \<Rightarrow> True | Some t0 \<Rightarrow> time_sub t t0 \<le> fi)"

interpretation ket: error_timer s_keeperErrorTimers SetKeeperError CleanKeeperError keeper_healthy
  by unfold_locales
    (auto simp: SetKeeperError_def CleanKeeperError_def keeper_healthy_def split: option.splits)

interpretation det: error_timer s_dbErrorTimers SetDBError CleanDBError db_healthy
  by unfold_locales
    (auto simp: SetDBError_def CleanDBError_def db_healthy_def split: option.splits)

lemma isKeeperHealthy_timer:
  "isKeeperHealthy t s cd k = keeper_healthy t s (the (cs_FailInterval (DefSpec (cd_Cluster cd)))) (k_UID k)"
  by (auto simp: isKeeperHealthy_def keeper_healthy_def split: option.splits)

lemma isDBHealthy_timer:
  "isDBHealthy t s cd d = db_healthy t s (the (cs_FailInterval (DefSpec (cd_Cluster cd)))) (db_UID d)"
  by (auto simp: isDBHealthy_def db_healthy_def split: option.splits)

section \<open>Convergence tracking within a pass\<close>

text \<open>
  Asking for the convergence state may start a timer. Within one pass this is not observable:
  a state in which timers were started at the current instant answers like the original one.
\<close>

definition conv_ext :: "time \<Rightarrow> sentinel \<Rightarrow> sentinel \<Rightarrow> bool" where
  "conv_ext t s s' \<longleftrightarrow> (\<exists>f. s' = s\<lparr>s_dbConvergenceInfos := f\<rparr> \<and>
     (\<forall>u. f u = s_dbConvergenceInfos s u \<or>
        s_dbConvergenceInfos s u = None \<and> (\<exists>i. f u = Some i \<and> dci_Timer i = t)))"

lemma conv_ext_refl [simp]: "conv_ext t s s"
  unfolding conv_ext_def by (rule exI [of _ "s_dbConvergenceInfos s"]) simp

lemma conv_ext_start:
  assumes "s_dbConvergenceInfos s u = None" and "dci_Timer i = t"
  shows "conv_ext t s (s\<lparr>s_dbConvergenceInfos := (s_dbConvergenceInfos s)(u \<mapsto> i)\<rparr>)"
  unfolding conv_ext_def
  by (rule exI [of _ "(s_dbConvergenceInfos s)(u \<mapsto> i)"]) (use assms in auto)

lemma conv_ext_trans:
  assumes "conv_ext t a b" and "conv_ext t b c"
  shows "conv_ext t a c"
proof -
  obtain f where f: "b = a\<lparr>s_dbConvergenceInfos := f\<rparr>" "\<forall>u. f u = s_dbConvergenceInfos a u \<or>
      s_dbConvergenceInfos a u = None \<and> (\<exists>i. f u = Some i \<and> dci_Timer i = t)"
    using assms(1) unfolding conv_ext_def by blast
  obtain g where g: "c = b\<lparr>s_dbConvergenceInfos := g\<rparr>" "\<forall>u. g u = f u \<or>
      f u = None \<and> (\<exists>i. g u = Some i \<and> dci_Timer i = t)"
    using assms(2) f(1) unfolding conv_ext_def by auto
  show ?thesis
    unfolding conv_ext_def
  proof (intro exI conjI allI)
    show "c = a\<lparr>s_dbConvergenceInfos := g\<rparr>" using f(1) g(1) by simp
    show "g u = s_dbConvergenceInfos a u \<or>
        s_dbConvergenceInfos a u = None \<and> (\<exists>i. g u = Some i \<and> dci_Timer i = t)" for u
      using f(2) [rule_format, of u] g(2) [rule_format, of u] by auto
  qed
qed

lemma conv_ext_fields:
  assumes "conv_ext t s s'"
  shows "s_dbNotIncreasingXLogPos s' = s_dbNotIncreasingXLogPos s"
    and "s_dbIncreasingXLogPosObservedAt s' = s_dbIncreasingXLogPosObservedAt s"
    and "s_keeperHealthySince s' = s_keeperHealthySince s"
    and "s_autoFailbackLastSwitchAt s' = s_autoFailbackLastSwitchAt s"
    and "s_leaderRaceBackoffTimers s' = s_leaderRaceBackoffTimers s"
    and "s_forceFailedKeeperUIDs s' = s_forceFailedKeeperUIDs s"
  using assms by (auto simp: conv_ext_def)

abbreviation conv_state :: "time \<Rightarrow> sentinel \<Rightarrow> db \<Rightarrow> duration \<Rightarrow> convergence_state" where
  "conv_state t s d timeout \<equiv> fst (dbConvergenceState t d timeout s)"

lemma dbConvergenceState_ext:
  "dbConvergenceState t d timeout s = (c, s') \<Longrightarrow> conv_ext t s s'"
  by (auto simp: dbConvergenceState_def Let_def intro!: conv_ext_start
      split: if_splits option.splits)

lemma conv_state_ext:
  assumes "conv_ext t s s'"
  shows "conv_state t s' d timeout = conv_state t s d timeout"
proof -
  have "s_dbConvergenceInfos s' (db_UID d) = s_dbConvergenceInfos s (db_UID d) \<or>
      s_dbConvergenceInfos s (db_UID d) = None \<and>
      (\<exists>i. s_dbConvergenceInfos s' (db_UID d) = Some i \<and> dci_Timer i = t)"
    using assms by (auto simp: conv_ext_def)
  then show ?thesis
    by (auto simp: dbConvergenceState_def Let_def split: option.splits)
qed

lemma conv_state_Converged:
  "conv_state t s d timeout = Converged \<longleftrightarrow> dst_CurrentGeneration (db_Status d) = db_Generation d"
  by (auto simp: dbConvergenceState_def Let_def split: option.splits)

end
