(* ===== verification/Sentinel_Selection.thy ===== *)
theory Sentinel_Selection
  imports Sentinel_Health Timeline Pg_Wal
begin

text \<open>
  Classification of databases and choice of standbys and master candidates
  (\<open>internal/runtime/sentinel/selection.go\<close>, \<open>timeline.go\<close>, and \<open>syncRepl\<close> of
  \<open>sentinel.go\<close>). A function that may start convergence timers takes and returns the sentinel
  state; \<open>None\<close> is the nil dereference of a keeper that is not in the cluster data.
\<close>

section \<open>Timeline and lag\<close>

definition isDifferentTimelineBranch :: "db \<Rightarrow> db \<Rightarrow> bool" where
  "isDifferentTimelineBranch followedDB d =
     tbd_Different (DetectTimelineBranchDivergence
       (dst_TimelineID (db_Status followedDB)) (dst_TimelinesHistory (db_Status followedDB))
       (dst_XLogPos (db_Status followedDB))
       (dst_TimelineID (db_Status d)) (dst_TimelinesHistory (db_Status d))
       (dst_XLogPos (db_Status d)))"

definition isLagBelowMax :: "cluster_data \<Rightarrow> db \<Rightarrow> db \<Rightarrow> bool" where
  "isLagBelowMax cd curMasterDB d =
     (let lag = (if dst_XLogPos (db_Status curMasterDB) > dst_XLogPos (db_Status d)
                 then dst_XLogPos (db_Status curMasterDB) - dst_XLogPos (db_Status d) else 0)
      in if lag > ucast (the (cs_MaxStandbyLag (DefSpec (cd_Cluster cd)))) then False else True)"

definition syncRepl :: "cluster_spec \<Rightarrow> bool" where
  "syncRepl spec \<longleftrightarrow>
     the (cs_SynchronousReplication spec) \<and> the (cs_Role spec) = ClusterRoleMaster"

section \<open>Classification\<close>

datatype db_type = dbTypePrimaryLine | dbTypeReplicaLine
datatype db_validity = dbValidityValid | dbValidityInvalid | dbValidityUnknown
datatype db_state = dbStatusGood | dbStatusFailed | dbStatusConverging

definition follows_external :: "db \<Rightarrow> bool" where
  "follows_external d \<longleftrightarrow>
     (case dbs_FollowConfig (db_Spec d) of None \<Rightarrow> False | Some fc \<Rightarrow> fc_Type fc = FollowTypeExternal)"

definition dbType :: "cluster_data \<Rightarrow> uid \<Rightarrow> db_type res" where
  "dbType cd dbUID =
     (case map_of (cd_DBs cd) dbUID of
        None \<Rightarrow> Inl (Errq ''unknown db uid %q'' dbUID)
      | Some d \<Rightarrow>
          (case dbs_Role (db_Spec d) of
             RoleMaster \<Rightarrow> Inr dbTypePrimaryLine
           | RoleStandby \<Rightarrow>
               if follows_external d then Inr dbTypePrimaryLine else Inr dbTypeReplicaLine
           | _ \<Rightarrow> Inl (Errq ''invalid db role in spec for db %q'' dbUID)))"

definition dbValidity :: "cluster_data \<Rightarrow> uid \<Rightarrow> db_validity res" where
  "dbValidity cd dbUID =
     (case map_of (cd_DBs cd) dbUID of
        None \<Rightarrow> Inl (Errq ''unknown db uid %q'' dbUID)
      | Some d \<Rightarrow>
          if dst_CurrentGeneration (db_Status d) = NoGeneration then Inr dbValidityUnknown
          else (case map_of (cd_DBs cd) (cst_Master (cl_Status (cd_Cluster cd))) of
             None \<Rightarrow> Inr dbValidityUnknown
           | Some masterDB \<Rightarrow>
               if dst_SystemID (db_Status d) \<noteq> [] \<and>
                  dst_SystemID (db_Status d) \<noteq> dst_SystemID (db_Status masterDB)
               then Inr dbValidityInvalid
               else if isDifferentTimelineBranch masterDB d then Inr dbValidityInvalid
               else Inr dbValidityValid))"

definition dbCanSync :: "sentinel \<Rightarrow> cluster_data \<Rightarrow> uid \<Rightarrow> bool res" where
  "dbCanSync s cd dbUID =
     (case map_of (cd_DBs cd) dbUID of
        None \<Rightarrow> Inl (Errq ''unknown db uid %q'' dbUID)
      | Some d \<Rightarrow>
          (case map_of (cd_DBs cd) (cst_Master (cl_Status (cd_Cluster cd))) of
             None \<Rightarrow> Inr True
           | Some masterDB \<Rightarrow>
               if dst_OlderWalFile (db_Status masterDB) = [] then Inr True
               else if dbUID = db_UID masterDB then Inr True
               else (case dbType cd (db_UID d) of
                  Inl err \<Rightarrow> Inl err
                | Inr dt \<Rightarrow>
                    if dt \<noteq> dbTypeReplicaLine then Inr True
                    else if db_Generation d = InitialGeneration then Inr True
                    else if \<not> dst_Healthy (db_Status d) then Inr True
                    else if dst_XLogPos (db_Status d) = dst_XLogPos (db_Status masterDB)
                    then Inr True
                    else if isDBIncreasingXLogPos s d then Inr True
                    else IsRequiredWalAvailable (dst_XLogPos (db_Status d))
                           (dst_OlderWalFile (db_Status masterDB)) WalSegSize)))"

definition dbStatus ::
  "time \<Rightarrow> cluster_data \<Rightarrow> uid \<Rightarrow> sentinel \<Rightarrow> (db_state res \<times> sentinel) option" where
  "dbStatus t cd dbUID s =
     (case map_of (cd_DBs cd) dbUID of
        None \<Rightarrow> Some (Inl (Errq ''unknown db uid %q'' dbUID), s)
      | Some d \<Rightarrow> do {
          keeper \<leftarrow> map_of (cd_Keepers cd) (dbs_KeeperUID (db_Spec d));
          if \<not> kst_Healthy (k_Status keeper) then Some (Inr dbStatusFailed, s)
          else do {
            let convergenceTimeout =
              (if db_Generation d = InitialGeneration \<and> dbs_InitMode (db_Spec d) = DBInitModeResync
               then the (cs_SyncTimeout (DefSpec (cd_Cluster cd)))
               else the (cs_ConvergenceTimeout (DefSpec (cd_Cluster cd))));
            let (c, s') = dbConvergenceState t d convergenceTimeout s;
            Some (case c of
                ConvergenceFailed \<Rightarrow> Inr dbStatusFailed
              | Converging \<Rightarrow> Inr dbStatusConverging
              | Converged \<Rightarrow>
                  if \<not> dst_Healthy (db_Status d) then Inr dbStatusFailed else Inr dbStatusGood, s')
          }
        })"

section \<open>Databases by status\<close>

record dbs_by_status =
  goodDBs :: dbs
  failedDBs :: dbs
  convergingDBs :: dbs

definition no_dbs :: dbs_by_status where
  "no_dbs = \<lparr>goodDBs = [], failedDBs = [], convergingDBs = []\<rparr>"

definition record_db :: "db_state \<Rightarrow> db \<Rightarrow> dbs_by_status \<Rightarrow> dbs_by_status" where
  "record_db st d r =
     (case st of
        dbStatusGood \<Rightarrow> r\<lparr>goodDBs := AList.update (db_UID d) d (goodDBs r)\<rparr>
      | dbStatusFailed \<Rightarrow> r\<lparr>failedDBs := AList.update (db_UID d) d (failedDBs r)\<rparr>
      | dbStatusConverging \<Rightarrow> r\<lparr>convergingDBs := AList.update (db_UID d) d (convergingDBs r)\<rparr>)"

definition classifyDB ::
  "time \<Rightarrow> cluster_data \<Rightarrow> db_type \<Rightarrow> db \<Rightarrow> dbs_by_status \<times> sentinel \<Rightarrow>
     (dbs_by_status \<times> sentinel) option" where
  "classifyDB t cd wantType d st =
     (case st of (r, s) \<Rightarrow>
        (case dbValidity cd (db_UID d) of
           Inl _ \<Rightarrow> Some (r, s)
         | Inr valid \<Rightarrow>
             (case dbType cd (db_UID d) of
                Inl _ \<Rightarrow> Some (r, s)
              | Inr dt \<Rightarrow>
                  if valid \<noteq> dbValidityValid \<or> dt \<noteq> wantType then Some (r, s)
                  else do {
                    (status, s') \<leftarrow> dbStatus t cd (db_UID d) s;
                    Some (case status of Inl _ \<Rightarrow> (r, s') | Inr x \<Rightarrow> (record_db x d r, s'))
                  })))"

definition validDBsByStatus ::
  "time \<Rightarrow> cluster_data \<Rightarrow> db_type \<Rightarrow> sentinel \<Rightarrow> (dbs_by_status \<times> sentinel) option" where
  "validDBsByStatus t cd wantType s =
     ofold (classifyDB t cd wantType) (mvals (cd_DBs cd)) (no_dbs, s)"

definition validMastersByStatus ::
  "time \<Rightarrow> cluster_data \<Rightarrow> sentinel \<Rightarrow> (dbs_by_status \<times> sentinel) option" where
  "validMastersByStatus t cd s = validDBsByStatus t cd dbTypePrimaryLine s"

definition validStandbysByStatus ::
  "time \<Rightarrow> cluster_data \<Rightarrow> sentinel \<Rightarrow> (dbs_by_status \<times> sentinel) option" where
  "validStandbysByStatus t cd s = validDBsByStatus t cd dbTypeReplicaLine s"

section \<open>Order of candidates\<close>

definition keeperMasterPriority :: "cluster_data \<Rightarrow> db \<Rightarrow> int" where
  "keeperMasterPriority cd d =
     (case map_of (cd_Keepers cd) (dbs_KeeperUID (db_Spec d)) of
        None \<Rightarrow> 0 | Some keeper \<Rightarrow> kst_MasterPriority (k_Status keeper))"

text \<open>The order of \<open>sortCandidateMasters\<close>: position, then decreasing priority, then UID.\<close>

datatype candidate_rank = Rank (rank_xlog: u64) (rank_priority: int) (rank_uid: uid)

instantiation candidate_rank :: linorder
begin

definition less_candidate_rank :: "candidate_rank \<Rightarrow> candidate_rank \<Rightarrow> bool" where
  "less_candidate_rank a b \<longleftrightarrow>
     (if rank_xlog a \<noteq> rank_xlog b then rank_xlog a < rank_xlog b
      else if rank_priority a \<noteq> rank_priority b then rank_priority a > rank_priority b
      else rank_uid a < rank_uid b)"

definition less_eq_candidate_rank :: "candidate_rank \<Rightarrow> candidate_rank \<Rightarrow> bool" where
  "less_eq_candidate_rank a b \<longleftrightarrow> a = b \<or> a < b"

instance
  by standard
    (auto simp: less_candidate_rank_def less_eq_candidate_rank_def candidate_rank.expand
      split: if_splits)

end

definition candidate_rank_of :: "cluster_data \<Rightarrow> db \<Rightarrow> candidate_rank" where
  "candidate_rank_of cd d =
     Rank (dst_XLogPos (db_Status d)) (keeperMasterPriority cd d) (db_UID d)"

definition sortCandidateMasters :: "cluster_data \<Rightarrow> db list \<Rightarrow> db list" where
  "sortCandidateMasters cd candidates = sort_key (candidate_rank_of cd) candidates"

section \<open>Best standbys and master candidates\<close>

text \<open>The checks a standby or a previous master passes to replace \<open>masterDB\<close>.\<close>

definition same_timeline_in_lag :: "cluster_data \<Rightarrow> db \<Rightarrow> db \<Rightarrow> bool" where
  "same_timeline_in_lag cd masterDB d =
     (if dst_TimelineID (db_Status d) \<noteq> dst_TimelineID (db_Status masterDB) then False
      else if \<not> syncRepl (DefSpec (cd_Cluster cd)) then
        (if \<not> isLagBelowMax cd masterDB d then False else True)
      else True)"

text \<open>
  The sort by position is not stable, so equal positions come in any order: the stable sort of
  an arbitrary order of the map.
\<close>

definition findBestStandbys ::
  "env \<Rightarrow> nat \<Rightarrow> cluster_data \<Rightarrow> db \<Rightarrow> sentinel \<Rightarrow> (db list \<times> sentinel) option" where
  "findBestStandbys e site cd masterDB s = do {
     (r, s') \<leftarrow> validStandbysByStatus (now e) cd s;
     Some (sort_key (\<lambda>d. dst_XLogPos (db_Status d))
             (filter (same_timeline_in_lag cd masterDB) (iter e site (goodDBs r))), s')
   }"

definition can_be_master :: "cluster_data \<Rightarrow> db \<Rightarrow> bool" where
  "can_be_master cd d =
     (case map_of (cd_Keepers cd) (dbs_KeeperUID (db_Spec d)) of
        Some k \<Rightarrow> kst_CanBeMaster (k_Status k) \<noteq> Some False
      | None \<Rightarrow> True)"

definition findBestNewMasters ::
  "env \<Rightarrow> nat \<Rightarrow> cluster_data \<Rightarrow> db \<Rightarrow> sentinel \<Rightarrow> (db list \<times> sentinel) option" where
  "findBestNewMasters e site cd masterDB s = do {
     (standbys, s1) \<leftarrow> findBestStandbys e site cd masterDB s;
     (r, s2) \<leftarrow> validMastersByStatus (now e) cd s1;
     Some (sortCandidateMasters cd
       (filter (can_be_master cd) standbys @
        filter (\<lambda>d. db_UID d \<noteq> db_UID masterDB \<and> same_timeline_in_lag cd masterDB d)
          (mvals (goodDBs r))), s2)
   }"

fun autoFailbackLoop :: "cluster_data \<Rightarrow> int \<Rightarrow> db option \<Rightarrow> db list \<Rightarrow> db option" where
  "autoFailbackLoop cd bestPriority target [] = target"
| "autoFailbackLoop cd bestPriority target (c # cs) =
     (if keeperMasterPriority cd c \<le> bestPriority then autoFailbackLoop cd bestPriority target cs
      else autoFailbackLoop cd (keeperMasterPriority cd c) (Some c) cs)"

definition autoFailbackAllowed :: "time \<Rightarrow> cluster_data \<Rightarrow> db \<Rightarrow> sentinel \<Rightarrow> bool" where
  "autoFailbackAllowed t cd target s =
     (case map_of (cd_Keepers cd) (dbs_KeeperUID (db_Spec target)) of
        None \<Rightarrow> False
      | Some keeper \<Rightarrow>
          if \<not> kst_Healthy (k_Status keeper) then False
          else
            (let spec = DefSpec (cd_Cluster cd);
                 minUptime = the (cs_AutoFailbackMinUptime spec);
                 cooldown = the (cs_AutoFailbackCooldown spec)
             in if minUptime > 0 \<and>
                   (case s_keeperHealthySince s (k_UID keeper) of
                      None \<Rightarrow> True
                    | Some healthySince \<Rightarrow> time_sub t healthySince < minUptime)
                then False
                else if cooldown > 0 \<and> s_autoFailbackLastSwitchAt s \<noteq> 0 \<and>
                        time_sub t (s_autoFailbackLastSwitchAt s) < cooldown
                then False
                else True))"

definition chooseAutoFailbackTarget ::
  "env \<Rightarrow> nat \<Rightarrow> cluster_data \<Rightarrow> db \<Rightarrow> sentinel \<Rightarrow> (db option \<times> sentinel) option" where
  "chooseAutoFailbackTarget e site cd curMasterDB s =
     (if \<not> the (cs_UnsafeAutoFailback (DefSpec (cd_Cluster cd))) then Some (None, s)
      else do {
        (candidates, s') \<leftarrow> findBestNewMasters e site cd curMasterDB s;
        Some (case autoFailbackLoop cd (keeperMasterPriority cd curMasterDB) None candidates of
            None \<Rightarrow> None
          | Some target \<Rightarrow>
              if autoFailbackAllowed (now e) cd target s' then Some target else None, s')
      })"

section \<open>Classification as a function of the state at the start of the pass\<close>

definition convergence_timeout :: "cluster_data \<Rightarrow> db \<Rightarrow> duration" where
  "convergence_timeout cd d =
     (if db_Generation d = InitialGeneration \<and> dbs_InitMode (db_Spec d) = DBInitModeResync
      then the (cs_SyncTimeout (DefSpec (cd_Cluster cd)))
      else the (cs_ConvergenceTimeout (DefSpec (cd_Cluster cd))))"

definition keeper_up :: "cluster_data \<Rightarrow> db \<Rightarrow> bool" where
  "keeper_up cd d \<longleftrightarrow>
     (case map_of (cd_Keepers cd) (dbs_KeeperUID (db_Spec d)) of
        None \<Rightarrow> False | Some k \<Rightarrow> kst_Healthy (k_Status k))"

definition db_state_of :: "time \<Rightarrow> sentinel \<Rightarrow> cluster_data \<Rightarrow> db \<Rightarrow> db_state" where
  "db_state_of t s cd d =
     (if \<not> keeper_up cd d then dbStatusFailed
      else case conv_state t s d (convergence_timeout cd d) of
          ConvergenceFailed \<Rightarrow> dbStatusFailed
        | Converging \<Rightarrow> dbStatusConverging
        | Converged \<Rightarrow> if dst_Healthy (db_Status d) then dbStatusGood else dbStatusFailed)"

definition valid_of_type :: "cluster_data \<Rightarrow> db_type \<Rightarrow> db \<Rightarrow> bool" where
  "valid_of_type cd ty d \<longleftrightarrow>
     dbValidity cd (db_UID d) = Inr dbValidityValid \<and> dbType cd (db_UID d) = Inr ty"

definition in_state ::
  "time \<Rightarrow> sentinel \<Rightarrow> cluster_data \<Rightarrow> db_type \<Rightarrow> db_state \<Rightarrow> dbs \<Rightarrow> dbs" where
  "in_state t s cd ty st ds =
     filter (\<lambda>(u, d). valid_of_type cd ty d \<and> db_state_of t s cd d = st) ds"

definition by_status :: "time \<Rightarrow> sentinel \<Rightarrow> cluster_data \<Rightarrow> db_type \<Rightarrow> dbs \<Rightarrow> dbs_by_status" where
  "by_status t s cd ty ds =
     \<lparr>goodDBs = in_state t s cd ty dbStatusGood ds,
      failedDBs = in_state t s cd ty dbStatusFailed ds,
      convergingDBs = in_state t s cd ty dbStatusConverging ds\<rparr>"

lemma good_state_iff:
  "db_state_of t s cd d = dbStatusGood \<longleftrightarrow>
     keeper_up cd d \<and> dst_Healthy (db_Status d) \<and>
     dst_CurrentGeneration (db_Status d) = db_Generation d"
  using conv_state_Converged [of t d "convergence_timeout cd d" s]
  by (auto simp: db_state_of_def split: convergence_state.splits)

lemma dbStatus_state:
  assumes "map_of (cd_DBs cd) u = Some d"
    and "dbs_KeeperUID (db_Spec d) \<in> set (mkeys (cd_Keepers cd))" and "conv_ext t s0 s"
  shows "\<exists>s'. dbStatus t cd u s = Some (Inr (db_state_of t s0 cd d), s') \<and> conv_ext t s0 s'"
proof -
  obtain k where k: "map_of (cd_Keepers cd) (dbs_KeeperUID (db_Spec d)) = Some k"
    using mkeys_lookup [OF assms(2)] by blast
  obtain c s' where c: "dbConvergenceState t d (convergence_timeout cd d) s = (c, s')"
    by fastforce
  have "conv_ext t s0 s'"
    using conv_ext_trans [OF assms(3) dbConvergenceState_ext [OF c]] .
  moreover have "conv_state t s0 d (convergence_timeout cd d) = c"
    using conv_state_ext [OF assms(3), of d "convergence_timeout cd d"] c by simp
  ultimately show ?thesis
    using assms(1,3) k c
    by (auto simp: dbStatus_def db_state_of_def keeper_up_def convergence_timeout_def Let_def
        split: convergence_state.splits)
qed

lemma update_new_key: "k \<notin> set (mkeys m) \<Longrightarrow> AList.update k v m = m @ [(k, v)]"
  by (induction m) (auto simp: mkeys_def)

lemma record_db_by_status:
  assumes "db_UID d \<notin> set (mkeys xs)"
  shows "valid_of_type cd ty d \<Longrightarrow>
     record_db (db_state_of t s cd d) d (by_status t s cd ty xs) =
       by_status t s cd ty (xs @ [(db_UID d, d)])"
    and "\<not> valid_of_type cd ty d \<Longrightarrow>
     by_status t s cd ty (xs @ [(db_UID d, d)]) = by_status t s cd ty xs"
proof -
  have "db_UID d \<notin> set (mkeys (in_state t s cd ty st xs))" for st
    using assms by (auto simp: in_state_def mkeys_def)
  then show "valid_of_type cd ty d \<Longrightarrow>
     record_db (db_state_of t s cd d) d (by_status t s cd ty xs) =
       by_status t s cd ty (xs @ [(db_UID d, d)])"
    by (simp add: record_db_def by_status_def update_new_key split: db_state.splits)
      (simp add: in_state_def)
qed (simp add: by_status_def in_state_def)

lemma classify_prefix:
  assumes "wf_cd cd" and "cd_DBs cd = xs @ ys"
  shows "\<exists>s'. ofold (classifyDB t cd ty) (mvals xs) (no_dbs, s) =
    Some (by_status t s cd ty xs, s') \<and> conv_ext t s s'"
  using assms(2)
proof (induction xs arbitrary: ys rule: rev_induct)
  case Nil
  show ?case by (simp add: mvals_def no_dbs_def by_status_def in_state_def)
next
  case (snoc x xs)
  obtain u d where x: "x = (u, d)" by fastforce
  have wf: "wf_dbs (cd_Keepers cd) (cd_DBs cd)" using assms(1) by (simp add: wf_cd_def)
  have mem: "d \<in> set (mvals (cd_DBs cd))" using snoc.prems x by (simp add: mvals_def)
  have u: "u = db_UID d"
    using wf snoc.prems x by (simp add: wf_dbs_def)
  have lk: "map_of (cd_DBs cd) u = Some d" using wf_dbs_mem(1) [OF wf mem] u by simp
  have new: "db_UID d \<notin> set (mkeys xs)"
    using wf snoc.prems x u by (auto simp: wf_dbs_def wf_map_def mkeys_def)
  obtain s1 where s1: "ofold (classifyDB t cd ty) (mvals xs) (no_dbs, s) =
      Some (by_status t s cd ty xs, s1)" and e1: "conv_ext t s s1"
    using snoc.IH [of "x # ys"] snoc.prems by auto
  obtain s2 where s2: "dbStatus t cd u s1 = Some (Inr (db_state_of t s cd d), s2)"
      and e2: "conv_ext t s s2"
    using dbStatus_state [OF lk wf_dbs_mem(2) [OF wf mem] e1] by blast
  have "classifyDB t cd ty d (by_status t s cd ty xs, s1) =
      Some (by_status t s cd ty (xs @ [x]), if valid_of_type cd ty d then s2 else s1)"
    using s2 record_db_by_status [OF new, of cd ty t s]
    by (auto simp: classifyDB_def x u valid_of_type_def split: sum.splits)
  then show ?case
    using s1 e1 e2 by (auto simp: mvals_def ofold_append x)
qed

lemma validDBsByStatus_char:
  assumes "wf_cd cd"
  shows "\<exists>s'. validDBsByStatus t cd ty s = Some (by_status t s cd ty (cd_DBs cd), s') \<and>
    conv_ext t s s'"
  using classify_prefix [OF assms, of "cd_DBs cd" "[]"] by (simp add: validDBsByStatus_def)

lemma by_status_ext:
  assumes "conv_ext t s s'"
  shows "by_status t s' = by_status t s"
proof -
  have "db_state_of t s' = db_state_of t s"
    by (intro ext) (simp add: db_state_of_def conv_state_ext [OF assms])
  then show ?thesis by (intro ext) (simp add: by_status_def in_state_def)
qed

lemma wf_in_state: "wf_map ds \<Longrightarrow> wf_map (in_state t s cd ty st ds)"
  by (simp add: in_state_def wf_map_filter)

lemma set_in_state:
  "set (mvals (in_state t s cd ty st ds)) =
     {d \<in> set (mvals ds). valid_of_type cd ty d \<and> db_state_of t s cd d = st}"
  by (force simp: in_state_def mvals_def)

section \<open>The candidates\<close>

definition good_of_type :: "cluster_data \<Rightarrow> db_type \<Rightarrow> db \<Rightarrow> bool" where
  "good_of_type cd ty d \<longleftrightarrow> d \<in> set (mvals (cd_DBs cd)) \<and> valid_of_type cd ty d \<and>
     keeper_up cd d \<and> dst_Healthy (db_Status d) \<and>
     dst_CurrentGeneration (db_Status d) = db_Generation d"

lemma set_good_by_status:
  "set (mvals (goodDBs (by_status t s cd ty (cd_DBs cd)))) = {d. good_of_type cd ty d}"
  by (auto simp: by_status_def set_in_state good_state_iff good_of_type_def)

lemma findBestStandbys_char:
  assumes "good_env e" and "wf_cd cd"
  shows "\<exists>ds s'. findBestStandbys e site cd m s = Some (ds, s') \<and> conv_ext (now e) s s' \<and>
    set ds = {d. good_of_type cd dbTypeReplicaLine d \<and> same_timeline_in_lag cd m d} \<and>
    distinct (map db_UID ds)"
proof -
  let ?g = "goodDBs (by_status (now e) s cd dbTypeReplicaLine (cd_DBs cd))"
  obtain s' where s': "validStandbysByStatus (now e) cd s =
      Some (by_status (now e) s cd dbTypeReplicaLine (cd_DBs cd), s')" "conv_ext (now e) s s'"
    using validDBsByStatus_char [OF assms(2)] unfolding validStandbysByStatus_def by blast
  have wf: "wf_dbs (cd_Keepers cd) (cd_DBs cd)" using assms(2) by (simp add: wf_cd_def)
  have wfg: "wf_map ?g" using wf by (auto simp: by_status_def wf_in_state)
  have "map db_UID (mvals (cd_DBs cd)) = mkeys (cd_DBs cd)"
    using wf by (auto simp: wf_dbs_def mvals_def mkeys_def list_all_iff)
  then have "inj_on db_UID (set (mvals (cd_DBs cd)))" "distinct (mvals (cd_DBs cd))"
    using wf by (metis distinct_map wf_dbs_map wf_map_def)+
  moreover have "mset (iter e site ?g) = mset (mvals ?g)" using mset_iter [OF assms(1) wfg] .
  moreover have "distinct (mvals ?g)"
    using \<open>distinct (mvals (cd_DBs cd))\<close>
    by (auto simp: by_status_def in_state_def mvals_def distinct_map_filter)
  moreover have "set (mvals ?g) \<subseteq> set (mvals (cd_DBs cd))"
    by (auto simp: by_status_def set_in_state)
  ultimately have "distinct (map db_UID (iter e site ?g))"
    by (metis distinct_map inj_on_subset mset_eq_imp_distinct_iff set_mset_mset)
  then have "distinct (map db_UID (sort_key (\<lambda>d. dst_XLogPos (db_Status d))
      (filter (same_timeline_in_lag cd m) (iter e site ?g))))"
    by (simp add: distinct_map) (auto intro: inj_on_subset)
  moreover have "set (iter e site ?g) = {d. good_of_type cd dbTypeReplicaLine d}"
    using set_iter [OF assms(1) wfg] set_good_by_status by metis
  ultimately show ?thesis
    using s' by (simp add: findBestStandbys_def)
qed

definition master_candidate :: "cluster_data \<Rightarrow> db \<Rightarrow> db \<Rightarrow> bool" where
  "master_candidate cd m d \<longleftrightarrow> same_timeline_in_lag cd m d \<and>
     (good_of_type cd dbTypeReplicaLine d \<and> can_be_master cd d \<or>
      good_of_type cd dbTypePrimaryLine d \<and> db_UID d \<noteq> db_UID m)"

lemma findBestNewMasters_char:
  assumes "good_env e" and "wf_cd cd"
  shows "\<exists>cs s'. findBestNewMasters e site cd m s = Some (cs, s') \<and> conv_ext (now e) s s' \<and>
    set cs = {d. master_candidate cd m d} \<and> sorted (map (candidate_rank_of cd) cs)"
proof -
  obtain ds s1 where a: "findBestStandbys e site cd m s = Some (ds, s1)" "conv_ext (now e) s s1"
    "set ds = {d. good_of_type cd dbTypeReplicaLine d \<and> same_timeline_in_lag cd m d}"
    using findBestStandbys_char [OF assms] by blast
  obtain s2 where b: "validMastersByStatus (now e) cd s1 =
      Some (by_status (now e) s1 cd dbTypePrimaryLine (cd_DBs cd), s2)" "conv_ext (now e) s1 s2"
    using validDBsByStatus_char [OF assms(2)] unfolding validMastersByStatus_def by blast
  show ?thesis
    using a b conv_ext_trans [OF a(2) b(2)]
    by (simp add: findBestNewMasters_def sortCandidateMasters_def set_good_by_status
        master_candidate_def) blast
qed

end
