(* ===== verification/Sentinel_Init.thy ===== *)
theory Sentinel_Init
  imports Sentinel_Selection
begin

text \<open>
  Bootstrap of a cluster and propagation of the cluster specification to the databases
  (\<open>internal/runtime/sentinel/cluster_init.go\<close> and the initializing phase of \<open>updateCluster\<close> in
  \<open>cluster_update.go\<close>).
\<close>

section \<open>Helpers of cluster_init.go\<close>

definition findInitialKeeper :: "env \<Rightarrow> cluster_data \<Rightarrow> keeper res option" where
  "findInitialKeeper e cd =
     (if length (cd_Keepers cd) < 1 then Some (Inl (Err ''no keepers registered''))
      else do {
        let r = randFn e (length (cd_Keepers cd));
        let keys = sort (mkeys (cd_Keepers cd));
        if r < length keys then map_option Inr (map_of (cd_Keepers cd) (keys ! r)) else None
      })"

text \<open>
  The loop body of \<open>setDBSpecFromClusterSpec\<close>. The database type is read from the cluster data
  at the start of the loop: the body changes neither role nor follow type. It dereferences the
  standby configuration when the database follows an external instance.
\<close>

definition copyClusterSpec :: "cluster_spec \<Rightarrow> db_spec \<Rightarrow> db_spec" where
  "copyClusterSpec c sp = sp
     \<lparr>dbs_RequestTimeout := the (cs_RequestTimeout c),
      dbs_MaxStandbys := the (cs_MaxStandbys c),
      dbs_UsePgrewind := the (cs_UsePgrewind c),
      dbs_CheckpointBeforePgrewind := (cs_CheckpointBeforePgrewind c = Some True),
      dbs_ReplicationTLSMode :=
        (case cs_ReplicationTLSMode c of Some m \<Rightarrow> m | None \<Rightarrow> ReplicationTLSModeEmpty),
      dbs_PGParameters := cs_PGParameters c,
      dbs_PGHBA := cs_PGHBA c,
      dbs_PGIdent := cs_PGIdent c,
      dbs_BeforeStopCommand := cs_BeforeStopCommand c,
      dbs_PrePromoteCommand := cs_PrePromoteCommand c,
      dbs_EnableLogicalSlotFailover := cs_EnableLogicalSlotFailover c,
      dbs_AdditionalWalSenders := the (cs_AdditionalWalSenders c)\<rparr>"

definition copyStandbyConfig :: "cluster_spec \<Rightarrow> db_spec \<Rightarrow> db_spec option" where
  "copyStandbyConfig c sp =
     (case dbs_FollowConfig sp of
        None \<Rightarrow> Some sp
      | Some fc \<Rightarrow>
          if fc_Type fc = FollowTypeExternal then do {
            sc \<leftarrow> cs_StandbyConfig c;
            Some (sp\<lparr>dbs_FollowConfig := Some (fc
              \<lparr>fc_StandbySettings := sc_StandbySettings sc,
               fc_ArchiveRecoverySettings := sc_ArchiveRecoverySettings sc\<rparr>)\<rparr>)
          }
          else Some sp)"

definition copySlotPolicy :: "cluster_spec \<Rightarrow> db_type res \<Rightarrow> db_spec \<Rightarrow> db_spec" where
  "copySlotPolicy c dt sp =
     (case dt of
        Inl _ \<Rightarrow> sp
      | Inr dbTypePrimaryLine \<Rightarrow> sp
          \<lparr>dbs_AdditionalReplicationSlots := cs_AdditionalMasterReplicationSlots c,
           dbs_IgnoreReplicationSlots := cs_IgnoreMasterReplicationSlots c,
           dbs_IgnoreReplicationSlotMatchers := cs_IgnoreMasterReplicationSlotMatchers c,
           dbs_ManagedLogicalReplicationSlots := cs_ManagedLogicalReplicationSlots c,
           dbs_NoStream := False\<rparr>
      | Inr dbTypeReplicaLine \<Rightarrow> sp
          \<lparr>dbs_AdditionalReplicationSlots := None,
           dbs_IgnoreReplicationSlots := None,
           dbs_IgnoreReplicationSlotMatchers := None,
           dbs_NoStream :=
             (case cs_StandbyConfig c of None \<Rightarrow> False | Some sc \<Rightarrow> sc_NoStream sc),
           dbs_ManagedLogicalReplicationSlots :=
             (if cs_EnableLogicalSlotFailover c then cs_ManagedLogicalReplicationSlots c
              else None)\<rparr>)"

definition dbSpecFromClusterSpec :: "cluster_data \<Rightarrow> cluster_spec \<Rightarrow> db \<Rightarrow> db option" where
  "dbSpecFromClusterSpec cd c d = do {
     sp \<leftarrow> copyStandbyConfig c (copyClusterSpec c (db_Spec d));
     Some (d\<lparr>db_Spec := copySlotPolicy c (dbType cd (db_UID d)) sp\<rparr>)
   }"

fun omap_values :: "('v \<Rightarrow> 'v option) \<Rightarrow> ('k, 'v) gomap \<Rightarrow> ('k, 'v) gomap option" where
  "omap_values f [] = Some []"
| "omap_values f ((k, v) # m) = do { v' \<leftarrow> f v; m' \<leftarrow> omap_values f m; Some ((k, v') # m') }"

definition setDBSpecFromClusterSpec :: "cluster_data \<Rightarrow> cluster_data option" where
  "setDBSpecFromClusterSpec cd = do {
     let clusterSpec = DefSpec (cd_Cluster cd);
     ds \<leftarrow> omap_values (dbSpecFromClusterSpec cd clusterSpec) (cd_DBs cd);
     Some (cd\<lparr>cd_DBs := ds\<rparr>)
   }"

text \<open>Healthy keepers without a database, in the order the map is met.\<close>

definition freeKeepers :: "env \<Rightarrow> nat \<Rightarrow> cluster_data \<Rightarrow> keeper list" where
  "freeKeepers e site cd =
     filter (\<lambda>keeper. kst_Healthy (k_Status keeper) \<and>
         \<not> list_ex (\<lambda>d. dbs_KeeperUID (db_Spec d) = k_UID keeper) (mvals (cd_DBs cd)))
       (iter e site (cd_Keepers cd))"

definition upd_status :: "(cluster_status \<Rightarrow> cluster_status) \<Rightarrow> cluster_data \<Rightarrow> cluster_data" where
  "upd_status f cd = cd\<lparr>cd_Cluster := (cd_Cluster cd)\<lparr>cl_Status := f (cl_Status (cd_Cluster cd))\<rparr>\<rparr>"

definition setMaster :: "uid \<Rightarrow> cluster_data \<Rightarrow> cluster_data" where
  "setMaster u = upd_status (\<lambda>st. st\<lparr>cst_Master := u\<rparr>)"

definition upd_dbspec :: "uid \<Rightarrow> (db_spec \<Rightarrow> db_spec) \<Rightarrow> cluster_data \<Rightarrow> cluster_data" where
  "upd_dbspec u f cd = cd\<lparr>cd_DBs := madj u (\<lambda>d. d\<lparr>db_Spec := f (db_Spec d)\<rparr>) (cd_DBs cd)\<rparr>"

text \<open>The transition of an initialized master to the normal phase.\<close>

definition dbInitialized :: "cluster_spec \<Rightarrow> db \<Rightarrow> cluster_data \<Rightarrow> cluster_data" where
  "dbInitialized clusterSpec d newcd =
     (let cd1 = upd_dbspec (db_UID d)
            (\<lambda>sp. sp\<lparr>dbs_InitMode := DBInitModeNone, dbs_IncludeConfig := False\<rparr>) newcd;
          cd2 = (if the (cs_MergePgParameters clusterSpec)
            then cd1\<lparr>cd_Cluster := (cd_Cluster cd1)\<lparr>cl_Spec := (cl_Spec (cd_Cluster cd1))
                   \<lparr>cs_PGParameters := dst_PGParameters (db_Status d)\<rparr>\<rparr>\<rparr>
            else cd1)
      in upd_status (\<lambda>st. st\<lparr>cst_Phase := ClusterPhaseNormal\<rparr>) cd2)"

definition applyInitialDBConvergence ::
  "cluster_spec \<Rightarrow> db \<Rightarrow> convergence_state \<Rightarrow> cluster_data \<Rightarrow> cluster_data" where
  "applyInitialDBConvergence clusterSpec d state newcd =
     (case state of
        Converged \<Rightarrow>
          if dst_Healthy (db_Status d) then dbInitialized clusterSpec d newcd else newcd
      | Converging \<Rightarrow> newcd
      | ConvergenceFailed \<Rightarrow> setMaster [] (newcd\<lparr>cd_DBs := []\<rparr>))"

section \<open>Initializing phase\<close>

text \<open>A database with zero status and zero specification, as a struct literal starts.\<close>

definition zero_db_spec :: db_spec where
  "zero_db_spec = \<lparr>dbs_NewConfig = None, dbs_PITRConfig = None, dbs_PGParameters = None,
     dbs_FollowConfig = None, dbs_KeeperUID = [], dbs_InitMode = DBInitModeOther [],
     dbs_Role = RoleOther [], dbs_BeforeStopCommand = [], dbs_PrePromoteCommand = [],
     dbs_ReplicationTLSMode = ReplicationTLSModeEmpty, dbs_AdditionalReplicationSlots = None,
     dbs_IgnoreReplicationSlots = None, dbs_IgnoreReplicationSlotMatchers = None,
     dbs_ManagedLogicalReplicationSlots = None, dbs_PGHBA = None, dbs_PGIdent = None,
     dbs_Followers = None, dbs_SynchronousStandbys = None,
     dbs_ExternalSynchronousStandbys = None, dbs_RequestTimeout = 0, dbs_MaxStandbys = 0,
     dbs_AdditionalWalSenders = 0, dbs_NoStream = False, dbs_EnableLogicalSlotFailover = False,
     dbs_SynchronousReplication = False, dbs_UsePgrewind = False,
     dbs_CheckpointBeforePgrewind = False, dbs_IncludeConfig = False\<rparr>"

definition zero_db_status :: db_status where
  "zero_db_status = \<lparr>dst_PGParameters = None, dst_OrphanMemberSlots = None,
     dst_ManagedLogicalSlots = None, dst_ListenAddress = [], dst_Port = [], dst_SystemID = [],
     dst_OlderWalFile = [], dst_TimelinesHistory = None, dst_CurSynchronousStandbys = None,
     dst_SynchronousStandbys = None, dst_CurrentGeneration = 0, dst_TimelineID = 0,
     dst_XLogPos = 0, dst_Healthy = False\<rparr>"

definition new_db :: "uid \<Rightarrow> db_spec \<Rightarrow> db" where
  "new_db u sp = \<lparr>db_ChangeTime = 0, db_Spec = sp, db_UID = u, db_Status = zero_db_status,
     db_Generation = InitialGeneration\<rparr>"

definition addDB :: "db \<Rightarrow> cluster_data \<Rightarrow> cluster_data" where
  "addDB d cd = cd\<lparr>cd_DBs := AList.update (db_UID d) d (cd_DBs cd)\<rparr>"

text \<open>The role of the master database and what it follows, from the role of the cluster.\<close>

definition masterRoleConfig :: "cluster_spec \<Rightarrow> (role \<times> follow_config option) option" where
  "masterRoleConfig clusterSpec =
     (if the (cs_Role clusterSpec) = ClusterRoleStandby then do {
        sc \<leftarrow> cs_StandbyConfig clusterSpec;
        Some (RoleStandby, Some \<lparr>fc_StandbySettings = sc_StandbySettings sc,
          fc_ArchiveRecoverySettings = sc_ArchiveRecoverySettings sc,
          fc_Type = FollowTypeExternal, fc_DBUID = []\<rparr>)
      }
      else Some (RoleMaster, None))"

definition missing_master :: "uid \<Rightarrow> go_error" where
  "missing_master u = Errq ''cluster status references missing db %q'' u"

definition initNew ::
  "env \<Rightarrow> cluster_data \<Rightarrow> cluster_spec \<Rightarrow> sentinel \<Rightarrow> (cluster_data res \<times> sentinel) option" where
  "initNew e cd clusterSpec s =
     (let master = cst_Master (cl_Status (cd_Cluster cd)) in
      if master = [] then do {
        k \<leftarrow> findInitialKeeper e cd;
        Some (case k of
            Inl err \<Rightarrow> Inl (Err ''cannot choose initial master'')
          | Inr k \<Rightarrow>
              (let d = new_db (uidFn e 0) (zero_db_spec
                     \<lparr>dbs_KeeperUID := k_UID k, dbs_InitMode := DBInitModeNew,
                      dbs_NewConfig := cs_NewConfig clusterSpec, dbs_Role := RoleMaster,
                      dbs_Followers := Some [],
                      dbs_IncludeConfig := the (cs_MergePgParameters clusterSpec)\<rparr>)
               in Inr (setMaster (db_UID d) (addDB d cd))), s)
      }
      else case map_of (cd_DBs cd) master of
          None \<Rightarrow> Some (Inl (missing_master master), s)
        | Some d \<Rightarrow>
            (let (c, s') = dbConvergenceState (now e) d (the (cs_InitTimeout clusterSpec)) s
             in Some (Inr (applyInitialDBConvergence clusterSpec d c cd), s')))"

definition initExisting ::
  "env \<Rightarrow> cluster_data \<Rightarrow> cluster_spec \<Rightarrow> sentinel \<Rightarrow> (cluster_data res \<times> sentinel) option" where
  "initExisting e cd clusterSpec s =
     (let master = cst_Master (cl_Status (cd_Cluster cd)) in
      if master = [] then do {
        ec \<leftarrow> cs_ExistingConfig clusterSpec;
        Some (case map_of (cd_Keepers cd) (ec_KeeperUID ec) of
            None \<Rightarrow> Inl (Errq ''keeper %q state not available'' (ec_KeeperUID ec))
          | Some k \<Rightarrow>
              (let d = new_db (uidFn e 0) (zero_db_spec
                     \<lparr>dbs_KeeperUID := k_UID k, dbs_InitMode := DBInitModeExisting,
                      dbs_Role := RoleMaster, dbs_Followers := Some [],
                      dbs_IncludeConfig := the (cs_MergePgParameters clusterSpec)\<rparr>)
               in Inr (setMaster (db_UID d) (addDB d cd))), s)
      }
      else case map_of (cd_DBs cd) master of
          None \<Rightarrow> Some (Inl (missing_master master), s)
        | Some d \<Rightarrow>
            if dst_Healthy (db_Status d) then
              (let (c, s') = dbConvergenceState (now e) d (the (cs_ConvergenceTimeout clusterSpec)) s
               in Some (Inr (if c = Converged then dbInitialized clusterSpec d cd else cd), s'))
            else Some (Inr cd, s))"

definition initPITR ::
  "env \<Rightarrow> cluster_data \<Rightarrow> cluster_spec \<Rightarrow> sentinel \<Rightarrow> (cluster_data res \<times> sentinel) option" where
  "initPITR e cd clusterSpec s =
     (let master = cst_Master (cl_Status (cd_Cluster cd)) in
      if master = [] then do {
        k \<leftarrow> findInitialKeeper e cd;
        case k of
          Inl err \<Rightarrow> Some (Inl (Err ''cannot choose initial master''), s)
        | Inr k \<Rightarrow> do {
            (ro, fc) \<leftarrow> masterRoleConfig clusterSpec;
            let d = new_db (uidFn e 0) (zero_db_spec
              \<lparr>dbs_KeeperUID := k_UID k, dbs_InitMode := DBInitModePITR,
               dbs_PITRConfig := cs_PITRConfig clusterSpec, dbs_Role := ro,
               dbs_FollowConfig := fc, dbs_Followers := Some [],
               dbs_IncludeConfig := the (cs_MergePgParameters clusterSpec)\<rparr>);
            Some (Inr (setMaster (db_UID d) (addDB d cd)), s)
          }
      }
      else case map_of (cd_DBs cd) master of
          None \<Rightarrow> Some (Inl (missing_master master), s)
        | Some d \<Rightarrow>
            (let (c, s') = dbConvergenceState (now e) d (the (cs_InitTimeout clusterSpec)) s
             in Some (Inr (applyInitialDBConvergence clusterSpec d c cd), s')))"

definition initializingPhase ::
  "env \<Rightarrow> cluster_data \<Rightarrow> cluster_spec \<Rightarrow> sentinel \<Rightarrow> (cluster_data res \<times> sentinel) option" where
  "initializingPhase e cd clusterSpec s = do {
     m \<leftarrow> cs_InitMode clusterSpec;
     case m of
       ClusterInitModeNew \<Rightarrow> initNew e cd clusterSpec s
     | ClusterInitModeExisting \<Rightarrow> initExisting e cd clusterSpec s
     | ClusterInitModePITR \<Rightarrow> initPITR e cd clusterSpec s
     | ClusterInitModeOther x \<Rightarrow> Some (Inl (Errq ''unknown init mode %s'' x), s)
   }"

end
