(* ===== verification/Operations.thy ===== *)
theory Operations
  imports Store Sentinel_Init
begin

text \<open>
  The operator commands that change the cluster data: \<open>internal/operations/cluster_control.go\<close> and
  \<open>internal/app/app_mutation.go\<close>. A command reads the cluster data, changes its copy and writes it
  back with a compare-and-swap, retrying a bounded number of times when another client wrote in
  between. Each attempt has the instant it reads from the clock and what other clients do to the
  store between its read and its write. Decoding a document and merging a patch into one are
  parameters: they answer with an error, with nil (a document \<open>null\<close>) or with a value. An error that
  the code wraps is its prefix here, without the wrapped cause. The checks of the command line
  configuration and the connection to the store come before and are not modelled.
\<close>

section \<open>Errors\<close>

definition ErrClusterPaused :: go_error where
  "ErrClusterPaused = Err ''cluster is paused; resume first''"

definition ErrNoClusterData :: go_error where
  "ErrNoClusterData = Err ''no cluster data available''"

definition ErrNoMasterDatabase :: go_error where
  "ErrNoMasterDatabase = Err ''no master database available''"

definition ErrNoMasterKeeper :: go_error where
  "ErrNoMasterKeeper = Err ''no master keeper available''"

definition ErrKeeperUIDRequired :: go_error where
  "ErrKeeperUIDRequired = Err ''keeper uid required''"

definition ErrKeeperNotFound :: go_error where
  "ErrKeeperNotFound = Err ''keeper doesn't exist''"

section \<open>Mutations of cluster_control.go\<close>

type_synonym mutation = "time \<Rightarrow> cluster_data \<Rightarrow> cluster_data res"

definition pauseMutation :: "string \<Rightarrow> duration \<Rightarrow> mutation" where
  "pauseMutation reason ttl t cd = Inr (upd_status (\<lambda>st. st
     \<lparr>cst_Paused := True, cst_PauseReason := TrimSpace reason,
      cst_PauseUntil := (if ttl > 0 then Some (t + ttl) else None)\<rparr>) cd)"

definition resumeMutation :: mutation where
  "resumeMutation t cd = Inr (upd_status (\<lambda>st. st
     \<lparr>cst_Paused := False, cst_PauseReason := [], cst_PauseUntil := None\<rparr>) cd)"

definition switchMutation :: "uid \<Rightarrow> manual_switch_mode \<Rightarrow> mutation" where
  "switchMutation targetKeeperUID mode t cd =
     (case map_of (cd_Keepers cd) targetKeeperUID of
        None \<Rightarrow> Inl (Err ''target keeper not found'')
      | Some _ \<Rightarrow> Inr (upd_status (\<lambda>st. st\<lparr>cst_ManualSwitch :=
          Some \<lparr>msr_TargetKeeperUID = targetKeeperUID, msr_Mode = mode\<rparr>\<rparr>) cd))"

definition resyncSpec :: "uid \<Rightarrow> db_spec \<Rightarrow> db_spec" where
  "resyncSpec master sp = sp
     \<lparr>dbs_InitMode := DBInitModeResync, dbs_Role := RoleStandby,
      dbs_FollowConfig := Some \<lparr>fc_StandbySettings = None, fc_ArchiveRecoverySettings = None,
        fc_Type = FollowTypeInternal, fc_DBUID = master\<rparr>\<rparr>"

definition reinitMutation :: "uid \<Rightarrow> mutation" where
  "reinitMutation targetKeeperUID t cd =
     (case map_of (cd_Keepers cd) targetKeeperUID of
        None \<Rightarrow> Inl ErrKeeperNotFound
      | Some targetKeeper \<Rightarrow>
          (case FindDB cd targetKeeper of
             None \<Rightarrow> Inl (Err ''target keeper has no assigned database'')
           | Some targetDB \<Rightarrow>
               (let master = cst_Master (cl_Status (cd_Cluster cd)) in
                if db_UID targetDB = master
                then Inl (Err ''cannot reinitialize current master database'')
                else Inr (upd_status (\<lambda>st. st\<lparr>cst_ManualSwitch := None\<rparr>)
                  (upd_dbspec (db_UID targetDB) (resyncSpec master) cd)))))"

section \<open>The retry loop\<close>

definition clusterMutateRetries :: nat where
  "clusterMutateRetries = 3"

fun mutateLoop ::
  "'w client \<Rightarrow> string \<Rightarrow> bool \<Rightarrow> mutation \<Rightarrow> (time \<times> ('w \<Rightarrow> 'w)) list \<Rightarrow> 'w \<Rightarrow> unit res \<times> 'w" where
  "mutateLoop c path rejectWhenPaused mutate [] w =
     (Inl (Err ''failed to update cluster data after 3 retries''), w)"
| "mutateLoop c path rejectWhenPaused mutate ((t, others) # attempts) w =
     (case GetClusterData c path w of
        Inl err \<Rightarrow> (Inl err, w)
      | Inr (Some cd, Some pair) \<Rightarrow>
          if rejectWhenPaused \<and> PauseActive (cl_Status (cd_Cluster cd)) t
          then (Inl ErrClusterPaused, w)
          else (case mutate t cd of
             Inl err \<Rightarrow> (Inl err, w)
           | Inr nextcd \<Rightarrow>
               (case AtomicPutClusterData c path nextcd (Some pair) (others w) of
                  (Inl err, w') \<Rightarrow>
                    if err = ErrKeyModified
                    then mutateLoop c path rejectWhenPaused mutate attempts w'
                    else (Inl err, w')
                | (Inr _, w') \<Rightarrow> (Inr (), w')))
      | Inr _ \<Rightarrow> (Inl ErrNoClusterData, w))"

definition mutateClusterData ::
  "'w client \<Rightarrow> string \<Rightarrow> bool \<Rightarrow> mutation \<Rightarrow> (nat \<Rightarrow> time \<times> ('w \<Rightarrow> 'w)) \<Rightarrow> 'w \<Rightarrow> unit res \<times> 'w" where
  "mutateClusterData c path rejectWhenPaused mutate attempt w =
     mutateLoop c path rejectWhenPaused mutate (map attempt [0..<clusterMutateRetries]) w"

definition PauseCluster where
  "PauseCluster c path reason ttl attempt w =
     (if ttl < 0 then (Inl (Err ''pause ttl must be >= 0''), w)
      else mutateClusterData c path False (pauseMutation reason ttl) attempt w)"

definition ResumeCluster where
  "ResumeCluster c path attempt w = mutateClusterData c path False resumeMutation attempt w"

definition RequestManualSwitch where
  "RequestManualSwitch c path targetKeeperUID mode attempt w =
     (let target = TrimSpace targetKeeperUID in
      if target = [] then (Inl (Err ''target keeper uid required''), w)
      else mutateClusterData c path True (switchMutation target mode) attempt w)"

definition ReinitializeReplica where
  "ReinitializeReplica c path targetKeeperUID attempt w =
     (let target = TrimSpace targetKeeperUID in
      if target = [] then (Inl ErrKeeperUIDRequired, w)
      else mutateClusterData c path True (reinitMutation target) attempt w)"

section \<open>Changes of app_mutation.go\<close>

text \<open>
  Each change returns the new cluster data, or nothing to write; an outer \<open>None\<close> is a nil
  dereference.
\<close>

definition checkDocument :: "cluster_data \<Rightarrow> cluster_data res" where
  "checkDocument cd =
     (if cd_FormatVersion cd \<noteq> CurrentCDFormatVersion
      then Inl (Err ''unsupported cluster data format version'')
      else case Validate (cl_Spec (cd_Cluster cd)) of
          Inl err \<Rightarrow> Inl (Err ''cluster data validation failed'')
        | Inr _ \<Rightarrow> Inr cd)"

definition validatedClusterData ::
  "'w client \<Rightarrow> string \<Rightarrow> 'w \<Rightarrow> (cluster_data \<times> document kv_pair) res" where
  "validatedClusterData c path w =
     (case GetClusterData c path w of
        Inl err \<Rightarrow> Inl err
      | Inr (None, _) \<Rightarrow> Inl ErrNoClusterData
      | Inr (Some cd, pair) \<Rightarrow>
          (case checkDocument cd of
             Inl err \<Rightarrow> Inl err
           | Inr _ \<Rightarrow> (case pair of None \<Rightarrow> Inl ErrNoClusterData | Some p \<Rightarrow> Inr (cd, p))))"

definition ensureClusterNotPaused :: "time \<Rightarrow> cluster_data \<Rightarrow> unit res" where
  "ensureClusterNotPaused t cd = guard (PauseActive (cl_Status (cd_Cluster cd)) t) ErrClusterPaused"

type_synonym change = "cluster_data \<Rightarrow> cluster_data option res option"

definition promoteChange :: change where
  "promoteChange cd =
     (if cs_Role (DefSpec (cd_Cluster cd)) = Some ClusterRoleMaster then Some (Inr None)
      else do {
        let spec = (cl_Spec (cd_Cluster cd))\<lparr>cs_Role := Some ClusterRoleMaster\<rparr>;
        r \<leftarrow> UpdateSpec ((cd_Cluster cd)\<lparr>cl_Spec := spec\<rparr>) spec;
        Some (case r of
            Inl err \<Rightarrow> Inl (Err ''cannot update cluster spec'')
          | Inr cl \<Rightarrow> Inr (Some (cd\<lparr>cd_Cluster := cl\<rparr>)))
      })"

definition updateSpecChange :: "(cluster_spec \<Rightarrow> cluster_spec option res) \<Rightarrow> string \<Rightarrow> change" where
  "updateSpecChange next failure cd =
     (case next (cl_Spec (cd_Cluster cd)) of
        Inl err \<Rightarrow> Some (Inl (Err failure))
      | Inr None \<Rightarrow> None
      | Inr (Some nextSpec) \<Rightarrow> do {
          r \<leftarrow> UpdateSpec (cd_Cluster cd) nextSpec;
          Some (case r of
              Inl err \<Rightarrow> Inl (Err ''cannot update cluster spec'')
            | Inr cl \<Rightarrow> Inr (Some (cd\<lparr>cd_Cluster := cl\<rparr>)))
        })"

definition patchChange :: "(cluster_data \<Rightarrow> cluster_data option res) \<Rightarrow> change" where
  "patchChange merge cd = Some
     (case merge cd of
        Inl err \<Rightarrow> Inl err
      | Inr None \<Rightarrow> Inl ErrNoClusterData
      | Inr (Some patched) \<Rightarrow>
          (case checkDocument patched of Inl err \<Rightarrow> Inl err | Inr cd' \<Rightarrow> Inr (Some cd')))"

definition removeKeeperChange :: "uid \<Rightarrow> change" where
  "removeKeeperChange keeperUID cd = Some
     (case map_of (cd_Keepers cd) keeperUID of
        None \<Rightarrow> Inl ErrKeeperNotFound
      | Some keeper \<Rightarrow>
          (case FindDB cd keeper of
             None \<Rightarrow> Inr (Some (cd\<lparr>cd_Keepers := AList.delete keeperUID (cd_Keepers cd)\<rparr>))
           | Some d \<Rightarrow>
               if cst_Master (cl_Status (cd_Cluster cd)) = db_UID d
               then Inl (Err ''keeper assigned db is the current cluster master db'')
               else Inr (Some (cd\<lparr>cd_Keepers := AList.delete keeperUID (cd_Keepers cd),
                                 cd_DBs := AList.delete (db_UID d) (cd_DBs cd)\<rparr>))))"

definition forceFail :: "uid \<Rightarrow> cluster_data \<Rightarrow> cluster_data" where
  "forceFail keeperUID cd = cd\<lparr>cd_Keepers := madj keeperUID
     (\<lambda>k. k\<lparr>k_Status := (k_Status k)\<lparr>kst_ForceFail := True\<rparr>\<rparr>) (cd_Keepers cd)\<rparr>"

definition failKeeperChange :: "uid \<Rightarrow> change" where
  "failKeeperChange keeperUID cd = Some
     (case map_of (cd_Keepers cd) keeperUID of
        None \<Rightarrow> Inl ErrKeeperNotFound
      | Some _ \<Rightarrow> Inr (Some (forceFail keeperUID cd)))"

definition forceFailoverChange :: change where
  "forceFailoverChange cd = Some
     (let master = cst_Master (cl_Status (cd_Cluster cd)) in
      if master = [] then Inl ErrNoMasterDatabase
      else case map_of (cd_DBs cd) master of
          None \<Rightarrow> Inl ErrNoMasterDatabase
        | Some d \<Rightarrow>
            if dbs_KeeperUID (db_Spec d) = [] then Inl ErrNoMasterKeeper
            else (case map_of (cd_Keepers cd) (dbs_KeeperUID (db_Spec d)) of
               None \<Rightarrow> Inl ErrNoMasterKeeper
             | Some _ \<Rightarrow> Inr (Some (forceFail (dbs_KeeperUID (db_Spec d)) cd))))"

text \<open>
  The loop around a change. With \<open>retry\<close> a conflict starts the next attempt, otherwise it is
  returned like every other error of the write.
\<close>

fun changeLoop ::
  "'w client \<Rightarrow> string \<Rightarrow> bool \<Rightarrow> change \<Rightarrow> (time \<times> ('w \<Rightarrow> 'w)) list \<Rightarrow> 'w \<Rightarrow>
     (unit res \<times> 'w) option" where
  "changeLoop c path retry change [] w =
     Some (Inl (Err ''failed to update cluster data after 3 retries''), w)"
| "changeLoop c path retry change ((t, others) # attempts) w =
     (case validatedClusterData c path w of
        Inl err \<Rightarrow> Some (Inl err, w)
      | Inr (cd, pair) \<Rightarrow>
          (case ensureClusterNotPaused t cd of
             Inl err \<Rightarrow> Some (Inl err, w)
           | Inr _ \<Rightarrow>
               (case change cd of
                  None \<Rightarrow> None
                | Some (Inl err) \<Rightarrow> Some (Inl err, w)
                | Some (Inr None) \<Rightarrow> Some (Inr (), w)
                | Some (Inr (Some nextcd)) \<Rightarrow>
                    (case AtomicPutClusterData c path nextcd (Some pair) (others w) of
                       (Inl err, w') \<Rightarrow>
                         if retry \<and> err = ErrKeyModified
                         then changeLoop c path retry change attempts w'
                         else Some (Inl (Err ''cannot update cluster data''), w')
                     | (Inr _, w') \<Rightarrow> Some (Inr (), w')))))"

definition clusterDataMutateRetries :: nat where
  "clusterDataMutateRetries = 3"

definition retrying where
  "retrying c path change attempt w =
     changeLoop c path True change (map attempt [0..<clusterDataMutateRetries]) w"

definition PromoteCluster where
  "PromoteCluster c path attempt w = retrying c path promoteChange attempt w"

definition UpdateClusterSpecification where
  "UpdateClusterSpecification c path decode merge specData patch attempt w =
     (if specData = [] then Some (Inl (Err ''cluster specification data required''), w)
      else if patch
      then retrying c path
             (updateSpecChange (\<lambda>spec. merge spec specData) ''failed to patch cluster spec'') attempt w
      else retrying c path
             (updateSpecChange (\<lambda>_. decode specData) ''failed to unmarshal cluster spec'') attempt w)"

definition PatchClusterData where
  "PatchClusterData c path merge patchData attempt w =
     (if patchData = [] then Some (Inl (Err ''patch data required''), w)
      else retrying c path (patchChange (\<lambda>cd. merge cd patchData)) attempt w)"

definition ForceFailover where
  "ForceFailover c path attempt w = retrying c path forceFailoverChange attempt w"

definition RemoveKeeper where
  "RemoveKeeper c path keeperUID attempt w =
     (if keeperUID = [] then Some (Inl ErrKeeperUIDRequired, w)
      else changeLoop c path False (removeKeeperChange keeperUID) [attempt] w)"

definition FailKeeper where
  "FailKeeper c path keeperUID attempt w =
     (if keeperUID = [] then Some (Inl ErrKeeperUIDRequired, w)
      else changeLoop c path False (failKeeperChange keeperUID) [attempt] w)"

section \<open>Initialization and overwriting\<close>

text \<open>
  Both commands put a document unconditionally, after the same checks of the one it replaces. The
  document is built after these checks; building it may dereference nil.
\<close>

definition overwrite ::
  "'w client \<Rightarrow> string \<Rightarrow> time \<Rightarrow> bool \<Rightarrow> bool \<Rightarrow> cluster_data res option \<Rightarrow> 'w \<Rightarrow>
     (unit res \<times> 'w) option" where
  "overwrite c path t force skipIfPresent newData w =
     (case GetClusterData c path w of
        Inl err \<Rightarrow> Some (Inl err, w)
      | Inr (existing, _) \<Rightarrow>
          (case (case existing of None \<Rightarrow> Inr () | Some old \<Rightarrow> ensureClusterNotPaused t old) of
             Inl err \<Rightarrow> Some (Inl err, w)
           | Inr _ \<Rightarrow>
               if existing \<noteq> None \<and> skipIfPresent then Some (Inr (), w)
               else if existing \<noteq> None \<and> \<not> force
               then Some (Inl (Err ''cluster data already available: pass --yes to overwrite''), w)
               else (case newData of
                  None \<Rightarrow> None
                | Some (Inl err) \<Rightarrow> Some (Inl err, w)
                | Some (Inr cd) \<Rightarrow>
                    (case PutClusterData c path cd w of
                       (Inl err, w') \<Rightarrow> Some (Inl (Err ''cannot update cluster data''), w')
                     | (Inr _, w') \<Rightarrow> Some (Inr (), w')))))"

definition parseInitClusterSpec ::
  "(string \<Rightarrow> cluster_spec option res) \<Rightarrow> string \<Rightarrow> cluster_spec option res" where
  "parseInitClusterSpec decode specData =
     (if specData = [] then Inr (Some (zero_cluster_spec\<lparr>cs_InitMode := Some ClusterInitModeNew\<rparr>))
      else case decode specData of
          Inl err \<Rightarrow> Inl (Err ''failed to unmarshal cluster spec'')
        | Inr spec \<Rightarrow> Inr spec)"

definition initialClusterData :: "time \<Rightarrow> uid \<Rightarrow> cluster_spec option res \<Rightarrow> cluster_data res option" where
  "initialClusterData t u parsed =
     (case parsed of
        Inl err \<Rightarrow> Some (Inl err)
      | Inr None \<Rightarrow> None
      | Inr (Some spec) \<Rightarrow>
          (case Validate spec of
             Inl err \<Rightarrow> Some (Inl (Err ''invalid cluster spec''))
           | Inr _ \<Rightarrow> Some (Inr (NewClusterData (NewCluster t u spec)))))"

definition InitializeCluster where
  "InitializeCluster c path decode t u specData force skipIfPresent w =
     overwrite c path t force skipIfPresent
       (initialClusterData t u (parseInitClusterSpec decode specData)) w"

definition writtenClusterData :: "cluster_data option res \<Rightarrow> cluster_data res" where
  "writtenClusterData parsed =
     (case parsed of
        Inl err \<Rightarrow> Inl (Err ''invalid cluster data'')
      | Inr None \<Rightarrow> Inl ErrNoClusterData
      | Inr (Some cd) \<Rightarrow> checkDocument
          (if cd_FormatVersion cd = 0 then cd\<lparr>cd_FormatVersion := CurrentCDFormatVersion\<rparr> else cd))"

definition WriteClusterData where
  "WriteClusterData c path decode t data force w =
     overwrite c path t force False (Some (writtenClusterData (decode data))) w"

end
