(* ===== verification/Sentinel_State.thy ===== *)
theory Sentinel_State
  imports Sentinel_Health
begin

text \<open>
  Merging of the published keeper and proxy state into the cluster data
  (\<open>internal/runtime/sentinel/state.go\<close>).
\<close>

section \<open>Keeper infos\<close>

definition dropForeignKeepers :: "uid \<Rightarrow> keepers_info \<Rightarrow> keepers_info" where
  "dropForeignKeepers clusterUID keepersInfo =
     fold (\<lambda>ki. AList.delete (ki_UID ki))
       (filter (\<lambda>ki. ki_ClusterUID ki \<noteq> clusterUID) (mvals keepersInfo)) keepersInfo"

text \<open>The first run only records the infos, as not seen.\<close>

definition recordKeepersInfo :: "keepers_info \<Rightarrow> keeper_info_histories \<Rightarrow> keeper_info_histories" where
  "recordKeepersInfo keepersInfo kihs =
     fold (\<lambda>(u, ki). AList.update u \<lparr>kih_Timer = 0, kih_KeeperInfo = ki, kih_Seen = False\<rparr>)
       keepersInfo kihs"

text \<open>
  An info is stale when its identifier is the one of the history and it was not seen since the
  first run, or it was last updated more than a sleep interval ago.
\<close>

definition staleKeeperInfo ::
  "time \<Rightarrow> duration \<Rightarrow> keeper_info_histories \<Rightarrow> uid \<times> keeper_info \<Rightarrow> bool" where
  "staleKeeperInfo t sleepInterval kihs uki =
     (case uki of (u, ki) \<Rightarrow>
        (case map_of kihs u of
           None \<Rightarrow> False
         | Some kih \<Rightarrow>
             ki_InfoUID (kih_KeeperInfo kih) = ki_InfoUID ki \<and>
             (if \<not> kih_Seen kih then True else time_sub t (kih_Timer kih) > sleepInterval)))"

definition updateKeeperHistory ::
  "time \<Rightarrow> uid \<times> keeper_info \<Rightarrow> keeper_info_histories \<Rightarrow> keeper_info_histories" where
  "updateKeeperHistory t uki kihs =
     (case uki of (u, ki) \<Rightarrow>
        (let h = \<lparr>kih_Timer = t, kih_KeeperInfo = ki, kih_Seen = True\<rparr> in
         case map_of kihs u of
           None \<Rightarrow> AList.update u h kihs
         | Some kih \<Rightarrow>
             if ki_InfoUID (kih_KeeperInfo kih) \<noteq> ki_InfoUID ki then AList.update u h kihs
             else kihs))"

text \<open>
  Every key is met once and its entry is read before it is written, so staleness is read from
  the histories at the start of the loop.
\<close>

definition keepUpdatedKeepers ::
  "time \<Rightarrow> duration \<Rightarrow> keepers_info \<Rightarrow> keeper_info_histories \<Rightarrow>
     keepers_info \<times> keeper_info_histories" where
  "keepUpdatedKeepers t sleepInterval keepersInfo kihs =
     (fold (\<lambda>(u, ki). AList.delete (ki_UID ki))
        (filter (staleKeeperInfo t sleepInterval kihs) keepersInfo) keepersInfo,
      fold (updateKeeperHistory t) keepersInfo kihs)"

section \<open>Keepers\<close>

definition addNewKeepers :: "time \<Rightarrow> keepers_info \<Rightarrow> keepers \<Rightarrow> keepers" where
  "addNewKeepers t keepersInfo ks =
     fold (\<lambda>(u, ki) ks. case map_of ks u of
         Some _ \<Rightarrow> ks
       | None \<Rightarrow> (let k = NewKeeperFromKeeperInfo t ki in AList.update (k_UID k) k ks))
       keepersInfo ks"

text \<open>The loops that copy the published options and the boot and version information.\<close>

definition copyKeeperInfo :: "keepers_info \<Rightarrow> uid \<times> keeper \<Rightarrow> uid \<times> keeper" where
  "copyKeeperInfo keepersInfo uk =
     (case uk of (u, k) \<Rightarrow> (u, case map_of keepersInfo u of
        None \<Rightarrow> k
      | Some ki \<Rightarrow> k\<lparr>k_Status := (k_Status k)
          \<lparr>kst_CanBeMaster := ki_CanBeMaster ki,
           kst_CanBeSynchronousReplica := ki_CanBeSynchronousReplica ki,
           kst_MasterPriority := ki_MasterPriority ki,
           kst_Hostname := ki_Hostname ki, kst_NodeName := ki_NodeName ki,
           kst_BootUUID := ki_BootUUID ki,
           kst_PostgresBinaryVersion := ki_PostgresBinaryVersion ki\<rparr>\<rparr>))"

definition markKeeperErrors :: "time \<Rightarrow> keepers_info \<Rightarrow> keepers \<Rightarrow> sentinel \<Rightarrow> sentinel" where
  "markKeeperErrors t keepersInfo ks s =
     fold (\<lambda>u s. if map_of keepersInfo u = None then SetKeeperError t u s
                 else CleanKeeperError u s) (mkeys ks) s"

text \<open>The health of one keeper, with the updates of the sentinel state.\<close>

definition keeperIsHealthy :: "time \<Rightarrow> sentinel \<Rightarrow> cluster_data \<Rightarrow> keeper \<Rightarrow> bool" where
  "keeperIsHealthy t s cd k \<longleftrightarrow> isKeeperHealthy t s cd k \<and> \<not> kst_ForceFail (k_Status k)"

definition updateKeeperHealth :: "time \<Rightarrow> sentinel \<Rightarrow> cluster_data \<Rightarrow> keeper \<Rightarrow> keeper" where
  "updateKeeperHealth t s cd k =
     (let healthy = keeperIsHealthy t s cd k in
      k\<lparr>k_Status := (k_Status k)
        \<lparr>kst_ForceFail := False,
         kst_LastHealthyTime :=
           (if healthy \<or> kst_LastHealthyTime (k_Status k) = 0 then t
            else kst_LastHealthyTime (k_Status k)),
         kst_Healthy := healthy\<rparr>\<rparr>)"

definition trackHealthySince :: "time \<Rightarrow> sentinel \<Rightarrow> cluster_data \<Rightarrow> keeper \<Rightarrow> (uid \<rightharpoonup> time) \<Rightarrow> (uid \<rightharpoonup> time)" where
  "trackHealthySince t s cd k since =
     (let healthy = keeperIsHealthy t s cd k; wasHealthy = kst_Healthy (k_Status k) in
      if healthy \<and> \<not> wasHealthy then since(k_UID k \<mapsto> t)
      else if healthy \<and> wasHealthy then
        (if since (k_UID k) = None then since(k_UID k \<mapsto> t) else since)
      else since(k_UID k := None))"

definition updateKeepersHealth :: "time \<Rightarrow> cluster_data \<Rightarrow> sentinel \<Rightarrow> cluster_data \<times> sentinel" where
  "updateKeepersHealth t cd s =
     (cd\<lparr>cd_Keepers := mmap (updateKeeperHealth t s cd) (cd_Keepers cd)\<rparr>,
      s\<lparr>s_keeperHealthySince :=
          fold (trackHealthySince t s cd) (mvals (cd_Keepers cd)) (s_keeperHealthySince s),
        s_forceFailedKeeperUIDs :=
          map k_UID (filter (\<lambda>k. kst_ForceFail (k_Status k)) (mvals (cd_Keepers cd)))\<rparr>)"

section \<open>Databases\<close>

definition observeXLogPos :: "time \<Rightarrow> db \<Rightarrow> postgres_state \<Rightarrow> sentinel \<Rightarrow> sentinel" where
  "observeXLogPos t d pg s =
     (if dst_XLogPos (db_Status d) = pgs_XLogPos pg then SetDBNotIncreasingXLogPos (db_UID d) s
      else
        (let s' = CleanDBNotIncreasingXLogPos (db_UID d) s in
         s'\<lparr>s_dbIncreasingXLogPosObservedAt :=
              (s_dbIncreasingXLogPosObservedAt s')(db_UID d \<mapsto> t)\<rparr>))"

definition copyDBState :: "postgres_state \<Rightarrow> db \<Rightarrow> db" where
  "copyDBState pg d =
     (let st = (db_Status d)\<lparr>dst_ListenAddress := pgs_ListenAddress pg, dst_Port := pgs_Port pg,
            dst_CurrentGeneration := pgs_Generation pg\<rparr>
      in d\<lparr>db_Status :=
        (if pgs_Healthy pg then st
           \<lparr>dst_SystemID := pgs_SystemID pg, dst_TimelineID := pgs_TimelineID pg,
            dst_XLogPos := pgs_XLogPos pg, dst_TimelinesHistory := pgs_TimelinesHistory pg,
            dst_PGParameters := pgs_PGParameters pg,
            dst_ManagedLogicalSlots := pgs_ManagedLogicalSlots pg,
            dst_CurSynchronousStandbys := pgs_SynchronousStandbys pg,
            dst_OlderWalFile := pgs_OlderWalFile pg\<rparr>
         else st)\<rparr>)"

text \<open>The state published for a database by its keeper, if it is about that database.\<close>

definition publishedState :: "keepers_info \<Rightarrow> db \<Rightarrow> postgres_state option" where
  "publishedState keepersInfo d = do {
     k \<leftarrow> map_of keepersInfo (dbs_KeeperUID (db_Spec d));
     pg \<leftarrow> ki_PostgresState k;
     if pgs_UID pg \<noteq> db_UID d then None else Some pg
   }"

definition updateDBState ::
  "time \<Rightarrow> keepers_info \<Rightarrow> db \<Rightarrow> sentinel \<Rightarrow> sentinel" where
  "updateDBState t keepersInfo d s =
     (case publishedState keepersInfo d of
        None \<Rightarrow> SetDBError t (db_UID d) s
      | Some pg \<Rightarrow>
          (let s1 = observeXLogPos t d pg s in
           if pgs_Healthy pg then CleanDBError (db_UID d) s1 else SetDBError t (db_UID d) s1))"

definition mergeDBState :: "keepers_info \<Rightarrow> db \<Rightarrow> db" where
  "mergeDBState keepersInfo d =
     (case publishedState keepersInfo d of None \<Rightarrow> d | Some pg \<Rightarrow> copyDBState pg d)"

definition updateDBHealth :: "time \<Rightarrow> sentinel \<Rightarrow> cluster_data \<Rightarrow> uid \<times> db \<Rightarrow> (uid \<times> db) option" where
  "updateDBHealth t s cd ud =
     (case ud of (u, d) \<Rightarrow> do {
        keeper \<leftarrow> map_of (cd_Keepers cd) (dbs_KeeperUID (db_Spec d));
        Some (u, d\<lparr>db_Status := (db_Status d)
          \<lparr>dst_Healthy := (isDBHealthy t s cd d \<and> kst_Healthy (k_Status keeper))\<rparr>\<rparr>)
      })"

section \<open>updateKeepersStatus\<close>

fun otraverse :: "('a \<Rightarrow> 'b option) \<Rightarrow> 'a list \<Rightarrow> 'b list option" where
  "otraverse f [] = Some []"
| "otraverse f (x # xs) = do { y \<leftarrow> f x; ys \<leftarrow> otraverse f xs; Some (y # ys) }"

definition updateKeepersStatus ::
  "time \<Rightarrow> cluster_data \<Rightarrow> keepers_info \<Rightarrow> bool \<Rightarrow> sentinel \<Rightarrow>
     (cluster_data \<times> keeper_info_histories \<times> sentinel) option" where
  "updateKeepersStatus t cd keepersInfo firstRun s = do {
     let kihs = s_keeperInfoHistories s;
     let ki1 = dropForeignKeepers (cl_UID (cd_Cluster cd)) keepersInfo;
     if firstRun then Some (cd, recordKeepersInfo ki1 kihs, s)
     else do {
       let (ki2, kihs') = keepUpdatedKeepers t (s_sleepInterval s) ki1 kihs;
       let cd1 = cd\<lparr>cd_Keepers := map (copyKeeperInfo ki2) (addNewKeepers t ki2 (cd_Keepers cd))\<rparr>;
       let s1 = markKeeperErrors t ki2 (cd_Keepers cd1) s;
       let (cd2, s2) = updateKeepersHealth t cd1 s1;
       let s3 = fold (updateDBState t ki2) (mvals (cd_DBs cd2)) s2;
       let cd3 = cd2\<lparr>cd_DBs := mmap (mergeDBState ki2) (cd_DBs cd2)\<rparr>;
       ds \<leftarrow> otraverse (updateDBHealth t s3 cd3) (cd_DBs cd3);
       Some (cd3\<lparr>cd_DBs := ds\<rparr>, kihs', s3)
     }
   }"

section \<open>Proxies\<close>

definition activeProxiesInfos :: "time \<Rightarrow> proxies_info \<Rightarrow> sentinel \<Rightarrow> proxies_info \<times> sentinel" where
  "activeProxiesInfos t proxiesInfo s =
     (let pihs = filter (\<lambda>(u, _). u \<in> set (mkeys proxiesInfo)) (s_proxyInfoHistories s);
          expired = filter (\<lambda>pi. case map_of pihs (pi_UID pi) of
              None \<Rightarrow> False
            | Some pih \<Rightarrow> pi_InfoUID (pih_ProxyInfo pih) = pi_InfoUID pi \<and>
                time_sub t (pih_Timer pih) > i64 (2 * pi_ProxyTimeout pi)) (mvals proxiesInfo);
          pihs' = fold (\<lambda>pi h. case map_of h (pi_UID pi) of
              Some pih \<Rightarrow>
                if pi_InfoUID (pih_ProxyInfo pih) = pi_InfoUID pi then h
                else AList.update (pi_UID pi) \<lparr>pih_ProxyInfo = pi, pih_Timer = t\<rparr> h
            | None \<Rightarrow> AList.update (pi_UID pi) \<lparr>pih_ProxyInfo = pi, pih_Timer = t\<rparr> h)
            (mvals proxiesInfo) pihs
      in (fold (\<lambda>pi. AList.delete (pi_UID pi)) expired proxiesInfo,
          s\<lparr>s_proxyInfoHistories := pihs'\<rparr>))"

section \<open>Change times\<close>

definition updateChangeTimes :: "time \<Rightarrow> cluster_data \<Rightarrow> cluster_data \<Rightarrow> cluster_data" where
  "updateChangeTimes t cd newcd = newcd
     \<lparr>cd_ChangeTime := t,
      cd_Cluster := (if cd_Cluster newcd \<noteq> cd_Cluster cd
        then (cd_Cluster newcd)\<lparr>cl_ChangeTime := t\<rparr> else cd_Cluster newcd),
      cd_DBs := map (\<lambda>(u, d). (u, if map_of (cd_DBs cd) u \<noteq> Some d
        then d\<lparr>db_ChangeTime := t\<rparr> else d)) (cd_DBs newcd),
      cd_Keepers := map (\<lambda>(u, k). (u, if map_of (cd_Keepers cd) u \<noteq> Some k
        then k\<lparr>k_ChangeTime := t\<rparr> else k)) (cd_Keepers newcd),
      cd_Proxy := (if cd_Proxy newcd \<noteq> cd_Proxy cd
        then (cd_Proxy newcd)\<lparr>px_ChangeTime := t\<rparr> else cd_Proxy newcd)\<rparr>"

end
