(* ===== verification/Samples.thy ===== *)
theory Samples
  imports Sentinel_Init
begin

text \<open>
  Concrete cluster data for the instances of the theorems: a cluster of three keepers with one
  database each, the first one the master.
\<close>

definition new_spec :: cluster_spec where
  "new_spec = zero_cluster_spec\<lparr>cs_InitMode := Some ClusterInitModeNew\<rparr>"

definition sync_spec :: cluster_spec where
  "sync_spec = new_spec\<lparr>cs_SynchronousReplication := Some True\<rparr>"

definition sample_env :: env where
  "sample_env = \<lparr>now = 1000 * second, uidFn = (\<lambda>i. ''new'' @ replicate i CHR ''x''),
     randFn = (\<lambda>n. 0), rng = (\<lambda>i ks. ks)\<rparr>"

definition sample_sentinel :: sentinel where
  "sample_sentinel = \<lparr>s_initialClusterSpec = None, s_keeperErrorTimers = Map.empty,
     s_dbErrorTimers = Map.empty, s_dbNotIncreasingXLogPos = Map.empty,
     s_dbIncreasingXLogPosObservedAt = Map.empty, s_keeperHealthySince = Map.empty,
     s_autoFailbackLastSwitchAt = 0, s_dbConvergenceInfos = Map.empty,
     s_leaderRaceBackoffTimers = Map.empty, s_forceFailedKeeperUIDs = [],
     s_keeperInfoHistories = [], s_proxyInfoHistories = [], s_uid = ''s1'',
     s_lastLeadershipCount = 1, s_leadershipCount = 1, s_sleepInterval = 5 * second,
     s_requestTimeout = 10 * second, s_leader = True, s_dcsDegradedSeen = False,
     s_lastCheckSuccessUnixNano = 0\<rparr>"

definition sample_keeper :: "uid \<Rightarrow> keeper" where
  "sample_keeper u = \<lparr>k_ChangeTime = 0, k_UID = u,
     k_Status = \<lparr>kst_LastHealthyTime = 1000 * second, kst_CanBeMaster = None,
       kst_CanBeSynchronousReplica = None, kst_BootUUID = [], kst_Hostname = [],
       kst_NodeName = [], kst_PostgresBinaryVersion = \<lparr>bv_Maj = 17, bv_Min = 0\<rparr>,
       kst_MasterPriority = 0, kst_Healthy = True, kst_ForceFail = False\<rparr>,
     k_Generation = 1\<rparr>"

text \<open>A converged, healthy database on timeline 1.\<close>

definition sample_status :: "u64 \<Rightarrow> db_status" where
  "sample_status pos = zero_db_status\<lparr>dst_Healthy := True, dst_CurrentGeneration := 2,
     dst_TimelineID := 1, dst_XLogPos := pos, dst_SystemID := ''sys''\<rparr>"

definition sample_master :: "uid \<Rightarrow> uid \<Rightarrow> u64 \<Rightarrow> db" where
  "sample_master u k pos = \<lparr>db_ChangeTime = 0, db_Spec = zero_db_spec
       \<lparr>dbs_KeeperUID := k, dbs_InitMode := DBInitModeNone, dbs_Role := RoleMaster,
        dbs_Followers := Some []\<rparr>, db_UID = u, db_Status = sample_status pos,
     db_Generation = 2\<rparr>"

definition sample_standby :: "uid \<Rightarrow> uid \<Rightarrow> uid \<Rightarrow> u64 \<Rightarrow> db" where
  "sample_standby u k m pos = \<lparr>db_ChangeTime = 0, db_Spec = zero_db_spec
       \<lparr>dbs_KeeperUID := k, dbs_InitMode := DBInitModeNone, dbs_Role := RoleStandby,
        dbs_Followers := Some [],
        dbs_FollowConfig := Some \<lparr>fc_StandbySettings = None, fc_ArchiveRecoverySettings = None,
          fc_Type = FollowTypeInternal, fc_DBUID = m\<rparr>\<rparr>, db_UID = u,
     db_Status = sample_status pos, db_Generation = 2\<rparr>"

definition sample_cd :: "cluster_spec \<Rightarrow> dbs \<Rightarrow> cluster_data" where
  "sample_cd spec ds = (NewClusterData (NewCluster 0 ''c'' spec))
     \<lparr>cd_Cluster := (NewCluster 0 ''c'' spec)\<lparr>cl_Status :=
        (cl_Status (NewCluster 0 ''c'' spec))\<lparr>cst_Phase := ClusterPhaseNormal,
          cst_Master := ''d1''\<rparr>\<rparr>,
      cd_Keepers := map (\<lambda>u. (u, sample_keeper u)) [''k1'', ''k2'', ''k3''],
      cd_DBs := ds\<rparr>"

definition failed :: "db \<Rightarrow> db" where
  "failed d = d\<lparr>db_Status := (db_Status d)\<lparr>dst_Healthy := False\<rparr>\<rparr>"

text \<open>The master requires the second database as synchronous standby and it is in sync.\<close>

definition with_sync :: "uid list \<Rightarrow> uid list \<Rightarrow> db \<Rightarrow> db" where
  "with_sync spec status d = d
     \<lparr>db_Spec := (db_Spec d)\<lparr>dbs_SynchronousReplication := True,
        dbs_SynchronousStandbys := Some spec\<rparr>,
      db_Status := (db_Status d)\<lparr>dst_SynchronousStandbys := Some status\<rparr>\<rparr>"

definition three_dbs :: dbs where
  "three_dbs =
     [(''d1'', sample_master ''d1'' ''k1'' 100), (''d2'', sample_standby ''d2'' ''k2'' ''d1'' 90),
      (''d3'', sample_standby ''d3'' ''k3'' ''d1'' 95)]"

definition sync_dbs :: dbs where
  "sync_dbs =
     [(''d1'', with_sync [''d2''] [''d2''] (sample_master ''d1'' ''k1'' 100)),
      (''d2'', sample_standby ''d2'' ''k2'' ''d1'' 90),
      (''d3'', sample_standby ''d3'' ''k3'' ''d1'' 95)]"

lemmas sample_defs =
  zero_cluster_spec_def new_spec_def sync_spec_def sample_env_def sample_sentinel_def
  sample_keeper_def sample_status_def sample_master_def sample_standby_def sample_cd_def
  failed_def with_sync_def three_dbs_def sync_dbs_def zero_db_spec_def zero_db_status_def
  NewClusterData_def NewCluster_def

lemma map_option_SomeD: "map_option f r = Some y \<Longrightarrow> \<exists>x. r = Some x \<and> f x = y"
  by (cases r) simp_all

lemma good_sample_env: "good_env sample_env"
  by (simp add: good_env_def sample_env_def)

lemma wf_three: "wf_cd (sample_cd spec three_dbs)"
  by (simp add: wf_cd_def wf_keepers_def wf_dbs_def wf_map_def mkeys_def mvals_def sample_defs)

lemma wf_sync: "wf_cd (sample_cd spec sync_dbs)"
  by (simp add: wf_cd_def wf_keepers_def wf_dbs_def wf_map_def mkeys_def mvals_def sample_defs)

end
