(* ===== verification/Sentinel_Leadership.thy ===== *)
theory Sentinel_Leadership
  imports Samples Slices
begin

text \<open>
  Choice of a failover target and the leader race backoff
  (\<open>internal/runtime/sentinel/leadership.go\<close>).
\<close>

section \<open>Operations\<close>

definition runLeadershipSanitySweep :: "time \<Rightarrow> cluster_data \<Rightarrow> sentinel \<Rightarrow> sentinel" where
  "runLeadershipSanitySweep t cd s = updateDBConvergenceInfos t cd
     (s\<lparr>s_keeperErrorTimers := Map.empty, s_dbErrorTimers := Map.empty,
        s_dbNotIncreasingXLogPos := Map.empty, s_dbIncreasingXLogPosObservedAt := Map.empty,
        s_keeperHealthySince := Map.empty, s_autoFailbackLastSwitchAt := 0,
        s_keeperInfoHistories := [], s_dbConvergenceInfos := Map.empty,
        s_leaderRaceBackoffTimers := Map.empty, s_forceFailedKeeperUIDs := [],
        s_proxyInfoHistories := []\<rparr>)"

definition deleteBackoff :: "uid \<Rightarrow> sentinel \<Rightarrow> sentinel" where
  "deleteBackoff u s = s\<lparr>s_leaderRaceBackoffTimers := (s_leaderRaceBackoffTimers s)(u := None)\<rparr>"

fun leaderRaceLoop :: "time \<Rightarrow> uid \<Rightarrow> duration \<Rightarrow> db list \<Rightarrow> sentinel \<Rightarrow> bool \<times> sentinel" where
  "leaderRaceLoop t failedUID window [] s = (False, deleteBackoff failedUID s)"
| "leaderRaceLoop t failedUID window (candidate # cs) s =
     (case s_dbIncreasingXLogPosObservedAt s (db_UID candidate) of
        None \<Rightarrow> leaderRaceLoop t failedUID window cs s
      | Some lastIncreaseAt \<Rightarrow>
          if \<not> isDBIncreasingXLogPos s candidate then leaderRaceLoop t failedUID window cs s
          else if time_sub t lastIncreaseAt \<ge> window then leaderRaceLoop t failedUID window cs s
          else (case s_leaderRaceBackoffTimers s failedUID of
              None \<Rightarrow>
                (True, s\<lparr>s_leaderRaceBackoffTimers :=
                           (s_leaderRaceBackoffTimers s)(failedUID \<mapsto> t)\<rparr>)
            | Some startedAt \<Rightarrow>
                if time_sub t startedAt < window then (True, s)
                else (False, deleteBackoff failedUID s)))"

definition shouldDelayLeaderRace ::
  "time \<Rightarrow> db \<Rightarrow> db list \<Rightarrow> duration \<Rightarrow> sentinel \<Rightarrow> bool \<times> sentinel" where
  "shouldDelayLeaderRace t failedMaster candidates window s =
     (if db_UID failedMaster = [] then (False, s)
      else if window \<le> 0 \<or> candidates = [] then (False, deleteBackoff (db_UID failedMaster) s)
      else leaderRaceLoop t (db_UID failedMaster) window candidates s)"

definition chooseBestNewMaster ::
  "env \<Rightarrow> nat \<Rightarrow> cluster_data \<Rightarrow> db \<Rightarrow> duration \<Rightarrow> sentinel \<Rightarrow>
     ((db option \<times> bool) \<times> sentinel) option" where
  "chooseBestNewMaster e site newcd curMasterDB failInterval s = do {
     (bestNewMasters, s1) \<leftarrow> findBestNewMasters e site newcd curMasterDB s;
     case bestNewMasters of
       [] \<Rightarrow> Some ((None, True), s1)
     | first # _ \<Rightarrow> do {
         let forceFailRequested =
           dbs_KeeperUID (db_Spec curMasterDB) \<in> set (s_forceFailedKeeperUIDs s1);
         let (delay, s2) =
           (if forceFailRequested then (False, s1)
            else shouldDelayLeaderRace (now e) curMasterDB bestNewMasters failInterval s1);
         if delay then Some ((None, False), s2)
         else do {
           let synchronousReplicationEnabled =
             dbs_SynchronousReplication (db_Spec curMasterDB) \<and>
             the (cs_SynchronousReplication (DefSpec (cd_Cluster newcd)));
           if \<not> synchronousReplicationEnabled then Some ((Some first, True), s2)
           else do {
             let commonSyncStandbys =
               CommonElements (els (dst_SynchronousStandbys (db_Status curMasterDB)))
                 (els (dbs_SynchronousStandbys (db_Spec curMasterDB)));
             if commonSyncStandbys = [] then Some ((None, False), s2)
             else Some (case find (\<lambda>nm. db_UID nm \<in> set commonSyncStandbys) bestNewMasters of
                 Some nm \<Rightarrow> ((Some nm, True), s2)
               | None \<Rightarrow> ((None, False), s2))
           }
         }
       }
   }"

section \<open>The leader race backoff\<close>

lemma leaderRaceLoop_result:
  "leaderRaceLoop t u w cs s = (b, s') \<Longrightarrow>
     (if b then
        (case s_leaderRaceBackoffTimers s u of
           None \<Rightarrow> s' = s\<lparr>s_leaderRaceBackoffTimers := (s_leaderRaceBackoffTimers s)(u \<mapsto> t)\<rparr>
         | Some t0 \<Rightarrow> s' = s \<and> time_sub t t0 < w)
      else s' = deleteBackoff u s)"
  by (induction cs) (auto split: option.splits if_splits)

lemma shouldDelayLeaderRace_result:
  assumes "shouldDelayLeaderRace t m cs w s = (b, s')"
  shows "(if b then
      0 < w \<and> cs \<noteq> [] \<and>
      (case s_leaderRaceBackoffTimers s (db_UID m) of
         None \<Rightarrow> s' = s\<lparr>s_leaderRaceBackoffTimers :=
                         (s_leaderRaceBackoffTimers s)(db_UID m \<mapsto> t)\<rparr>
       | Some t0 \<Rightarrow> s' = s \<and> time_sub t t0 < w)
    else s' = s \<or> s' = deleteBackoff (db_UID m) s)"
  using assms leaderRaceLoop_result [of t "db_UID m" w cs s b s']
  by (auto simp: shouldDelayLeaderRace_def not_le split: if_splits)

text \<open>
  A history of passes over one failed master: the instant, the candidates and the WAL progress
  the sentinel knows in that pass. \<open>deferred\<close> says that every pass deferred the election.
\<close>

type_synonym race_pass = "time \<times> db list \<times> (uid \<rightharpoonup> time) \<times> (uid \<rightharpoonup> int)"

fun deferred :: "db \<Rightarrow> duration \<Rightarrow> race_pass list \<Rightarrow> sentinel \<Rightarrow> bool" where
  "deferred m w [] s = True"
| "deferred m w ((t, cs, seen, stalled) # ps) s =
     (let (b, s') = shouldDelayLeaderRace t m cs w
           (s\<lparr>s_dbIncreasingXLogPosObservedAt := seen, s_dbNotIncreasingXLogPos := stalled\<rparr>)
      in b \<and> deferred m w ps s')"

lemma deferred_started:
  assumes "deferred m w ps s" and "s_leaderRaceBackoffTimers s (db_UID m) = Some t0"
    and "(t, p) \<in> set ps"
  shows "time_sub t t0 < w"
  using assms
proof (induction m w ps s rule: deferred.induct)
  case (2 m w t' cs seen stalled ps s)
  let ?s = "s\<lparr>s_dbIncreasingXLogPosObservedAt := seen, s_dbNotIncreasingXLogPos := stalled\<rparr>"
  obtain s' where s': "shouldDelayLeaderRace t' m cs w ?s = (True, s')" "deferred m w ps s'"
    using "2.prems"(1) by (auto split: prod.splits)
  have "s' = ?s" "time_sub t' t0 < w"
    using shouldDelayLeaderRace_result [OF s'(1)] "2.prems"(2) by simp_all
  then show ?case
    using "2.prems"(2,3) "2.IH" [OF refl s'(1) [symmetric] s'(2)] by auto
qed simp

section \<open>The failover target\<close>

definition sync_enabled :: "cluster_data \<Rightarrow> db \<Rightarrow> bool" where
  "sync_enabled cd m \<longleftrightarrow> dbs_SynchronousReplication (db_Spec m) \<and>
     the (cs_SynchronousReplication (DefSpec (cd_Cluster cd)))"

lemma sorted_hd_le: "sorted (map f (x # xs)) \<Longrightarrow> c \<in> set (x # xs) \<Longrightarrow> f x \<le> f c"
  by auto

lemma chooseBestNewMaster_char:
  assumes "good_env e" and "wf_cd cd"
  shows "\<exists>r b s'. chooseBestNewMaster e site cd m fi s = Some ((r, b), s') \<and>
    (\<forall>nm. r = Some nm \<longrightarrow> master_candidate cd m nm \<and>
       (if sync_enabled cd m
        then db_UID nm \<in> set (els (dst_SynchronousStandbys (db_Status m))) \<inter>
               set (els (dbs_SynchronousStandbys (db_Spec m)))
        else \<forall>c. master_candidate cd m c \<longrightarrow> candidate_rank_of cd nm \<le> candidate_rank_of cd c))"
proof -
  obtain cs s1 where c: "findBestNewMasters e site cd m s = Some (cs, s1)"
    "set cs = {d. master_candidate cd m d}" "sorted (map (candidate_rank_of cd) cs)"
    using findBestNewMasters_char [OF assms] by blast
  show ?thesis
  proof (cases cs)
    case Nil
    then have "chooseBestNewMaster e site cd m fi s = Some ((None, True), s1)"
      using c(1) by (simp add: chooseBestNewMaster_def)
    then show ?thesis by blast
  next
    case (Cons d ds)
    let ?common = "CommonElements (els (dst_SynchronousStandbys (db_Status m)))
      (els (dbs_SynchronousStandbys (db_Spec m)))"
    obtain delay s2 where d: "(if dbs_KeeperUID (db_Spec m) \<in> set (s_forceFailedKeeperUIDs s1)
        then (False, s1) else shouldDelayLeaderRace (now e) m (d # ds) fi s1) = (delay, s2)"
      by (meson surj_pair)
    have eq: "chooseBestNewMaster e site cd m fi s = Some
      (if delay then ((None, False), s2)
       else if \<not> sync_enabled cd m then ((Some d, True), s2)
       else if ?common = [] then ((None, False), s2)
       else case find (\<lambda>nm. db_UID nm \<in> set ?common) cs of
           Some nm \<Rightarrow> ((Some nm, True), s2) | None \<Rightarrow> ((None, False), s2))"
      using c(1) Cons by (simp add: chooseBestNewMaster_def sync_enabled_def Let_def d)
    have cand: "master_candidate cd m d" and least:
      "\<forall>c. master_candidate cd m c \<longrightarrow> candidate_rank_of cd d \<le> candidate_rank_of cd c"
      using c(2,3) sorted_hd_le [of "candidate_rank_of cd" d ds] by (auto simp: Cons)
    have found: "master_candidate cd m nm \<and> db_UID nm \<in> set ?common"
      if "find (\<lambda>nm. db_UID nm \<in> set ?common) cs = Some nm" for nm
      using that c(2) by (auto simp: find_Some_iff)
    have "(\<exists>b. chooseBestNewMaster e site cd m fi s = Some ((None, b), s2)) \<or>
        chooseBestNewMaster e site cd m fi s = Some ((Some d, True), s2) \<and> \<not> sync_enabled cd m \<or>
        (\<exists>nm. chooseBestNewMaster e site cd m fi s = Some ((Some nm, True), s2) \<and>
          sync_enabled cd m \<and> find (\<lambda>nm. db_UID nm \<in> set ?common) cs = Some nm)"
      unfolding eq by (simp split: option.split) blast
    then consider (none) b where "chooseBestNewMaster e site cd m fi s = Some ((None, b), s2)"
      | (first) "chooseBestNewMaster e site cd m fi s = Some ((Some d, True), s2)"
          "\<not> sync_enabled cd m"
      | (sync) nm where "chooseBestNewMaster e site cd m fi s = Some ((Some nm, True), s2)"
          "sync_enabled cd m" "find (\<lambda>nm. db_UID nm \<in> set ?common) cs = Some nm"
      by blast
    then show ?thesis
    proof cases
      case none
      then show ?thesis by blast
    next
      case first
      then show ?thesis using cand least by auto
    next
      case (sync nm)
      then show ?thesis using found [OF sync(3)] by auto
    qed
  qed
qed

section \<open>Properties\<close>

text \<open>
  C27. The candidates for a new master are computed without panic. They are the valid databases on
  a healthy keeper, healthy themselves and converged, on the timeline of the master, within
  the maximum lag unless replication is synchronous, that are replicas whose keeper may be
  master, or previous masters. They are ordered by WAL position, then decreasing keeper
  priority, then UID.
\<close>

theorem findBestNewMasters_candidates:
  assumes "good_env e" and "wf_cd cd"
  shows "\<exists>cs s'. findBestNewMasters e site cd m s = Some (cs, s') \<and>
    set cs = {d. master_candidate cd m d} \<and> sorted (map (candidate_rank_of cd) cs)"
  using findBestNewMasters_char [OF assms] by blast

theorem findBestNewMasters_candidates_witness:
  "\<exists>cs s'. findBestNewMasters sample_env 0 (sample_cd new_spec three_dbs)
      (sample_master ''d1'' ''k1'' 100) sample_sentinel = Some (cs, s') \<and>
    set cs = {d. master_candidate (sample_cd new_spec three_dbs)
      (sample_master ''d1'' ''k1'' 100) d} \<and>
    sorted (map (candidate_rank_of (sample_cd new_spec three_dbs)) cs)"
  by (rule findBestNewMasters_candidates [OF good_sample_env wf_three])

text \<open>
  C20. A failover target, when one is chosen, is a candidate. When synchronous replication is
  enabled on the failed master and in the cluster specification, it is a standby that the
  master both required and reported in sync, so it has every acknowledged transaction.
\<close>

theorem chooseBestNewMaster_safe:
  assumes "good_env e" and "wf_cd cd"
  shows "\<exists>r b s'. chooseBestNewMaster e site cd m fi s = Some ((r, b), s') \<and>
    (\<forall>nm. r = Some nm \<longrightarrow> master_candidate cd m nm \<and>
       (sync_enabled cd m \<longrightarrow>
          db_UID nm \<in> set (els (dst_SynchronousStandbys (db_Status m))) \<and>
          db_UID nm \<in> set (els (dbs_SynchronousStandbys (db_Spec m)))))"
  using chooseBestNewMaster_char [OF assms, of site m fi s] by (force split: if_splits)

theorem chooseBestNewMaster_safe_witness:
  "\<exists>nm b s'. chooseBestNewMaster sample_env 1 (sample_cd sync_spec sync_dbs)
      (failed (with_sync [''d2''] [''d2''] (sample_master ''d1'' ''k1'' 100))) (30 * second)
      sample_sentinel = Some ((Some nm, b), s') \<and> db_UID nm \<in> {''d2''}"
proof -
  let ?m = "failed (with_sync [''d2''] [''d2''] (sample_master ''d1'' ''k1'' 100))"
  let ?r = "chooseBestNewMaster sample_env 1 (sample_cd sync_spec sync_dbs) ?m (30 * second)
    sample_sentinel"
  have ev: "map_option (\<lambda>((r, b), s). r \<noteq> None) ?r = Some True" by code_simp
  have sync: "sync_enabled (sample_cd sync_spec sync_dbs) ?m" by code_simp
  obtain r b s' where r: "?r = Some ((r, b), s')" and safe: "\<forall>nm. r = Some nm \<longrightarrow>
      master_candidate (sample_cd sync_spec sync_dbs) ?m nm \<and>
      (sync_enabled (sample_cd sync_spec sync_dbs) ?m \<longrightarrow>
        db_UID nm \<in> set (els (dst_SynchronousStandbys (db_Status ?m))) \<and>
        db_UID nm \<in> set (els (dbs_SynchronousStandbys (db_Spec ?m))))"
    using chooseBestNewMaster_safe [OF good_sample_env wf_sync] by metis
  obtain nm where nm: "r = Some nm" using ev unfolding r by auto
  have "db_UID nm \<in> set (els (dst_SynchronousStandbys (db_Status ?m)))"
    using safe nm sync by blast
  then have "db_UID nm \<in> {''d2''}" by (simp add: failed_def with_sync_def)
  then show ?thesis using r nm by blast
qed

text \<open>
  C29. Without synchronous replication the chosen target is a candidate with the smallest WAL
  position: no candidate is further behind the failed master.
\<close>

theorem chooseBestNewMaster_least_advanced:
  assumes "good_env e" and "wf_cd cd" and "\<not> sync_enabled cd m"
    and "chooseBestNewMaster e site cd m fi s = Some ((Some nm, b), s')"
    and "master_candidate cd m c"
  shows "dst_XLogPos (db_Status nm) \<le> dst_XLogPos (db_Status c)"
proof -
  have "candidate_rank_of cd nm \<le> candidate_rank_of cd c"
    using chooseBestNewMaster_char [OF assms(1,2), of site m fi s] assms(3-5) by auto
  then show ?thesis
    by (auto simp: candidate_rank_of_def less_eq_candidate_rank_def less_candidate_rank_def
        split: if_splits)
qed

theorem chooseBestNewMaster_least_advanced_witness:
  "\<exists>nm b s'. chooseBestNewMaster sample_env 1 (sample_cd new_spec three_dbs)
      (failed (sample_master ''d1'' ''k1'' 100)) (30 * second) sample_sentinel =
        Some ((Some nm, b), s') \<and>
    dst_XLogPos (db_Status nm) \<le> dst_XLogPos (db_Status (sample_standby ''d3'' ''k3'' ''d1'' 95)) \<and>
    dst_XLogPos (db_Status nm) \<noteq> dst_XLogPos (db_Status (sample_standby ''d3'' ''k3'' ''d1'' 95))"
proof -
  let ?m = "failed (sample_master ''d1'' ''k1'' 100)"
  let ?cd = "sample_cd new_spec three_dbs"
  let ?r = "chooseBestNewMaster sample_env 1 ?cd ?m (30 * second) sample_sentinel"
  have ev: "map_option (\<lambda>((r, b), s). map_option (\<lambda>d. dst_XLogPos (db_Status d)) r) ?r =
      Some (Some 90)" by code_simp
  obtain r b s' where r: "?r = Some ((r, b), s')"
    using map_option_SomeD [OF ev] by (metis prod.exhaust)
  then obtain nm where nm: "r = Some nm" "dst_XLogPos (db_Status nm) = 90"
    using ev by (simp add: r) (metis map_option_SomeD)
  have sync: "\<not> sync_enabled ?cd ?m" by code_simp
  have "master_candidate ?cd ?m (sample_standby ''d3'' ''k3'' ''d1'' 95)"
    by code_simp
  then have "dst_XLogPos (db_Status nm) \<le>
      dst_XLogPos (db_Status (sample_standby ''d3'' ''k3'' ''d1'' 95))"
    by (rule chooseBestNewMaster_least_advanced
        [OF good_sample_env wf_three sync r [unfolded nm(1)]])
  moreover have "dst_XLogPos (db_Status (sample_standby ''d3'' ''k3'' ''d1'' 95)) \<noteq> 90"
    by (simp add: sample_standby_def sample_status_def)
  ultimately show ?thesis using r nm by metis
qed

text \<open>
  C28. The leader race backoff is bounded. In a run of passes that all defer the election of a
  replacement for the same master, every pass is less than the fail interval after the first.
\<close>

theorem leader_race_bounded:
  assumes "s_leaderRaceBackoffTimers s (db_UID m) = None"
    and "deferred m w ((t0, p0) # ps) s" and "(t, p) \<in> set ps"
  shows "time_sub t t0 < w"
proof -
  obtain cs seen stalled where p0: "p0 = (cs, seen, stalled)" by (cases p0)
  let ?s = "s\<lparr>s_dbIncreasingXLogPosObservedAt := seen, s_dbNotIncreasingXLogPos := stalled\<rparr>"
  obtain s' where s': "shouldDelayLeaderRace t0 m cs w ?s = (True, s')" "deferred m w ps s'"
    using assms(2) p0 by (auto split: prod.splits)
  have "s_leaderRaceBackoffTimers s' (db_UID m) = Some t0"
    using shouldDelayLeaderRace_result [OF s'(1)] assms(1) by simp
  then show ?thesis by (rule deferred_started [OF s'(2) _ assms(3)])
qed

theorem leader_race_bounded_witness:
  "time_sub 120 100 < (30 :: int) \<and>
   deferred (sample_master ''d1'' ''k1'' 100) 30
     [(100, [sample_standby ''d2'' ''k2'' ''d1'' 90], [''d2'' \<mapsto> 95], Map.empty),
      (120, [sample_standby ''d2'' ''k2'' ''d1'' 90], [''d2'' \<mapsto> 115], Map.empty)] sample_sentinel"
proof -
  have d: "deferred (sample_master ''d1'' ''k1'' 100) 30
     ((100, [sample_standby ''d2'' ''k2'' ''d1'' 90], [''d2'' \<mapsto> 95], Map.empty) #
      [(120, [sample_standby ''d2'' ''k2'' ''d1'' 90], [''d2'' \<mapsto> 115], Map.empty)]) sample_sentinel"
    by code_simp
  moreover have "s_leaderRaceBackoffTimers sample_sentinel (db_UID (sample_master ''d1'' ''k1'' 100)) = None"
    by (simp add: sample_sentinel_def)
  ultimately show ?thesis
    using leader_race_bounded [OF _ d, of 120] by simp
qed

end
