(* ===== verification/Sentinel_Sync.thy ===== *)
theory Sentinel_Sync
  imports Sentinel_Leadership Samples
begin

text \<open>
  Synchronous standbys of the master (the section \<open>Setup synchronous standbys\<close> of
  \<open>updateCluster\<close> in \<open>internal/runtime/sentinel/cluster_update.go\<close>). The sets of UIDs the code
  keeps as maps to empty structs are lists without duplicates.
\<close>

section \<open>Operations\<close>

definition fakeStandbyName :: string where
  "fakeStandbyName = ''hysteronfakestandby''"

text \<open>
  Wait for the required standbys: the status keeps the required standbys known to be in sync and
  gains the ones now reported in sync. When a required standby that is not yet in sync is gone or
  not good, the required standbys become the ones in sync; specification and status then share
  one sorted slice.
\<close>

definition refreshSyncStandbys :: "uid list \<Rightarrow> uid list \<Rightarrow> db \<Rightarrow> db" where
  "refreshSyncStandbys dbUIDs goodUIDs masterDB =
     (let spec = els (dbs_SynchronousStandbys (db_Spec masterDB));
          status = els (dst_SynchronousStandbys (db_Status masterDB));
          reported = els (dst_CurSynchronousStandbys (db_Status masterDB))
      in if \<not> CompareStringSliceNoOrder status spec then
        (let status1 = CommonElements status spec;
             curSyncStandbys = CommonElements reported spec;
             toAddSyncStandbys = Difference curSyncStandbys status1;
             status2 = status1 @ toAddSyncStandbys;
             notInSyncSyncStandbys = Difference spec status2;
             update = list_ex (\<lambda>u. u \<notin> set dbUIDs \<or> u \<notin> set goodUIDs) notInSyncSyncStandbys
         in if update then masterDB
              \<lparr>db_Spec := (db_Spec masterDB)\<lparr>dbs_SynchronousStandbys := Some (sort status2)\<rparr>,
               db_Status := (db_Status masterDB)\<lparr>dst_SynchronousStandbys := Some (sort status2)\<rparr>\<rparr>
            else masterDB
              \<lparr>db_Status := (db_Status masterDB)\<lparr>dst_SynchronousStandbys := Some status2\<rparr>\<rparr>)
        else masterDB)"

text \<open>Remove the standbys in excess, in the order the set is met.\<close>

definition removeExcess :: "env \<Rightarrow> nat \<Rightarrow> nat \<Rightarrow> uid list \<Rightarrow> uid list" where
  "removeExcess e site mx synchronousStandbys =
     (if length synchronousStandbys > mx then
        (let toRemove = take (length synchronousStandbys - mx) (rng e site synchronousStandbys)
         in filter (\<lambda>u. u \<notin> set toRemove) synchronousStandbys)
      else synchronousStandbys)"

definition can_be_sync :: "cluster_data \<Rightarrow> uid \<Rightarrow> bool" where
  "can_be_sync cd u =
     (case map_of (cd_DBs cd) u of
        None \<Rightarrow> True
      | Some d \<Rightarrow>
          (case map_of (cd_Keepers cd) (dbs_KeeperUID (db_Spec d)) of
             None \<Rightarrow> True
           | Some k \<Rightarrow> kst_CanBeSynchronousReplica (k_Status k) \<noteq> Some False))"

text \<open>
  Add standbys that satisfy a condition, at most \<open>ac\<close> of them; \<open>ac\<close> may be negative. It is the
  loop over the best standbys and the loop over the previous ones.
\<close>

fun addStandbys :: "(uid \<Rightarrow> bool) \<Rightarrow> int \<Rightarrow> uid list \<Rightarrow> uid list \<Rightarrow> uid list" where
  "addStandbys ok ac [] sync = sync"
| "addStandbys ok ac (u # us) sync =
     (if 0 \<ge> ac then sync
      else if u \<in> set sync then addStandbys ok ac us sync
      else if \<not> ok u then addStandbys ok ac us sync
      else addStandbys ok (ac - 1) us (sync @ [u]))"

text \<open>Keep all previous standbys that still exist when a new one joins.\<close>

definition mergeSyncStandbys :: "uid list \<Rightarrow> uid list \<Rightarrow> uid list \<Rightarrow> uid list" where
  "mergeSyncStandbys dbUIDs prev sync =
     (if \<not> list_all (\<lambda>u. u \<in> set prev) sync
      then sync @ filter (\<lambda>u. u \<in> set prev \<and> u \<notin> set sync) dbUIDs
      else sync)"

definition nextSyncStandbys ::
  "env \<Rightarrow> cluster_data \<Rightarrow> uid list \<Rightarrow> uid list \<Rightarrow> nat \<Rightarrow> nat \<Rightarrow> uid list \<Rightarrow> uid list" where
  "nextSyncStandbys e newcd goodUIDs best mn mx prev =
     (let dbUIDs = mkeys (cd_DBs newcd);
          sync1 = filter (\<lambda>u. u \<in> set dbUIDs) prev;
          sync2 = filter (\<lambda>u. u \<in> set goodUIDs) sync1;
          sync3 = removeExcess e 4 mx sync2;
          sync4 = addStandbys (can_be_sync newcd) (int mx - int (length sync3)) best sync3;
          sync5 = addStandbys (\<lambda>u. u \<in> set prev) (int mn - int (length sync4))
                    (map db_UID (iter e 5 (cd_DBs newcd))) sync4
      in mergeSyncStandbys dbUIDs prev sync5)"

definition setSyncStandbys :: "nat \<Rightarrow> uid list \<Rightarrow> db \<Rightarrow> db" where
  "setSyncStandbys mn sync masterDB = masterDB
     \<lparr>db_Spec := (db_Spec masterDB)
        \<lparr>dbs_SynchronousReplication := True,
         dbs_SynchronousStandbys := Some (sort sync),
         dbs_ExternalSynchronousStandbys :=
           Some (if length sync < mn then [fakeStandbyName] else [])\<rparr>,
      db_Status := (db_Status masterDB)
        \<lparr>dst_SynchronousStandbys :=
           Some (CommonElements (els (dst_SynchronousStandbys (db_Status masterDB))) sync)\<rparr>\<rparr>"

definition clearSyncStandbys :: "db \<Rightarrow> db" where
  "clearSyncStandbys masterDB = masterDB
     \<lparr>db_Spec := (db_Spec masterDB)
        \<lparr>dbs_SynchronousReplication := False, dbs_SynchronousStandbys := None,
         dbs_ExternalSynchronousStandbys := None\<rparr>,
      db_Status := (db_Status masterDB)\<lparr>dst_SynchronousStandbys := None\<rparr>\<rparr>"

definition upd_db :: "uid \<Rightarrow> (db \<Rightarrow> db) \<Rightarrow> cluster_data \<Rightarrow> cluster_data" where
  "upd_db u f cd = cd\<lparr>cd_DBs := madj u f (cd_DBs cd)\<rparr>"

definition setupSynchronousStandbys ::
  "env \<Rightarrow> cluster_spec \<Rightarrow> db \<Rightarrow> uid list \<Rightarrow> uid \<Rightarrow> cluster_data \<Rightarrow> sentinel \<Rightarrow>
     (cluster_data \<times> sentinel) option" where
  "setupSynchronousStandbys e clusterSpec curMasterDB goodUIDs masterUID newcd s =
     (if \<not> syncRepl clusterSpec then Some (upd_db masterUID clearSyncStandbys newcd, s)
      else do {
        let cd1 = upd_db masterUID
          (refreshSyncStandbys (mkeys (cd_DBs newcd)) goodUIDs) newcd;
        masterDB \<leftarrow> map_of (cd_DBs cd1) masterUID;
        if \<not> CompareStringSliceNoOrder (els (dst_SynchronousStandbys (db_Status masterDB)))
               (els (dbs_SynchronousStandbys (db_Spec masterDB)))
        then Some (cd1, s)
        else do {
          (best, s') \<leftarrow> findBestStandbys e 3 cd1 curMasterDB s;
          let mn = unat (the (cs_MinSynchronousStandbys clusterSpec));
          let mx = unat (the (cs_MaxSynchronousStandbys clusterSpec));
          let sync = nextSyncStandbys e cd1 goodUIDs (map db_UID best) mn mx
            (remdups (els (dbs_SynchronousStandbys (db_Spec masterDB))));
          Some (upd_db masterUID (setSyncStandbys mn sync) cd1, s')
        }
      })"

section \<open>The next set of synchronous standbys\<close>

lemma addStandbys_set:
  "set sync \<subseteq> set (addStandbys ok ac us sync) \<and>
   set (addStandbys ok ac us sync) \<subseteq> set sync \<union> {u \<in> set us. ok u}"
  by (induction ok ac us sync rule: addStandbys.induct) (auto split: if_splits)

lemma addStandbys_subset:
  "set sync \<subseteq> A \<Longrightarrow> set us \<subseteq> A \<Longrightarrow> set (addStandbys ok ac us sync) \<subseteq> A"
  using addStandbys_set [of sync ok ac us] by blast

lemma addStandbys_distinct: "distinct sync \<Longrightarrow> distinct (addStandbys ok ac us sync)"
  by (induction ok ac us sync rule: addStandbys.induct) auto

lemma addStandbys_length:
  "int (length (addStandbys ok ac us sync)) \<le> max (int (length sync)) (int (length sync) + ac)"
  by (induction ok ac us sync rule: addStandbys.induct) auto

lemma addStandbys_none: "ac \<le> 0 \<Longrightarrow> addStandbys ok ac us sync = sync"
  by (cases us) auto

lemma removeExcess_subset: "set (removeExcess e site mx xs) \<subseteq> set xs"
  by (auto simp: removeExcess_def Let_def)

lemma removeExcess_distinct: "distinct xs \<Longrightarrow> distinct (removeExcess e site mx xs)"
  by (simp add: removeExcess_def Let_def)

lemma removeExcess_length:
  assumes "good_env e" and "distinct xs"
  shows "length (removeExcess e site mx xs) = min (length xs) mx"
proof (cases "length xs > mx")
  case True
  let ?r = "take (length xs - mx) (rng e site xs)"
  have l: "length (rng e site xs) = length xs"
    using assms(1) by (metis good_env_def mset_eq_length)
  have d: "distinct ?r" using assms by (simp add: good_env_distinct)
  have sub: "set ?r \<subseteq> set xs" using good_env_set [OF assms(1)] by (metis set_take_subset)
  have "card (set ?r) = length xs - mx" using d l by (simp add: distinct_card)
  moreover have "length (filter (\<lambda>u. u \<notin> set ?r) xs) = card (set xs - set ?r)"
    using assms(2) by (simp add: distinct_card [symmetric] set_diff_eq)
  moreover have "card (set xs - set ?r) = card (set xs) - card (set ?r)"
    using sub by (simp add: card_Diff_subset)
  ultimately show ?thesis
    using True assms(2) by (simp add: removeExcess_def Let_def distinct_card)
qed (simp add: removeExcess_def)

lemma nextSyncStandbys_cases:
  assumes "good_env e" and "wf_cd cd" and "distinct prev" and "set best \<subseteq> set (mkeys (cd_DBs cd))"
  shows "\<exists>sync. nextSyncStandbys e cd good best mn mx prev =
      mergeSyncStandbys (mkeys (cd_DBs cd)) prev sync \<and>
    distinct sync \<and> set sync \<subseteq> set (mkeys (cd_DBs cd)) \<and> length sync \<le> max mn mx"
proof -
  let ?k = "mkeys (cd_DBs cd)"
  let ?s2 = "filter (\<lambda>u. u \<in> set good) (filter (\<lambda>u. u \<in> set ?k) prev)"
  let ?s3 = "removeExcess e 4 mx ?s2"
  let ?s4 = "addStandbys (can_be_sync cd) (int mx - int (length ?s3)) best ?s3"
  let ?s5 = "addStandbys (\<lambda>u. u \<in> set prev) (int mn - int (length ?s4))
    (map db_UID (iter e 5 (cd_DBs cd))) ?s4"
  have wf: "wf_dbs (cd_Keepers cd) (cd_DBs cd)" using assms(2) by (simp add: wf_cd_def)
  have uids: "set (map db_UID (iter e 5 (cd_DBs cd))) \<subseteq> set ?k"
    using wf_dbs_mem(1) [OF wf] map_of_in_mkeys
    unfolding set_map set_iter [OF assms(1) wf_dbs_map [OF wf]] by fast
  have d3: "distinct ?s3" using assms(3) by (intro removeExcess_distinct) simp
  have l3: "length ?s3 \<le> mx" using removeExcess_length [OF assms(1), of ?s2] assms(3) by simp
  have l4: "length ?s4 \<le> mx"
    using l3 addStandbys_length [of "can_be_sync cd" "int mx - int (length ?s3)" best ?s3] by simp
  have "set ?s3 \<subseteq> set ?k"
    by (rule order_trans [OF removeExcess_subset]) auto
  then have s4: "set ?s4 \<subseteq> set ?k"
    by (intro addStandbys_subset assms(4))
  have "set ?s5 \<subseteq> set ?k"
    by (rule addStandbys_subset [OF s4 uids])
  moreover have "distinct ?s5" using d3 by (intro addStandbys_distinct)
  moreover have "length ?s5 \<le> max mn mx"
    using l4 addStandbys_length [of "\<lambda>u. u \<in> set prev" "int mn - int (length ?s4)"
        "map db_UID (iter e 5 (cd_DBs cd))" ?s4] by simp
  ultimately show ?thesis
    unfolding nextSyncStandbys_def Let_def by blast
qed

text \<open>
  One change of the synchronous standbys either only removes some, within the maximum, or keeps
  every previous one that still exists.
\<close>

lemma nextSyncStandbys_protocol:
  fixes mn mx :: nat and good :: "uid list"
  assumes "good_env e" and "wf_cd cd" and "distinct prev" and "set best \<subseteq> set (mkeys (cd_DBs cd))"
  defines "new \<equiv> nextSyncStandbys e cd good best mn mx prev"
  shows "distinct new" and "set new \<subseteq> set (mkeys (cd_DBs cd))"
    and "set new \<subseteq> set prev \<and> length new \<le> max mn mx \<or>
         set prev \<inter> set (mkeys (cd_DBs cd)) \<subseteq> set new"
proof -
  obtain sync where s: "new = mergeSyncStandbys (mkeys (cd_DBs cd)) prev sync"
    "distinct sync" "set sync \<subseteq> set (mkeys (cd_DBs cd))" "length sync \<le> max mn mx"
    using nextSyncStandbys_cases [OF assms(1-4)] new_def by metis
  have "distinct (mkeys (cd_DBs cd))"
    using assms(2) by (auto simp: wf_cd_def wf_dbs_def wf_map_def)
  then show "distinct new" using s(1,2) by (auto simp: mergeSyncStandbys_def)
  show "set new \<subseteq> set (mkeys (cd_DBs cd))" using s(1,3) by (auto simp: mergeSyncStandbys_def)
  show "set new \<subseteq> set prev \<and> length new \<le> max mn mx \<or>
         set prev \<inter> set (mkeys (cd_DBs cd)) \<subseteq> set new"
    using s(1,4) by (auto simp: mergeSyncStandbys_def list_all_iff)
qed

text \<open>A full set of good standbys is kept as it is.\<close>

lemma nextSyncStandbys_stable:
  assumes "good_env e" and "mn \<le> mx" and "length prev = mx"
    and "set prev \<subseteq> set (mkeys (cd_DBs cd)) \<inter> set good"
  shows "nextSyncStandbys e cd good best mn mx prev = prev"
proof -
  have "filter (\<lambda>u. u \<in> set good) (filter (\<lambda>u. u \<in> set (mkeys (cd_DBs cd))) prev) = prev"
    using assms(4) by (simp add: filter_id_conv subset_iff)
  then show ?thesis
    using assms(2,3)
    by (simp add: nextSyncStandbys_def Let_def removeExcess_def addStandbys_none
        mergeSyncStandbys_def list_all_iff)
qed

section \<open>Specification and status of the master\<close>

abbreviation spec_sync :: "db \<Rightarrow> uid list" where
  "spec_sync d \<equiv> els (dbs_SynchronousStandbys (db_Spec d))"

abbreviation status_sync :: "db \<Rightarrow> uid list" where
  "status_sync d \<equiv> els (dst_SynchronousStandbys (db_Status d))"

abbreviation reported_sync :: "db \<Rightarrow> uid list" where
  "reported_sync d \<equiv> els (dst_CurSynchronousStandbys (db_Status d))"

lemma refreshSyncStandbys_facts:
  fixes ks good :: "uid list" and d :: db
  defines "d' \<equiv> refreshSyncStandbys ks good d"
  shows "set (status_sync d') \<subseteq> set (spec_sync d) \<inter> (set (status_sync d) \<union> set (reported_sync d))"
    and "set (status_sync d') \<subseteq> set (spec_sync d')"
    and "set (spec_sync d') \<subseteq> set (spec_sync d)"
    and "set (spec_sync d) \<inter> set (status_sync d) \<subseteq> set (status_sync d')"
  unfolding d'_def
  by (auto simp: refreshSyncStandbys_def Let_def dest: CompareStringSliceNoOrder_set)

lemma refreshSyncStandbys_keeps [simp]:
  "db_UID (refreshSyncStandbys ks good d) = db_UID d"
  "db_Generation (refreshSyncStandbys ks good d) = db_Generation d"
  "dbs_KeeperUID (db_Spec (refreshSyncStandbys ks good d)) = dbs_KeeperUID (db_Spec d)"
  "dbs_Role (db_Spec (refreshSyncStandbys ks good d)) = dbs_Role (db_Spec d)"
  "dbs_FollowConfig (db_Spec (refreshSyncStandbys ks good d)) = dbs_FollowConfig (db_Spec d)"
  by (simp_all add: refreshSyncStandbys_def Let_def)

lemma setSyncStandbys_keeps [simp]:
  "db_UID (setSyncStandbys mn sync d) = db_UID d"
  "db_Generation (setSyncStandbys mn sync d) = db_Generation d"
  "dbs_KeeperUID (db_Spec (setSyncStandbys mn sync d)) = dbs_KeeperUID (db_Spec d)"
  "dbs_Role (db_Spec (setSyncStandbys mn sync d)) = dbs_Role (db_Spec d)"
  "dbs_FollowConfig (db_Spec (setSyncStandbys mn sync d)) = dbs_FollowConfig (db_Spec d)"
  by (simp_all add: setSyncStandbys_def)

lemma clearSyncStandbys_keeps [simp]:
  "db_UID (clearSyncStandbys d) = db_UID d"
  "db_Generation (clearSyncStandbys d) = db_Generation d"
  "dbs_KeeperUID (db_Spec (clearSyncStandbys d)) = dbs_KeeperUID (db_Spec d)"
  "dbs_Role (db_Spec (clearSyncStandbys d)) = dbs_Role (db_Spec d)"
  "dbs_FollowConfig (db_Spec (clearSyncStandbys d)) = dbs_FollowConfig (db_Spec d)"
  by (simp_all add: clearSyncStandbys_def)

text \<open>A write through a database pointer that keeps the UID and the keeper keeps the invariant.\<close>

lemma wf_dbs_madj:
  assumes "wf_dbs ks ds"
    and "\<And>d. db_UID (f d) = db_UID d \<and> dbs_KeeperUID (db_Spec (f d)) = dbs_KeeperUID (db_Spec d)"
  shows "wf_dbs ks (madj u f ds)"
proof -
  have "map (\<lambda>d. dbs_KeeperUID (db_Spec d)) (mvals (madj u f ds)) =
      map (\<lambda>d. dbs_KeeperUID (db_Spec d)) (mvals ds)"
    using assms(2) by (auto simp: mvals_def madj_def)
  moreover have "list_all (\<lambda>(u, d). db_UID d = u \<and> dbs_KeeperUID (db_Spec d) \<in> set (mkeys ks))
      (madj u f ds)"
    using assms by (auto simp: wf_dbs_def madj_def list_all_iff split: if_splits)
  ultimately show ?thesis using assms(1) by (simp add: wf_dbs_def)
qed

lemma wf_cd_upd_db:
  assumes "wf_cd cd"
    and "\<And>d. db_UID (f d) = db_UID d \<and> dbs_KeeperUID (db_Spec (f d)) = dbs_KeeperUID (db_Spec d)"
  shows "wf_cd (upd_db u f cd)"
  using assms by (simp add: wf_cd_def upd_db_def wf_dbs_madj)

lemma upd_db_simps [simp]:
  "cd_Keepers (upd_db u f cd) = cd_Keepers cd"
  "cd_Cluster (upd_db u f cd) = cd_Cluster cd"
  "cd_Proxy (upd_db u f cd) = cd_Proxy cd"
  "map_of (cd_DBs (upd_db u f cd)) u = map_option f (map_of (cd_DBs cd) u)"
  "mkeys (cd_DBs (upd_db u f cd)) = mkeys (cd_DBs cd)"
  by (simp_all add: upd_db_def)

lemma good_of_type_key: "wf_cd cd \<Longrightarrow> good_of_type cd ty d \<Longrightarrow> db_UID d \<in> set (mkeys (cd_DBs cd))"
  using wf_dbs_mem(1) by (fastforce simp: wf_cd_def good_of_type_def intro: map_of_in_mkeys)

text \<open>
  The two outcomes of the section with synchronous replication: waiting, with the refreshed
  master, or a new set of required standbys.
\<close>

lemma setupSynchronousStandbys_cases:
  fixes good :: "uid list"
  assumes "good_env e" and "wf_cd cd" and "syncRepl spec" and "map_of (cd_DBs cd) m = Some md"
  defines "d1 \<equiv> refreshSyncStandbys (mkeys (cd_DBs cd)) good md"
  shows "\<exists>cd' s' md'. setupSynchronousStandbys e spec cur good m cd s = Some (cd', s') \<and>
    conv_ext (now e) s s' \<and> map_of (cd_DBs cd') m = Some md' \<and>
    (md' = d1 \<or>
     set (status_sync d1) = set (spec_sync d1) \<and>
     (\<exists>best. set best \<subseteq> set (mkeys (cd_DBs cd)) \<and>
        md' = setSyncStandbys (unat (the (cs_MinSynchronousStandbys spec)))
          (nextSyncStandbys e (upd_db m (refreshSyncStandbys (mkeys (cd_DBs cd)) good) cd) good best
            (unat (the (cs_MinSynchronousStandbys spec)))
            (unat (the (cs_MaxSynchronousStandbys spec))) (remdups (spec_sync d1))) d1))"
proof (cases "CompareStringSliceNoOrder (status_sync d1) (spec_sync d1)")
  case False
  then have "setupSynchronousStandbys e spec cur good m cd s =
      Some (upd_db m (refreshSyncStandbys (mkeys (cd_DBs cd)) good) cd, s)"
    using assms(3,4) by (simp add: setupSynchronousStandbys_def d1_def Let_def)
  moreover have "map_of (cd_DBs (upd_db m (refreshSyncStandbys (mkeys (cd_DBs cd)) good) cd)) m =
      Some d1"
    using assms(4) by (simp add: d1_def)
  ultimately show ?thesis using conv_ext_refl by blast
next
  case True
  let ?cd = "upd_db m (refreshSyncStandbys (mkeys (cd_DBs cd)) good) cd"
  let ?mn = "unat (the (cs_MinSynchronousStandbys spec))"
  have wf: "wf_cd ?cd" using assms(2) by (rule wf_cd_upd_db) simp
  obtain ds s' where b: "findBestStandbys e 3 ?cd cur s = Some (ds, s')" "conv_ext (now e) s s'"
    "set ds = {d. good_of_type ?cd dbTypeReplicaLine d \<and> same_timeline_in_lag ?cd cur d}"
    using findBestStandbys_char [OF assms(1) wf] by blast
  let ?f = "setSyncStandbys ?mn (nextSyncStandbys e ?cd good (map db_UID ds) ?mn
    (unat (the (cs_MaxSynchronousStandbys spec))) (remdups (spec_sync d1)))"
  have "set (map db_UID ds) \<subseteq> set (mkeys (cd_DBs cd))"
    using good_of_type_key [OF wf] unfolding b(3) set_map by fastforce
  moreover have "set (status_sync d1) = set (spec_sync d1)"
    using True by (rule CompareStringSliceNoOrder_set)
  moreover have "setupSynchronousStandbys e spec cur good m cd s = Some (upd_db m ?f ?cd, s')"
    using True assms(3,4) b(1) by (simp add: setupSynchronousStandbys_def d1_def Let_def)
  moreover have "map_of (cd_DBs (upd_db m ?f ?cd)) m = Some (?f d1)"
    using assms(4) by (simp add: d1_def)
  ultimately show ?thesis
    using b(2) by blast
qed

section \<open>Properties\<close>

text \<open>
  C21. With synchronous replication, a standby is listed as in sync after the section only if it
  was already required by the specification and was known or is now reported to be in sync; the
  standbys listed as in sync are required by the new specification. A standby that has just
  been added is therefore not eligible for failover.
\<close>

theorem setupSynchronousStandbys_in_sync:
  assumes "good_env e" and "wf_cd cd" and "syncRepl spec" and "map_of (cd_DBs cd) m = Some md"
  shows "\<exists>cd' s' md'. setupSynchronousStandbys e spec cur good m cd s = Some (cd', s') \<and>
    map_of (cd_DBs cd') m = Some md' \<and>
    set (status_sync md') \<subseteq> set (spec_sync md) \<inter> (set (status_sync md) \<union> set (reported_sync md)) \<and>
    set (status_sync md') \<subseteq> set (spec_sync md')"
proof -
  let ?d1 = "refreshSyncStandbys (mkeys (cd_DBs cd)) good md"
  obtain cd' s' md' where r: "setupSynchronousStandbys e spec cur good m cd s = Some (cd', s')"
    "map_of (cd_DBs cd') m = Some md'"
    and c: "md' = ?d1 \<or> (\<exists>sync mn. md' = setSyncStandbys mn sync ?d1)"
    using setupSynchronousStandbys_cases
      [OF assms, where good = good and cur = cur and s = s] by blast
  have "set (status_sync md') \<subseteq> set (status_sync ?d1) \<and> set (status_sync md') \<subseteq> set (spec_sync md')"
    using c refreshSyncStandbys_facts(2) [where ks = "mkeys (cd_DBs cd)" and good = good and d = md]
    by (auto simp: setSyncStandbys_def)
  then show ?thesis
    using r refreshSyncStandbys_facts(1) [where ks = "mkeys (cd_DBs cd)" and good = good and d = md] by blast
qed

theorem setupSynchronousStandbys_in_sync_witness:
  "\<exists>cd' s' md'. setupSynchronousStandbys sample_env (WithDefaults sync_spec)
      (sample_master ''d1'' ''k1'' 100) [''d2'', ''d3''] ''d1'' (sample_cd sync_spec sync_dbs)
      sample_sentinel = Some (cd', s') \<and> map_of (cd_DBs cd') ''d1'' = Some md' \<and>
    set (status_sync md') \<subseteq>
      set (spec_sync (with_sync [''d2''] [''d2''] (sample_master ''d1'' ''k1'' 100))) \<inter>
      (set (status_sync (with_sync [''d2''] [''d2''] (sample_master ''d1'' ''k1'' 100))) \<union>
       set (reported_sync (with_sync [''d2''] [''d2''] (sample_master ''d1'' ''k1'' 100)))) \<and>
    set (status_sync md') \<subseteq> set (spec_sync md')"
  by (rule setupSynchronousStandbys_in_sync [OF good_sample_env wf_sync])
    (simp_all add: sample_cd_def sync_dbs_def sync_spec_def new_spec_def zero_cluster_spec_def
      syncRepl_def DefaultRole_def)

text \<open>
  C22. With synchronous replication, when the section requires a standby that was not required
  before, it still requires every standby known to be in sync whose database exists.
\<close>

theorem setupSynchronousStandbys_merge:
  assumes "good_env e" and "wf_cd cd" and "syncRepl spec" and "map_of (cd_DBs cd) m = Some md"
    and "setupSynchronousStandbys e spec cur good m cd s = Some (cd', s')"
    and "map_of (cd_DBs cd') m = Some md'"
    and "u \<in> set (spec_sync md')" and "u \<notin> set (spec_sync md)"
  shows "set (spec_sync md) \<inter> set (status_sync md) \<inter> set (mkeys (cd_DBs cd)) \<subseteq> set (spec_sync md')"
proof -
  let ?d1 = "refreshSyncStandbys (mkeys (cd_DBs cd)) good md"
  let ?cd = "upd_db m (refreshSyncStandbys (mkeys (cd_DBs cd)) good) cd"
  let ?mn = "unat (the (cs_MinSynchronousStandbys spec))"
  let ?mx = "unat (the (cs_MaxSynchronousStandbys spec))"
  note facts = refreshSyncStandbys_facts [where ks = "mkeys (cd_DBs cd)" and good = good and d = md]
  have "md' \<noteq> ?d1" using assms(7,8) facts(3) by blast
  then obtain best where eq: "set (status_sync ?d1) = set (spec_sync ?d1)"
    and best: "set best \<subseteq> set (mkeys (cd_DBs cd))"
    and md': "md' = setSyncStandbys ?mn
      (nextSyncStandbys e ?cd good best ?mn ?mx (remdups (spec_sync ?d1))) ?d1"
    using setupSynchronousStandbys_cases
      [OF assms(1-4), where good = good and cur = cur and s = s] assms(5,6) by auto
  let ?new = "nextSyncStandbys e ?cd good best ?mn ?mx (remdups (spec_sync ?d1))"
  have wf: "wf_cd ?cd" using assms(2) by (rule wf_cd_upd_db) simp
  have new: "set (spec_sync md') = set ?new" by (simp add: md' setSyncStandbys_def)
  have "\<not> set ?new \<subseteq> set (remdups (spec_sync ?d1))"
    using assms(7,8) new facts(3) by auto
  then have "set (remdups (spec_sync ?d1)) \<inter> set (mkeys (cd_DBs cd)) \<subseteq> set ?new"
    using nextSyncStandbys_protocol(3) [OF assms(1) wf, of "remdups (spec_sync ?d1)" best]
      best by auto
  then show ?thesis using new eq facts(4) by auto
qed

definition two_sync_spec :: cluster_spec where
  "two_sync_spec = sync_spec\<lparr>cs_MaxSynchronousStandbys := Some 2\<rparr>"

theorem setupSynchronousStandbys_merge_witness:
  "\<exists>cd' s' md'. setupSynchronousStandbys sample_env (WithDefaults two_sync_spec)
      (sample_master ''d1'' ''k1'' 100) [''d2'', ''d3''] ''d1'' (sample_cd two_sync_spec sync_dbs)
      sample_sentinel = Some (cd', s') \<and> map_of (cd_DBs cd') ''d1'' = Some md' \<and>
    ''d3'' \<in> set (spec_sync md') \<and> ''d2'' \<in> set (spec_sync md')"
proof -
  let ?m = "with_sync [''d2''] [''d2''] (sample_master ''d1'' ''k1'' 100)"
  let ?r = "setupSynchronousStandbys sample_env (WithDefaults two_sync_spec)
    (sample_master ''d1'' ''k1'' 100) [''d2'', ''d3''] ''d1'' (sample_cd two_sync_spec sync_dbs)
    sample_sentinel"
  have sync: "syncRepl (WithDefaults two_sync_spec)" by code_simp
  have lk: "map_of (cd_DBs (sample_cd two_sync_spec sync_dbs)) ''d1'' = Some ?m"
    by (simp add: sample_cd_def sync_dbs_def)
  have "map_option (\<lambda>(cd, s). map_option spec_sync (map_of (cd_DBs cd) ''d1'')) ?r =
      Some (Some [''d2'', ''d3''])"
    by code_simp
  then obtain cd' s' md' where r: "?r = Some (cd', s')" "map_of (cd_DBs cd') ''d1'' = Some md'"
    and sp: "spec_sync md' = [''d2'', ''d3'']"
    by auto
  have "''d3'' \<notin> set (spec_sync ?m)" by code_simp
  then have "set (spec_sync ?m) \<inter> set (status_sync ?m) \<inter>
      set (mkeys (cd_DBs (sample_cd two_sync_spec sync_dbs))) \<subseteq> set (spec_sync md')"
    using setupSynchronousStandbys_merge [OF good_sample_env wf_sync sync lk r, of "''d3''"] sp by simp
  then show ?thesis
    using r sp by (auto simp: with_sync_def mkeys_def sample_cd_def sync_dbs_def)
qed



end
