(* ===== verification/Sentinel_Update.thy ===== *)
theory Sentinel_Update
  imports Sentinel_Sync
begin

text \<open>
  One reconciliation of the cluster data: \<open>updateCluster\<close> and \<open>computeOrphanMemberSlots\<close> of
  \<open>internal/runtime/sentinel/cluster_update.go\<close>, one definition per section of the function in
  the order of the source. \<open>cd\<close> is the state at the start of the pass, which the code only
  reads, and \<open>newcd\<close> the state it builds. A loop that changes the databases it meets reads the
  type and validity of a database before it changes that database.
\<close>

section \<open>Dead keepers\<close>

definition removeOldKeepers :: "time \<Rightarrow> cluster_data \<Rightarrow> cluster_data \<Rightarrow> cluster_data" where
  "removeOldKeepers t cd newcd =
     (let keepersToRemove = filter (\<lambda>k. FindDB cd k = None \<and>
            t > kst_LastHealthyTime (k_Status k) +
                the (cs_DeadKeeperRemovalInterval (DefSpec (cd_Cluster cd))))
          (mvals (cd_Keepers newcd))
      in newcd\<lparr>cd_Keepers := fold (\<lambda>k. AList.delete (k_UID k)) keepersToRemove (cd_Keepers newcd)\<rparr>)"

section \<open>Wanted master\<close>

text \<open>The manual switch request: the wanted master and whether the request was consumed.\<close>

definition clearManualSwitch :: "cluster_data \<Rightarrow> cluster_data" where
  "clearManualSwitch = upd_status (\<lambda>st. st\<lparr>cst_ManualSwitch := None\<rparr>)"

definition applyManualSwitch ::
  "env \<Rightarrow> cluster_data \<Rightarrow> db \<Rightarrow> uid \<Rightarrow> cluster_data \<Rightarrow> sentinel \<Rightarrow>
     (cluster_data \<times> uid \<times> bool \<times> sentinel) option" where
  "applyManualSwitch e cd curMasterDB curMasterDBUID newcd s =
     (case cst_ManualSwitch (cl_Status (cd_Cluster cd)) of
        None \<Rightarrow> Some (newcd, curMasterDBUID, False, s)
      | Some req \<Rightarrow>
          (case map_of (cd_Keepers newcd) (msr_TargetKeeperUID req) of
             None \<Rightarrow> Some (newcd, curMasterDBUID, False, s)
           | Some targetKeeper \<Rightarrow>
               (case FindDB newcd targetKeeper of
                  None \<Rightarrow> Some (newcd, curMasterDBUID, False, s)
                | Some targetDB \<Rightarrow>
                    if db_UID targetDB = curMasterDBUID
                    then Some (clearManualSwitch newcd, curMasterDBUID, True, s)
                    else do {
                      (candidates, s') \<leftarrow> findBestNewMasters e 0 newcd curMasterDB s;
                      if list_ex (\<lambda>c. db_UID c = db_UID targetDB) candidates
                      then Some (clearManualSwitch newcd, db_UID targetDB, True, s')
                      else Some (newcd, curMasterDBUID, False, s')
                    })))"

definition checkMaster :: "time \<Rightarrow> cluster_spec \<Rightarrow> db \<Rightarrow> sentinel \<Rightarrow> bool \<times> sentinel" where
  "checkMaster t clusterSpec curMasterDB s =
     (let (c, s') = dbConvergenceState t curMasterDB (the (cs_ConvergenceTimeout clusterSpec)) s
      in (dst_Healthy (db_Status curMasterDB) \<and> c \<noteq> ConvergenceFailed, s'))"

definition chooseWantedMaster ::
  "env \<Rightarrow> cluster_spec \<Rightarrow> db \<Rightarrow> uid \<Rightarrow> bool \<Rightarrow> bool \<Rightarrow> cluster_data \<Rightarrow> uid \<Rightarrow> sentinel \<Rightarrow>
     (uid \<times> sentinel) option" where
  "chooseWantedMaster e clusterSpec curMasterDB curMasterDBUID masterOK manualSwitchApplied
     newcd wanted s =
     (if \<not> masterOK \<and> \<not> manualSwitchApplied then do {
        ((bestNewMasterDB, clearBackoff), s1) \<leftarrow>
          chooseBestNewMaster e 1 newcd curMasterDB (the (cs_FailInterval clusterSpec)) s;
        let s2 = (if clearBackoff then deleteBackoff curMasterDBUID s1 else s1);
        Some (case bestNewMasterDB of Some d \<Rightarrow> (db_UID d, s2) | None \<Rightarrow> (wanted, s2))
      }
      else do {
        let s1 = deleteBackoff curMasterDBUID s;
        if \<not> manualSwitchApplied \<and> masterOK then do {
          (autoTarget, s2) \<leftarrow> chooseAutoFailbackTarget e 2 newcd curMasterDB s1;
          Some (case autoTarget of
              Some d \<Rightarrow> (db_UID d, s2\<lparr>s_autoFailbackLastSwitchAt := now e\<rparr>)
            | None \<Rightarrow> (wanted, s2))
        }
        else Some (wanted, s1)
      })"

section \<open>Election\<close>

text \<open>The synchronous standbys of the new master: those of the old one, with the old master in
  place of the new one.\<close>

definition inheritSyncStandbys :: "cluster_spec \<Rightarrow> db \<Rightarrow> uid \<Rightarrow> db_spec \<Rightarrow> db_spec" where
  "inheritSyncStandbys clusterSpec oldMasterdb newUID sp =
     (if syncRepl clusterSpec then
        (let standbys = map (\<lambda>u. if u \<noteq> newUID then u else db_UID oldMasterdb)
               (els (dbs_SynchronousStandbys (db_Spec oldMasterdb)))
         in sp\<lparr>dbs_SynchronousReplication := True,
               dbs_SynchronousStandbys := Some (sort standbys),
               dbs_ExternalSynchronousStandbys :=
                 Some (if length standbys = 0 \<and> the (cs_MinSynchronousStandbys clusterSpec) > 0
                       then [fakeStandbyName] else [])\<rparr>)
      else sp\<lparr>dbs_SynchronousReplication := False, dbs_SynchronousStandbys := None,
              dbs_ExternalSynchronousStandbys := None\<rparr>)"

definition clearProxyMaster :: "cluster_data \<Rightarrow> cluster_data" where
  "clearProxyMaster cd =
     (let p = cd_Proxy cd in
      if pxs_MasterDBUID (px_Spec p) \<noteq> [] then
        cd\<lparr>cd_Proxy := p\<lparr>px_Spec := (px_Spec p)\<lparr>pxs_MasterDBUID := []\<rparr>,
                         px_Generation := inc (px_Generation p)\<rparr>\<rparr>
      else cd)"

definition electNewMaster ::
  "cluster_spec \<Rightarrow> uid \<Rightarrow> uid \<Rightarrow> cluster_data \<Rightarrow> cluster_data option" where
  "electNewMaster clusterSpec curUID wantedUID newcd = do {
     _ \<leftarrow> map_of (cd_DBs newcd) curUID;
     let cd1 = upd_dbspec curUID (\<lambda>sp. sp\<lparr>dbs_Followers := Some []\<rparr>) newcd;
     (ro, fc) \<leftarrow> masterRoleConfig clusterSpec;
     let cd2 = setMaster wantedUID cd1;
     newMasterDB \<leftarrow> map_of (cd_DBs cd2) wantedUID;
     oldMasterdb \<leftarrow> map_of (cd_DBs cd2) curUID;
     let cd3 = clearProxyMaster
       (upd_dbspec wantedUID (\<lambda>sp. sp\<lparr>dbs_Role := ro, dbs_FollowConfig := fc\<rparr>) cd2);
     Some (upd_dbspec wantedUID
       (inheritSyncStandbys clusterSpec oldMasterdb (db_UID newMasterDB)) cd3)
   }"

section \<open>Proxies\<close>

definition updateProxies :: "proxies_info \<Rightarrow> uid \<Rightarrow> cluster_data \<Rightarrow> cluster_data" where
  "updateProxies pis wantedUID newcd =
     (let p = cd_Proxy newcd in
      if pxs_MasterDBUID (px_Spec p) = [] then
        (if list_ex (\<lambda>pi. pi_Generation pi \<noteq> px_Generation p) (mvals pis) then newcd
         else newcd\<lparr>cd_Proxy := p\<lparr>px_Spec := (px_Spec p)\<lparr>pxs_MasterDBUID := wantedUID\<rparr>,
                                  px_Generation := inc (px_Generation p)\<rparr>\<rparr>)
      else
        (let enabledProxies = Some (sort (map pi_UID (mvals pis)))
         in if pxs_EnabledProxies (px_Spec p) \<noteq> enabledProxies then
              newcd\<lparr>cd_Proxy := p\<lparr>px_Spec := (px_Spec p)\<lparr>pxs_EnabledProxies := enabledProxies\<rparr>,
                                  px_Generation := inc (px_Generation p)\<rparr>\<rparr>
            else newcd))"

section \<open>Standbys of a converged master\<close>

definition removeDBs :: "uid list \<Rightarrow> cluster_data \<Rightarrow> cluster_data" where
  "removeDBs us cd = cd\<lparr>cd_DBs := fold AList.delete us (cd_DBs cd)\<rparr>"

definition removeOldMasters :: "uid \<Rightarrow> cluster_data \<Rightarrow> cluster_data" where
  "removeOldMasters wantedUID newcd = removeDBs (map db_UID (filter
     (\<lambda>d. db_UID d \<noteq> wantedUID \<and> dbType newcd (db_UID d) = Inr dbTypePrimaryLine)
     (mvals (cd_DBs newcd)))) newcd"

definition removeInvalidDBs :: "uid \<Rightarrow> cluster_data \<Rightarrow> cluster_data" where
  "removeInvalidDBs wantedUID newcd = removeDBs (map db_UID (filter
     (\<lambda>d. db_UID d \<noteq> wantedUID \<and> dbValidity newcd (db_UID d) = Inr dbValidityInvalid)
     (mvals (cd_DBs newcd)))) newcd"

definition removeCannotSync :: "sentinel \<Rightarrow> cluster_data \<Rightarrow> cluster_data \<Rightarrow> cluster_data" where
  "removeCannotSync s cd newcd = removeDBs (map db_UID (filter
     (\<lambda>d. dbCanSync s cd (db_UID d) = Inr False) (mvals (cd_DBs newcd)))) newcd"

definition cleanInitMode :: "dbs \<Rightarrow> cluster_data \<Rightarrow> cluster_data" where
  "cleanInitMode goodStandbys newcd =
     newcd\<lparr>cd_DBs := map (\<lambda>(u, d). (u, if u \<in> set (mkeys goodStandbys)
        then d\<lparr>db_Spec := (db_Spec d)\<lparr>dbs_InitMode := DBInitModeNone\<rparr>\<rparr> else d)) (cd_DBs newcd)\<rparr>"

text \<open>Removal of standbys when there are enough good ones.\<close>

fun excessStandbys :: "uid list \<Rightarrow> int \<Rightarrow> db list \<Rightarrow> uid list" where
  "excessStandbys sync nr [] = []"
| "excessStandbys sync nr (d # ds) =
     (if 0 \<ge> nr then []
      else if db_UID d \<in> set sync then excessStandbys sync nr ds
      else db_UID d # excessStandbys sync (nr - 1) ds)"

definition nonGoodStandbys :: "uid list \<Rightarrow> dbs \<Rightarrow> cluster_data \<Rightarrow> uid list" where
  "nonGoodStandbys sync goodStandbys newcd = map db_UID (filter
     (\<lambda>d. dbType newcd (db_UID d) = Inr dbTypeReplicaLine \<and> db_UID d \<notin> set sync \<and>
          db_UID d \<notin> set (mkeys goodStandbys)) (mvals (cd_DBs newcd)))"

definition removeStandbys ::
  "env \<Rightarrow> uid list \<Rightarrow> dbs \<Rightarrow> nat \<Rightarrow> cluster_data \<Rightarrow> cluster_data" where
  "removeStandbys e sync goodStandbys maxStandbysPerSender newcd =
     removeDBs (nonGoodStandbys sync goodStandbys newcd @
       excessStandbys sync (int (length goodStandbys) - int maxStandbysPerSender)
         (iter e 6 goodStandbys)) newcd"

text \<open>New standbys on free keepers.\<close>

definition new_standby :: "uid \<Rightarrow> uid \<Rightarrow> keeper \<Rightarrow> db" where
  "new_standby u wantedUID freeKeeper = new_db u (zero_db_spec
     \<lparr>dbs_KeeperUID := k_UID freeKeeper, dbs_InitMode := DBInitModeResync,
      dbs_Role := RoleStandby, dbs_Followers := Some [],
      dbs_FollowConfig := Some \<lparr>fc_StandbySettings = None, fc_ArchiveRecoverySettings = None,
        fc_Type = FollowTypeInternal, fc_DBUID = wantedUID\<rparr>\<rparr>)"

fun addStandbyDBs :: "env \<Rightarrow> uid \<Rightarrow> nat \<Rightarrow> int \<Rightarrow> keeper list \<Rightarrow> cluster_data \<Rightarrow> cluster_data" where
  "addStandbyDBs e wantedUID i nc [] newcd = newcd"
| "addStandbyDBs e wantedUID i nc (freeKeeper # ks) newcd =
     (if int i < nc
      then addStandbyDBs e wantedUID (i + 1) nc ks
             (addDB (new_standby (uidFn e i) wantedUID freeKeeper) newcd)
      else newcd)"

definition adjustStandbys ::
  "env \<Rightarrow> cluster_spec \<Rightarrow> uid \<Rightarrow> uid list \<Rightarrow> dbs_by_status \<Rightarrow> cluster_data \<Rightarrow> cluster_data" where
  "adjustStandbys e clusterSpec wantedUID sync r newcd =
     (let maxStandbysPerSender = unat (the (cs_MaxStandbysPerSender clusterSpec));
          notFailedStandbysCount = length (goodDBs r) + length (convergingDBs r)
      in if length (goodDBs r) \<ge> maxStandbysPerSender
         then removeStandbys e sync (goodDBs r) maxStandbysPerSender newcd
         else addStandbyDBs e wantedUID 0
                (int maxStandbysPerSender - int notFailedStandbysCount)
                (freeKeepers e 7 newcd) newcd)"

definition followMaster :: "uid \<Rightarrow> db \<Rightarrow> db" where
  "followMaster wantedUID d = d\<lparr>db_Spec := (db_Spec d)
     \<lparr>dbs_Role := RoleStandby, dbs_Followers := Some [],
      dbs_FollowConfig := Some \<lparr>fc_StandbySettings = None, fc_ArchiveRecoverySettings = None,
        fc_Type = FollowTypeInternal, fc_DBUID = wantedUID\<rparr>,
      dbs_SynchronousReplication := False, dbs_SynchronousStandbys := None,
      dbs_ExternalSynchronousStandbys := None\<rparr>\<rparr>"

definition reconfigureStandbys :: "uid \<Rightarrow> cluster_data \<Rightarrow> cluster_data" where
  "reconfigureStandbys wantedUID newcd = newcd\<lparr>cd_DBs := mmap
     (\<lambda>d. if dbType newcd (db_UID d) = Inr dbTypeReplicaLine then followMaster wantedUID d else d)
     (cd_DBs newcd)\<rparr>"

definition manageStandbys ::
  "env \<Rightarrow> cluster_data \<Rightarrow> cluster_spec \<Rightarrow> db \<Rightarrow> uid \<Rightarrow> cluster_data \<Rightarrow> sentinel \<Rightarrow>
     (cluster_data \<times> sentinel) option" where
  "manageStandbys e cd clusterSpec curMasterDB wantedUID newcd s = do {
     let cd1 = removeOldMasters wantedUID newcd;
     let cd2 = removeInvalidDBs wantedUID cd1;
     let cd3 = removeCannotSync s cd cd2;
     (r, s1) \<leftarrow> validStandbysByStatus (now e) cd3 s;
     let cd4 = cleanInitMode (goodDBs r) cd3;
     (cd5, s2) \<leftarrow> setupSynchronousStandbys e clusterSpec curMasterDB (mkeys (goodDBs r))
       wantedUID cd4 s1;
     masterDB \<leftarrow> map_of (cd_DBs cd5) wantedUID;
     let cd6 = adjustStandbys e clusterSpec wantedUID
       (els (dbs_SynchronousStandbys (db_Spec masterDB))) r cd5;
     Some (reconfigureStandbys wantedUID cd6, s2)
   }"

text \<open>The section for an unchanged master.\<close>

definition keepMaster ::
  "env \<Rightarrow> proxies_info \<Rightarrow> cluster_data \<Rightarrow> cluster_spec \<Rightarrow> db \<Rightarrow> uid \<Rightarrow> cluster_data \<Rightarrow> sentinel \<Rightarrow>
     (cluster_data \<times> sentinel) option" where
  "keepMaster e pis cd clusterSpec curMasterDB curUID newcd s = do {
     let cd1 = updateProxies pis curUID newcd;
     let cd2 = (if the (cs_Role clusterSpec) = ClusterRoleMaster
       then upd_dbspec curUID (\<lambda>sp. sp\<lparr>dbs_Role := RoleMaster, dbs_FollowConfig := None\<rparr>) cd1
       else cd1);
     masterDB \<leftarrow> map_of (cd_DBs cd2) curUID;
     if dst_Healthy (db_Status masterDB) then do {
       let (c, s1) =
         dbConvergenceState (now e) masterDB (the (cs_ConvergenceTimeout clusterSpec)) s;
       if c = Converged then manageStandbys e cd clusterSpec curMasterDB curUID cd2 s1
       else Some (cd2, s1)
     }
     else Some (cd2, s)
   }"

definition updateFollowers :: "uid \<Rightarrow> uid \<Rightarrow> cluster_data \<Rightarrow> cluster_data option" where
  "updateFollowers curUID wantedUID newcd = do {
     masterDB \<leftarrow> map_of (cd_DBs newcd) curUID;
     let followers = map db_UID (filter (\<lambda>d. db_UID masterDB \<noteq> db_UID d \<and>
           (case dbs_FollowConfig (db_Spec d) of
              None \<Rightarrow> False
            | Some fc \<Rightarrow> fc_Type fc = FollowTypeInternal \<and> fc_DBUID fc = wantedUID))
         (mvals (cd_DBs newcd)));
     Some (upd_dbspec curUID (\<lambda>sp. sp\<lparr>dbs_Followers := Some (sort followers)\<rparr>) newcd)
   }"

section \<open>Normal phase\<close>

text \<open>
  The result of the phase: an error, or the new cluster data and whether the function returns
  at once (active pause).
\<close>

definition normalPhase ::
  "env \<Rightarrow> proxies_info \<Rightarrow> cluster_data \<Rightarrow> cluster_spec \<Rightarrow> sentinel \<Rightarrow>
     (cluster_data res \<times> sentinel) option" where
  "normalPhase e pis cd clusterSpec s = do {
     let cd1 = removeOldKeepers (now e) cd cd;
     let curUID = cst_Master (cl_Status (cd_Cluster cd));
     case map_of (cd_DBs cd) curUID of
       None \<Rightarrow>
         Some (Inl (Errq ''db for keeper %q not available, this shouldn't happen'' curUID), s)
     | Some curMasterDB \<Rightarrow> do {
         (cd2, wanted0, manualSwitchApplied, s1) \<leftarrow>
           applyManualSwitch e cd curMasterDB curUID cd1 s;
         let (masterOK, s2) = checkMaster (now e) clusterSpec curMasterDB s1;
         (wantedUID, s3) \<leftarrow> chooseWantedMaster e clusterSpec curMasterDB curUID masterOK
           manualSwitchApplied cd2 wanted0 s2;
         (cd3, s4) \<leftarrow>
           (if curUID \<noteq> wantedUID
            then map_option (\<lambda>c. (c, s3)) (electNewMaster clusterSpec curUID wantedUID cd2)
            else keepMaster e pis cd clusterSpec curMasterDB curUID cd2 s3);
         cd4 \<leftarrow> updateFollowers curUID wantedUID cd3;
         Some (Inr cd4, s4)
       }
   }"

section \<open>Orphan slots and generations\<close>

definition computeOrphanMemberSlots ::
  "uid list \<Rightarrow> uid list \<Rightarrow> (string \<times> time) slice \<Rightarrow> bool \<Rightarrow> time \<Rightarrow> (string \<times> time) slice" where
  "computeOrphanMemberSlots prevFollowers currentFollowers prevOrphans masterChanged t =
     (if masterChanged then None
      else
        (let current = map HysteronName currentFollowers;
             out1 = fold AList.delete current (els prevOrphans);
             out2 = fold (\<lambda>slot out.
                 if slot \<in> set current then out
                 else case map_of out slot of
                     Some _ \<Rightarrow> out
                   | None \<Rightarrow> AList.update slot t out)
               (map HysteronName prevFollowers) out1
         in if out2 = [] then None else Some out2))"

definition updateOrphanSlots :: "time \<Rightarrow> cluster_data \<Rightarrow> cluster_data \<Rightarrow> cluster_data" where
  "updateOrphanSlots t cd newcd =
     (let masterUID = cst_Master (cl_Status (cd_Cluster newcd));
          prevMaster = cst_Master (cl_Status (cd_Cluster cd)) in
      if masterUID = [] then newcd
      else case map_of (cd_DBs newcd) masterUID of
          None \<Rightarrow> newcd
        | Some masterDB \<Rightarrow>
            (let ttl = cs_MemberReplicationSlotTTL (DefSpec (cd_Cluster newcd));
                 prevFollowers = (case map_of (cd_DBs cd) masterUID of
                     Some p \<Rightarrow> els (dbs_Followers (db_Spec p)) | None \<Rightarrow> []);
                 masterChanged = (prevMaster \<noteq> [] \<and> prevMaster \<noteq> masterUID);
                 slots = (case ttl of
                     Some d \<Rightarrow>
                       if d > 0 then computeOrphanMemberSlots prevFollowers
                           (els (dbs_Followers (db_Spec masterDB)))
                           (dst_OrphanMemberSlots (db_Status masterDB)) masterChanged t
                       else None
                   | None \<Rightarrow> None)
             in upd_db masterUID
                  (\<lambda>d. d\<lparr>db_Status := (db_Status d)\<lparr>dst_OrphanMemberSlots := slots\<rparr>\<rparr>) newcd))"

definition bumpGeneration :: "dbs \<Rightarrow> uid \<times> db \<Rightarrow> uid \<times> db" where
  "bumpGeneration prev ud =
     (case ud of (u, d) \<Rightarrow> (u, case map_of prev u of
        None \<Rightarrow> d
      | Some p \<Rightarrow>
          if db_Spec d \<noteq> db_Spec p then d\<lparr>db_Generation := inc (db_Generation d)\<rparr> else d))"

definition bumpGenerations :: "cluster_data \<Rightarrow> cluster_data \<Rightarrow> cluster_data" where
  "bumpGenerations cd newcd = newcd\<lparr>cd_DBs := map (bumpGeneration (cd_DBs cd)) (cd_DBs newcd)\<rparr>"

section \<open>The whole pass\<close>

definition finishUpdate :: "time \<Rightarrow> cluster_data \<Rightarrow> cluster_data \<Rightarrow> cluster_data option" where
  "finishUpdate t cd newcd = do {
     cd1 \<leftarrow> setDBSpecFromClusterSpec newcd;
     Some (bumpGenerations cd (updateOrphanSlots t cd cd1))
   }"

definition updateCluster ::
  "env \<Rightarrow> proxies_info \<Rightarrow> cluster_data \<Rightarrow> sentinel \<Rightarrow> (cluster_data res \<times> sentinel) option" where
  "updateCluster e pis cd s = do {
     let clusterSpec = DefSpec (cd_Cluster cd);
     case cst_Phase (cl_Status (cd_Cluster cd)) of
       ClusterPhaseInitializing \<Rightarrow> do {
         (r, s') \<leftarrow> initializingPhase e cd clusterSpec s;
         case r of
           Inl err \<Rightarrow> Some (Inl err, s')
         | Inr newcd \<Rightarrow> map_option (\<lambda>c. (Inr c, s')) (finishUpdate (now e) cd newcd)
       }
     | ClusterPhaseNormal \<Rightarrow>
         if PauseActive (cl_Status (cd_Cluster cd)) (now e) then Some (Inr cd, s)
         else do {
           (r, s') \<leftarrow> normalPhase e pis cd clusterSpec s;
           case r of
             Inl err \<Rightarrow> Some (Inl err, s')
           | Inr newcd \<Rightarrow> map_option (\<lambda>c. (Inr c, s')) (finishUpdate (now e) cd newcd)
         }
     | ClusterPhaseOther x \<Rightarrow> Some (Inl (Errq ''unknown cluster phase %s'' x), s)
   }"

end
