(* ===== verification/Sentinel_Check.thy ===== *)
theory Sentinel_Check
  imports Sentinel_State Sentinel_Update
begin

text \<open>
  One check of the sentinel loop (\<open>clusterSentinelCheck\<close>, \<open>electionLoop\<close> and \<open>leaderInfo\<close> of
  \<open>internal/runtime/sentinel/sentinel.go\<close>, the probes of \<open>health_probe.go\<close>, the retry backoff of
  \<open>runtime.go\<close>). What the store and the optional service publisher answer during the check is
  its input.
\<close>

section \<open>Election events\<close>

definition electionEvent :: "bool \<Rightarrow> sentinel \<Rightarrow> sentinel" where
  "electionEvent elected s =
     (if elected then s\<lparr>s_leader := True, s_leadershipCount := s_leadershipCount s + 1,
                        s_dcsDegradedSeen := False\<rparr>
      else s\<lparr>s_leader := False\<rparr>)"

definition leaderInfo :: "sentinel \<Rightarrow> bool \<times> nat" where
  "leaderInfo s = (s_leader s, s_leadershipCount s)"

section \<open>The check\<close>

record check_input =
  ci_GetClusterData :: "cluster_data option res"
  ci_SetSentinelInfo :: "unit res"
  ci_GetKeepersInfo :: "keepers_info res"
  ci_GetProxiesInfo :: "proxies_info res"
  ci_AtomicPutClusterData :: "cluster_data \<Rightarrow> unit res"
  ci_Publish :: "(cluster_data \<Rightarrow> unit res) option"

text \<open>The reconciliation of a leader: the cluster data it puts, if any.\<close>

definition reconcile ::
  "env \<Rightarrow> cluster_data \<Rightarrow> keepers_info \<Rightarrow> proxies_info \<Rightarrow> sentinel \<Rightarrow>
     ((cluster_data \<times> keeper_info_histories) option \<times> sentinel) option" where
  "reconcile e cd keepersInfo proxiesInfo s = do {
     let firstRun = (s_lastLeadershipCount s \<noteq> s_leadershipCount s);
     let s1 = s\<lparr>s_lastLeadershipCount := s_leadershipCount s\<rparr>;
     let s2 = (if firstRun then runLeadershipSanitySweep (now e) cd s1 else s1);
     (cd1, kihs, s3) \<leftarrow> updateKeepersStatus (now e) cd keepersInfo firstRun s2;
     let (active, s4) = activeProxiesInfos (now e) proxiesInfo s3;
     (r, s5) \<leftarrow> updateCluster e active cd1 s4;
     Some (case r of
         Inl _ \<Rightarrow> (None, s5)
       | Inr newcd \<Rightarrow> (Some (updateChangeTimes (now e) cd newcd, kihs), s5))
   }"

definition clusterSentinelCheck ::
  "env \<Rightarrow> check_input \<Rightarrow> sentinel \<Rightarrow> (cluster_data option \<times> sentinel) option" where
  "clusterSentinelCheck e inp s =
     (case ci_GetClusterData inp of
        Inl _ \<Rightarrow> Some (None, s\<lparr>s_dcsDegradedSeen := True\<rparr>)
      | Inr None \<Rightarrow>
          (let s1 = s\<lparr>s_dcsDegradedSeen := False\<rparr> in
           case s_initialClusterSpec s1 of
             None \<Rightarrow> Some (None, s1)
           | Some spec \<Rightarrow>
               Some (Some (NewClusterData (NewCluster (now e) (uidFn e 0) spec)), s1))
      | Inr (Some cd) \<Rightarrow>
          (let s1 = s\<lparr>s_dcsDegradedSeen := False\<rparr> in
           if cd_FormatVersion cd \<noteq> CurrentCDFormatVersion then Some (None, s1)
           else if Validate (cl_Spec (cd_Cluster cd)) \<noteq> Inr () then Some (None, s1)
           else
             (let s2 = s1\<lparr>s_sleepInterval := the (cs_SleepInterval (DefSpec (cd_Cluster cd))),
                          s_requestTimeout := the (cs_RequestTimeout (DefSpec (cd_Cluster cd)))\<rparr>
              in case (ci_SetSentinelInfo inp, ci_GetKeepersInfo inp, ci_GetProxiesInfo inp) of
                (Inr _, Inr keepersInfo, Inr proxiesInfo) \<Rightarrow>
                  if \<not> fst (leaderInfo s2) then Some (None, s2)
                  else do {
                    (r, s3) \<leftarrow> reconcile e cd keepersInfo proxiesInfo s2;
                    case r of
                      None \<Rightarrow> Some (None, s3)
                    | Some (newcd, kihs) \<Rightarrow>
                        if ci_AtomicPutClusterData inp newcd \<noteq> Inr () then Some (Some newcd, s3)
                        else if (case ci_Publish inp of
                                   None \<Rightarrow> False | Some p \<Rightarrow> p newcd \<noteq> Inr ())
                        then Some (Some newcd, s3)
                        else
                          (let s4 = updateDBConvergenceInfos (now e) newcd
                                 (s3\<lparr>s_keeperInfoHistories := kihs\<rparr>)
                           in Some (Some newcd, s4\<lparr>s_lastCheckSuccessUnixNano := now e\<rparr>))
                  }
              | _ \<Rightarrow> Some (None, s2))))"

section \<open>Probes and retry\<close>

definition probeStartup :: "sentinel \<Rightarrow> unit res" where
  "probeStartup s = guard (s_lastCheckSuccessUnixNano s \<le> 0)
     (Err ''sentinel startup is not complete yet'')"

definition probeReady :: "time \<Rightarrow> duration \<Rightarrow> sentinel \<Rightarrow> unit res" where
  "probeReady t maxStaleness s = first_err
     [guard (s_lastCheckSuccessUnixNano s \<le> 0) (Err ''sentinel startup is not complete yet''),
      guard (time_sub t (s_lastCheckSuccessUnixNano s) > maxStaleness)
        (Err ''sentinel cluster sync is stale'')]"

definition nextSentinelRetryBackoff :: "duration \<Rightarrow> duration \<Rightarrow> duration" where
  "nextSentinelRetryBackoff current maxBackoff =
     (let next = i64 (current * 2) in if next > maxBackoff then maxBackoff else next)"

end
