(* ===== verification/Update_Shape.thy ===== *)
theory Update_Shape
  imports Sentinel_Update
begin

text \<open>
  What the sections of \<open>updateCluster\<close> leave alone. The shape of a database is its UID, keeper,
  role and what it follows; the invariant of the cluster data and the type of a database depend
  only on the shapes, and most sections keep them.
\<close>

section \<open>Shapes\<close>

type_synonym db_shape = "uid \<times> uid \<times> role \<times> (follow_type \<times> uid) option"

definition shape :: "db \<Rightarrow> db_shape" where
  "shape d = (db_UID d, dbs_KeeperUID (db_Spec d), dbs_Role (db_Spec d),
     map_option (\<lambda>fc. (fc_Type fc, fc_DBUID fc)) (dbs_FollowConfig (db_Spec d)))"

definition shapes :: "dbs \<Rightarrow> (uid \<times> db_shape) list" where
  "shapes ds = map (\<lambda>(u, d). (u, shape d)) ds"

lemma mkeys_shapes [simp]: "mkeys (shapes ds) = mkeys ds"
  by (auto simp: shapes_def mkeys_def)

lemma map_of_shapes: "map_of (shapes ds) u = map_option shape (map_of ds u)"
  by (induction ds) (auto simp: shapes_def)

lemma shapes_keys: "shapes ds = shapes ds' \<Longrightarrow> mkeys ds = mkeys ds'"
  by (metis mkeys_shapes)

lemma shapes_lookup:
  assumes "shapes ds = shapes ds'" and "map_of ds u = Some d"
  shows "\<exists>d'. map_of ds' u = Some d' \<and> shape d' = shape d"
proof -
  have "map_option shape (map_of ds' u) = Some (shape d)"
    using assms map_of_shapes [of ds u] map_of_shapes [of ds' u] by simp
  then show ?thesis by auto
qed

lemma shape_simps:
  "shape d = shape d' \<Longrightarrow> db_UID d = db_UID d'"
  "shape d = shape d' \<Longrightarrow> dbs_KeeperUID (db_Spec d) = dbs_KeeperUID (db_Spec d')"
  "shape d = shape d' \<Longrightarrow> dbs_Role (db_Spec d) = dbs_Role (db_Spec d')"
  "shape d = shape d' \<Longrightarrow> dbs_FollowConfig (db_Spec d) = None \<longleftrightarrow> dbs_FollowConfig (db_Spec d') = None"
  by (auto simp: shape_def)

lemma shape_follows_external: "shape d = shape d' \<Longrightarrow> follows_external d = follows_external d'"
  by (cases "dbs_FollowConfig (db_Spec d)"; cases "dbs_FollowConfig (db_Spec d')")
    (auto simp: shape_def follows_external_def)

text \<open>The invariant in terms of the shapes.\<close>

lemma wf_dbs_shapes:
  "wf_dbs ks ds \<longleftrightarrow> distinct (mkeys ds) \<and>
     list_all (\<lambda>(u, v, k, r). v = u \<and> k \<in> set (mkeys ks)) (shapes ds) \<and>
     distinct (map (\<lambda>(u, v, k, r). k) (shapes ds))"
proof -
  have "map (\<lambda>d. dbs_KeeperUID (db_Spec d)) (mvals ds) = map (\<lambda>(u, v, k, r). k) (shapes ds)"
    by (auto simp: mvals_def shapes_def shape_def)
  then show ?thesis
    by (auto simp: wf_dbs_def wf_map_def list_all_iff shapes_def shape_def)
qed

lemma wf_dbs_cong: "shapes ds = shapes ds' \<Longrightarrow> wf_dbs ks ds = wf_dbs ks ds'"
  using shapes_keys [of ds ds'] unfolding wf_dbs_shapes by simp

lemma wf_cd_cong:
  assumes "cd_Keepers cd = cd_Keepers cd'" and "shapes (cd_DBs cd) = shapes (cd_DBs cd')"
  shows "wf_cd cd = wf_cd cd'"
  using assms(1) wf_dbs_cong [OF assms(2)] by (simp add: wf_cd_def)

definition primary_line :: "db \<Rightarrow> bool" where
  "primary_line d \<longleftrightarrow> dbs_Role (db_Spec d) = RoleMaster \<or>
     dbs_Role (db_Spec d) = RoleStandby \<and> follows_external d"

definition replica_line :: "db \<Rightarrow> bool" where
  "replica_line d \<longleftrightarrow> dbs_Role (db_Spec d) = RoleStandby \<and> \<not> follows_external d"

lemma dbType_iff:
  assumes "map_of (cd_DBs cd) u = Some d"
  shows "dbType cd u = Inr dbTypePrimaryLine \<longleftrightarrow> primary_line d"
    and "dbType cd u = Inr dbTypeReplicaLine \<longleftrightarrow> replica_line d"
  using assms
  by (auto simp: dbType_def primary_line_def replica_line_def split: role.splits)

lemma primary_not_replica: "primary_line d \<Longrightarrow> \<not> replica_line d"
  by (auto simp: primary_line_def replica_line_def)

lemma primary_line_shape: "shape d = shape d' \<Longrightarrow> primary_line d = primary_line d'"
  using shape_follows_external shape_simps(3) by (metis primary_line_def)

lemma replica_line_shape: "shape d = shape d' \<Longrightarrow> replica_line d = replica_line d'"
  using shape_follows_external shape_simps(3) by (metis replica_line_def)

section \<open>Writes that keep the shapes\<close>

lemma shapes_map:
  "(\<And>u d. (u, d) \<in> set ds \<Longrightarrow> shape (f u d) = shape d) \<Longrightarrow>
     shapes (map (\<lambda>(u, d). (u, f u d)) ds) = shapes ds"
  by (auto simp: shapes_def)

lemma shapes_madj: "(\<And>d. shape (f d) = shape d) \<Longrightarrow> shapes (madj u f ds) = shapes ds"
  by (simp add: shapes_map madj_def)

lemma shapes_upd_db: "(\<And>d. shape (f d) = shape d) \<Longrightarrow> shapes (cd_DBs (upd_db u f cd)) = shapes (cd_DBs cd)"
  by (simp add: upd_db_def shapes_madj)

lemma upd_dbspec_simps [simp]:
  "cd_Keepers (upd_dbspec u f cd) = cd_Keepers cd"
  "cd_Cluster (upd_dbspec u f cd) = cd_Cluster cd"
  "cd_Proxy (upd_dbspec u f cd) = cd_Proxy cd"
  "mkeys (cd_DBs (upd_dbspec u f cd)) = mkeys (cd_DBs cd)"
  "map_of (cd_DBs (upd_dbspec u f cd)) u =
     map_option (\<lambda>d. d\<lparr>db_Spec := f (db_Spec d)\<rparr>) (map_of (cd_DBs cd) u)"
  "u' \<noteq> u \<Longrightarrow> map_of (cd_DBs (upd_dbspec u f cd)) u' = map_of (cd_DBs cd) u'"
  by (simp_all add: upd_dbspec_def)

lemma shapes_upd_dbspec:
  "(\<And>d. shape (d\<lparr>db_Spec := f (db_Spec d)\<rparr>) = shape d) \<Longrightarrow>
     shapes (cd_DBs (upd_dbspec u f cd)) = shapes (cd_DBs cd)"
  by (simp add: upd_dbspec_def shapes_madj)

lemma shape_refresh [simp]: "shape (refreshSyncStandbys ks good d) = shape d"
  by (simp add: shape_def)

lemma shape_setSync [simp]: "shape (setSyncStandbys mn sync d) = shape d"
  by (simp add: shape_def)

lemma shape_clearSync [simp]: "shape (clearSyncStandbys d) = shape d"
  by (simp add: shape_def)

lemma shape_status [simp]: "shape (d\<lparr>db_Status := st\<rparr>) = shape d"
  by (simp add: shape_def)

lemma shape_generation [simp]: "shape (d\<lparr>db_Generation := g\<rparr>) = shape d"
  by (simp add: shape_def)

lemma upd_db_id: "upd_db m (\<lambda>d. d) cd = cd"
  by (simp add: upd_db_def madj_def)

lemma upd_db_comp: "upd_db m f (upd_db m g cd) = upd_db m (\<lambda>d. f (g d)) cd"
proof -
  have "madj m f (madj m g ds) = madj m (\<lambda>d. f (g d)) ds" for ds
    by (induction ds) (auto simp: madj_def)
  then show ?thesis by (simp add: upd_db_def)
qed

lemma generation_syncs [simp]:
  "db_Generation (refreshSyncStandbys ks good d) = db_Generation d"
  "db_Generation (setSyncStandbys mn sync d) = db_Generation d"
  "db_Generation (clearSyncStandbys d) = db_Generation d"
  by (simp_all add: refreshSyncStandbys_def setSyncStandbys_def clearSyncStandbys_def Let_def)

text \<open>The section only writes the master, and neither its shape nor its generation.\<close>

lemma setupSynchronousStandbys_upd:
  assumes "good_env e" and "wf_cd cd" and "map_of (cd_DBs cd) m \<noteq> None"
  shows "\<exists>f s'. setupSynchronousStandbys e spec cur good m cd s = Some (upd_db m f cd, s') \<and>
    conv_ext (now e) s s' \<and> (\<forall>d. shape (f d) = shape d \<and> db_Generation (f d) = db_Generation d)"
proof (cases "syncRepl spec")
  case False
  then have "setupSynchronousStandbys e spec cur good m cd s = Some (upd_db m clearSyncStandbys cd, s)"
    by (simp add: setupSynchronousStandbys_def)
  then show ?thesis using conv_ext_refl shape_clearSync generation_syncs(3) by blast
next
  case True
  let ?g = "refreshSyncStandbys (mkeys (cd_DBs cd)) good"
  let ?cd = "upd_db m ?g cd"
  have wf: "wf_cd ?cd" using assms(2) by (rule wf_cd_upd_db) simp
  obtain best s' where b: "findBestStandbys e 3 ?cd cur s = Some (best, s')" "conv_ext (now e) s s'"
    using findBestStandbys_char [OF assms(1) wf] by blast
  obtain md where md: "map_of (cd_DBs cd) m = Some md" using assms(3) by blast
  let ?d = "refreshSyncStandbys (mkeys (cd_DBs cd)) good md"
  show ?thesis
  proof (cases "CompareStringSliceNoOrder (status_sync ?d) (spec_sync ?d)")
    case False
    then have "setupSynchronousStandbys e spec cur good m cd s = Some (upd_db m ?g cd, s)"
      using True md by (simp add: setupSynchronousStandbys_def Let_def)
    then show ?thesis using conv_ext_refl shape_refresh generation_syncs(1) by blast
  next
    case same: True
    obtain sync where r: "setupSynchronousStandbys e spec cur good m cd s =
        Some (upd_db m (setSyncStandbys (unat (the (cs_MinSynchronousStandbys spec))) sync) ?cd, s')"
      using True same md b(1) by (simp add: setupSynchronousStandbys_def Let_def)
    let ?h = "\<lambda>d. setSyncStandbys (unat (the (cs_MinSynchronousStandbys spec))) sync (?g d)"
    have "\<forall>d. shape (?h d) = shape d \<and> db_Generation (?h d) = db_Generation d" by simp
    then show ?thesis using r b(2) unfolding upd_db_comp by blast
  qed
qed

lemma shapes_cleanInitMode [simp]: "shapes (cd_DBs (cleanInitMode good cd)) = shapes (cd_DBs cd)"
  by (simp add: cleanInitMode_def shapes_map shape_def)

lemma cleanInitMode_simps [simp]:
  "cd_Keepers (cleanInitMode good cd) = cd_Keepers cd"
  "cd_Cluster (cleanInitMode good cd) = cd_Cluster cd"
  "cd_Proxy (cleanInitMode good cd) = cd_Proxy cd"
  by (simp_all add: cleanInitMode_def)

lemma shapes_bumpGenerations [simp]:
  "shapes (cd_DBs (bumpGenerations cd newcd)) = shapes (cd_DBs newcd)"
  by (auto simp: bumpGenerations_def bumpGeneration_def shapes_def split: option.splits)

lemma bumpGenerations_simps [simp]:
  "cd_Keepers (bumpGenerations cd newcd) = cd_Keepers newcd"
  "cd_Cluster (bumpGenerations cd newcd) = cd_Cluster newcd"
  "cd_Proxy (bumpGenerations cd newcd) = cd_Proxy newcd"
  by (simp_all add: bumpGenerations_def)

lemma shapes_updateOrphanSlots [simp]:
  "shapes (cd_DBs (updateOrphanSlots t cd newcd)) = shapes (cd_DBs newcd)"
  by (simp add: updateOrphanSlots_def Let_def shapes_upd_db split: option.splits)

lemma updateOrphanSlots_simps [simp]:
  "cd_Keepers (updateOrphanSlots t cd newcd) = cd_Keepers newcd"
  "cd_Cluster (updateOrphanSlots t cd newcd) = cd_Cluster newcd"
  "cd_Proxy (updateOrphanSlots t cd newcd) = cd_Proxy newcd"
  by (simp_all add: updateOrphanSlots_def Let_def split: option.splits)

end
