(* ===== verification/Sentinel_Invariant.thy ===== *)
theory Sentinel_Invariant
  imports Update_Shape
begin

text \<open>
  The invariant of the cluster data under \<open>updateCluster\<close>, and that the function neither panics
  nor leaves it. In the normal phase the master exists and is of the primary line, proxies are
  directed at the master or nowhere, every database is a master or a standby, a standby follows
  something, and one that follows an external instance has a standby configuration in the cluster
  specification.
\<close>

section \<open>The invariant\<close>

abbreviation master_of :: "cluster_data \<Rightarrow> uid" where
  "master_of cd \<equiv> cst_Master (cl_Status (cd_Cluster cd))"

abbreviation proxy_master :: "cluster_data \<Rightarrow> uid" where
  "proxy_master cd \<equiv> pxs_MasterDBUID (px_Spec (cd_Proxy cd))"

definition master_ok :: "cluster_data \<Rightarrow> bool" where
  "master_ok cd \<longleftrightarrow>
     (case map_of (cd_DBs cd) (master_of cd) of None \<Rightarrow> False | Some m \<Rightarrow> primary_line m)"

definition link_ok :: "cluster_spec \<Rightarrow> db \<Rightarrow> bool" where
  "link_ok spec d \<longleftrightarrow> dbs_Role (db_Spec d) \<in> {RoleMaster, RoleStandby} \<and>
     (dbs_Role (db_Spec d) = RoleStandby \<longrightarrow> dbs_FollowConfig (db_Spec d) \<noteq> None) \<and>
     (follows_external d \<longrightarrow> cs_StandbyConfig spec \<noteq> None)"

definition links_ok :: "cluster_data \<Rightarrow> bool" where
  "links_ok cd \<longleftrightarrow> list_all (\<lambda>(u, d). link_ok (cl_Spec (cd_Cluster cd)) d) (cd_DBs cd)"

definition serving :: "cluster_data \<Rightarrow> bool" where
  "serving cd \<longleftrightarrow> wf_cd cd \<and> master_ok cd \<and> links_ok cd \<and>
     proxy_master cd \<in> {[], master_of cd}"

definition bootstrapping :: "cluster_data \<Rightarrow> bool" where
  "bootstrapping cd \<longleftrightarrow> wf_cd cd \<and> links_ok cd \<and> proxy_master cd = [] \<and>
     (if master_of cd = [] then cd_DBs cd = [] else master_ok cd)"

definition cluster_inv :: "cluster_data \<Rightarrow> bool" where
  "cluster_inv cd \<longleftrightarrow> valid_shape (DefSpec (cd_Cluster cd)) \<and>
     (case cst_Phase (cl_Status (cd_Cluster cd)) of
        ClusterPhaseInitializing \<Rightarrow> bootstrapping cd
      | ClusterPhaseNormal \<Rightarrow> serving cd
      | ClusterPhaseOther x \<Rightarrow> False)"

lemma serving_master:
  assumes "serving cd"
  obtains m where "map_of (cd_DBs cd) (master_of cd) = Some m" and "primary_line m"
  using assms by (auto simp: serving_def master_ok_def split: option.splits)

section \<open>Writes that keep it\<close>

lemma link_ok_shape:
  assumes "shape d = shape d'" and "cs_StandbyConfig spec = cs_StandbyConfig spec'"
  shows "link_ok spec d = link_ok spec' d'"
  using shape_follows_external [OF assms(1)] shape_simps(3,4) [OF assms(1)] assms(2)
  by (simp add: link_ok_def)

lemma links_ok_shapes:
  assumes "shapes (cd_DBs cd') = shapes (cd_DBs cd)" and "wf_map (cd_DBs cd)"
    and "cs_StandbyConfig (cl_Spec (cd_Cluster cd')) = cs_StandbyConfig (cl_Spec (cd_Cluster cd))"
    and "links_ok cd"
  shows "links_ok cd'"
proof -
  have "wf_map (cd_DBs cd')"
    using assms(2) shapes_keys [OF assms(1)] by (simp add: wf_map_def)
  then have lk: "map_of (cd_DBs cd') u = Some d" if "(u, d) \<in> set (cd_DBs cd')" for u d
    using that wf_map_mem by metis
  have "link_ok (cl_Spec (cd_Cluster cd')) d" if mem: "(u, d) \<in> set (cd_DBs cd')" for u d
  proof -
    obtain d' where d': "map_of (cd_DBs cd) u = Some d'" "shape d' = shape d"
      using shapes_lookup [OF assms(1) lk [OF mem]] by blast
    then have "link_ok (cl_Spec (cd_Cluster cd)) d'"
      using assms(4) map_of_SomeD [OF d'(1)] by (auto simp: links_ok_def list_all_iff)
    then show ?thesis using link_ok_shape [OF d'(2) assms(3) [symmetric]] by simp
  qed
  then show ?thesis by (auto simp: links_ok_def list_all_iff)
qed

lemma master_ok_shapes:
  assumes "shapes (cd_DBs cd') = shapes (cd_DBs cd)" and "master_of cd' = master_of cd"
    and "master_ok cd"
  shows "master_ok cd'"
proof -
  obtain m where m: "map_of (cd_DBs cd) (master_of cd) = Some m" "primary_line m"
    using assms(3) by (auto simp: master_ok_def split: option.splits)
  obtain m' where "map_of (cd_DBs cd') (master_of cd) = Some m'" "shape m' = shape m"
    using shapes_lookup [OF assms(1) [symmetric] m(1)] by blast
  then show ?thesis
    using m(2) primary_line_shape [of m' m] assms(2) by (simp add: master_ok_def)
qed

lemma serving_shapes:
  assumes "serving cd" and "shapes (cd_DBs cd') = shapes (cd_DBs cd)"
    and "cd_Keepers cd' = cd_Keepers cd" and "cd_Cluster cd' = cd_Cluster cd"
    and "cd_Proxy cd' = cd_Proxy cd"
  shows "serving cd'"
proof -
  have "wf_cd cd' = wf_cd cd" using assms(2,3) by (intro wf_cd_cong) simp_all
  moreover have "links_ok cd'"
    using assms by (intro links_ok_shapes [of cd' cd]) (auto simp: serving_def wf_cd_def)
  moreover have "master_ok cd'"
    using assms by (intro master_ok_shapes [of cd' cd]) (simp_all add: serving_def)
  ultimately show ?thesis using assms by (simp add: serving_def)
qed

lemma wf_dbs_filter: "wf_dbs ks ds \<Longrightarrow> wf_dbs ks (filter P ds)"
  by (auto simp: wf_dbs_def wf_map_filter list_all_iff mvals_def distinct_map_filter)

lemma serving_filter:
  assumes "serving cd" and "\<And>m. map_of (cd_DBs cd) (master_of cd) = Some m \<Longrightarrow> P (master_of cd, m)"
  shows "serving (cd\<lparr>cd_DBs := filter P (cd_DBs cd)\<rparr>)"
proof -
  obtain m where m: "map_of (cd_DBs cd) (master_of cd) = Some m" "primary_line m"
    using assms(1) by (rule serving_master)
  have wf: "wf_map (cd_DBs cd)" using assms(1) by (auto simp: serving_def wf_cd_def)
  have "map_of (filter P (cd_DBs cd)) (master_of cd) = Some m"
    using map_of_filter_wf [OF wf] m(1) assms(2) [OF m(1)] by simp
  then show ?thesis
    using assms(1) m(2) wf_dbs_filter
    by (auto simp: serving_def master_ok_def wf_cd_def links_ok_def list_all_iff)
qed

lemma removeDBs_filter: "removeDBs us cd = cd\<lparr>cd_DBs := filter (\<lambda>(u, d). u \<notin> set us) (cd_DBs cd)\<rparr>"
  by (simp add: removeDBs_def fold_delete)

lemma removeDBs_simps [simp]:
  "cd_Keepers (removeDBs us cd) = cd_Keepers cd"
  "cd_Cluster (removeDBs us cd) = cd_Cluster cd"
  "cd_Proxy (removeDBs us cd) = cd_Proxy cd"
  by (simp_all add: removeDBs_def)

lemma serving_removeDBs: "serving cd \<Longrightarrow> master_of cd \<notin> set us \<Longrightarrow> serving (removeDBs us cd)"
  unfolding removeDBs_filter by (rule serving_filter) auto

text \<open>A write to every database.\<close>

lemma wf_dbs_keyed_map:
  assumes "wf_dbs ks ds"
    and "\<And>u d. (u, d) \<in> set ds \<Longrightarrow> db_UID (f u d) = db_UID d \<and>
      dbs_KeeperUID (db_Spec (f u d)) = dbs_KeeperUID (db_Spec d)"
  shows "wf_dbs ks (map (\<lambda>(u, d). (u, f u d)) ds)"
proof -
  have "map (\<lambda>d. dbs_KeeperUID (db_Spec d)) (mvals (map (\<lambda>(u, d). (u, f u d)) ds)) =
      map (\<lambda>d. dbs_KeeperUID (db_Spec d)) (mvals ds)"
    using assms(2) by (auto simp: mvals_def)
  moreover have "mkeys (map (\<lambda>(u, d). (u, f u d)) ds) = mkeys ds" by (auto simp: mkeys_def)
  ultimately show ?thesis
    using assms by (auto simp: wf_dbs_def wf_map_def list_all_iff)
qed

lemma map_of_map_keyed: "map_of (map (\<lambda>(u, d). (u, f u d)) ds) v = map_option (f v) (map_of ds v)"
  by (induction ds) auto

lemma serving_map:
  assumes "serving cd"
    and "\<And>u d. (u, d) \<in> set (cd_DBs cd) \<Longrightarrow> db_UID (f u d) = db_UID d \<and>
      dbs_KeeperUID (db_Spec (f u d)) = dbs_KeeperUID (db_Spec d) \<and>
      (link_ok (cl_Spec (cd_Cluster cd)) d \<longrightarrow> link_ok (cl_Spec (cd_Cluster cd)) (f u d))"
    and "\<And>m. map_of (cd_DBs cd) (master_of cd) = Some m \<Longrightarrow> primary_line m \<Longrightarrow>
      primary_line (f (master_of cd) m)"
  shows "serving (cd\<lparr>cd_DBs := map (\<lambda>(u, d). (u, f u d)) (cd_DBs cd)\<rparr>)"
proof -
  obtain m where m: "map_of (cd_DBs cd) (master_of cd) = Some m" "primary_line m"
    using assms(1) by (rule serving_master)
  have "wf_dbs (cd_Keepers cd) (map (\<lambda>(u, d). (u, f u d)) (cd_DBs cd))"
    using assms(1,2) by (intro wf_dbs_keyed_map) (auto simp: serving_def wf_cd_def)
  then show ?thesis
    using assms(1,2) m assms(3) [OF m]
    by (auto simp: serving_def master_ok_def wf_cd_def links_ok_def list_all_iff
        map_of_map_keyed)
qed

section \<open>Dead keepers\<close>

lemma removeOldKeepers_simps [simp]:
  "cd_DBs (removeOldKeepers t cd newcd) = cd_DBs newcd"
  "cd_Cluster (removeOldKeepers t cd newcd) = cd_Cluster newcd"
  "cd_Proxy (removeOldKeepers t cd newcd) = cd_Proxy newcd"
  by (simp_all add: removeOldKeepers_def Let_def)

lemma FindDB_None: "FindDB cd k = None \<longleftrightarrow> (\<forall>d \<in> set (mvals (cd_DBs cd)). dbs_KeeperUID (db_Spec d) \<noteq> k_UID k)"
  by (auto simp: FindDB_def find_None_iff)

text \<open>The keepers that stay: those with a database, and those seen healthy recently.\<close>

definition expired :: "time \<Rightarrow> cluster_data \<Rightarrow> keeper \<Rightarrow> bool" where
  "expired t cd k \<longleftrightarrow> FindDB cd k = None \<and>
     kst_LastHealthyTime (k_Status k) + the (cs_DeadKeeperRemovalInterval (DefSpec (cd_Cluster cd))) < t"

lemma removeOldKeepers_filter:
  assumes "wf_keepers (cd_Keepers newcd)"
  shows "cd_Keepers (removeOldKeepers t cd newcd) =
    filter (\<lambda>(u, k). \<not> expired t cd k) (cd_Keepers newcd)"
proof -
  have "k_UID k = u" if "(u, k) \<in> set (cd_Keepers newcd)" for u k
    using assms that by (auto simp: wf_keepers_def list_all_iff)
  from fold_delete_values [of "cd_Keepers newcd" k_UID "expired t cd", OF _ this] assms
  show ?thesis by (auto simp: removeOldKeepers_def Let_def expired_def [abs_def])
qed

lemma wf_cd_removeOldKeepers:
  assumes "wf_cd cd"
  shows "wf_cd (removeOldKeepers t cd cd)"
proof -
  have wk: "wf_keepers (cd_Keepers cd)" and wd: "wf_dbs (cd_Keepers cd) (cd_DBs cd)"
    using assms by (simp_all add: wf_cd_def)
  let ?ks = "filter (\<lambda>(u, k). \<not> expired t cd k) (cd_Keepers cd)"
  have "wf_keepers ?ks"
    using wk by (auto simp: wf_keepers_def wf_map_filter list_all_iff)
  moreover have "dbs_KeeperUID (db_Spec d) \<in> set (mkeys ?ks)" if d: "(u, d) \<in> set (cd_DBs cd)" for u d
  proof -
    have mem: "d \<in> set (mvals (cd_DBs cd))" using d by (force simp: mvals_def)
    obtain k where k: "map_of (cd_Keepers cd) (dbs_KeeperUID (db_Spec d)) = Some k"
      using mkeys_lookup [OF wf_dbs_mem(2) [OF wd mem]] by blast
    have "k_UID k = dbs_KeeperUID (db_Spec d)" by (rule wf_keepers_lookup [OF wk k])
    then have "\<not> expired t cd k" using mem by (auto simp: expired_def FindDB_None)
    then have "map_of ?ks (dbs_KeeperUID (db_Spec d)) = Some k"
      using k map_of_filter_wf [OF wf_keepers_map [OF wk]] by simp
    then show ?thesis by (rule map_of_in_mkeys)
  qed
  ultimately show ?thesis
    using wd by (auto simp: wf_cd_def wf_dbs_def list_all_iff removeOldKeepers_filter [OF wk])
qed

lemma serving_removeOldKeepers: "serving cd \<Longrightarrow> serving (removeOldKeepers t cd cd)"
  using wf_cd_removeOldKeepers
  by (auto simp: serving_def master_ok_def links_ok_def)

section \<open>The wanted master\<close>

lemma clearManualSwitch_simps [simp]:
  "cd_DBs (clearManualSwitch cd) = cd_DBs cd"
  "cd_Keepers (clearManualSwitch cd) = cd_Keepers cd"
  "cd_Proxy (clearManualSwitch cd) = cd_Proxy cd"
  "cl_Spec (cd_Cluster (clearManualSwitch cd)) = cl_Spec (cd_Cluster cd)"
  "DefSpec (cd_Cluster (clearManualSwitch cd)) = DefSpec (cd_Cluster cd)"
  "master_of (clearManualSwitch cd) = master_of cd"
  "cst_Phase (cl_Status (cd_Cluster (clearManualSwitch cd))) = cst_Phase (cl_Status (cd_Cluster cd))"
  by (simp_all add: clearManualSwitch_def upd_status_def DefSpec_def)

lemma serving_clearManualSwitch: "serving cd \<Longrightarrow> serving (clearManualSwitch cd)"
  by (simp add: serving_def master_ok_def links_ok_def wf_cd_def)

lemma find_SomeD: "find P xs = Some x \<Longrightarrow> x \<in> set xs \<and> P x"
  by (auto simp: find_Some_iff)

lemma applyManualSwitch_char:
  assumes "good_env e" and "wf_cd newcd"
  shows "\<exists>cd2 w a s'. applyManualSwitch e cd cur u newcd s = Some (cd2, w, a, s') \<and>
    (cd2 = newcd \<and> \<not> a \<and> w = u \<or>
     cd2 = clearManualSwitch newcd \<and> a \<and>
       (w = u \<or> (\<exists>req c. cst_ManualSwitch (cl_Status (cd_Cluster cd)) = Some req \<and>
          master_candidate newcd cur c \<and> db_UID c = w)))"
proof -
  obtain cs s' where cs: "findBestNewMasters e 0 newcd cur s = Some (cs, s')"
      "set cs = {d. master_candidate newcd cur d}"
    using findBestNewMasters_char [OF assms] by blast
  then show ?thesis
    by (auto simp: applyManualSwitch_def list_ex_iff split: option.splits)
qed

lemma autoFailbackLoop_mem:
  "autoFailbackLoop cd p t cs = Some c \<Longrightarrow> t = Some c \<or> c \<in> set cs"
  by (induction cd p t cs rule: autoFailbackLoop.induct) (auto split: if_splits)

lemma autoFailbackLoop_priority:
  "autoFailbackLoop cd p t cs = Some c \<Longrightarrow> t = Some c \<or> p < keeperMasterPriority cd c"
  by (induction cd p t cs rule: autoFailbackLoop.induct) (auto split: if_splits)

definition failback_target :: "cluster_data \<Rightarrow> db \<Rightarrow> db \<Rightarrow> bool" where
  "failback_target cd cur d \<longleftrightarrow> master_candidate cd cur d \<and>
     the (cs_UnsafeAutoFailback (DefSpec (cd_Cluster cd))) \<and>
     keeperMasterPriority cd cur < keeperMasterPriority cd d"

lemma chooseAutoFailbackTarget_char:
  assumes "good_env e" and "wf_cd cd"
  shows "\<exists>r s'. chooseAutoFailbackTarget e site cd cur s = Some (r, s') \<and>
    (\<forall>d. r = Some d \<longrightarrow> failback_target cd cur d)"
proof -
  obtain cs s' where cs: "findBestNewMasters e site cd cur s = Some (cs, s')"
      "set cs = {d. master_candidate cd cur d}"
    using findBestNewMasters_char [OF assms] by blast
  then show ?thesis
    by (auto simp: chooseAutoFailbackTarget_def failback_target_def split: option.splits
        dest: autoFailbackLoop_mem autoFailbackLoop_priority)
qed

lemma chooseWantedMaster_char:
  assumes "good_env e" and "wf_cd newcd"
  shows "\<exists>w' s'. chooseWantedMaster e spec cur u ok a newcd w s = Some (w', s') \<and>
    (w' = w \<or> \<not> a \<and> (\<exists>d. db_UID d = w' \<and>
       (if ok then failback_target newcd cur d
        else master_candidate newcd cur d \<and> (sync_enabled newcd cur \<longrightarrow>
          w' \<in> set (els (dst_SynchronousStandbys (db_Status cur))) \<and>
          w' \<in> set (els (dbs_SynchronousStandbys (db_Spec cur)))))))"
proof -
  let ?fi = "the (cs_FailInterval spec)"
  obtain r b s1 where b: "chooseBestNewMaster e 1 newcd cur ?fi s = Some ((r, b), s1)"
      "\<And>nm. r = Some nm \<Longrightarrow> master_candidate newcd cur nm \<and>
         (sync_enabled newcd cur \<longrightarrow>
            db_UID nm \<in> set (els (dst_SynchronousStandbys (db_Status cur))) \<and>
            db_UID nm \<in> set (els (dbs_SynchronousStandbys (db_Spec cur))))"
    using chooseBestNewMaster_char [OF assms, of 1 cur ?fi s] by (force split: if_splits)
  obtain r2 s2 where f: "chooseAutoFailbackTarget e 2 newcd cur (deleteBackoff u s) = Some (r2, s2)"
      "\<And>d. r2 = Some d \<Longrightarrow> failback_target newcd cur d"
    using chooseAutoFailbackTarget_char [OF assms] by blast
  show ?thesis
    using b f by (auto simp: chooseWantedMaster_def Let_def split: option.splits)
qed

end
