(* ===== verification/Sentinel_Pass.thy ===== *)
theory Sentinel_Pass
  imports Sentinel_Invariant
begin

text \<open>
  The sections of \<open>updateCluster\<close> do not panic on cluster data that satisfies the invariant, and
  keep it; what each of them does to the databases, the master and the proxies.
\<close>

section \<open>Specification of one database\<close>

lemma wf_cd_upd_dbspec:
  assumes "wf_cd cd" and "\<And>sp. dbs_KeeperUID (f sp) = dbs_KeeperUID sp"
  shows "wf_cd (upd_dbspec u f cd)"
  using assms by (simp add: wf_cd_def upd_dbspec_def wf_dbs_madj)

lemma links_upd_dbspec:
  assumes "links_ok cd"
    and "\<And>d. link_ok (cl_Spec (cd_Cluster cd)) d \<Longrightarrow>
      link_ok (cl_Spec (cd_Cluster cd)) (d\<lparr>db_Spec := f (db_Spec d)\<rparr>)"
  shows "links_ok (upd_dbspec u f cd)"
  using assms by (auto simp: links_ok_def list_all_iff upd_dbspec_def madj_def)

lemma serving_upd_dbspec:
  assumes "serving cd" and "\<And>d. shape (d\<lparr>db_Spec := f (db_Spec d)\<rparr>) = shape d"
  shows "serving (upd_dbspec u f cd)"
  using assms(1) by (rule serving_shapes) (simp_all add: shapes_upd_dbspec [OF assms(2)])

text \<open>
  Generations only change at the end of the pass: relative to the databases at its start, a
  database keeps its generation or is new.
\<close>

definition gen_ok :: "env \<Rightarrow> dbs \<Rightarrow> cluster_data \<Rightarrow> bool" where
  "gen_ok e prev cd \<longleftrightarrow> (\<forall>i. uidFn e i \<notin> set (mkeys prev)) \<and>
     (\<forall>u d'. map_of (cd_DBs cd) u = Some d' \<longrightarrow>
       (case map_of prev u of
          Some d \<Rightarrow> db_Generation d' = db_Generation d
        | None \<Rightarrow> u \<in> range (uidFn e) \<and> db_Generation d' = InitialGeneration))"

definition gen_mono :: "env \<Rightarrow> cluster_data \<Rightarrow> cluster_data \<Rightarrow> bool" where
  "gen_mono e cd cd' \<longleftrightarrow> (\<forall>prev. gen_ok e prev cd \<longrightarrow> gen_ok e prev cd')"

lemma gen_mono_trans: "gen_mono e a b \<Longrightarrow> gen_mono e b c \<Longrightarrow> gen_mono e a c"
  by (simp add: gen_mono_def)

lemma gen_mono_sub:
  assumes "\<And>u d'. map_of (cd_DBs cd') u = Some d' \<Longrightarrow>
    \<exists>d. map_of (cd_DBs cd) u = Some d \<and> db_Generation d = db_Generation d'"
  shows "gen_mono e cd cd'"
  unfolding gen_mono_def gen_ok_def
proof (intro allI impI, elim conjE, intro conjI allI impI)
  fix prev u d'
  assume g: "\<forall>u d'. map_of (cd_DBs cd) u = Some d' \<longrightarrow>
       (case map_of prev u of
          Some d \<Rightarrow> db_Generation d' = db_Generation d
        | None \<Rightarrow> u \<in> range (uidFn e) \<and> db_Generation d' = InitialGeneration)"
    and d': "map_of (cd_DBs cd') u = Some d'"
  obtain d where "map_of (cd_DBs cd) u = Some d" "db_Generation d = db_Generation d'"
    using assms [OF d'] by blast
  then show "case map_of prev u of
          Some d \<Rightarrow> db_Generation d' = db_Generation d
        | None \<Rightarrow> u \<in> range (uidFn e) \<and> db_Generation d' = InitialGeneration"
    using g [rule_format, of u d] by (auto split: option.splits)
qed blast

lemma gen_mono_same: "cd_DBs cd' = cd_DBs cd \<Longrightarrow> gen_mono e cd cd'"
  by (rule gen_mono_sub) simp

lemma gen_mono_map:
  assumes "cd_DBs cd' = map (\<lambda>(u, d). (u, f u d)) (cd_DBs cd)"
    and "\<And>u d. db_Generation (f u d) = db_Generation d"
  shows "gen_mono e cd cd'"
  using assms by (intro gen_mono_sub) (auto simp: map_of_map_keyed)

lemma gen_mono_upd_db: "(\<And>d. db_Generation (f d) = db_Generation d) \<Longrightarrow> gen_mono e cd (upd_db u f cd)"
  by (rule gen_mono_map [of _ "\<lambda>u' d. if u' = u then f d else d"]) (auto simp: upd_db_def madj_def)

lemma gen_mono_upd_dbspec: "gen_mono e cd (upd_dbspec u f cd)"
  by (rule gen_mono_map [of _ "\<lambda>u' d. if u' = u then d\<lparr>db_Spec := f (db_Spec d)\<rparr> else d"])
    (auto simp: upd_dbspec_def madj_def)

lemma gen_mono_removeDBs: "gen_mono e cd (removeDBs us cd)"
  by (rule gen_mono_sub) (simp add: removeDBs_filter map_of_filter_key split: if_splits)

section \<open>Election\<close>

lemma setMaster_simps [simp]:
  "cd_DBs (setMaster u cd) = cd_DBs cd"
  "cd_Keepers (setMaster u cd) = cd_Keepers cd"
  "cd_Proxy (setMaster u cd) = cd_Proxy cd"
  "cl_Spec (cd_Cluster (setMaster u cd)) = cl_Spec (cd_Cluster cd)"
  "master_of (setMaster u cd) = u"
  "cst_Phase (cl_Status (cd_Cluster (setMaster u cd))) = cst_Phase (cl_Status (cd_Cluster cd))"
  by (simp_all add: setMaster_def upd_status_def)

lemma clearProxyMaster_simps [simp]:
  "cd_DBs (clearProxyMaster cd) = cd_DBs cd"
  "cd_Keepers (clearProxyMaster cd) = cd_Keepers cd"
  "cd_Cluster (clearProxyMaster cd) = cd_Cluster cd"
  "proxy_master (clearProxyMaster cd) = []"
  "pxs_EnabledProxies (px_Spec (cd_Proxy (clearProxyMaster cd))) =
     pxs_EnabledProxies (px_Spec (cd_Proxy cd))"
  "px_Generation (cd_Proxy (clearProxyMaster cd)) =
     (if proxy_master cd = [] then px_Generation (cd_Proxy cd) else inc (px_Generation (cd_Proxy cd)))"
  by (simp_all add: clearProxyMaster_def Let_def)

lemma masterRoleConfig_total:
  assumes "valid_shape spec"
  obtains ro fc where "masterRoleConfig spec = Some (ro, fc)"
    and "ro = RoleMaster \<and> fc = None \<or>
      ro = RoleStandby \<and> (\<exists>c. fc = Some c \<and> fc_Type c = FollowTypeExternal) \<and>
      cs_StandbyConfig spec \<noteq> None"
  using assms
  by (cases "cs_Role spec"; cases "cs_StandbyConfig spec")
    (auto simp: valid_shape_def masterRoleConfig_def split: cluster_role.splits)

lemma inheritSyncStandbys_simps [simp]:
  "dbs_KeeperUID (inheritSyncStandbys spec old u sp) = dbs_KeeperUID sp"
  "dbs_Role (inheritSyncStandbys spec old u sp) = dbs_Role sp"
  "dbs_FollowConfig (inheritSyncStandbys spec old u sp) = dbs_FollowConfig sp"
  by (simp_all add: inheritSyncStandbys_def Let_def)

lemma electNewMaster_char:
  assumes "serving cd" and "valid_shape (DefSpec (cd_Cluster cd))"
    and "map_of (cd_DBs cd) w = Some d"
  shows "\<exists>cd'. electNewMaster (DefSpec (cd_Cluster cd)) (master_of cd) w cd = Some cd' \<and>
    serving cd' \<and> master_of cd' = w \<and> proxy_master cd' = [] \<and>
    px_Generation (cd_Proxy cd') =
      (if proxy_master cd = [] then px_Generation (cd_Proxy cd) else inc (px_Generation (cd_Proxy cd))) \<and>
    cd_Keepers cd' = cd_Keepers cd \<and> mkeys (cd_DBs cd') = mkeys (cd_DBs cd) \<and>
    cl_Spec (cd_Cluster cd') = cl_Spec (cd_Cluster cd) \<and>
    cst_Phase (cl_Status (cd_Cluster cd')) = cst_Phase (cl_Status (cd_Cluster cd)) \<and>
    gen_mono e cd cd'"
proof -
  let ?spec = "DefSpec (cd_Cluster cd)"
  obtain m where m: "map_of (cd_DBs cd) (master_of cd) = Some m" using assms(1) by (rule serving_master)
  obtain ro fc where rf: "masterRoleConfig ?spec = Some (ro, fc)"
    "ro = RoleMaster \<and> fc = None \<or>
      ro = RoleStandby \<and> (\<exists>c. fc = Some c \<and> fc_Type c = FollowTypeExternal) \<and>
      cs_StandbyConfig ?spec \<noteq> None"
    using masterRoleConfig_total [OF assms(2)] by metis
  let ?cd1 = "upd_dbspec (master_of cd) (\<lambda>sp. sp\<lparr>dbs_Followers := Some []\<rparr>) cd"
  let ?cd2 = "setMaster w ?cd1"
  let ?cd3 = "upd_dbspec w (\<lambda>sp. sp\<lparr>dbs_Role := ro, dbs_FollowConfig := fc\<rparr>) ?cd2"
  have s1: "serving ?cd1" using assms(1) by (rule serving_upd_dbspec) (simp add: shape_def)
  obtain n where n: "map_of (cd_DBs ?cd2) w = Some n"
    using assms(3) by (cases "w = master_of cd") simp_all
  have old: "map_of (cd_DBs ?cd2) (master_of cd) = Some (m\<lparr>db_Spec := (db_Spec m)\<lparr>dbs_Followers := Some []\<rparr>\<rparr>)"
    using m by simp
  define f where "f = inheritSyncStandbys ?spec
    (m\<lparr>db_Spec := (db_Spec m)\<lparr>dbs_Followers := Some []\<rparr>\<rparr>) (db_UID n)"
  have f: "dbs_KeeperUID (f sp) = dbs_KeeperUID sp" "dbs_Role (f sp) = dbs_Role sp"
    "dbs_FollowConfig (f sp) = dbs_FollowConfig sp" for sp
    by (simp_all add: f_def)
  let ?cd4 = "upd_dbspec w f (clearProxyMaster ?cd3)"
  have el: "electNewMaster ?spec (master_of cd) w cd = Some ?cd4"
    using m n old rf(1) by (simp add: electNewMaster_def f_def)
  have l2: "wf_cd ?cd2" "links_ok ?cd2"
    using s1 by (simp_all add: serving_def wf_cd_def links_ok_def)
  have "wf_cd ?cd3" using l2(1) by (rule wf_cd_upd_dbspec) simp
  then have "wf_cd (clearProxyMaster ?cd3)" by (simp add: wf_cd_def)
  then have wf: "wf_cd ?cd4" by (rule wf_cd_upd_dbspec) (simp add: f)
  have "links_ok ?cd3"
    using l2(2) rf(2) by (intro links_upd_dbspec) (auto simp: link_ok_def follows_external_def DefSpec_def)
  then have "links_ok (clearProxyMaster ?cd3)" by (simp add: links_ok_def)
  then have "links_ok ?cd4"
    by (rule links_upd_dbspec) (simp add: link_ok_def follows_external_def f)
  moreover have "master_ok ?cd4"
    using n rf(2) by (auto simp: master_ok_def primary_line_def follows_external_def f)
  moreover have "gen_mono e cd ?cd4"
  proof -
    have "gen_mono e cd ?cd1" by (rule gen_mono_upd_dbspec)
    moreover have "gen_mono e ?cd1 ?cd2" by (rule gen_mono_same) simp
    moreover have "gen_mono e ?cd2 ?cd3" by (rule gen_mono_upd_dbspec)
    moreover have "gen_mono e ?cd3 (clearProxyMaster ?cd3)" by (rule gen_mono_same) simp
    moreover have "gen_mono e (clearProxyMaster ?cd3) ?cd4" by (rule gen_mono_upd_dbspec)
    ultimately show ?thesis by (meson gen_mono_trans)
  qed
  ultimately show ?thesis
    using el wf by (simp add: serving_def)
qed

section \<open>Proxies and the role of the master\<close>

lemma updateProxies_simps [simp]:
  "cd_DBs (updateProxies pis u cd) = cd_DBs cd"
  "cd_Keepers (updateProxies pis u cd) = cd_Keepers cd"
  "cd_Cluster (updateProxies pis u cd) = cd_Cluster cd"
  by (simp_all add: updateProxies_def Let_def)

lemma updateProxies_master:
  "proxy_master (updateProxies pis u cd) = proxy_master cd \<or>
     proxy_master cd = [] \<and> proxy_master (updateProxies pis u cd) = u \<and>
     (\<forall>pi \<in> set (mvals pis). pi_Generation pi = px_Generation (cd_Proxy cd))"
  by (auto simp: updateProxies_def Let_def list_ex_iff)

lemma serving_updateProxies: "serving cd \<Longrightarrow> u = master_of cd \<Longrightarrow> serving (updateProxies pis u cd)"
  using updateProxies_master [of pis u cd]
  by (auto simp: serving_def wf_cd_def master_ok_def links_ok_def)

lemma serving_master_role:
  assumes "serving cd" and "u = master_of cd"
  shows "serving (upd_dbspec u (\<lambda>sp. sp\<lparr>dbs_Role := RoleMaster, dbs_FollowConfig := None\<rparr>) cd)"
proof -
  let ?cd = "upd_dbspec u (\<lambda>sp. sp\<lparr>dbs_Role := RoleMaster, dbs_FollowConfig := None\<rparr>) cd"
  obtain m where m: "map_of (cd_DBs cd) (master_of cd) = Some m" using assms(1) by (rule serving_master)
  have "wf_cd ?cd" using assms(1) by (intro wf_cd_upd_dbspec) (simp_all add: serving_def)
  moreover have "links_ok ?cd"
    using assms(1) by (intro links_upd_dbspec) (auto simp: serving_def link_ok_def follows_external_def)
  moreover have "master_ok ?cd"
    using m assms(2) by (simp add: master_ok_def primary_line_def)
  ultimately show ?thesis using assms(1) by (simp add: serving_def)
qed

section \<open>Removal of databases\<close>

lemma master_type:
  assumes "serving cd"
  shows "dbType cd (master_of cd) = Inr dbTypePrimaryLine"
proof -
  obtain m where m: "map_of (cd_DBs cd) (master_of cd) = Some m" "primary_line m"
    using assms by (rule serving_master)
  then show ?thesis using dbType_iff(1) [OF m(1)] by blast
qed

lemma serving_removeOldMasters: "serving cd \<Longrightarrow> serving (removeOldMasters (master_of cd) cd)"
  unfolding removeOldMasters_def by (rule serving_removeDBs) auto

lemma serving_removeInvalidDBs: "serving cd \<Longrightarrow> serving (removeInvalidDBs (master_of cd) cd)"
  unfolding removeInvalidDBs_def by (rule serving_removeDBs) auto

lemma dbCanSync_master:
  assumes "wf_cd cd" and "map_of (cd_DBs cd) (master_of cd) = Some m"
  shows "dbCanSync s cd (master_of cd) = Inr True"
proof -
  have "db_UID m = master_of cd"
    using assms wf_dbs_lookup(1) [of "cd_Keepers cd" "cd_DBs cd"] by (simp add: wf_cd_def)
  then show ?thesis using assms(2) by (simp add: dbCanSync_def)
qed

lemma serving_removeCannotSync:
  assumes "serving newcd" and "serving cd" and "master_of newcd = master_of cd"
  shows "serving (removeCannotSync s cd newcd)"
proof -
  obtain m where m: "map_of (cd_DBs cd) (master_of cd) = Some m" using assms(2) by (rule serving_master)
  have "wf_cd cd" using assms(2) by (simp add: serving_def)
  then have "dbCanSync s cd (master_of newcd) = Inr True"
    using dbCanSync_master [OF _ m] assms(3) by simp
  then show ?thesis
    unfolding removeCannotSync_def by (intro serving_removeDBs [OF assms(1)]) auto
qed

lemma excessStandbys_subset: "set (excessStandbys sync nr ds) \<subseteq> db_UID ` set ds - set sync"
  by (induction sync nr ds rule: excessStandbys.induct) auto

lemma serving_removeStandbys:
  assumes "serving cd" and "good_env e" and "wf_map good"
    and "\<And>d. d \<in> set (mvals good) \<Longrightarrow> db_UID d \<noteq> master_of cd"
  shows "serving (removeStandbys e sync good n cd)"
proof -
  have "master_of cd \<notin> set (nonGoodStandbys sync good cd)"
    using master_type [OF assms(1)] by (auto simp: nonGoodStandbys_def)
  moreover have "master_of cd \<notin> set (excessStandbys sync k (iter e 6 good))" for k
    using excessStandbys_subset [of sync k "iter e 6 good"] set_iter [OF assms(2,3)] assms(4)
    by fastforce
  ultimately show ?thesis
    unfolding removeStandbys_def by (intro serving_removeDBs [OF assms(1)]) simp
qed

section \<open>New standbys\<close>

lemma wf_dbs_add:
  assumes "wf_dbs ks ds" and "db_UID d \<notin> set (mkeys ds)"
    and "dbs_KeeperUID (db_Spec d) \<in> set (mkeys ks)"
    and "dbs_KeeperUID (db_Spec d) \<notin> (\<lambda>d. dbs_KeeperUID (db_Spec d)) ` set (mvals ds)"
  shows "wf_dbs ks (ds @ [(db_UID d, d)])"
  using assms by (auto simp: wf_dbs_def wf_map_def mkeys_def mvals_def)

lemma serving_addDB:
  assumes "serving cd" and "db_UID d \<notin> set (mkeys (cd_DBs cd))"
    and "dbs_KeeperUID (db_Spec d) \<in> set (mkeys (cd_Keepers cd))"
    and "\<And>d'. d' \<in> set (mvals (cd_DBs cd)) \<Longrightarrow> dbs_KeeperUID (db_Spec d') \<noteq> dbs_KeeperUID (db_Spec d)"
    and "link_ok (cl_Spec (cd_Cluster cd)) d"
  shows "serving (addDB d cd)"
proof -
  have up: "AList.update (db_UID d) d (cd_DBs cd) = cd_DBs cd @ [(db_UID d, d)]"
    using assms(2) by (rule update_new_key)
  have "wf_dbs (cd_Keepers cd) (cd_DBs cd @ [(db_UID d, d)])"
    using assms(1-3) by (intro wf_dbs_add) (auto simp: serving_def wf_cd_def dest!: assms(4))
  then show ?thesis
    using assms(1,5) up
    by (auto simp: serving_def wf_cd_def addDB_def master_ok_def links_ok_def split: option.splits)
qed

lemma addDB_simps [simp]:
  "cd_Keepers (addDB d cd) = cd_Keepers cd"
  "cd_Cluster (addDB d cd) = cd_Cluster cd"
  "cd_Proxy (addDB d cd) = cd_Proxy cd"
  by (simp_all add: addDB_def)

lemma gen_mono_addDB:
  assumes "db_UID d = uidFn e i" and "db_Generation d = InitialGeneration"
  shows "gen_mono e cd (addDB d cd)"
  unfolding gen_mono_def
proof (intro allI impI)
  fix prev assume g: "gen_ok e prev cd"
  have "map_of prev (uidFn e i) = None"
    using g map_of_mkeys_iff [of prev "uidFn e i"] by (auto simp: gen_ok_def)
  then show "gen_ok e prev (addDB d cd)"
    using g assms by (simp add: gen_ok_def addDB_def update_conv')
qed

lemma new_standby_generation [simp]: "db_Generation (new_standby u w k) = InitialGeneration"
  by (simp add: new_standby_def new_db_def)

lemma new_standby_simps [simp]:
  "db_UID (new_standby u w k) = u"
  "dbs_KeeperUID (db_Spec (new_standby u w k)) = k_UID k"
  "link_ok spec (new_standby u w k)"
  by (simp_all add: new_standby_def new_db_def link_ok_def follows_external_def)

definition fresh_from :: "env \<Rightarrow> nat \<Rightarrow> cluster_data \<Rightarrow> bool" where
  "fresh_from e i cd \<longleftrightarrow> inj (uidFn e) \<and> (\<forall>j \<ge> i. uidFn e j \<notin> set (mkeys (cd_DBs cd)))"

definition free_on :: "cluster_data \<Rightarrow> keeper list \<Rightarrow> bool" where
  "free_on cd ks \<longleftrightarrow> distinct (map k_UID ks) \<and> (\<forall>k \<in> set ks. k_UID k \<in> set (mkeys (cd_Keepers cd)) \<and>
     (\<forall>d \<in> set (mvals (cd_DBs cd)). dbs_KeeperUID (db_Spec d) \<noteq> k_UID k))"

lemma addStandbyDBs_serving:
  assumes "serving cd" and "fresh_from e i cd" and "free_on cd ks"
  shows "serving (addStandbyDBs e w i nc ks cd) \<and>
    cd_Cluster (addStandbyDBs e w i nc ks cd) = cd_Cluster cd \<and>
    cd_Keepers (addStandbyDBs e w i nc ks cd) = cd_Keepers cd \<and>
    cd_Proxy (addStandbyDBs e w i nc ks cd) = cd_Proxy cd"
  using assms
proof (induction e w i nc ks cd rule: addStandbyDBs.induct)
  case (2 e w i nc k ks cd)
  let ?d = "new_standby (uidFn e i) w k" let ?cd = "addDB ?d cd"
  have up: "cd_DBs ?cd = cd_DBs cd @ [(uidFn e i, ?d)]"
    using 2(3) update_new_key [of "uidFn e i" "cd_DBs cd"] by (simp add: addDB_def fresh_from_def)
  have "serving ?cd"
    using 2(2-4) by (intro serving_addDB) (auto simp: fresh_from_def free_on_def)
  moreover have "fresh_from e (i + 1) ?cd"
    using 2(3) by (auto simp: fresh_from_def up mkeys_def inj_eq)
  moreover have "free_on ?cd ks"
    using 2(4) by (auto simp: free_on_def up mvals_def)
  ultimately show ?case using 2 by simp
qed simp

lemma gen_mono_addStandbyDBs: "gen_mono e cd (addStandbyDBs e w i nc ks cd)"
proof (induction e w i nc ks cd rule: addStandbyDBs.induct)
  case (2 e w i nc k ks cd)
  have "gen_mono e cd (addDB (new_standby (uidFn e i) w k) cd)"
    by (rule gen_mono_addDB) simp_all
  then show ?case
    using 2 gen_mono_trans [of e cd "addDB (new_standby (uidFn e i) w k) cd"]
    by (simp add: gen_mono_same)
qed (simp add: gen_mono_same)

lemma free_on_freeKeepers:
  assumes "good_env e" and "wf_cd cd"
  shows "free_on cd (freeKeepers e site cd)"
proof -
  have wk: "wf_keepers (cd_Keepers cd)" using assms(2) by (simp add: wf_cd_def)
  then have wm: "wf_map (cd_Keepers cd)" by blast
  have keys: "map k_UID (mvals (cd_Keepers cd)) = mkeys (cd_Keepers cd)"
    using wk by (auto simp: wf_keepers_def mvals_def mkeys_def list_all_iff)
  have "mset (map k_UID (iter e site (cd_Keepers cd))) = mset (map k_UID (mvals (cd_Keepers cd)))"
    using mset_iter [OF assms(1) wm, of site] by simp
  then have "mset (map k_UID (iter e site (cd_Keepers cd))) = mset (mkeys (cd_Keepers cd))"
    using keys by simp
  then have d: "distinct (map k_UID (iter e site (cd_Keepers cd)))"
    using wm by (metis mset_eq_imp_distinct_iff wf_map_def)
  have "k_UID k \<in> set (mkeys (cd_Keepers cd))" if "k \<in> set (iter e site (cd_Keepers cd))" for k
    using that set_iter [OF assms(1) wm, of site] keys by (metis image_eqI list.set_map)
  then show ?thesis
    using d by (auto simp: free_on_def freeKeepers_def list_ex_iff distinct_map_filter)
qed

lemma gen_mono_reconfigure: "gen_mono e cd (reconfigureStandbys w cd)"
  by (rule gen_mono_map [of _ "\<lambda>u d. if dbType cd (db_UID d) = Inr dbTypeReplicaLine
      then followMaster w d else d"])
    (auto simp: reconfigureStandbys_def mmap_def followMaster_def)

lemma gen_mono_cleanInitMode: "gen_mono e cd (cleanInitMode good cd)"
  by (rule gen_mono_map [of _ "\<lambda>u d. if u \<in> set (mkeys good)
      then d\<lparr>db_Spec := (db_Spec d)\<lparr>dbs_InitMode := DBInitModeNone\<rparr>\<rparr> else d"])
    (auto simp: cleanInitMode_def)

section \<open>The only primary\<close>

text \<open>Databases other than the master are replicas, and follow the master.\<close>

definition sole_primary :: "cluster_data \<Rightarrow> bool" where
  "sole_primary cd \<longleftrightarrow> list_all (\<lambda>(u, d). u = master_of cd \<or> replica_line d) (cd_DBs cd)"

definition follows :: "uid \<Rightarrow> db \<Rightarrow> bool" where
  "follows u d \<longleftrightarrow> dbs_Role (db_Spec d) = RoleStandby \<and>
     (case dbs_FollowConfig (db_Spec d) of
        None \<Rightarrow> False | Some fc \<Rightarrow> fc_Type fc = FollowTypeInternal \<and> fc_DBUID fc = u)"

definition all_follow :: "cluster_data \<Rightarrow> bool" where
  "all_follow cd \<longleftrightarrow> list_all (\<lambda>(u, d). u = master_of cd \<or> follows (master_of cd) d) (cd_DBs cd)"

lemma list_all_shapes:
  assumes "\<And>u d d'. shape d' = shape d \<Longrightarrow> P u d \<Longrightarrow> P u d'"
  shows "shapes ds' = shapes ds \<Longrightarrow> list_all (\<lambda>(u, d). P u d) ds \<Longrightarrow> list_all (\<lambda>(u, d). P u d) ds'"
proof (induction ds arbitrary: ds')
  case (Cons x ds)
  obtain u d where x: "x = (u, d)" by (cases x)
  obtain y ys where y: "ds' = y # ys" using Cons.prems(1) by (cases ds') (simp_all add: shapes_def)
  obtain v d' where v: "y = (v, d')" by (cases y)
  have "v = u" "shape d' = shape d" "shapes ys = shapes ds"
    using Cons.prems(1) unfolding x y v by (simp_all add: shapes_def)
  then show ?case using Cons.IH [of ys] Cons.prems(2) assms [of d' d u] unfolding x y v by simp
qed (simp add: shapes_def)

lemma follows_shape: "shape d' = shape d \<Longrightarrow> follows u d \<Longrightarrow> follows u d'"
  by (auto simp: follows_def shape_def split: option.splits)

lemma sole_primary_shapes:
  assumes "shapes (cd_DBs cd') = shapes (cd_DBs cd)" and "master_of cd' = master_of cd"
    and "sole_primary cd"
  shows "sole_primary cd'"
  using assms(3) unfolding sole_primary_def assms(2)
  by (rule list_all_shapes [rotated, OF assms(1)]) (metis replica_line_shape)

lemma all_follow_shapes:
  assumes "shapes (cd_DBs cd') = shapes (cd_DBs cd)" and "master_of cd' = master_of cd"
    and "all_follow cd"
  shows "all_follow cd'"
  using assms(3) unfolding all_follow_def assms(2)
  by (rule list_all_shapes [rotated, OF assms(1)]) (metis follows_shape)

lemma sole_primary_removeDBs: "sole_primary cd \<Longrightarrow> sole_primary (removeDBs us cd)"
  by (auto simp: sole_primary_def removeDBs_filter list_all_iff)

lemma wf_dbs_entry:
  assumes "wf_dbs ks ds" and "(u, d) \<in> set ds"
  shows "map_of ds u = Some d" and "db_UID d = u"
proof -
  show lk: "map_of ds u = Some d" using wf_map_mem [OF wf_dbs_map [OF assms(1)]] assms(2) by blast
  show "db_UID d = u" by (rule wf_dbs_lookup(1) [OF assms(1) lk])
qed

lemma sole_primary_removeOldMasters:
  assumes "serving cd"
  shows "sole_primary (removeOldMasters (master_of cd) cd)"
proof -
  have wf: "wf_dbs (cd_Keepers cd) (cd_DBs cd)" using assms by (simp add: serving_def wf_cd_def)
  have "replica_line d" if d: "(u, d) \<in> set (cd_DBs cd)" "u \<noteq> master_of cd"
    "u \<notin> db_UID ` {d \<in> set (mvals (cd_DBs cd)). db_UID d \<noteq> master_of cd \<and>
       dbType cd (db_UID d) = Inr dbTypePrimaryLine}" for u d
  proof -
    note lk = wf_dbs_entry(1) [OF wf d(1)]
    have "db_UID d = u" by (rule wf_dbs_entry(2) [OF wf d(1)])
    then have "\<not> primary_line d"
      using d(2,3) dbType_iff(1) [OF lk] map_of_mvals [OF lk] by auto
    moreover have "dbs_Role (db_Spec d) \<in> {RoleMaster, RoleStandby}"
      using assms d(1) by (auto simp: serving_def links_ok_def list_all_iff link_ok_def)
    ultimately show ?thesis by (auto simp: primary_line_def replica_line_def)
  qed
  then show ?thesis
    by (auto simp: sole_primary_def removeOldMasters_def removeDBs_filter list_all_iff image_iff)
qed

lemma replica_new_standby: "replica_line (new_standby u w k)"
  by (simp add: replica_line_def new_standby_def new_db_def follows_external_def)

lemma addStandbyDBs_append:
  "fresh_from e i cd \<Longrightarrow> \<exists>ns. cd_DBs (addStandbyDBs e w i nc ks cd) = cd_DBs cd @ ns \<and>
     length ns \<le> nat (nc - int i) \<and>
     (\<forall>u d. (u, d) \<in> set ns \<longrightarrow> (\<exists>j k. i \<le> j \<and> k \<in> set ks \<and> u = uidFn e j \<and> d = new_standby u w k))"
proof (induction e w i nc ks cd rule: addStandbyDBs.induct)
  case (2 e w i nc k ks cd)
  let ?d = "new_standby (uidFn e i) w k" let ?cd = "addDB ?d cd"
  have up: "cd_DBs ?cd = cd_DBs cd @ [(uidFn e i, ?d)]"
    using 2(2) update_new_key [of "uidFn e i" "cd_DBs cd"] by (simp add: addDB_def fresh_from_def)
  show ?case
  proof (cases "int i < nc")
    case True
    have "fresh_from e (i + 1) ?cd" using 2(2) by (auto simp: fresh_from_def up mkeys_def inj_eq)
    then obtain ns where ns: "cd_DBs (addStandbyDBs e w (i + 1) nc ks ?cd) = cd_DBs ?cd @ ns"
        "length ns \<le> nat (nc - int (i + 1))"
        "\<And>u d. (u, d) \<in> set ns \<Longrightarrow>
          \<exists>j k. i + 1 \<le> j \<and> k \<in> set ks \<and> u = uidFn e j \<and> d = new_standby u w k"
      using 2(1) [OF True] by blast
    have "cd_DBs (addStandbyDBs e w i nc (k # ks) cd) = cd_DBs cd @ (uidFn e i, ?d) # ns"
      using True ns(1) up by simp
    moreover have "length ((uidFn e i, ?d) # ns) \<le> nat (nc - int i)" using True ns(2) by simp
    moreover have "\<exists>j k'. i \<le> j \<and> k' \<in> set (k # ks) \<and> u = uidFn e j \<and> d = new_standby u w k'"
      if "(u, d) \<in> set ((uidFn e i, ?d) # ns)" for u d
    proof (cases "(u, d) \<in> set ns")
      case True
      then obtain j k' where "i + 1 \<le> j" "k' \<in> set ks" "u = uidFn e j" "d = new_standby u w k'"
        using ns(3) by blast
      then show ?thesis by (intro exI [of _ j] exI [of _ k']) simp
    next
      case False
      then have "u = uidFn e i" "d = ?d" using that by simp_all
      then show ?thesis by (intro exI [of _ i] exI [of _ k]) simp
    qed
    ultimately show ?thesis by blast
  qed simp
qed simp

lemma sole_primary_addStandbyDBs:
  assumes "sole_primary cd" and "fresh_from e i cd"
    and "cd_Cluster (addStandbyDBs e w i nc ks cd) = cd_Cluster cd"
  shows "sole_primary (addStandbyDBs e w i nc ks cd)"
proof -
  obtain ns where ns: "cd_DBs (addStandbyDBs e w i nc ks cd) = cd_DBs cd @ ns"
      "\<And>u d. (u, d) \<in> set ns \<Longrightarrow>
        \<exists>j k. i \<le> j \<and> k \<in> set ks \<and> u = uidFn e j \<and> d = new_standby u w k"
    using addStandbyDBs_append [OF assms(2), of w nc ks] by blast
  have "replica_line d" if "(u, d) \<in> set ns" for u d
    using ns(2) [OF that] replica_new_standby by metis
  then have "list_all (\<lambda>(u, d). u = master_of cd \<or> replica_line d) ns"
    by (auto simp: list_all_iff)
  then show ?thesis using assms(1,3) ns(1) by (simp add: sole_primary_def)
qed

text \<open>The loop over the replicas.\<close>

lemma reconfigureStandbys_map:
  "reconfigureStandbys w cd = cd\<lparr>cd_DBs := map (\<lambda>(u, d). (u,
     if dbType cd (db_UID d) = Inr dbTypeReplicaLine then followMaster w d else d)) (cd_DBs cd)\<rparr>"
  by (simp add: reconfigureStandbys_def mmap_def)

lemma followMaster_simps [simp]:
  "db_UID (followMaster w d) = db_UID d"
  "dbs_KeeperUID (db_Spec (followMaster w d)) = dbs_KeeperUID (db_Spec d)"
  "link_ok spec (followMaster w d)"
  "follows w (followMaster w d)"
  "db_Status (followMaster w d) = db_Status d"
  "db_Generation (followMaster w d) = db_Generation d"
  by (simp_all add: followMaster_def link_ok_def follows_external_def follows_def)

lemma reconfigureStandbys_serving:
  assumes "serving cd" and "sole_primary cd"
  shows "serving (reconfigureStandbys (master_of cd) cd)"
    and "all_follow (reconfigureStandbys (master_of cd) cd)"
proof -
  let ?f = "\<lambda>u d. if dbType cd (db_UID d) = Inr dbTypeReplicaLine then followMaster (master_of cd) d else d"
  have wf: "wf_dbs (cd_Keepers cd) (cd_DBs cd)" using assms by (simp add: serving_def wf_cd_def)
  have uid: "db_UID m = master_of cd" if "map_of (cd_DBs cd) (master_of cd) = Some m" for m
    using wf_dbs_lookup(1) [OF wf that] .
  have "primary_line (?f (master_of cd) m)"
    if "map_of (cd_DBs cd) (master_of cd) = Some m" "primary_line m" for m
    using that uid [OF that(1)] master_type [OF assms(1)] by simp
  then show "serving (reconfigureStandbys (master_of cd) cd)"
    unfolding reconfigureStandbys_map using assms(1) by (intro serving_map) auto
  have "follows (master_of cd) (?f u d)" if d: "(u, d) \<in> set (cd_DBs cd)" "u \<noteq> master_of cd" for u d
  proof -
    note lk = wf_dbs_entry(1) [OF wf d(1)]
    have "replica_line d" using assms(2) d by (auto simp: sole_primary_def list_all_iff)
    then show ?thesis using dbType_iff(2) [OF lk] wf_dbs_lookup(1) [OF wf lk] by simp
  qed
  then show "all_follow (reconfigureStandbys (master_of cd) cd)"
    by (auto simp: all_follow_def reconfigureStandbys_map list_all_iff)
qed

end
