(* ===== verification/Sentinel_Reconcile.thy ===== *)
theory Sentinel_Reconcile
  imports Sentinel_Pass
begin

text \<open>
  The whole of \<open>updateCluster\<close>: from cluster data that satisfies the invariant it returns without
  panic, with an error or with cluster data that satisfies the invariant.
\<close>

section \<open>Standbys of a converged master\<close>

lemma mkeys_removeDBs: "set (mkeys (cd_DBs (removeDBs us cd))) \<subseteq> set (mkeys (cd_DBs cd))"
  by (auto simp: removeDBs_filter mkeys_def)

lemma fresh_from_removeDBs: "fresh_from e i cd \<Longrightarrow> fresh_from e i (removeDBs us cd)"
  using mkeys_removeDBs by (fastforce simp: fresh_from_def)

lemma replicas_not_master:
  assumes "serving cd" and "d \<in> set (mvals (goodDBs (by_status t s cd dbTypeReplicaLine (cd_DBs cd))))"
  shows "db_UID d \<noteq> master_of cd"
  using assms(2) master_type [OF assms(1)]
  by (auto simp: set_good_by_status good_of_type_def valid_of_type_def)

lemma removeStandbys_simps [simp]:
  "cd_Cluster (removeStandbys e sync good n cd) = cd_Cluster cd"
  "cd_Keepers (removeStandbys e sync good n cd) = cd_Keepers cd"
  "cd_Proxy (removeStandbys e sync good n cd) = cd_Proxy cd"
  by (simp_all add: removeStandbys_def)

lemma adjustStandbys_serving:
  assumes "serving cd" and "sole_primary cd" and "good_env e" and "fresh_from e 0 cd"
    and "wf_map (goodDBs r)" and "\<And>d. d \<in> set (mvals (goodDBs r)) \<Longrightarrow> db_UID d \<noteq> master_of cd"
  shows "serving (adjustStandbys e spec w sync r cd) \<and> sole_primary (adjustStandbys e spec w sync r cd) \<and>
    cd_Cluster (adjustStandbys e spec w sync r cd) = cd_Cluster cd \<and>
    cd_Keepers (adjustStandbys e spec w sync r cd) = cd_Keepers cd \<and>
    cd_Proxy (adjustStandbys e spec w sync r cd) = cd_Proxy cd \<and>
    gen_mono e cd (adjustStandbys e spec w sync r cd)"
proof (cases "length (goodDBs r) \<ge> unat (the (cs_MaxStandbysPerSender spec))")
  case True
  then have eq: "adjustStandbys e spec w sync r cd =
      removeStandbys e sync (goodDBs r) (unat (the (cs_MaxStandbysPerSender spec))) cd"
    by (simp add: adjustStandbys_def Let_def)
  have "serving (removeStandbys e sync (goodDBs r) n cd)" for n
    by (rule serving_removeStandbys [OF assms(1,3,5,6)])
  moreover have "sole_primary (removeStandbys e sync (goodDBs r) n cd)" for n
    by (simp add: removeStandbys_def sole_primary_removeDBs [OF assms(2)])
  moreover have "gen_mono e cd (removeStandbys e sync (goodDBs r) n cd)" for n
    unfolding removeStandbys_def by (rule gen_mono_removeDBs)
  ultimately show ?thesis unfolding eq by simp
next
  case False
  have "free_on cd (freeKeepers e 7 cd)"
    using free_on_freeKeepers [OF assms(3)] assms(1) by (simp add: serving_def)
  note a = addStandbyDBs_serving [OF assms(1,4) this]
  then show ?thesis
    using False sole_primary_addStandbyDBs [OF assms(2,4)] gen_mono_addStandbyDBs
    by (simp add: adjustStandbys_def Let_def)
qed

lemma cd_removals [simp]:
  "cd_Cluster (removeOldMasters w cd) = cd_Cluster cd"
  "cd_Cluster (removeInvalidDBs w cd) = cd_Cluster cd"
  "cd_Cluster (removeCannotSync s cd0 cd) = cd_Cluster cd"
  "cd_Keepers (removeOldMasters w cd) = cd_Keepers cd"
  "cd_Keepers (removeInvalidDBs w cd) = cd_Keepers cd"
  "cd_Keepers (removeCannotSync s cd0 cd) = cd_Keepers cd"
  "cd_Proxy (removeOldMasters w cd) = cd_Proxy cd"
  "cd_Proxy (removeInvalidDBs w cd) = cd_Proxy cd"
  "cd_Proxy (removeCannotSync s cd0 cd) = cd_Proxy cd"
  by (simp_all add: removeOldMasters_def removeInvalidDBs_def removeCannotSync_def)

lemma fresh_from_removals:
  "fresh_from e i cd \<Longrightarrow>
     fresh_from e i (removeCannotSync s cd0 (removeInvalidDBs w' (removeOldMasters w cd)))"
  unfolding removeCannotSync_def removeInvalidDBs_def removeOldMasters_def
  by (intro fresh_from_removeDBs)

lemma manageStandbys_char:
  assumes "serving newcd" and "serving cd" and "master_of newcd = master_of cd"
    and "good_env e" and "fresh_from e 0 newcd"
  shows "\<exists>cd' s'. manageStandbys e cd spec cur (master_of cd) newcd s = Some (cd', s') \<and>
    serving cd' \<and> all_follow cd' \<and> cd_Cluster cd' = cd_Cluster newcd \<and>
    cd_Keepers cd' = cd_Keepers newcd \<and> cd_Proxy cd' = cd_Proxy newcd \<and> gen_mono e newcd cd'"
proof -
  let ?u = "master_of cd"
  let ?cd3 = "removeCannotSync s cd (removeInvalidDBs ?u (removeOldMasters ?u newcd))"
  have s1: "serving (removeOldMasters ?u newcd)"
    using serving_removeOldMasters [OF assms(1)] assms(3) by simp
  have s2: "serving (removeInvalidDBs ?u (removeOldMasters ?u newcd))"
    using serving_removeInvalidDBs [OF s1] assms(3) by simp
  have s3: "serving ?cd3" using serving_removeCannotSync [OF s2 assms(2)] assms(3) by simp
  have p3: "sole_primary ?cd3"
    using sole_primary_removeOldMasters [OF assms(1)] assms(3)
    unfolding removeCannotSync_def removeInvalidDBs_def by (simp add: sole_primary_removeDBs)
  have f3: "fresh_from e 0 ?cd3" by (rule fresh_from_removals [OF assms(5)])
  let ?r = "by_status (now e) s ?cd3 dbTypeReplicaLine (cd_DBs ?cd3)"
  obtain s1 where v: "validStandbysByStatus (now e) ?cd3 s = Some (?r, s1)"
    using validDBsByStatus_char [of ?cd3] s3 unfolding validStandbysByStatus_def serving_def by blast
  let ?cd4 = "cleanInitMode (goodDBs ?r) ?cd3"
  have s4: "serving ?cd4" using s3 by (rule serving_shapes) simp_all
  have p4: "sole_primary ?cd4" using p3 by (rule sole_primary_shapes [rotated 2]) simp_all
  have m4: "map_of (cd_DBs ?cd4) ?u \<noteq> None" using s4 assms(3) by (auto elim!: serving_master)
  have w4: "wf_cd ?cd4" using s4 by (simp add: serving_def)
  obtain f s2 where f: "setupSynchronousStandbys e spec cur (mkeys (goodDBs ?r)) ?u ?cd4 s1 =
      Some (upd_db ?u f ?cd4, s2)" "\<And>d. shape (f d) = shape d" "\<And>d. db_Generation (f d) = db_Generation d"
    using setupSynchronousStandbys_upd [OF assms(4) w4 m4] by blast
  define cd5 where "cd5 = upd_db ?u f ?cd4"
  have c5: "shapes (cd_DBs cd5) = shapes (cd_DBs ?cd4)" "cd_Keepers cd5 = cd_Keepers ?cd4"
    "cd_Cluster cd5 = cd_Cluster ?cd4" "cd_Proxy cd5 = cd_Proxy ?cd4" "gen_mono e ?cd4 cd5"
    using shapes_upd_db [OF f(2)] gen_mono_upd_db [OF f(3)] by (simp_all add: cd5_def)
  have s5: "serving cd5" using s4 c5(1-4) by (rule serving_shapes)
  have p5: "sole_primary cd5" using c5(1,3) p4 by (intro sole_primary_shapes [of cd5 ?cd4]) simp_all
  have f5: "fresh_from e 0 cd5"
    using f3 shapes_keys [OF c5(1)] shapes_keys [OF shapes_cleanInitMode] by (simp add: fresh_from_def)
  obtain md where md: "map_of (cd_DBs cd5) ?u = Some md"
    using s5 c5(3) assms(3) by (auto elim!: serving_master)
  let ?cd6 = "adjustStandbys e spec ?u (els (dbs_SynchronousStandbys (db_Spec md))) ?r cd5"
  have wfr: "wf_map (goodDBs ?r)"
    using s3 by (auto simp: by_status_def serving_def wf_cd_def intro: wf_in_state)
  have nm: "db_UID d \<noteq> master_of cd5" if "d \<in> set (mvals (goodDBs ?r))" for d
    using replicas_not_master [OF s3 that] c5(3) by simp
  have c6: "serving ?cd6" "sole_primary ?cd6" "cd_Cluster ?cd6 = cd_Cluster cd5"
    "cd_Keepers ?cd6 = cd_Keepers cd5" "cd_Proxy ?cd6 = cd_Proxy cd5" "gen_mono e cd5 ?cd6"
    using adjustStandbys_serving [OF s5 p5 assms(4) f5 wfr nm] by simp_all
  have u6: "master_of ?cd6 = ?u" using c6(3) c5(3) assms(3) by simp
  have res: "manageStandbys e cd spec cur ?u newcd s = Some (reconfigureStandbys ?u ?cd6, s2)"
    using v f(1) [folded cd5_def] md by (simp add: manageStandbys_def Let_def)
  have fr: "cd_Cluster (reconfigureStandbys ?u ?cd6) = cd_Cluster newcd"
    "cd_Keepers (reconfigureStandbys ?u ?cd6) = cd_Keepers newcd"
    "cd_Proxy (reconfigureStandbys ?u ?cd6) = cd_Proxy newcd"
    using c6(3-5) c5(2-4) by (simp_all add: reconfigureStandbys_def)
  have "gen_mono e newcd ?cd3"
    unfolding removeCannotSync_def removeInvalidDBs_def removeOldMasters_def
    by (meson gen_mono_removeDBs gen_mono_trans)
  then have "gen_mono e newcd (reconfigureStandbys ?u ?cd6)"
    by (meson gen_mono_cleanInitMode gen_mono_reconfigure gen_mono_trans c5(5) c6(6))
  then show ?thesis
    using res fr reconfigureStandbys_serving [OF c6(1,2)] unfolding u6 by blast
qed

section \<open>An unchanged master\<close>

definition converged :: "db \<Rightarrow> bool" where
  "converged d \<longleftrightarrow> dst_Healthy (db_Status d) \<and> dst_CurrentGeneration (db_Status d) = db_Generation d"

lemma dbConvergenceState_Converged:
  "dbConvergenceState t d timeout s = (c, s') \<Longrightarrow>
     c = Converged \<longleftrightarrow> dst_CurrentGeneration (db_Status d) = db_Generation d"
  using conv_state_Converged [of t d timeout s] by simp

lemma keepMaster_char:
  assumes "serving newcd" and "serving cd" and "master_of newcd = master_of cd"
    and "good_env e" and "fresh_from e 0 newcd"
    and "map_of (cd_DBs newcd) (master_of cd) = Some m"
  shows "\<exists>cd' s'. keepMaster e pis cd spec cur (master_of cd) newcd s = Some (cd', s') \<and>
    serving cd' \<and> cd_Cluster cd' = cd_Cluster newcd \<and> cd_Keepers cd' = cd_Keepers newcd \<and>
    cd_Proxy cd' = cd_Proxy (updateProxies pis (master_of cd) newcd) \<and>
    (converged m \<longrightarrow> all_follow cd') \<and> gen_mono e newcd cd'"
proof -
  let ?u = "master_of cd" let ?cd1 = "updateProxies pis ?u newcd"
  let ?f = "\<lambda>sp. sp\<lparr>dbs_Role := RoleMaster, dbs_FollowConfig := None\<rparr>"
  define cd2 where "cd2 = (if the (cs_Role spec) = ClusterRoleMaster then upd_dbspec ?u ?f ?cd1 else ?cd1)"
  have s1: "serving ?cd1" using serving_updateProxies [OF assms(1)] assms(3) by simp
  have s2: "serving cd2" using s1 serving_master_role [OF s1] assms(3) by (simp add: cd2_def)
  have fr: "cd_Cluster cd2 = cd_Cluster newcd" "cd_Keepers cd2 = cd_Keepers newcd"
    "cd_Proxy cd2 = cd_Proxy ?cd1" "mkeys (cd_DBs cd2) = mkeys (cd_DBs newcd)"
    by (simp_all add: cd2_def)
  have "gen_mono e newcd ?cd1" by (rule gen_mono_same) simp
  then have g2: "gen_mono e newcd cd2"
    using gen_mono_trans [OF _ gen_mono_upd_dbspec] by (simp add: cd2_def)
  have f2: "fresh_from e 0 cd2" using assms(5) fr(4) by (simp add: fresh_from_def)
  have eq: "master_of cd2 = master_of cd" using fr(1) assms(3) by simp
  obtain d where d: "map_of (cd_DBs cd2) ?u = Some d" "db_Status d = db_Status m"
      "db_Generation d = db_Generation m"
    using assms(6) by (cases "the (cs_Role spec) = ClusterRoleMaster") (simp_all add: cd2_def)
  obtain c s1 where c: "dbConvergenceState (now e) d (the (cs_ConvergenceTimeout spec)) s = (c, s1)"
    by fastforce
  have cc: "c = Converged \<longleftrightarrow> dst_CurrentGeneration (db_Status m) = db_Generation m"
    using dbConvergenceState_Converged [OF c] d(2,3) by simp
  have k: "keepMaster e pis cd spec cur ?u newcd s =
      (if dst_Healthy (db_Status d) then
         (if c = Converged then manageStandbys e cd spec cur ?u cd2 s1 else Some (cd2, s1))
       else Some (cd2, s))"
    using d(1) c by (simp add: keepMaster_def cd2_def)
  obtain cd' s' where r: "manageStandbys e cd spec cur ?u cd2 s1 = Some (cd', s')" "serving cd'"
      "all_follow cd'" "cd_Cluster cd' = cd_Cluster cd2" "cd_Keepers cd' = cd_Keepers cd2"
      "cd_Proxy cd' = cd_Proxy cd2" "gen_mono e cd2 cd'"
    using manageStandbys_char [OF s2 assms(2) eq assms(4) f2] by blast
  have "gen_mono e newcd cd'" by (rule gen_mono_trans [OF g2 r(7)])
  then show ?thesis
    using k r s2 fr cc d(2) g2 by (auto simp: converged_def)
qed

lemma updateFollowers_char:
  assumes "serving newcd" and "map_of (cd_DBs newcd) u \<noteq> None"
  shows "\<exists>cd'. updateFollowers u w newcd = Some cd' \<and> shapes (cd_DBs cd') = shapes (cd_DBs newcd) \<and>
    cd_Cluster cd' = cd_Cluster newcd \<and> cd_Keepers cd' = cd_Keepers newcd \<and>
    cd_Proxy cd' = cd_Proxy newcd \<and> gen_mono e newcd cd'"
  using assms(2)
  by (auto simp: updateFollowers_def Let_def shapes_upd_dbspec shape_def gen_mono_upd_dbspec)

section \<open>The normal phase\<close>

text \<open>
  Why a pass may replace the master \<open>m\<close> by \<open>d\<close>: the operator asked for a switch, automatic
  failback prefers its keeper, or the master is not healthy and converged; in the last case
  with synchronous replication \<open>d\<close> is a synchronous standby of \<open>m\<close>.
\<close>

definition may_replace :: "cluster_data \<Rightarrow> db \<Rightarrow> db \<Rightarrow> bool" where
  "may_replace cd m d \<longleftrightarrow> master_candidate cd m d \<and>
     (cst_ManualSwitch (cl_Status (cd_Cluster cd)) \<noteq> None \<or> failback_target cd m d \<or>
      \<not> converged m \<and> (sync_enabled cd m \<longrightarrow>
        db_UID d \<in> set (els (dst_SynchronousStandbys (db_Status m))) \<inter>
          set (els (dbs_SynchronousStandbys (db_Spec m)))))"

text \<open>The outcome of a pass in the normal phase for the master and the proxies.\<close>

definition kept :: "proxies_info \<Rightarrow> cluster_data \<Rightarrow> db \<Rightarrow> cluster_data \<Rightarrow> bool" where
  "kept pis cd m cd' \<longleftrightarrow> master_of cd' = master_of cd \<and>
     cd_Proxy cd' = cd_Proxy (updateProxies pis (master_of cd) cd) \<and>
     (converged m \<longrightarrow> all_follow cd')"

definition switched :: "cluster_data \<Rightarrow> cluster_data \<Rightarrow> db \<Rightarrow> cluster_data \<Rightarrow> bool" where
  "switched cd1 cd m cd' \<longleftrightarrow>
     (\<exists>d. may_replace cd1 m d \<and> db_UID d = master_of cd') \<and> master_of cd' \<noteq> master_of cd \<and>
     proxy_master cd' = [] \<and>
     px_Generation (cd_Proxy cd') =
       (if proxy_master cd = [] then px_Generation (cd_Proxy cd) else inc (px_Generation (cd_Proxy cd)))"

lemma checkMaster_ok:
  assumes "checkMaster t spec m s = (ok, s')" and "\<not> ok"
  shows "\<not> converged m"
proof -
  obtain c s1 where c: "dbConvergenceState t m (the (cs_ConvergenceTimeout spec)) s = (c, s1)"
    by fastforce
  show ?thesis
    using assms c dbConvergenceState_Converged [OF c] by (auto simp: checkMaster_def converged_def)
qed

lemma candidate_lookup:
  assumes "wf_cd cd" and "master_candidate cd m d"
  shows "map_of (cd_DBs cd) (db_UID d) = Some d"
  using assms wf_dbs_mem(1) [of "cd_Keepers cd" "cd_DBs cd" d]
  by (auto simp: wf_cd_def master_candidate_def good_of_type_def)

text \<open>The wanted master of a pass.\<close>

lemma wanted_char:
  assumes "good_env e" and "wf_cd cd1" and "cd_Cluster cd1 = cd_Cluster cd"
  shows "\<exists>cd2 w a s1 ok s2 w' s3. applyManualSwitch e cd m u cd1 s = Some (cd2, w, a, s1) \<and>
    checkMaster (now e) spec m s1 = (ok, s2) \<and>
    chooseWantedMaster e spec m u ok a cd2 w s2 = Some (w', s3) \<and>
    cd2 \<in> {cd1, clearManualSwitch cd1} \<and>
    (w' = u \<or> (\<exists>d. may_replace cd1 m d \<and> db_UID d = w'))"
proof -
  obtain cd2 w a s1 where ms: "applyManualSwitch e cd m u cd1 s = Some (cd2, w, a, s1)"
    "cd2 = cd1 \<and> \<not> a \<and> w = u \<or> cd2 = clearManualSwitch cd1 \<and> a \<and>
       (w = u \<or> (\<exists>req c. cst_ManualSwitch (cl_Status (cd_Cluster cd)) = Some req \<and>
          master_candidate cd1 m c \<and> db_UID c = w))"
    using applyManualSwitch_char [OF assms(1,2), of cd m u s] by blast
  obtain ok s2 where ok: "checkMaster (now e) spec m s1 = (ok, s2)" by fastforce
  have "wf_cd cd2" using ms(2) assms(2) by (auto simp: wf_cd_def)
  from chooseWantedMaster_char [OF assms(1) this, of spec m u ok a w s2]
  obtain w' s3 where cw: "chooseWantedMaster e spec m u ok a cd2 w s2 = Some (w', s3)"
    "w' = w \<or> \<not> a \<and> (\<exists>d. db_UID d = w' \<and>
       (if ok then failback_target cd2 m d
        else master_candidate cd2 m d \<and> (sync_enabled cd2 m \<longrightarrow>
          w' \<in> set (els (dst_SynchronousStandbys (db_Status m))) \<and>
          w' \<in> set (els (dbs_SynchronousStandbys (db_Spec m))))))" by blast
  have "w' = u \<or> (\<exists>d. may_replace cd1 m d \<and> db_UID d = w')"
  proof (cases a)
    case True
    then show ?thesis using ms(2) cw(2) assms(3) by (auto simp: may_replace_def)
  next
    case False
    then have cd2: "cd2 = cd1" "w = u" using ms(2) by blast+
    show ?thesis
      using cw(2) checkMaster_ok [OF ok] unfolding cd2 may_replace_def failback_target_def
      by (cases ok) auto
  qed
  moreover have "cd2 \<in> {cd1, clearManualSwitch cd1}" using ms(2) by blast
  ultimately show ?thesis using ms(1) ok cw(1) by blast
qed

text \<open>The election or the section for an unchanged master.\<close>

lemma master_section:
  assumes "serving cd" and "valid_shape (DefSpec (cd_Cluster cd))" and "good_env e"
    and "fresh_from e 0 cd" and "map_of (cd_DBs cd) (master_of cd) = Some m"
    and "cd2 \<in> {removeOldKeepers t cd cd, clearManualSwitch (removeOldKeepers t cd cd)}"
    and "w = master_of cd \<or> (\<exists>d. may_replace (removeOldKeepers t cd cd) m d \<and> db_UID d = w)"
  shows "\<exists>cd3 s'. (if master_of cd \<noteq> w
      then map_option (\<lambda>c. (c, s)) (electNewMaster (DefSpec (cd_Cluster cd)) (master_of cd) w cd2)
      else keepMaster e pis cd (DefSpec (cd_Cluster cd)) m (master_of cd) cd2 s) = Some (cd3, s') \<and>
    serving cd3 \<and> cl_Spec (cd_Cluster cd3) = cl_Spec (cd_Cluster cd) \<and>
    cst_Phase (cl_Status (cd_Cluster cd3)) = cst_Phase (cl_Status (cd_Cluster cd)) \<and>
    cd_Keepers cd3 = cd_Keepers (removeOldKeepers t cd cd) \<and>
    map_of (cd_DBs cd3) (master_of cd) \<noteq> None \<and>
    (kept pis cd m cd3 \<or> switched (removeOldKeepers t cd cd) cd m cd3) \<and> gen_mono e cd cd3"
proof -
  let ?spec = "DefSpec (cd_Cluster cd)" let ?u = "master_of cd" let ?cd1 = "removeOldKeepers t cd cd"
  have s1: "serving ?cd1" by (rule serving_removeOldKeepers [OF assms(1)])
  have w1: "wf_cd ?cd1" using s1 by (simp add: serving_def)
  have s2: "serving cd2" using assms(6) s1 serving_clearManualSwitch [OF s1] by blast
  have fr2: "cd_DBs cd2 = cd_DBs cd" "master_of cd2 = ?u" "DefSpec (cd_Cluster cd2) = ?spec"
    "cl_Spec (cd_Cluster cd2) = cl_Spec (cd_Cluster cd)" "cd_Keepers cd2 = cd_Keepers ?cd1"
    "cst_Phase (cl_Status (cd_Cluster cd2)) = cst_Phase (cl_Status (cd_Cluster cd))"
    "cd_Proxy cd2 = cd_Proxy cd"
    using assms(6) by auto
  have g2: "gen_mono e cd cd2" using fr2(1) by (rule gen_mono_same)
  show ?thesis
  proof (cases "w = ?u")
    case True
    have f2: "fresh_from e 0 cd2" using assms(4) fr2(1) by (simp add: fresh_from_def)
    have m: "map_of (cd_DBs cd2) ?u = Some m" using assms(5) fr2(1) by simp
    from keepMaster_char [OF s2 assms(1) fr2(2) assms(3) f2 m, of pis ?spec m s]
    obtain cd3 s' where k: "keepMaster e pis cd ?spec m ?u cd2 s = Some (cd3, s')" "serving cd3"
      "cd_Cluster cd3 = cd_Cluster cd2" "cd_Keepers cd3 = cd_Keepers cd2"
      "cd_Proxy cd3 = cd_Proxy (updateProxies pis ?u cd2)" "converged m \<longrightarrow> all_follow cd3"
      "gen_mono e cd2 cd3" by blast
    have "cd_Proxy (updateProxies pis ?u cd2) = cd_Proxy (updateProxies pis ?u cd)"
      using fr2(7) by (simp add: updateProxies_def Let_def)
    then have "kept pis cd m cd3" using k fr2 by (simp add: kept_def)
    moreover have "map_of (cd_DBs cd3) ?u \<noteq> None"
      using serving_master [OF k(2)] k(3) fr2(2) by (metis option.distinct(1))
    ultimately show ?thesis using True k fr2 gen_mono_trans [OF g2 k(7)] by simp
  next
    case False
    then obtain d where d: "may_replace ?cd1 m d" "db_UID d = w" using assms(7) by blast
    have lk: "map_of (cd_DBs cd2) w = Some d"
      using candidate_lookup [OF w1, of m d] d fr2(1) by (simp add: may_replace_def)
    have "valid_shape (DefSpec (cd_Cluster cd2))" using assms(2) fr2(3) by simp
    from electNewMaster_char [OF s2 this lk, unfolded fr2, of e]
    obtain cd3 where k: "electNewMaster ?spec ?u w cd2 = Some cd3" "serving cd3" "master_of cd3 = w"
      "proxy_master cd3 = []" "px_Generation (cd_Proxy cd3) =
         (if proxy_master cd = [] then px_Generation (cd_Proxy cd) else inc (px_Generation (cd_Proxy cd)))"
      "cd_Keepers cd3 = cd_Keepers ?cd1" "mkeys (cd_DBs cd3) = mkeys (cd_DBs cd)"
      "cl_Spec (cd_Cluster cd3) = cl_Spec (cd_Cluster cd)"
      "cst_Phase (cl_Status (cd_Cluster cd3)) = cst_Phase (cl_Status (cd_Cluster cd))"
      "gen_mono e cd2 cd3" by blast
    have "switched ?cd1 cd m cd3" using k(3-5) d False unfolding switched_def by blast
    moreover have "map_of (cd_DBs cd3) ?u \<noteq> None"
      using k(7) map_of_mkeys_iff [of "cd_DBs cd3" ?u] map_of_in_mkeys [OF assms(5)] by simp
    ultimately show ?thesis using False k gen_mono_trans [OF g2 k(10)] by simp
  qed
qed

lemma normalPhase_char:
  assumes "serving cd" and "valid_shape (DefSpec (cd_Cluster cd))" and "good_env e"
    and "fresh_from e 0 cd" and "map_of (cd_DBs cd) (master_of cd) = Some m"
  shows "\<exists>cd' s'. normalPhase e pis cd (DefSpec (cd_Cluster cd)) s = Some (Inr cd', s') \<and> serving cd' \<and>
    cl_Spec (cd_Cluster cd') = cl_Spec (cd_Cluster cd) \<and>
    cst_Phase (cl_Status (cd_Cluster cd')) = cst_Phase (cl_Status (cd_Cluster cd)) \<and>
    cd_Keepers cd' = cd_Keepers (removeOldKeepers (now e) cd cd) \<and>
    (kept pis cd m cd' \<or> switched (removeOldKeepers (now e) cd cd) cd m cd') \<and> gen_mono e cd cd'"
proof -
  let ?spec = "DefSpec (cd_Cluster cd)" let ?u = "master_of cd" let ?cd1 = "removeOldKeepers (now e) cd cd"
  have w1: "wf_cd ?cd1"
    using serving_removeOldKeepers [OF assms(1)] by (simp add: serving_def)
  have cl: "cd_Cluster ?cd1 = cd_Cluster cd" by simp
  from wanted_char [OF assms(3) w1 cl, of m ?u s ?spec]
  obtain cd2 w a s1 ok s2 w' s3 where wt: "applyManualSwitch e cd m ?u ?cd1 s = Some (cd2, w, a, s1)"
    "checkMaster (now e) ?spec m s1 = (ok, s2)"
    "chooseWantedMaster e ?spec m ?u ok a cd2 w s2 = Some (w', s3)"
    "cd2 \<in> {?cd1, clearManualSwitch ?cd1}"
    "w' = ?u \<or> (\<exists>d. may_replace ?cd1 m d \<and> db_UID d = w')" by blast
  from master_section [OF assms wt(4,5), of s3 pis]
  obtain cd3 s4 where c3: "(if ?u \<noteq> w' then map_option (\<lambda>c. (c, s3)) (electNewMaster ?spec ?u w' cd2)
      else keepMaster e pis cd ?spec m ?u cd2 s3) = Some (cd3, s4)" "serving cd3"
    "cl_Spec (cd_Cluster cd3) = cl_Spec (cd_Cluster cd)"
    "cst_Phase (cl_Status (cd_Cluster cd3)) = cst_Phase (cl_Status (cd_Cluster cd))"
    "cd_Keepers cd3 = cd_Keepers ?cd1" "map_of (cd_DBs cd3) ?u \<noteq> None"
    "kept pis cd m cd3 \<or> switched ?cd1 cd m cd3" "gen_mono e cd cd3" by blast
  obtain cd4 where c4: "updateFollowers ?u w' cd3 = Some cd4" "shapes (cd_DBs cd4) = shapes (cd_DBs cd3)"
    "cd_Cluster cd4 = cd_Cluster cd3" "cd_Keepers cd4 = cd_Keepers cd3" "cd_Proxy cd4 = cd_Proxy cd3"
    "gen_mono e cd3 cd4"
    using updateFollowers_char [OF c3(2,6)] by blast
  have "normalPhase e pis cd ?spec s = Some (Inr cd4, s4)"
    using assms(5) wt(1-3) c3(1) c4(1) by (simp add: normalPhase_def Let_def)
  moreover have "serving cd4" using c3(2) c4(2,4,3,5) by (rule serving_shapes)
  moreover have "kept pis cd m cd4 \<or> switched ?cd1 cd m cd4"
    using c3(7) c4(3,5) all_follow_shapes [OF c4(2)] by (auto simp: kept_def switched_def)
  ultimately show ?thesis using c3 c4 gen_mono_trans [OF c3(8) c4(6)] by simp
qed

section \<open>The end of the pass\<close>

lemma copyClusterSpec_simps [simp]:
  "dbs_KeeperUID (copyClusterSpec c sp) = dbs_KeeperUID sp"
  "dbs_Role (copyClusterSpec c sp) = dbs_Role sp"
  "dbs_FollowConfig (copyClusterSpec c sp) = dbs_FollowConfig sp"
  by (simp_all add: copyClusterSpec_def)

lemma copySlotPolicy_simps [simp]:
  "dbs_KeeperUID (copySlotPolicy c dt sp) = dbs_KeeperUID sp"
  "dbs_Role (copySlotPolicy c dt sp) = dbs_Role sp"
  "dbs_FollowConfig (copySlotPolicy c dt sp) = dbs_FollowConfig sp"
  by (auto simp: copySlotPolicy_def split: sum.splits db_type.splits)

lemma dbSpecFromClusterSpec_shape:
  assumes "link_ok spec d"
  shows "\<exists>d'. dbSpecFromClusterSpec cd (WithDefaults spec) d = Some d' \<and> shape d' = shape d"
  using assms
  by (auto simp: dbSpecFromClusterSpec_def copyStandbyConfig_def link_ok_def follows_external_def
      shape_def split: option.splits)

lemma omap_values_shapes:
  assumes "list_all (\<lambda>(u, d). \<exists>d'. f d = Some d' \<and> shape d' = shape d) ds"
  shows "\<exists>ds'. omap_values f ds = Some ds' \<and> shapes ds' = shapes ds"
  using assms
proof (induction f ds rule: omap_values.induct)
  case (2 f k v m)
  then obtain v' m' where "f v = Some v'" "shape v' = shape v" "omap_values f m = Some m'"
      "shapes m' = shapes m"
    by auto
  then show ?case by (simp add: shapes_def)
qed simp

lemma finishUpdate_char:
  assumes "links_ok newcd"
  shows "\<exists>cd'. finishUpdate t cd newcd = Some cd' \<and> shapes (cd_DBs cd') = shapes (cd_DBs newcd) \<and>
    cd_Cluster cd' = cd_Cluster newcd \<and> cd_Keepers cd' = cd_Keepers newcd \<and>
    cd_Proxy cd' = cd_Proxy newcd"
proof -
  have "list_all (\<lambda>(u, d). \<exists>d'. dbSpecFromClusterSpec newcd (DefSpec (cd_Cluster newcd)) d = Some d' \<and>
      shape d' = shape d) (cd_DBs newcd)"
    using assms dbSpecFromClusterSpec_shape by (auto simp: links_ok_def list_all_iff DefSpec_def)
  from omap_values_shapes [OF this]
  obtain ds where "omap_values (dbSpecFromClusterSpec newcd (DefSpec (cd_Cluster newcd))) (cd_DBs newcd) =
      Some ds" "shapes ds = shapes (cd_DBs newcd)" by blast
  then show ?thesis
    by (simp add: finishUpdate_def setDBSpecFromClusterSpec_def Let_def)
qed

text \<open>A database gets a new generation exactly when its specification changed.\<close>

definition generations_ok :: "env \<Rightarrow> cluster_data \<Rightarrow> cluster_data \<Rightarrow> bool" where
  "generations_ok e cd cd' \<longleftrightarrow> (\<forall>u d'. map_of (cd_DBs cd') u = Some d' \<longrightarrow>
     (case map_of (cd_DBs cd) u of
        Some d \<Rightarrow> db_Generation d' =
          (if db_Spec d' = db_Spec d then db_Generation d else inc (db_Generation d))
      | None \<Rightarrow> u \<in> range (uidFn e) \<and> db_Generation d' = InitialGeneration))"

lemma omap_values_lookup:
  "omap_values f ds = Some ds' \<Longrightarrow> map_of ds' u = Option.bind (map_of ds u) f"
  by (induction f ds arbitrary: ds' rule: omap_values.induct) (auto split: Option.bind_splits)

lemma dbSpecFromClusterSpec_generation:
  "dbSpecFromClusterSpec cd spec d = Some d' \<Longrightarrow> db_Generation d' = db_Generation d"
  by (auto simp: dbSpecFromClusterSpec_def split: Option.bind_splits)

lemma gen_mono_setDBSpec:
  assumes "setDBSpecFromClusterSpec cd = Some cd'"
  shows "gen_mono e cd cd'"
proof (rule gen_mono_sub)
  fix u d' assume d': "map_of (cd_DBs cd') u = Some d'"
  obtain ds where ds: "omap_values (dbSpecFromClusterSpec cd (DefSpec (cd_Cluster cd))) (cd_DBs cd) = Some ds"
      "cd_DBs cd' = ds"
    using assms by (auto simp: setDBSpecFromClusterSpec_def Let_def split: Option.bind_splits)
  then obtain d where "map_of (cd_DBs cd) u = Some d"
      "dbSpecFromClusterSpec cd (DefSpec (cd_Cluster cd)) d = Some d'"
    using d' omap_values_lookup [OF ds(1), of u] by (auto split: Option.bind_splits)
  then show "\<exists>d. map_of (cd_DBs cd) u = Some d \<and> db_Generation d = db_Generation d'"
    using dbSpecFromClusterSpec_generation by metis
qed

lemma gen_mono_updateOrphanSlots: "gen_mono e newcd (updateOrphanSlots t cd newcd)"
  by (simp add: updateOrphanSlots_def Let_def gen_mono_upd_db gen_mono_same split: option.split)

lemma map_of_bump:
  "map_of (map (bumpGeneration prev) ds) u = map_option (\<lambda>d. snd (bumpGeneration prev (u, d))) (map_of ds u)"
proof -
  have "map (bumpGeneration prev) ds = map (\<lambda>(u, d). (u, snd (bumpGeneration prev (u, d)))) ds"
    by (auto simp: bumpGeneration_def)
  then show ?thesis using map_of_map_keyed [of "\<lambda>u d. snd (bumpGeneration prev (u, d))" ds u] by (simp only:)
qed

lemma bumpGenerations_ok:
  assumes "gen_ok e (cd_DBs cd) newcd"
  shows "generations_ok e cd (bumpGenerations cd newcd)"
  unfolding generations_ok_def
proof (intro allI impI)
  fix u d' assume "map_of (cd_DBs (bumpGenerations cd newcd)) u = Some d'"
  then obtain d where d: "map_of (cd_DBs newcd) u = Some d"
      "d' = snd (bumpGeneration (cd_DBs cd) (u, d))"
    by (auto simp: bumpGenerations_def map_of_bump)
  have "case map_of (cd_DBs cd) u of
        Some p \<Rightarrow> db_Generation d = db_Generation p
      | None \<Rightarrow> u \<in> range (uidFn e) \<and> db_Generation d = InitialGeneration"
    using assms d(1) by (auto simp: gen_ok_def)
  then show "case map_of (cd_DBs cd) u of
        Some p \<Rightarrow> db_Generation d' =
          (if db_Spec d' = db_Spec p then db_Generation p else inc (db_Generation p))
      | None \<Rightarrow> u \<in> range (uidFn e) \<and> db_Generation d' = InitialGeneration"
    using d(2) by (auto simp: bumpGeneration_def split: option.splits)
qed

lemma finishUpdate_generations:
  assumes "finishUpdate t cd newcd = Some cd'" and "gen_mono e cd newcd" and "fresh_uids e cd"
    and "wf_map (cd_DBs cd)"
  shows "generations_ok e cd cd'"
proof -
  obtain cd1 where c: "setDBSpecFromClusterSpec newcd = Some cd1"
      "cd' = bumpGenerations cd (updateOrphanSlots t cd cd1)"
    using assms(1) by (auto simp: finishUpdate_def split: Option.bind_splits)
  have "gen_mono e cd (updateOrphanSlots t cd cd1)"
    using gen_mono_trans [OF gen_mono_trans [OF assms(2) gen_mono_setDBSpec [OF c(1)]]
        gen_mono_updateOrphanSlots] .
  moreover have "gen_ok e (cd_DBs cd) cd"
    using assms(3) by (auto simp: gen_ok_def fresh_uids_def)
  ultimately show ?thesis
    unfolding c(2) by (intro bumpGenerations_ok) (simp add: gen_mono_def)
qed

section \<open>The initializing phase\<close>

lemma bootstrapping_shapes:
  assumes "bootstrapping cd" and "shapes (cd_DBs cd') = shapes (cd_DBs cd)"
    and "cd_Keepers cd' = cd_Keepers cd" and "cd_Cluster cd' = cd_Cluster cd"
    and "cd_Proxy cd' = cd_Proxy cd"
  shows "bootstrapping cd'"
proof -
  have "wf_cd cd' = wf_cd cd" using assms(2,3) by (intro wf_cd_cong) simp_all
  moreover have "links_ok cd'"
    using assms by (intro links_ok_shapes [of cd' cd]) (auto simp: bootstrapping_def wf_cd_def)
  moreover have "master_ok cd' " if "master_of cd \<noteq> []"
    using assms that by (intro master_ok_shapes [of cd' cd]) (simp_all add: bootstrapping_def)
  moreover have "cd_DBs cd' = [] \<longleftrightarrow> cd_DBs cd = []"
    using assms(2) by (cases "cd_DBs cd"; cases "cd_DBs cd'") (simp_all add: shapes_def)
  ultimately show ?thesis using assms by (simp add: bootstrapping_def)
qed

lemma findInitialKeeper_char:
  assumes "good_env e" and "wf_cd cd"
  shows "(\<exists>err. findInitialKeeper e cd = Some (Inl err)) \<or>
    (\<exists>k. findInitialKeeper e cd = Some (Inr k) \<and> k_UID k \<in> set (mkeys (cd_Keepers cd)))"
proof (cases "length (cd_Keepers cd) < 1")
  case False
  let ?keys = "sort (mkeys (cd_Keepers cd))" let ?r = "randFn e (length (cd_Keepers cd))"
  have "length ?keys = length (cd_Keepers cd)" by (simp add: mkeys_def)
  then have r: "?r < length ?keys"
    using False assms(1) by (simp add: good_env_def)
  then have "?keys ! ?r \<in> set (mkeys (cd_Keepers cd))" using nth_mem [OF r] by simp
  from mkeys_lookup [OF this] obtain k where k: "map_of (cd_Keepers cd) (?keys ! ?r) = Some k" by blast
  then have "k_UID k = ?keys ! ?r" using wf_keepers_lookup [OF _ k] assms(2) by (simp add: wf_cd_def)
  then show ?thesis
    using False r k map_of_in_mkeys [OF k] by (simp add: findInitialKeeper_def)
qed (simp add: findInitialKeeper_def)

lemma boot_new_master:
  assumes "bootstrapping cd" and "master_of cd = []" and "db_UID d \<noteq> []"
    and "dbs_KeeperUID (db_Spec d) \<in> set (mkeys (cd_Keepers cd))"
    and "link_ok (cl_Spec (cd_Cluster cd)) d" and "primary_line d"
  shows "bootstrapping (setMaster (db_UID d) (addDB d cd))"
proof -
  have "cd_DBs cd = []" using assms(1,2) by (simp add: bootstrapping_def)
  then show ?thesis
    using assms by (auto simp: bootstrapping_def wf_cd_def wf_dbs_def wf_map_def mkeys_def mvals_def
        addDB_def links_ok_def master_ok_def)
qed

lemma upd_status_simps [simp]:
  "cd_DBs (upd_status f cd) = cd_DBs cd" "cd_Keepers (upd_status f cd) = cd_Keepers cd"
  "cd_Proxy (upd_status f cd) = cd_Proxy cd"
  "cl_Spec (cd_Cluster (upd_status f cd)) = cl_Spec (cd_Cluster cd)"
  "cl_Status (cd_Cluster (upd_status f cd)) = f (cl_Status (cd_Cluster cd))"
  by (simp_all add: upd_status_def)

lemma valid_shape_cong:
  assumes "cs_InitMode a = cs_InitMode b" and "cs_Role a = cs_Role b"
    and "cs_ExistingConfig a = cs_ExistingConfig b" and "cs_PITRConfig a = cs_PITRConfig b"
    and "cs_StandbyConfig a = cs_StandbyConfig b"
  shows "valid_shape a = valid_shape b"
  by (simp only: valid_shape_def assms)

lemma valid_shape_params:
  "valid_shape (WithDefaults (spec\<lparr>cs_PGParameters := p\<rparr>)) = valid_shape (WithDefaults spec)"
  by (rule valid_shape_cong) simp_all

lemma dbInitialized_serving:
  assumes "bootstrapping cd" and "master_of cd \<noteq> []" and "valid_shape (DefSpec (cd_Cluster cd))"
  shows "serving (dbInitialized spec d cd) \<and> valid_shape (DefSpec (cd_Cluster (dbInitialized spec d cd))) \<and>
    cst_Phase (cl_Status (cd_Cluster (dbInitialized spec d cd))) = ClusterPhaseNormal"
proof -
  let ?cd = "dbInitialized spec d cd"
  have "cd_DBs ?cd = cd_DBs (upd_dbspec (db_UID d)
      (\<lambda>sp. sp\<lparr>dbs_InitMode := DBInitModeNone, dbs_IncludeConfig := False\<rparr>) cd)"
    by (simp add: dbInitialized_def Let_def)
  also have "shapes \<dots> = shapes (cd_DBs cd)" by (rule shapes_upd_dbspec) (simp add: shape_def)
  finally have sh: "shapes (cd_DBs ?cd) = shapes (cd_DBs cd)" .
  have fr: "cd_Keepers ?cd = cd_Keepers cd" "cd_Proxy ?cd = cd_Proxy cd" "master_of ?cd = master_of cd"
    "cs_StandbyConfig (cl_Spec (cd_Cluster ?cd)) = cs_StandbyConfig (cl_Spec (cd_Cluster cd))"
    by (simp_all add: dbInitialized_def Let_def)
  have "wf_cd ?cd = wf_cd cd" using sh fr by (intro wf_cd_cong) simp_all
  moreover have "links_ok ?cd"
    using assms sh fr by (intro links_ok_shapes [of ?cd cd]) (auto simp: bootstrapping_def wf_cd_def)
  moreover have "master_ok ?cd"
    using assms sh fr by (intro master_ok_shapes [of ?cd cd]) (simp_all add: bootstrapping_def)
  ultimately have "serving ?cd" using assms(1) fr by (simp add: serving_def bootstrapping_def)
  moreover have "valid_shape (DefSpec (cd_Cluster ?cd))"
  proof (cases "the (cs_MergePgParameters spec)")
    case True
    then have "cl_Spec (cd_Cluster ?cd) =
        (cl_Spec (cd_Cluster cd))\<lparr>cs_PGParameters := dst_PGParameters (db_Status d)\<rparr>"
      by (simp add: dbInitialized_def Let_def)
    then show ?thesis using assms(3) unfolding DefSpec_def by (simp only: valid_shape_params)
  next
    case False
    then have "cl_Spec (cd_Cluster ?cd) = cl_Spec (cd_Cluster cd)"
      by (simp add: dbInitialized_def Let_def)
    then show ?thesis using assms(3) unfolding DefSpec_def by (simp only:)
  qed
  moreover have "cst_Phase (cl_Status (cd_Cluster ?cd)) = ClusterPhaseNormal"
    by (simp add: dbInitialized_def Let_def)
  ultimately show ?thesis by (intro conjI)
qed

definition initializing :: "cluster_data \<Rightarrow> bool" where
  "initializing cd \<longleftrightarrow> bootstrapping cd \<and> valid_shape (DefSpec (cd_Cluster cd)) \<and>
     cst_Phase (cl_Status (cd_Cluster cd)) = ClusterPhaseInitializing"

lemma initializing_inv: "initializing cd \<Longrightarrow> cluster_inv cd"
  by (simp add: initializing_def cluster_inv_def)

lemma dbInitialized_inv:
  assumes "initializing cd" and "master_of cd \<noteq> []"
  shows "cluster_inv (dbInitialized spec d cd)"
  using dbInitialized_serving [of cd spec d] assms by (simp add: initializing_def cluster_inv_def)

lemma applyInitialDBConvergence_inv:
  assumes "initializing cd" and "master_of cd \<noteq> []"
  shows "cluster_inv (applyInitialDBConvergence spec d c cd)"
proof -
  have "cluster_inv (setMaster [] (cd\<lparr>cd_DBs := []\<rparr>))"
    using assms(1)
    by (simp add: initializing_def cluster_inv_def bootstrapping_def wf_cd_def wf_dbs_def wf_map_def
        mkeys_def mvals_def links_ok_def DefSpec_def)
  then show ?thesis
    using dbInitialized_inv [OF assms] initializing_inv [OF assms(1)]
    by (simp add: applyInitialDBConvergence_def split: convergence_state.split)
qed

lemma new_master_inv:
  assumes "initializing cd" and "master_of cd = []" and "db_UID d \<noteq> []"
    and "dbs_KeeperUID (db_Spec d) \<in> set (mkeys (cd_Keepers cd))"
    and "link_ok (cl_Spec (cd_Cluster cd)) d" and "primary_line d"
  shows "cluster_inv (setMaster (db_UID d) (addDB d cd))"
  using boot_new_master [of cd d] assms by (simp add: initializing_def cluster_inv_def DefSpec_def)

text \<open>A step that returns, with an error or with cluster data that satisfies the invariant.\<close>

definition step_ok :: "(cluster_data res \<times> sentinel) option \<Rightarrow> bool" where
  "step_ok r \<longleftrightarrow> (\<exists>err s'. r = Some (Inl err, s')) \<or> (\<exists>cd' s'. r = Some (Inr cd', s') \<and> cluster_inv cd')"

lemma step_ok_simps [simp]:
  "step_ok (Some (Inl err, s))" "step_ok (Some (Inr cd, s)) \<longleftrightarrow> cluster_inv cd"
  by (auto simp: step_ok_def)

lemma initNew_ok:
  assumes "initializing cd" and "good_env e" and "\<And>i. uidFn e i \<noteq> []"
  shows "step_ok (initNew e cd spec s)"
proof (cases "master_of cd = []")
  case True
  have "wf_cd cd" using assms(1) by (simp add: initializing_def bootstrapping_def)
  from findInitialKeeper_char [OF assms(2) this] show ?thesis
  proof (elim disjE exE conjE)
    fix k assume k: "findInitialKeeper e cd = Some (Inr k)" "k_UID k \<in> set (mkeys (cd_Keepers cd))"
    have "cluster_inv (setMaster (db_UID d) (addDB d cd))" if "d = new_db (uidFn e 0) (zero_db_spec
        \<lparr>dbs_KeeperUID := k_UID k, dbs_InitMode := DBInitModeNew, dbs_NewConfig := cs_NewConfig spec,
         dbs_Role := RoleMaster, dbs_Followers := Some [],
         dbs_IncludeConfig := the (cs_MergePgParameters spec)\<rparr>)" for d
      using assms(3) k(2) unfolding that
      by (intro new_master_inv [OF assms(1) True])
        (simp_all add: new_db_def link_ok_def follows_external_def primary_line_def zero_db_spec_def)
    then show ?thesis using True k(1) by (simp add: initNew_def Let_def)
  qed (simp add: initNew_def True)
next
  case False
  show ?thesis
    using False applyInitialDBConvergence_inv [OF assms(1) False]
    by (auto simp: initNew_def Let_def split: option.split prod.split)
qed

lemma initExisting_ok:
  assumes "initializing cd" and "\<And>i. uidFn e i \<noteq> []" and "cs_ExistingConfig spec \<noteq> None"
  shows "step_ok (initExisting e cd spec s)"
proof (cases "master_of cd = []")
  case True
  obtain ec where ec: "cs_ExistingConfig spec = Some ec" using assms(3) by blast
  show ?thesis
  proof (cases "map_of (cd_Keepers cd) (ec_KeeperUID ec)")
    case None
    then show ?thesis using True ec by (simp add: initExisting_def)
  next
    case (Some k)
    have "wf_keepers (cd_Keepers cd)"
      using assms(1) by (simp add: initializing_def bootstrapping_def wf_cd_def)
    then have k: "k_UID k \<in> set (mkeys (cd_Keepers cd))"
      using wf_keepers_lookup [OF _ Some] map_of_in_mkeys [OF Some] by simp
    have "cluster_inv (setMaster (db_UID d) (addDB d cd))" if "d = new_db (uidFn e 0) (zero_db_spec
        \<lparr>dbs_KeeperUID := k_UID k, dbs_InitMode := DBInitModeExisting, dbs_Role := RoleMaster,
         dbs_Followers := Some [], dbs_IncludeConfig := the (cs_MergePgParameters spec)\<rparr>)" for d
      using assms(2) k unfolding that
      by (intro new_master_inv [OF assms(1) True])
        (simp_all add: new_db_def link_ok_def follows_external_def primary_line_def zero_db_spec_def)
    then show ?thesis using True ec Some by (simp add: initExisting_def Let_def)
  qed
next
  case False
  show ?thesis
    using False dbInitialized_inv [OF assms(1) False] initializing_inv [OF assms(1)]
    by (auto simp: initExisting_def Let_def split: option.split prod.split)
qed

lemma initPITR_ok:
  assumes "initializing cd" and "good_env e" and "\<And>i. uidFn e i \<noteq> []"
  shows "step_ok (initPITR e cd (DefSpec (cd_Cluster cd)) s)"
proof (cases "master_of cd = []")
  case True
  let ?spec = "DefSpec (cd_Cluster cd)"
  have wf: "wf_cd cd" and vs: "valid_shape ?spec"
    using assms(1) by (simp_all add: initializing_def bootstrapping_def)
  obtain ro fc where rf: "masterRoleConfig ?spec = Some (ro, fc)"
    "ro = RoleMaster \<and> fc = None \<or>
      ro = RoleStandby \<and> (\<exists>c. fc = Some c \<and> fc_Type c = FollowTypeExternal) \<and>
      cs_StandbyConfig ?spec \<noteq> None"
    using masterRoleConfig_total [OF vs] by metis
  from findInitialKeeper_char [OF assms(2) wf] show ?thesis
  proof (elim disjE exE conjE)
    fix k assume k: "findInitialKeeper e cd = Some (Inr k)" "k_UID k \<in> set (mkeys (cd_Keepers cd))"
    have "cluster_inv (setMaster (db_UID d) (addDB d cd))" if "d = new_db (uidFn e 0) (zero_db_spec
        \<lparr>dbs_KeeperUID := k_UID k, dbs_InitMode := DBInitModePITR,
         dbs_PITRConfig := cs_PITRConfig ?spec, dbs_Role := ro, dbs_FollowConfig := fc,
         dbs_Followers := Some [], dbs_IncludeConfig := the (cs_MergePgParameters ?spec)\<rparr>)" for d
      using assms(3) k(2) rf(2) unfolding that
      by (intro new_master_inv [OF assms(1) True])
        (auto simp: new_db_def link_ok_def follows_external_def primary_line_def zero_db_spec_def DefSpec_def)
    then show ?thesis using True k(1) rf(1) by (simp add: initPITR_def Let_def)
  qed (simp add: initPITR_def True)
next
  case False
  show ?thesis
    using False applyInitialDBConvergence_inv [OF assms(1) False]
    by (auto simp: initPITR_def Let_def split: option.split prod.split)
qed

lemma initializingPhase_ok:
  assumes "initializing cd" and "good_env e" and "\<And>i. uidFn e i \<noteq> []"
  shows "step_ok (initializingPhase e cd (DefSpec (cd_Cluster cd)) s)"
proof -
  have "valid_shape (DefSpec (cd_Cluster cd))" using assms(1) by (simp add: initializing_def)
  then show ?thesis
    using initNew_ok [OF assms] initPITR_ok [OF assms] initExisting_ok [OF assms(1,3)]
    by (auto simp: initializingPhase_def valid_shape_def split: option.splits cluster_init_mode.splits)
qed

section \<open>The whole pass\<close>

lemma finishUpdate_inv:
  assumes "cluster_inv newcd" and "links_ok newcd"
  shows "\<exists>cd'. finishUpdate t cd newcd = Some cd' \<and> cluster_inv cd'"
proof -
  obtain cd' where f: "finishUpdate t cd newcd = Some cd'" "shapes (cd_DBs cd') = shapes (cd_DBs newcd)"
    "cd_Cluster cd' = cd_Cluster newcd" "cd_Keepers cd' = cd_Keepers newcd" "cd_Proxy cd' = cd_Proxy newcd"
    using finishUpdate_char [OF assms(2)] by blast
  have "cluster_inv cd'"
    using assms(1) serving_shapes [OF _ f(2,4,3,5)] bootstrapping_shapes [OF _ f(2,4,3,5)]
    by (simp add: cluster_inv_def f(3) split: cluster_phase.splits)
  then show ?thesis using f(1) by blast
qed

lemma updateCluster_initializing:
  assumes "initializing cd" and "good_env e" and "\<And>i. uidFn e i \<noteq> []"
  shows "step_ok (updateCluster e pis cd s)"
proof -
  let ?r = "initializingPhase e cd (DefSpec (cd_Cluster cd)) s"
  have ph: "cst_Phase (cl_Status (cd_Cluster cd)) = ClusterPhaseInitializing"
    using assms(1) by (simp add: initializing_def)
  have ok: "step_ok ?r" by (rule initializingPhase_ok [OF assms])
  show ?thesis
  proof (cases "\<exists>err s'. ?r = Some (Inl err, s')")
    case True
    then show ?thesis using ph by (auto simp: updateCluster_def)
  next
    case False
    then obtain newcd s' where r: "?r = Some (Inr newcd, s')" "cluster_inv newcd"
      using ok unfolding step_ok_def by blast
    have "links_ok newcd"
      using r(2) by (auto simp: cluster_inv_def bootstrapping_def serving_def split: cluster_phase.splits)
    from finishUpdate_inv [OF r(2) this]
    have "\<exists>cd'. finishUpdate (now e) cd newcd = Some cd' \<and> cluster_inv cd'" .
    then show ?thesis using ph r(1) by (auto simp: updateCluster_def)
  qed
qed

lemma updateCluster_normal:
  assumes "serving cd" and "valid_shape (DefSpec (cd_Cluster cd))" and "good_env e"
    and "fresh_uids e cd" and "map_of (cd_DBs cd) (master_of cd) = Some m"
    and "cst_Phase (cl_Status (cd_Cluster cd)) = ClusterPhaseNormal"
    and "\<not> PauseActive (cl_Status (cd_Cluster cd)) (now e)"
  shows "\<exists>cd' s'. updateCluster e pis cd s = Some (Inr cd', s') \<and> cluster_inv cd' \<and>
    cst_Phase (cl_Status (cd_Cluster cd')) = ClusterPhaseNormal \<and>
    cd_Keepers cd' = filter (\<lambda>(u, k). \<not> expired (now e) cd k) (cd_Keepers cd) \<and>
    (kept pis cd m cd' \<or> switched (removeOldKeepers (now e) cd cd) cd m cd') \<and> generations_ok e cd cd'"
proof -
  have "fresh_from e 0 cd" using assms(4) by (auto simp: fresh_uids_def fresh_from_def)
  from normalPhase_char [OF assms(1-3) this assms(5), of pis s]
  obtain cd1 s' where n: "normalPhase e pis cd (DefSpec (cd_Cluster cd)) s = Some (Inr cd1, s')" "serving cd1"
    "cl_Spec (cd_Cluster cd1) = cl_Spec (cd_Cluster cd)"
    "cst_Phase (cl_Status (cd_Cluster cd1)) = ClusterPhaseNormal"
    "cd_Keepers cd1 = cd_Keepers (removeOldKeepers (now e) cd cd)"
    "kept pis cd m cd1 \<or> switched (removeOldKeepers (now e) cd cd) cd m cd1" "gen_mono e cd cd1"
    using assms(6) by auto
  have "links_ok cd1" using n(2) by (simp add: serving_def)
  from finishUpdate_char [OF this, of "now e" cd]
  obtain cd' where f: "finishUpdate (now e) cd cd1 = Some cd'" "shapes (cd_DBs cd') = shapes (cd_DBs cd1)"
    "cd_Cluster cd' = cd_Cluster cd1" "cd_Keepers cd' = cd_Keepers cd1" "cd_Proxy cd' = cd_Proxy cd1"
    by blast
  have u: "updateCluster e pis cd s = Some (Inr cd', s')"
    using assms(6,7) n(1) f(1) by (simp add: updateCluster_def Let_def)
  have "serving cd'" using n(2) f(2,4,3,5) by (rule serving_shapes)
  then have inv: "cluster_inv cd'"
    using assms(2) n(3,4) f(3) by (simp add: cluster_inv_def DefSpec_def)
  have wk: "wf_keepers (cd_Keepers cd)" using assms(1) by (simp add: serving_def wf_cd_def)
  have "kept pis cd m cd' \<or> switched (removeOldKeepers (now e) cd cd) cd m cd'"
    using n(6) f(3,5) all_follow_shapes [OF f(2)] by (auto simp: kept_def switched_def)
  moreover have "generations_ok e cd cd'"
    using finishUpdate_generations [OF f(1) n(7) assms(4)] assms(1) by (auto simp: serving_def wf_cd_def)
  ultimately show ?thesis
    using u inv n(4,5) f(3,4) removeOldKeepers_filter [OF wk] by simp
qed

lemma updateCluster_ok:
  assumes "cluster_inv cd" and "good_env e" and "fresh_uids e cd"
  shows "step_ok (updateCluster e pis cd s)"
proof (cases "cst_Phase (cl_Status (cd_Cluster cd))")
  case ClusterPhaseInitializing
  then have "initializing cd" using assms(1) by (simp add: initializing_def cluster_inv_def)
  then show ?thesis
    using updateCluster_initializing [of cd e] assms(2,3) by (simp add: fresh_uids_def)
next
  case ClusterPhaseNormal
  then have s: "serving cd" "valid_shape (DefSpec (cd_Cluster cd))"
    using assms(1) by (simp_all add: cluster_inv_def)
  obtain m where m: "map_of (cd_DBs cd) (master_of cd) = Some m" using s(1) by (rule serving_master)
  show ?thesis
  proof (cases "PauseActive (cl_Status (cd_Cluster cd)) (now e)")
    case True
    then show ?thesis using ClusterPhaseNormal assms(1) by (simp add: updateCluster_def Let_def)
  next
    case False
    then show ?thesis
      using updateCluster_normal [OF s assms(2,3) m ClusterPhaseNormal, of pis s] by auto
  qed
next
  case (ClusterPhaseOther x)
  then show ?thesis by (simp add: updateCluster_def Let_def)
qed

end
