(* ===== verification/Sentinel_Safety.thy ===== *)
theory Sentinel_Safety
  imports Sentinel_Reconcile
begin

text \<open>
  What one pass of the sentinel guarantees, stated of \<open>updateCluster\<close>.
\<close>

section \<open>Sample states\<close>

lemma fresh_sample: "fresh_uids sample_env (sample_cd spec three_dbs)"
  by (auto simp: fresh_uids_def inj_def mkeys_def sample_defs)

lemma shape_new_spec: "valid_shape (DefSpec (cd_Cluster (sample_cd new_spec ds)))"
  by (simp add: valid_shape_def sample_defs DefSpec_def DefaultRole_def)

lemma serving_three: "serving (sample_cd new_spec three_dbs)"
  using wf_three [of new_spec]
  by (simp add: serving_def master_ok_def links_ok_def link_ok_def follows_external_def
      primary_line_def sample_defs)

lemma phase_sample:
  "cst_Phase (cl_Status (cd_Cluster (sample_cd spec ds))) = ClusterPhaseNormal"
  "\<not> PauseActive (cl_Status (cd_Cluster (sample_cd spec ds))) t"
  "master_of (sample_cd spec ds) = ''d1''"
  "cd_DBs (sample_cd spec ds) = ds"
  by (simp_all add: sample_defs PauseActive_def)

lemma inv_three: "cluster_inv (sample_cd new_spec three_dbs)"
  by (simp add: cluster_inv_def phase_sample serving_three shape_new_spec)

text \<open>The same cluster with a failed master.\<close>

definition failed_dbs :: dbs where
  "failed_dbs = (''d1'', failed (sample_master ''d1'' ''k1'' 100)) # tl three_dbs"

lemma shapes_failed: "shapes failed_dbs = shapes three_dbs"
  by (simp add: failed_dbs_def three_dbs_def shapes_def failed_def)

lemma serving_failed: "serving (sample_cd new_spec failed_dbs)"
  using serving_three by (rule serving_shapes) (simp_all add: sample_cd_def shapes_failed)

lemma inv_failed: "cluster_inv (sample_cd new_spec failed_dbs)"
  by (simp add: cluster_inv_def phase_sample serving_failed shape_new_spec)

lemma fresh_failed: "fresh_uids sample_env (sample_cd spec failed_dbs)"
  by (auto simp: fresh_uids_def inj_def mkeys_def sample_defs failed_dbs_def)

text \<open>An observation of the cluster data that a pass returns.\<close>

definition pass_result :: "(cluster_data \<Rightarrow> 'a) \<Rightarrow> (cluster_data res \<times> sentinel) option \<Rightarrow> 'a option" where
  "pass_result f r = (case r of Some (Inr cd, s) \<Rightarrow> Some (f cd) | _ \<Rightarrow> None)"

lemma pass_resultD: "pass_result f r = Some y \<Longrightarrow> \<exists>cd s. r = Some (Inr cd, s) \<and> f cd = y"
  by (auto simp: pass_result_def split: option.splits prod.splits sum.splits)

section \<open>The outcome of a pass\<close>

lemma pass_outcome:
  assumes "cluster_inv cd" and "good_env e" and "fresh_uids e cd"
    and "cst_Phase (cl_Status (cd_Cluster cd)) = ClusterPhaseNormal"
    and "\<not> PauseActive (cl_Status (cd_Cluster cd)) (now e)"
    and "updateCluster e pis cd s = Some (Inr cd', s')"
    and "map_of (cd_DBs cd) (master_of cd) = Some m"
  shows "cluster_inv cd'" and "cd_Keepers cd' = filter (\<lambda>(u, k). \<not> expired (now e) cd k) (cd_Keepers cd)"
    and "kept pis cd m cd' \<or> switched (removeOldKeepers (now e) cd cd) cd m cd'"
    and "generations_ok e cd cd'"
proof -
  have "serving cd" "valid_shape (DefSpec (cd_Cluster cd))"
    using assms(1,4) by (simp_all add: cluster_inv_def)
  from updateCluster_normal [OF this assms(2,3,7,4,5), of pis s]
  show "cluster_inv cd'" "cd_Keepers cd' = filter (\<lambda>(u, k). \<not> expired (now e) cd k) (cd_Keepers cd)"
    "kept pis cd m cd' \<or> switched (removeOldKeepers (now e) cd cd) cd m cd'" "generations_ok e cd cd'"
    using assms(6) by auto
qed

lemma paused_pass:
  assumes "cst_Phase (cl_Status (cd_Cluster cd)) = ClusterPhaseNormal"
    and "PauseActive (cl_Status (cd_Cluster cd)) (now e)"
  shows "updateCluster e pis cd s = Some (Inr cd, s)"
  using assms by (simp add: updateCluster_def Let_def)

lemma pass_fencing:
  assumes "cluster_inv cd" and "good_env e" and "fresh_uids e cd"
    and "cst_Phase (cl_Status (cd_Cluster cd)) = ClusterPhaseNormal"
    and "updateCluster e pis cd s = Some (Inr cd', s')"
    and "proxy_master cd = []" and "proxy_master cd' \<noteq> []"
  shows "proxy_master cd' = master_of cd' \<and> master_of cd' = master_of cd \<and>
    (\<forall>pi \<in> set (mvals pis). pi_Generation pi = px_Generation (cd_Proxy cd))"
proof (cases "PauseActive (cl_Status (cd_Cluster cd)) (now e)")
  case True
  then show ?thesis using paused_pass [OF assms(4) True] assms(5-7) by simp
next
  case False
  have "serving cd" using assms(1,4) by (simp add: cluster_inv_def)
  then obtain m where m: "map_of (cd_DBs cd) (master_of cd) = Some m" by (rule serving_master)
  have "kept pis cd m cd'"
    using pass_outcome(3) [OF assms(1-4) False assms(5) m] assms(7) by (auto simp: switched_def)
  then show ?thesis
    using updateProxies_master [of pis "master_of cd" cd] assms(6,7) by (auto simp: kept_def)
qed

section \<open>Properties\<close>

text \<open>
  C7. From cluster data that satisfies the invariant, a pass does not panic; it returns an error or
  cluster data that again satisfies it: keepers and databases are stored under their UIDs, every
  database belongs to a registered keeper and no keeper has two, the master exists and is of the
  primary line, and proxies are directed at the master or nowhere.
\<close>

theorem updateCluster_invariant:
  assumes "cluster_inv cd" and "good_env e" and "fresh_uids e cd"
  shows "\<exists>r s'. updateCluster e pis cd s = Some (r, s') \<and> (\<forall>cd'. r = Inr cd' \<longrightarrow> cluster_inv cd')"
  using updateCluster_ok [OF assms, of pis s] by (auto simp: step_ok_def)

theorem updateCluster_invariant_witness:
  "\<exists>r s'. updateCluster sample_env [] (sample_cd new_spec three_dbs) sample_sentinel = Some (r, s') \<and>
     (\<forall>cd'. r = Inr cd' \<longrightarrow> cluster_inv cd')"
  by (rule updateCluster_invariant [OF inv_three good_sample_env fresh_sample])

text \<open>
  C8. When a pass in the normal phase changes the master, the new master was a candidate for the old
  one, and there was a reason: an operator request, automatic failback to a keeper of higher
  priority, or an old master that is not healthy and converged. In the last case with
  synchronous replication the new master was required and reported in sync. The proxies are
  then directed nowhere, under a new generation if they were directed at the old master.
\<close>

theorem updateCluster_election:
  assumes "cluster_inv cd" and "good_env e" and "fresh_uids e cd"
    and "cst_Phase (cl_Status (cd_Cluster cd)) = ClusterPhaseNormal"
    and "updateCluster e pis cd s = Some (Inr cd', s')" and "master_of cd' \<noteq> master_of cd"
    and "map_of (cd_DBs cd) (master_of cd) = Some m"
  shows "(\<exists>d. db_UID d = master_of cd' \<and> may_replace (removeOldKeepers (now e) cd cd) m d) \<and>
    proxy_master cd' = [] \<and>
    (proxy_master cd \<noteq> [] \<longrightarrow> px_Generation (cd_Proxy cd') = inc (px_Generation (cd_Proxy cd)))"
proof (cases "PauseActive (cl_Status (cd_Cluster cd)) (now e)")
  case True
  then show ?thesis using paused_pass [OF assms(4) True] assms(5,6) by simp
next
  case False
  then show ?thesis
    using pass_outcome(3) [OF assms(1-4) False assms(5,7)] assms(6)
    unfolding kept_def switched_def by auto
qed

theorem updateCluster_election_witness:
  "\<exists>cd' s'. updateCluster sample_env [] (sample_cd new_spec failed_dbs) sample_sentinel =
       Some (Inr cd', s') \<and> master_of cd' = ''d2'' \<and> proxy_master cd' = [] \<and>
     (\<exists>d. db_UID d = ''d2'' \<and> may_replace (removeOldKeepers (1000 * second)
        (sample_cd new_spec failed_dbs) (sample_cd new_spec failed_dbs))
        (failed (sample_master ''d1'' ''k1'' 100)) d)"
proof -
  let ?cd = "sample_cd new_spec failed_dbs"
  let ?r = "updateCluster sample_env [] ?cd sample_sentinel"
  have ev: "pass_result (\<lambda>cd. master_of cd) ?r = Some ''d2''" by code_simp
  obtain cd' s' where r: "?r = Some (Inr cd', s')" "master_of cd' = ''d2''"
    using pass_resultD [OF ev] by blast
  have m: "map_of (cd_DBs ?cd) (master_of ?cd) = Some (failed (sample_master ''d1'' ''k1'' 100))"
    by (simp add: phase_sample failed_dbs_def)
  have n: "now sample_env = 1000 * second" by (simp add: sample_env_def)
  from updateCluster_election [OF inv_failed good_sample_env fresh_failed phase_sample(1) r(1) _ m] r
  show ?thesis unfolding n by (simp add: phase_sample)
qed

text \<open>
  C9. Clients are directed at a master again only when every active proxy has reported the
  generation under which it was directed nowhere, and then at the master of that pass, which
  the pass did not change: all connections to an old master have been closed before.
\<close>

theorem updateCluster_fencing:
  assumes "cluster_inv cd" and "good_env e" and "fresh_uids e cd"
    and "cst_Phase (cl_Status (cd_Cluster cd)) = ClusterPhaseNormal"
    and "updateCluster e pis cd s = Some (Inr cd', s')"
    and "proxy_master cd = []" and "proxy_master cd' \<noteq> []"
  shows "proxy_master cd' = master_of cd' \<and> master_of cd' = master_of cd \<and>
    (\<forall>pi \<in> set (mvals pis). pi_Generation pi = px_Generation (cd_Proxy cd))"
  by (rule pass_fencing [OF assms])

theorem updateCluster_fencing_witness:
  "\<exists>cd' s'. updateCluster sample_env [] (sample_cd new_spec three_dbs) sample_sentinel =
       Some (Inr cd', s') \<and> proxy_master cd' = ''d1'' \<and> master_of cd' = ''d1''"
proof -
  let ?cd = "sample_cd new_spec three_dbs"
  let ?r = "updateCluster sample_env [] ?cd sample_sentinel"
  have ev: "pass_result (\<lambda>cd. proxy_master cd) ?r = Some ''d1''" by code_simp
  obtain cd' s' where r: "?r = Some (Inr cd', s')" "proxy_master cd' = ''d1''"
    using pass_resultD [OF ev] by blast
  have p: "proxy_master ?cd = []" by (simp add: sample_defs)
  from updateCluster_fencing [OF inv_three good_sample_env fresh_sample phase_sample(1) r(1) p] r
  show ?thesis by simp
qed

text \<open>
  C10. After a pass that finds the master healthy and converged and keeps it, the master is the only
  database of the primary line: every other database is a standby that follows it.
\<close>

theorem updateCluster_single_primary:
  assumes "cluster_inv cd" and "good_env e" and "fresh_uids e cd"
    and "cst_Phase (cl_Status (cd_Cluster cd)) = ClusterPhaseNormal"
    and "\<not> PauseActive (cl_Status (cd_Cluster cd)) (now e)"
    and "updateCluster e pis cd s = Some (Inr cd', s')" and "master_of cd' = master_of cd"
    and "map_of (cd_DBs cd) (master_of cd) = Some m" and "converged m"
    and "map_of (cd_DBs cd') u = Some d"
  shows "primary_line d = (u = master_of cd') \<and> (u \<noteq> master_of cd' \<longrightarrow> follows (master_of cd') d)"
proof -
  have "kept pis cd m cd'"
    using pass_outcome(3) [OF assms(1-6,8)] assms(7) by (auto simp: switched_def)
  then have f: "all_follow cd'" using assms(9) by (simp add: kept_def)
  have "u = master_of cd' \<or> follows (master_of cd') d"
    using f map_of_SomeD [OF assms(10)] by (auto simp: all_follow_def list_all_iff)
  moreover have "\<not> primary_line d" if "follows (master_of cd') d"
    using that by (auto simp: follows_def primary_line_def follows_external_def split: option.splits)
  moreover have "primary_line d" if u: "u = master_of cd'"
  proof -
    have "bootstrapping cd' \<and> cd_DBs cd' \<noteq> [] \<or> serving cd'"
      using pass_outcome(1) [OF assms(1-6,8)] assms(10)
      by (auto simp: cluster_inv_def split: cluster_phase.splits)
    then have "master_ok cd'" by (auto simp: bootstrapping_def serving_def split: if_splits)
    then show ?thesis using u assms(10) by (simp add: master_ok_def)
  qed
  ultimately show ?thesis by blast
qed

theorem updateCluster_single_primary_witness:
  "\<exists>cd' s' d. updateCluster sample_env [] (sample_cd new_spec three_dbs) sample_sentinel =
       Some (Inr cd', s') \<and> map_of (cd_DBs cd') ''d2'' = Some d \<and> \<not> primary_line d \<and> follows ''d1'' d"
proof -
  let ?cd = "sample_cd new_spec three_dbs"
  let ?r = "updateCluster sample_env [] ?cd sample_sentinel"
  let ?f = "\<lambda>cd. (master_of cd, map_of (cd_DBs cd) ''d2'' = None)"
  have ev: "pass_result ?f ?r = Some (''d1'', False)" by code_simp
  obtain cd' s' where r: "?r = Some (Inr cd', s')" "?f cd' = (''d1'', False)"
    using pass_resultD [OF ev] by auto
  then obtain d where d: "map_of (cd_DBs cd') ''d2'' = Some d" by auto
  have m: "map_of (cd_DBs ?cd) (master_of ?cd) = Some (sample_master ''d1'' ''k1'' 100)"
    by (simp add: phase_sample three_dbs_def)
  have c: "converged (sample_master ''d1'' ''k1'' 100)"
    by (simp add: converged_def sample_master_def sample_status_def)
  have k: "master_of cd' = master_of ?cd" using r(2) by (simp add: phase_sample)
  from updateCluster_single_primary [OF inv_three good_sample_env fresh_sample phase_sample(1,2) r(1) k m c d]
  show ?thesis using r d by auto
qed

text \<open>
  C11. A pass gives a database a new generation exactly when it changed its specification, so a
  keeper that reports the current generation has applied the current specification.
\<close>

theorem updateCluster_generations:
  assumes "cluster_inv cd" and "good_env e" and "fresh_uids e cd"
    and "cst_Phase (cl_Status (cd_Cluster cd)) = ClusterPhaseNormal"
    and "updateCluster e pis cd s = Some (Inr cd', s')"
    and "map_of (cd_DBs cd) u = Some d" and "map_of (cd_DBs cd') u = Some d'"
  shows "db_Generation d' = (if db_Spec d' = db_Spec d then db_Generation d else inc (db_Generation d))"
proof (cases "PauseActive (cl_Status (cd_Cluster cd)) (now e)")
  case True
  then show ?thesis using paused_pass [OF assms(4) True] assms(5-7) by simp
next
  case False
  have "serving cd" using assms(1,4) by (simp add: cluster_inv_def)
  then obtain m where m: "map_of (cd_DBs cd) (master_of cd) = Some m" by (rule serving_master)
  from pass_outcome(4) [OF assms(1-4) False assms(5) m] show ?thesis
    using assms(6,7) unfolding generations_ok_def by fastforce
qed

theorem updateCluster_generations_witness:
  "\<exists>cd' s' d'. updateCluster sample_env [] (sample_cd new_spec failed_dbs) sample_sentinel =
       Some (Inr cd', s') \<and> map_of (cd_DBs cd') ''d2'' = Some d' \<and> db_Generation d' = inc 2"
proof -
  let ?cd = "sample_cd new_spec failed_dbs"
  let ?r = "updateCluster sample_env [] ?cd sample_sentinel"
  let ?f = "\<lambda>cd. map_option (\<lambda>d. dbs_Role (db_Spec d)) (map_of (cd_DBs cd) ''d2'')"
  have ev: "pass_result ?f ?r = Some (Some RoleMaster)" by code_simp
  obtain cd' s' where r: "?r = Some (Inr cd', s')" "?f cd' = Some RoleMaster"
    using pass_resultD [OF ev] by blast
  then obtain d' where d': "map_of (cd_DBs cd') ''d2'' = Some d'" "dbs_Role (db_Spec d') = RoleMaster"
    by auto
  have d: "map_of (cd_DBs ?cd) ''d2'' = Some (sample_standby ''d2'' ''k2'' ''d1'' 90)"
    by (simp add: phase_sample failed_dbs_def three_dbs_def)
  from updateCluster_generations [OF inv_failed good_sample_env fresh_failed phase_sample(1) r(1) d d'(1)]
  have "db_Generation d' = inc 2"
    using d'(2) by (auto simp: sample_standby_def split: if_splits)
  then show ?thesis using r(1) d'(1) by blast
qed

text \<open>
  C12. A pass unregisters exactly the keepers that have no database and were last healthy longer
  ago than the removal interval; no keeper is added.
\<close>

theorem updateCluster_keepers:
  assumes "cluster_inv cd" and "good_env e" and "fresh_uids e cd"
    and "cst_Phase (cl_Status (cd_Cluster cd)) = ClusterPhaseNormal"
    and "\<not> PauseActive (cl_Status (cd_Cluster cd)) (now e)"
    and "updateCluster e pis cd s = Some (Inr cd', s')"
  shows "cd_Keepers cd' = filter (\<lambda>(u, k). FindDB cd k \<noteq> None \<or>
    now e \<le> kst_LastHealthyTime (k_Status k) +
      the (cs_DeadKeeperRemovalInterval (DefSpec (cd_Cluster cd)))) (cd_Keepers cd)"
proof -
  have "serving cd" using assms(1,4) by (simp add: cluster_inv_def)
  then obtain m where m: "map_of (cd_DBs cd) (master_of cd) = Some m" by (rule serving_master)
  from pass_outcome(2) [OF assms m] show ?thesis
    by (simp add: expired_def [abs_def] not_less)
qed

theorem updateCluster_keepers_witness:
  "\<exists>cd' s'. updateCluster sample_env [] (sample_cd new_spec three_dbs) sample_sentinel =
       Some (Inr cd', s') \<and> mkeys (cd_Keepers cd') = [''k1'', ''k2'', ''k3'']"
proof -
  let ?cd = "sample_cd new_spec three_dbs"
  let ?r = "updateCluster sample_env [] ?cd sample_sentinel"
  have ev: "pass_result (\<lambda>cd. ()) ?r = Some ()" by code_simp
  obtain cd' s' where r: "?r = Some (Inr cd', s')" using pass_resultD [OF ev] by blast
  from updateCluster_keepers [OF inv_three good_sample_env fresh_sample phase_sample(1,2) r]
  have "cd_Keepers cd' = cd_Keepers ?cd"
    by (simp add: sample_defs mvals_def FindDB_def)
  then show ?thesis using r by (simp add: sample_defs mkeys_def)
qed

end
