(* ===== verification/Sentinel_Track.thy ===== *)
theory Sentinel_Track
  imports Sentinel_Check Sentinel_Safety
begin

text \<open>
  Merging the published state keeps the invariant, so a whole check of a leading sentinel does:
  \<open>updateKeepersStatus\<close>, \<open>activeProxiesInfos\<close>, \<open>updateCluster\<close> and \<open>updateChangeTimes\<close>.
\<close>

section \<open>Published infos\<close>

text \<open>The store returns the infos under the UID they carry.\<close>

definition wf_infos :: "keepers_info \<Rightarrow> bool" where
  "wf_infos m \<longleftrightarrow> wf_map m \<and> list_all (\<lambda>(u, i). ki_UID i = u) m"

lemma wf_infos_filter: "wf_infos m \<Longrightarrow> wf_infos (filter P m)"
  by (auto simp: wf_infos_def wf_map_filter list_all_iff)

lemma wf_infos_entry: "wf_infos m \<Longrightarrow> (u, i) \<in> set m \<Longrightarrow> ki_UID i = u"
  by (auto simp: wf_infos_def list_all_iff)

lemma dropForeignKeepers_filter:
  "wf_infos m \<Longrightarrow> dropForeignKeepers c m = filter (\<lambda>(u, i). ki_ClusterUID i = c) m"
  using fold_delete_values [of m ki_UID "\<lambda>i. ki_ClusterUID i \<noteq> c", OF _ wf_infos_entry [of m]]
  by (simp add: dropForeignKeepers_def wf_infos_def)

lemma keepUpdatedKeepers_filter:
  "wf_infos m \<Longrightarrow>
     fst (keepUpdatedKeepers t si m kihs) = filter (\<lambda>x. \<not> staleKeeperInfo t si kihs x) m"
  using fold_delete_entries [of m ki_UID "staleKeeperInfo t si kihs", OF _ wf_infos_entry [of m]]
  by (simp add: keepUpdatedKeepers_def wf_infos_def)

section \<open>Keepers\<close>

lemma wf_keepers_add:
  "wf_keepers ks \<Longrightarrow> map_of ks (k_UID k) = None \<Longrightarrow> wf_keepers (AList.update (k_UID k) k ks)"
  using map_of_mkeys_iff [of ks "k_UID k"]
  by (auto simp: update_new_key wf_keepers_def wf_map_def mkeys_def)

lemma addNewKeepers_wf:
  assumes "wf_infos m" and "wf_keepers ks"
  shows "wf_keepers (addNewKeepers t m ks) \<and> set (mkeys ks) \<subseteq> set (mkeys (addNewKeepers t m ks))"
  using assms
proof (induction m arbitrary: ks)
  case (Cons x m)
  obtain u i where x: "x = (u, i)" by (cases x)
  let ?k = "NewKeeperFromKeeperInfo t i"
  have uid: "k_UID ?k = u" using Cons.prems(1) x by (simp add: wf_infos_def NewKeeperFromKeeperInfo_def)
  have m: "wf_infos m" using Cons.prems(1) by (simp add: wf_infos_def wf_map_def mkeys_def)
  let ?ks = "case map_of ks u of Some _ \<Rightarrow> ks | None \<Rightarrow> AList.update (k_UID ?k) ?k ks"
  have "wf_keepers ?ks"
    using Cons.prems(2) wf_keepers_add [of ks ?k] uid by (auto split: option.split)
  moreover have "set (mkeys ks) \<subseteq> set (mkeys ?ks)"
    by (auto simp: mkeys_def dom_update split: option.split)
  moreover have "addNewKeepers t (x # m) ks = addNewKeepers t m ?ks"
    unfolding addNewKeepers_def x Let_def by simp
  ultimately show ?case using Cons.IH [OF m, of ?ks] by auto
qed (simp add: addNewKeepers_def)

lemma wf_keepers_keyed_map:
  assumes "wf_keepers ks" and "\<And>u k. k_UID (f u k) = k_UID k"
  shows "wf_keepers (map (\<lambda>(u, k). (u, f u k)) ks)" and "mkeys (map (\<lambda>(u, k). (u, f u k)) ks) = mkeys ks"
  using assms by (auto simp: wf_keepers_def wf_map_def mkeys_def list_all_iff comp_def split_beta)

lemma copyKeeperInfo_map:
  "map (copyKeeperInfo m) ks = map (\<lambda>(u, k). (u, snd (copyKeeperInfo m (u, k)))) ks"
  by (auto simp: copyKeeperInfo_def)

lemma copyKeeperInfo_UID: "k_UID (snd (copyKeeperInfo m (u, k))) = k_UID k"
  by (simp add: copyKeeperInfo_def split: option.split)

lemma updateKeeperHealth_UID [simp]: "k_UID (updateKeeperHealth t s cd k) = k_UID k"
  by (simp add: updateKeeperHealth_def Let_def)

section \<open>Databases\<close>

lemma shape_mergeDBState [simp]: "shape (mergeDBState m d) = shape d"
  by (simp add: mergeDBState_def copyDBState_def Let_def split: option.split)

lemma otraverse_shapes:
  assumes "\<And>u d. (u, d) \<in> set ds \<Longrightarrow> dbs_KeeperUID (db_Spec d) \<in> set (mkeys (cd_Keepers cd))"
  shows "\<exists>ds'. otraverse (updateDBHealth t s cd) ds = Some ds' \<and> shapes ds' = shapes ds"
  using assms
proof (induction ds)
  case (Cons x ds)
  obtain u d where x: "x = (u, d)" by (cases x)
  obtain k where k: "map_of (cd_Keepers cd) (dbs_KeeperUID (db_Spec d)) = Some k"
    using mkeys_lookup [of "dbs_KeeperUID (db_Spec d)" "cd_Keepers cd"] Cons.prems [of u d] x by auto
  obtain ds' where "otraverse (updateDBHealth t s cd) ds = Some ds'" "shapes ds' = shapes ds"
    using Cons.IH Cons.prems by auto
  moreover have "\<exists>d'. updateDBHealth t s cd x = Some (u, d') \<and> shape d' = shape d"
    using x k by (simp add: updateDBHealth_def)
  ultimately show ?case using x by (auto simp: shapes_def)
qed (simp add: shapes_def)

section \<open>The merge keeps the invariant\<close>

text \<open>More keepers and the same databases up to their status.\<close>

definition merged :: "cluster_data \<Rightarrow> cluster_data \<Rightarrow> bool" where
  "merged cd cd' \<longleftrightarrow> shapes (cd_DBs cd') = shapes (cd_DBs cd) \<and> wf_keepers (cd_Keepers cd') \<and>
     set (mkeys (cd_Keepers cd)) \<subseteq> set (mkeys (cd_Keepers cd')) \<and>
     cd_Cluster cd' = cd_Cluster cd \<and> cd_Proxy cd' = cd_Proxy cd"

lemma wf_dbs_keepers_mono:
  "wf_dbs ks ds \<Longrightarrow> set (mkeys ks) \<subseteq> set (mkeys ks') \<Longrightarrow> wf_dbs ks' ds"
  by (auto simp: wf_dbs_def list_all_iff)

lemma merged_inv:
  assumes "cluster_inv cd" and "merged cd cd'"
  shows "cluster_inv cd'"
proof -
  let ?cd = "cd\<lparr>cd_Keepers := cd_Keepers cd'\<rparr>"
  have "wf_cd ?cd" if "wf_cd cd"
    using that assms(2) wf_dbs_keepers_mono by (auto simp: merged_def wf_cd_def)
  then have "cluster_inv ?cd"
    using assms(1)
    by (auto simp: cluster_inv_def serving_def bootstrapping_def links_ok_def master_ok_def
        split: cluster_phase.splits)
  moreover have "shapes (cd_DBs cd') = shapes (cd_DBs ?cd)" "cd_Keepers cd' = cd_Keepers ?cd"
    "cd_Cluster cd' = cd_Cluster ?cd" "cd_Proxy cd' = cd_Proxy ?cd"
    using assms(2) by (simp_all add: merged_def)
  ultimately show ?thesis
    using serving_shapes [of ?cd cd'] bootstrapping_shapes [of ?cd cd']
    by (simp add: cluster_inv_def split: cluster_phase.splits)
qed

lemma updateKeepersStatus_merged:
  assumes "wf_infos m" and "wf_cd cd"
  shows "\<exists>cd' kihs s'. updateKeepersStatus t cd m first s = Some (cd', kihs, s') \<and> merged cd cd'"
proof (cases first)
  case True
  then show ?thesis using assms(2) by (simp add: updateKeepersStatus_def Let_def merged_def wf_cd_def)
next
  case False
  let ?k1 = "dropForeignKeepers (cl_UID (cd_Cluster cd)) m"
  obtain k2 kihs where k2: "keepUpdatedKeepers t (s_sleepInterval s) ?k1 (s_keeperInfoHistories s) = (k2, kihs)"
    by fastforce
  have w1: "wf_infos ?k1"
    unfolding dropForeignKeepers_filter [OF assms(1)] by (rule wf_infos_filter [OF assms(1)])
  have w2: "wf_infos k2"
    using keepUpdatedKeepers_filter [OF w1, of t "s_sleepInterval s" "s_keeperInfoHistories s"]
      wf_infos_filter [OF w1] k2 by simp
  let ?n = "addNewKeepers t k2 (cd_Keepers cd)" let ?c = "map (copyKeeperInfo k2) ?n"
  have n: "wf_keepers ?n" "set (mkeys (cd_Keepers cd)) \<subseteq> set (mkeys ?n)"
    using addNewKeepers_wf [OF w2] assms(2) by (auto simp: wf_cd_def)
  have c: "wf_keepers ?c" "mkeys ?c = mkeys ?n"
    unfolding copyKeeperInfo_map [of k2 ?n]
    by (rule wf_keepers_keyed_map [OF n(1) copyKeeperInfo_UID])+
  let ?cd1 = "cd\<lparr>cd_Keepers := ?c\<rparr>"
  obtain cd2 s2 where u: "updateKeepersHealth t ?cd1 (markKeeperErrors t k2 ?c s) = (cd2, s2)"
    by fastforce
  have cd2: "wf_keepers (cd_Keepers cd2)" "mkeys (cd_Keepers cd2) = mkeys ?n" "cd_DBs cd2 = cd_DBs cd"
    "cd_Cluster cd2 = cd_Cluster cd" "cd_Proxy cd2 = cd_Proxy cd"
    using u wf_keepers_keyed_map [OF c(1), of "\<lambda>u. updateKeeperHealth t (markKeeperErrors t k2 ?c s) ?cd1"] c(2)
    by (auto simp: updateKeepersHealth_def mmap_def)
  let ?ds = "mmap (mergeDBState k2) (cd_DBs cd2)" let ?cd3 = "cd2\<lparr>cd_DBs := ?ds\<rparr>"
  have sh: "shapes ?ds = shapes (cd_DBs cd)"
    using cd2(3) by (auto simp: shapes_def mmap_def)
  have "wf_dbs (cd_Keepers cd) ?ds" using wf_dbs_cong [OF sh] assms(2) by (simp add: wf_cd_def)
  then have k: "dbs_KeeperUID (db_Spec d) \<in> set (mkeys (cd_Keepers ?cd3))" if "(u, d) \<in> set ?ds" for u d
    using that n(2) cd2(2) by (auto simp: wf_dbs_def list_all_iff)
  obtain ds' where ds': "otraverse (updateDBHealth t (fold (updateDBState t k2) (mvals (cd_DBs cd2)) s2) ?cd3) ?ds =
      Some ds'" "shapes ds' = shapes ?ds"
    using otraverse_shapes [of ?ds ?cd3] k by blast
  have "updateKeepersStatus t cd m first s =
      Some (?cd3\<lparr>cd_DBs := ds'\<rparr>, kihs, fold (updateDBState t k2) (mvals (cd_DBs cd2)) s2)"
    using False k2 u ds'(1) by (simp add: updateKeepersStatus_def Let_def)
  then show ?thesis using cd2 n(2) sh ds'(2) by (auto simp: merged_def)
qed

section \<open>Change times\<close>

lemma updateChangeTimes_inv:
  assumes "cluster_inv newcd"
  shows "cluster_inv (updateChangeTimes t cd newcd)"
proof -
  let ?cd = "updateChangeTimes t cd newcd"
  have sh: "shapes (cd_DBs ?cd) = shapes (cd_DBs newcd)"
    by (auto simp: updateChangeTimes_def shapes_def shape_def)
  have cl: "cl_Spec (cd_Cluster ?cd) = cl_Spec (cd_Cluster newcd)"
    "cl_Status (cd_Cluster ?cd) = cl_Status (cd_Cluster newcd)"
    by (simp_all add: updateChangeTimes_def)
  have px: "proxy_master ?cd = proxy_master newcd" by (simp add: updateChangeTimes_def)
  have wk: "wf_keepers (cd_Keepers ?cd)" "mkeys (cd_Keepers ?cd) = mkeys (cd_Keepers newcd)"
    if "wf_keepers (cd_Keepers newcd)"
    using wf_keepers_keyed_map [OF that, of "\<lambda>u k. if map_of (cd_Keepers cd) u \<noteq> Some k
        then k\<lparr>k_ChangeTime := t\<rparr> else k"]
    by (simp_all add: updateChangeTimes_def)
  have wf: "wf_cd ?cd" if "wf_cd newcd"
    using that wk wf_dbs_cong [OF sh, of "cd_Keepers ?cd"]
      wf_dbs_keepers_mono [of "cd_Keepers newcd" "cd_DBs newcd" "cd_Keepers ?cd"]
    by (simp add: wf_cd_def)
  have "links_ok ?cd" if "links_ok newcd" "wf_cd newcd"
    using that cl by (intro links_ok_shapes [OF sh]) (auto simp: wf_cd_def)
  moreover have "master_ok ?cd" if "master_ok newcd"
    using that cl by (intro master_ok_shapes [OF sh]) simp_all
  moreover have "cd_DBs ?cd = [] \<longleftrightarrow> cd_DBs newcd = []"
    using sh by (cases "cd_DBs newcd"; cases "cd_DBs ?cd") (simp_all add: shapes_def)
  ultimately show ?thesis
    using assms wf cl px
    by (auto simp: cluster_inv_def serving_def bootstrapping_def DefSpec_def
        split: cluster_phase.splits if_splits)
qed

section \<open>The whole check\<close>

lemma reconcile_ok:
  assumes "cluster_inv cd" and "good_env e" and "fresh_uids e cd" and "wf_infos m"
  shows "\<exists>r s'. reconcile e cd m ps s = Some (r, s') \<and>
    (\<forall>cd' kihs. r = Some (cd', kihs) \<longrightarrow> cluster_inv cd')"
proof -
  let ?first = "s_lastLeadershipCount s \<noteq> s_leadershipCount s"
  let ?s1 = "s\<lparr>s_lastLeadershipCount := s_leadershipCount s\<rparr>"
  let ?s2 = "if ?first then runLeadershipSanitySweep (now e) cd ?s1 else ?s1"
  have "wf_cd cd"
    using assms(1) by (auto simp: cluster_inv_def serving_def bootstrapping_def split: cluster_phase.splits)
  then obtain cd1 kihs s3 where k: "updateKeepersStatus (now e) cd m ?first ?s2 = Some (cd1, kihs, s3)"
      "merged cd cd1"
    using updateKeepersStatus_merged [OF assms(4)] by blast
  obtain active s4 where a: "activeProxiesInfos (now e) ps s3 = (active, s4)" by fastforce
  have "fresh_uids e cd1"
    using assms(3) k(2) shapes_keys [of "cd_DBs cd1" "cd_DBs cd"] by (simp add: merged_def fresh_uids_def)
  from updateCluster_ok [OF merged_inv [OF assms(1) k(2)] assms(2) this, of active s4]
  show ?thesis
    using k(1) a updateChangeTimes_inv by (auto simp: step_ok_def reconcile_def Let_def)
qed

text \<open>
  C17. A check of a leading sentinel on cluster data that satisfies the invariant does not panic,
  whatever the keepers and proxies have published and whatever the timers of the sentinel are,
  and what it writes satisfies the invariant.
\<close>

theorem reconcile_invariant:
  assumes "cluster_inv cd" and "good_env e" and "fresh_uids e cd" and "wf_infos keepersInfo"
  shows "\<exists>r s'. reconcile e cd keepersInfo proxiesInfo s = Some (r, s') \<and>
    (\<forall>cd' kihs. r = Some (cd', kihs) \<longrightarrow> cluster_inv cd')"
  by (rule reconcile_ok [OF assms])

theorem reconcile_invariant_witness:
  "\<exists>r s'. reconcile sample_env (sample_cd new_spec three_dbs) [] [] sample_sentinel = Some (r, s') \<and>
     (\<forall>cd' kihs. r = Some (cd', kihs) \<longrightarrow> cluster_inv cd')"
  by (rule reconcile_invariant [OF inv_three good_sample_env fresh_sample])
    (simp add: wf_infos_def wf_map_def mkeys_def)

section \<open>Health of keepers\<close>

text \<open>The infos a check acts on: of this cluster, and new or confirmed within the sleep interval.\<close>

definition current_infos :: "time \<Rightarrow> cluster_data \<Rightarrow> keepers_info \<Rightarrow> sentinel \<Rightarrow> keepers_info" where
  "current_infos t cd m s = filter (\<lambda>x. \<not> staleKeeperInfo t (s_sleepInterval s) (s_keeperInfoHistories s) x)
     (filter (\<lambda>(u, i). ki_ClusterUID i = cl_UID (cd_Cluster cd)) m)"

text \<open>The instant since which the keeper is without current info.\<close>

definition silent_since :: "time \<Rightarrow> keepers_info \<Rightarrow> uid \<Rightarrow> sentinel \<Rightarrow> time option" where
  "silent_since t m u s =
     (if map_of m u \<noteq> None then None
      else Some (case s_keeperErrorTimers s u of None \<Rightarrow> t | Some t0 \<Rightarrow> t0))"

lemma markKeeperErrors_timer:
  assumes "u \<in> set (mkeys ks)" and "distinct (mkeys ks)"
  shows "s_keeperErrorTimers (markKeeperErrors t m ks s) u = silent_since t m u s"
proof -
  have "s_keeperErrorTimers (fold (\<lambda>u s. if map_of m u = None then SetKeeperError t u s
        else CleanKeeperError u s) us s) u =
      (if u \<in> set us then silent_since t m u s else s_keeperErrorTimers s u)" if "distinct us" for us
    using that
  proof (induction us arbitrary: s)
    case (Cons v us)
    then show ?case
      by (cases "u = v") (auto simp: silent_since_def SetKeeperError_def CleanKeeperError_def
          split: option.splits)
  qed simp
  then show ?thesis using assms by (simp add: markKeeperErrors_def)
qed

lemma addNewKeepers_lookup:
  "wf_infos m \<Longrightarrow> map_of (addNewKeepers t m ks) u =
     (case map_of ks u of Some k \<Rightarrow> Some k | None \<Rightarrow> map_option (NewKeeperFromKeeperInfo t) (map_of m u))"
proof (induction m arbitrary: ks)
  case (Cons x m)
  obtain v i where x: "x = (v, i)" by (cases x)
  let ?k = "NewKeeperFromKeeperInfo t i"
  let ?ks = "case map_of ks v of Some _ \<Rightarrow> ks | None \<Rightarrow> AList.update (k_UID ?k) ?k ks"
  have uid: "k_UID ?k = v" using Cons.prems(1) x by (simp add: wf_infos_def NewKeeperFromKeeperInfo_def)
  have m: "wf_infos m" "v \<notin> set (mkeys m)"
    using Cons.prems(1) x by (auto simp: wf_infos_def wf_map_def mkeys_def)
  have v: "map_of m v = None" using m(2) map_of_mkeys_iff [of m v] by blast
  have "addNewKeepers t (x # m) ks = addNewKeepers t m ?ks"
    unfolding addNewKeepers_def x Let_def by simp
  then show ?case
    using Cons.IH [OF m(1), of ?ks] v uid by (auto simp: x update_conv' split: option.split)
qed (simp add: addNewKeepers_def split: option.split)

definition force_failed :: "cluster_data \<Rightarrow> uid \<Rightarrow> bool" where
  "force_failed cd u \<longleftrightarrow> (case map_of (cd_Keepers cd) u of
     None \<Rightarrow> False | Some k \<Rightarrow> kst_ForceFail (k_Status k))"

text \<open>The keepers before their health is decided.\<close>

definition listed_keepers :: "time \<Rightarrow> cluster_data \<Rightarrow> keepers_info \<Rightarrow> sentinel \<Rightarrow> keepers" where
  "listed_keepers t cd m s =
     (let i = current_infos t cd m s in map (copyKeeperInfo i) (addNewKeepers t i (cd_Keepers cd)))"

lemma updateKeepersStatus_keepers:
  assumes "wf_infos m" and "updateKeepersStatus t cd m False s = Some (cd', kihs, s')"
  shows "cd_Keepers cd' = mmap (updateKeeperHealth t
      (markKeeperErrors t (current_infos t cd m s) (listed_keepers t cd m s) s)
      (cd\<lparr>cd_Keepers := listed_keepers t cd m s\<rparr>)) (listed_keepers t cd m s)"
proof -
  let ?k1 = "dropForeignKeepers (cl_UID (cd_Cluster cd)) m"
  have k1: "?k1 = filter (\<lambda>(u, i). ki_ClusterUID i = cl_UID (cd_Cluster cd)) m"
    by (rule dropForeignKeepers_filter [OF assms(1)])
  have "wf_infos ?k1" unfolding k1 by (rule wf_infos_filter [OF assms(1)])
  from keepUpdatedKeepers_filter [OF this, of t "s_sleepInterval s" "s_keeperInfoHistories s"]
  obtain kihs' where ku: "keepUpdatedKeepers t (s_sleepInterval s) ?k1 (s_keeperInfoHistories s) =
      (current_infos t cd m s, kihs')"
    by (metis current_infos_def k1 prod.collapse)
  show ?thesis
    using assms(2) ku
    by (auto simp: updateKeepersStatus_def updateKeepersHealth_def listed_keepers_def Let_def
        split: Option.bind_splits)
qed

lemma listed_keepers_lookup:
  assumes "wf_infos m" and "wf_cd cd" and "map_of (listed_keepers t cd m s) u = Some k"
  shows "k_UID k = u" and "kst_ForceFail (k_Status k) = force_failed cd u"
proof -
  let ?i = "current_infos t cd m s"
  have w: "wf_infos ?i" unfolding current_infos_def by (intro wf_infos_filter assms(1))
  obtain k0 where k0: "map_of (addNewKeepers t ?i (cd_Keepers cd)) u = Some k0"
      "k = snd (copyKeeperInfo ?i (u, k0))"
    using assms(3) map_of_map_keyed [of "\<lambda>u k. snd (copyKeeperInfo ?i (u, k))"]
    by (auto simp: listed_keepers_def Let_def copyKeeperInfo_map)
  have wk: "wf_keepers (addNewKeepers t ?i (cd_Keepers cd))"
    using addNewKeepers_wf [OF w] assms(2) by (simp add: wf_cd_def)
  show "k_UID k = u" using wf_keepers_lookup [OF wk k0(1)] k0(2) by (simp add: copyKeeperInfo_UID)
  have "kst_ForceFail (k_Status k0) = force_failed cd u"
    using k0(1) addNewKeepers_lookup [OF w, of t "cd_Keepers cd" u]
    by (auto simp: force_failed_def NewKeeperFromKeeperInfo_def split: option.splits)
  then show "kst_ForceFail (k_Status k) = force_failed cd u"
    using k0(2) by (simp add: copyKeeperInfo_def split: option.split)
qed

text \<open>
  C18. After a check that is not the first of a leadership, a keeper is healthy exactly when the
  operator did not fail it by force and it has published a current info, or the time since it
  last had one is at most the fail interval.
\<close>

theorem updateKeepersStatus_health:
  assumes "wf_infos m" and "wf_cd cd"
    and "updateKeepersStatus t cd m False s = Some (cd', kihs, s')"
    and "map_of (cd_Keepers cd') u = Some k"
  shows "kst_Healthy (k_Status k) \<longleftrightarrow> \<not> force_failed cd u \<and>
    (case silent_since t (current_infos t cd m s) u s of
       None \<Rightarrow> True
     | Some t0 \<Rightarrow> time_sub t t0 \<le> the (cs_FailInterval (DefSpec (cd_Cluster cd))))"
proof -
  let ?i = "current_infos t cd m s" let ?l = "listed_keepers t cd m s"
  let ?s = "markKeeperErrors t ?i ?l s" let ?cd = "cd\<lparr>cd_Keepers := ?l\<rparr>"
  obtain k0 where k0: "map_of ?l u = Some k0" "k = updateKeeperHealth t ?s ?cd k0"
    using assms(4) updateKeepersStatus_keepers [OF assms(1,3)] by (auto simp: map_of_mmap)
  have w: "wf_infos ?i" unfolding current_infos_def by (intro wf_infos_filter assms(1))
  have wk: "wf_keepers ?l"
    unfolding listed_keepers_def Let_def copyKeeperInfo_map
    using addNewKeepers_wf [OF w] assms(2)
    by (intro wf_keepers_keyed_map(1)) (simp_all add: wf_cd_def copyKeeperInfo_UID)
  have "s_keeperErrorTimers ?s u = silent_since t ?i u s"
    using markKeeperErrors_timer [OF map_of_in_mkeys [OF k0(1)]] wk
    by (auto simp: wf_keepers_def wf_map_def)
  then have "isKeeperHealthy t ?s ?cd k0 = (case silent_since t ?i u s of
       None \<Rightarrow> True | Some t0 \<Rightarrow> time_sub t t0 \<le> the (cs_FailInterval (DefSpec (cd_Cluster cd))))"
    using listed_keepers_lookup(1) [OF assms(1,2) k0(1)]
    by (simp add: isKeeperHealthy_timer keeper_healthy_def)
  then show ?thesis
    using listed_keepers_lookup(2) [OF assms(1,2) k0(1)] k0(2)
    by (auto simp: updateKeeperHealth_def keeperIsHealthy_def Let_def)
qed

theorem updateKeepersStatus_health_witness:
  "\<exists>cd' kihs s' k. updateKeepersStatus (1000 * second) (sample_cd new_spec three_dbs) [] False
       (sample_sentinel\<lparr>s_keeperErrorTimers := [''k1'' \<mapsto> 900 * second]\<rparr>) = Some (cd', kihs, s') \<and>
     map_of (cd_Keepers cd') ''k1'' = Some k \<and> \<not> kst_Healthy (k_Status k)"
proof -
  let ?s = "sample_sentinel\<lparr>s_keeperErrorTimers := [''k1'' \<mapsto> 900 * second]\<rparr>"
  let ?cd = "sample_cd new_spec three_dbs"
  have w: "wf_infos []" by (simp add: wf_infos_def wf_map_def mkeys_def)
  obtain cd' kihs s' where r: "updateKeepersStatus (1000 * second) ?cd [] False ?s = Some (cd', kihs, s')"
      "merged ?cd cd'"
    using updateKeepersStatus_merged [of "[]" ?cd "1000 * second" False ?s, OF w wf_three] by blast
  have "''k1'' \<in> set (mkeys (cd_Keepers ?cd))" by (simp add: sample_defs mkeys_def)
  then obtain k where k: "map_of (cd_Keepers cd') ''k1'' = Some k"
    using r(2) mkeys_lookup [of "''k1''" "cd_Keepers cd'"] by (auto simp: merged_def)
  have ss: "silent_since (1000 * second) (current_infos (1000 * second) ?cd [] ?s) ''k1'' ?s = Some (900 * second)"
    by (simp add: silent_since_def current_infos_def)
  have fi: "the (cs_FailInterval (DefSpec (cd_Cluster ?cd))) = 30 * second"
    by (simp add: DefSpec_def sample_defs DefaultFailInterval_def)
  have "\<not> time_sub (1000 * second) (900 * second) \<le> 30 * second"
    by (simp add: time_sub_def second_def)
  then have "\<not> kst_Healthy (k_Status k)"
    using updateKeepersStatus_health [OF w wf_three r(1) k] unfolding ss fi option.case by blast
  with r(1) k show ?thesis by (intro exI conjI)
qed

text \<open>
  C19. Failure detection. Take a run of checks that find no current info of a keeper, the first one
  at \<open>t0\<close>, after a check that found one or after the timers were reset. The keeper is held
  healthy as long as at most the fail interval has passed since \<open>t0\<close>, and unhealthy after that.
\<close>

theorem keeper_failure_detection:
  assumes "pre = [] \<and> s_keeperErrorTimers s (k_UID k) = None \<or> (\<exists>pre' t'. pre = pre' @ [(t', False)])"
    and "\<forall>(t, bad) \<in> set run. bad"
  shows "isKeeperHealthy t (ket.observe (k_UID k) (pre @ (t0, True) # run) s) cd k \<longleftrightarrow>
    time_sub t t0 \<le> the (cs_FailInterval (DefSpec (cd_Cluster cd)))"
proof -
  let ?fi = "the (cs_FailInterval (DefSpec (cd_Cluster cd)))"
  have "\<not> keeper_healthy t (ket.observe (k_UID k) (pre @ (t0, True) # run) s) ?fi (k_UID k) \<longleftrightarrow>
      ?fi < time_sub t t0"
    by (rule ket.unhealthy_after_run [OF assms])
  then show ?thesis unfolding isKeeperHealthy_timer by (meson not_le)
qed

theorem keeper_failure_detection_witness:
  "isKeeperHealthy 30 (ket.observe ''k1'' ([] @ (0, True) # [(20, True)]) sample_sentinel)
     (sample_cd new_spec three_dbs) (sample_keeper ''k1'')"
  using keeper_failure_detection [of "[]" sample_sentinel "sample_keeper ''k1''" "[(20, True)]" 30 0
      "sample_cd new_spec three_dbs"]
  by (simp add: sample_defs DefSpec_def DefaultFailInterval_def time_sub_def second_def)

end
