(* ===== verification/Operations_Safety.thy ===== *)
theory Operations_Safety
  imports Operations Sentinel_Track
begin

text \<open>
  The operator commands keep the invariant of the cluster data, write exactly the change of the
  data they replace, and what a pass of the sentinel does with a requested switch.
\<close>

section \<open>Writes that keep the invariant\<close>

lemma inv_wf: "cluster_inv cd \<Longrightarrow> wf_cd cd"
  by (auto simp: cluster_inv_def serving_def bootstrapping_def split: cluster_phase.splits)

lemma inv_links: "cluster_inv cd \<Longrightarrow> links_ok cd"
  by (auto simp: cluster_inv_def serving_def bootstrapping_def split: cluster_phase.splits)

lemma inv_status:
  assumes "cluster_inv cd"
    and "\<And>st. cst_Phase (f st) = cst_Phase st" and "\<And>st. cst_Master (f st) = cst_Master st"
  shows "cluster_inv (upd_status f cd)"
  using assms
  by (auto simp: cluster_inv_def serving_def bootstrapping_def links_ok_def master_ok_def wf_cd_def
      upd_status_def DefSpec_def split: cluster_phase.splits)

text \<open>
  A write to keepers and databases keeps it when it keeps the data well formed and the links, and
  the database of the master with its role.
\<close>

lemma inv_members:
  assumes "cluster_inv cd" and "cd_Cluster cd' = cd_Cluster cd" and "cd_Proxy cd' = cd_Proxy cd"
    and "wf_cd cd'" and "links_ok cd'" and "master_ok cd \<Longrightarrow> master_ok cd'"
    and "cd_DBs cd = [] \<Longrightarrow> cd_DBs cd' = []"
  shows "cluster_inv cd'"
  using assms by (auto simp: cluster_inv_def serving_def bootstrapping_def split: cluster_phase.splits)

lemma madj_keepers_wf:
  assumes "wf_cd cd" and "\<And>k. k_UID (f k) = k_UID k"
  shows "wf_cd (cd\<lparr>cd_Keepers := madj u f (cd_Keepers cd)\<rparr>)"
  using assms by (auto simp: wf_cd_def wf_keepers_def wf_dbs_def list_all_iff madj_def mkeys_def wf_map_def
      comp_def split_beta)

lemma forceFail_inv:
  assumes "cluster_inv cd" shows "cluster_inv (forceFail u cd)"
proof (rule inv_members [OF assms])
  show "wf_cd (forceFail u cd)"
    unfolding forceFail_def by (rule madj_keepers_wf [OF inv_wf [OF assms]]) simp
qed (use inv_links [OF assms] in \<open>simp_all add: forceFail_def links_ok_def master_ok_def\<close>)

lemma upd_dbspec_inv:
  assumes "cluster_inv cd" and "u \<noteq> master_of cd"
    and "\<And>sp. dbs_KeeperUID (f sp) = dbs_KeeperUID sp"
    and "\<And>d. link_ok (cl_Spec (cd_Cluster cd)) (d\<lparr>db_Spec := f (db_Spec d)\<rparr>)"
  shows "cluster_inv (upd_dbspec u f cd)"
proof (rule inv_members [OF assms(1)])
  show "wf_cd (upd_dbspec u f cd)"
    using inv_wf [OF assms(1)] assms(3)
      wf_dbs_keyed_map [of "cd_Keepers cd" "cd_DBs cd" "\<lambda>u' d. if u' = u then d\<lparr>db_Spec := f (db_Spec d)\<rparr> else d"]
    by (simp add: upd_dbspec_def wf_cd_def madj_def)
  show "links_ok (upd_dbspec u f cd)"
    using inv_links [OF assms(1)] assms(4)
    by (auto simp: upd_dbspec_def links_ok_def madj_def list_all_iff)
  show "master_ok (upd_dbspec u f cd)" if "master_ok cd"
    using that assms(2) by (simp add: upd_dbspec_def master_ok_def map_of_madj_other)
qed (simp_all add: upd_dbspec_def madj_def)

lemma reinit_inv:
  assumes "cluster_inv cd" and "reinitMutation u t cd = Inr cd'"
  shows "cluster_inv cd'"
proof -
  obtain k d where k: "map_of (cd_Keepers cd) u = Some k" and d: "FindDB cd k = Some d"
    and ne: "db_UID d \<noteq> master_of cd"
    using assms(2) by (auto simp: reinitMutation_def Let_def split: option.splits if_splits)
  have "cd' = upd_status (\<lambda>st. st\<lparr>cst_ManualSwitch := None\<rparr>)
      (upd_dbspec (db_UID d) (resyncSpec (master_of cd)) cd)"
    using assms(2) k d ne by (simp add: reinitMutation_def)
  moreover have "cluster_inv (upd_dbspec (db_UID d) (resyncSpec (master_of cd)) cd)"
    by (rule upd_dbspec_inv [OF assms(1) ne]) (simp_all add: resyncSpec_def link_ok_def follows_external_def)
  ultimately show ?thesis by (simp add: inv_status)
qed

lemma delete_filter: "AList.delete k m = filter (\<lambda>(k', v). k' \<noteq> k) m"
  using fold_delete [of "[k]" m] by (simp add: case_prod_unfold)

lemma wf_keepers_filter: "wf_keepers ks \<Longrightarrow> wf_keepers (filter P ks)"
  by (auto simp: wf_keepers_def wf_map_filter list_all_iff)

text \<open>A keeper leaves together with its database.\<close>

lemma FindDB_mem: "FindDB cd k = Some d \<Longrightarrow> d \<in> set (mvals (cd_DBs cd)) \<and> dbs_KeeperUID (db_Spec d) = k_UID k"
  unfolding FindDB_def by (auto simp: find_Some_iff)

lemma FindDB_none: "FindDB cd k = None \<Longrightarrow> d \<in> set (mvals (cd_DBs cd)) \<Longrightarrow> dbs_KeeperUID (db_Spec d) \<noteq> k_UID k"
  unfolding FindDB_def by (auto simp: find_None_iff)

lemma wf_remove:
  assumes "wf_cd cd"
    and "\<And>u d. (u, d) \<in> set (cd_DBs cd) \<Longrightarrow> P (u, d) \<Longrightarrow> dbs_KeeperUID (db_Spec d) \<noteq> ku"
  shows "wf_cd (cd\<lparr>cd_Keepers := filter (\<lambda>(k', v). k' \<noteq> ku) (cd_Keepers cd),
    cd_DBs := filter P (cd_DBs cd)\<rparr>)"
proof -
  have "wf_dbs (cd_Keepers cd) (filter P (cd_DBs cd))"
    using assms(1) by (simp add: wf_cd_def wf_dbs_filter)
  moreover have "set (mkeys (filter (\<lambda>(k', v). k' \<noteq> ku) (cd_Keepers cd))) = set (mkeys (cd_Keepers cd)) - {ku}"
    by (force simp: mkeys_def)
  ultimately show ?thesis
    using assms by (auto simp: wf_cd_def wf_keepers_filter wf_dbs_def list_all_iff)
qed

lemma remove_inv:
  assumes "cluster_inv cd" and "removeKeeperChange u cd = Some (Inr (Some cd'))"
  shows "cluster_inv cd'"
proof -
  obtain k where k: "map_of (cd_Keepers cd) u = Some k"
    using assms(2) by (auto simp: removeKeeperChange_def split: option.splits)
  have ku: "k_UID k = u"
    using inv_wf [OF assms(1)] map_of_SomeD [OF k] by (auto simp: wf_cd_def wf_keepers_def list_all_iff)
  define P where "P = (\<lambda>(u', d :: db). (case FindDB cd k of None \<Rightarrow> True | Some d \<Rightarrow> u' \<noteq> db_UID d))"
  have cd': "cd' = cd\<lparr>cd_Keepers := filter (\<lambda>(k', v). k' \<noteq> u) (cd_Keepers cd), cd_DBs := filter P (cd_DBs cd)\<rparr>"
    and m: "\<And>d. P (master_of cd, d)"
    using assms(2) k by (auto simp: removeKeeperChange_def delete_filter P_def split: option.splits if_splits)
  have sep: "dbs_KeeperUID (db_Spec d) \<noteq> u" if "(u', d) \<in> set (cd_DBs cd)" "P (u', d)" for u' d
  proof (cases "FindDB cd k")
    case None
    then show ?thesis using FindDB_none that ku by (force simp: mvals_def)
  next
    case (Some d0)
    note d0 = FindDB_mem [OF Some]
    then obtain u0 where u0: "(u0, d0) \<in> set (cd_DBs cd)" by (auto simp: mvals_def)
    have wf: "wf_dbs (cd_Keepers cd) (cd_DBs cd)" using inv_wf [OF assms(1)] by (simp add: wf_cd_def)
    then have "db_UID d0 = u0" "db_UID d = u'" using u0 that by (auto simp: wf_dbs_def list_all_iff)
    then have ne: "d \<noteq> d0" using that Some by (auto simp: P_def)
    have "inj_on (\<lambda>d. dbs_KeeperUID (db_Spec d)) (set (mvals (cd_DBs cd)))"
      using wf by (simp add: wf_dbs_def distinct_map)
    moreover have "d \<in> set (mvals (cd_DBs cd))" using that(1) by (force simp: mvals_def)
    ultimately show ?thesis using ne d0 ku inj_onD [of _ "set (mvals (cd_DBs cd))" d d0] by metis
  qed
  show ?thesis
  proof (rule inv_members [OF assms(1)])
    show "wf_cd cd'" unfolding cd' by (rule wf_remove [OF inv_wf [OF assms(1)] sep])
    show "links_ok cd'" using inv_links [OF assms(1)] by (auto simp: cd' links_ok_def list_all_iff)
    show "master_ok cd'" if "master_ok cd"
      using that map_of_filter_wf [of "cd_DBs cd" P] m inv_wf [OF assms(1)]
      by (auto simp: cd' master_ok_def wf_cd_def wf_dbs_def split: option.splits)
  qed (simp_all add: cd')
qed

text \<open>
  A new specification keeps it when no database follows an external instance that the new
  specification no longer describes.
\<close>

definition describes_upstream :: "cluster_spec \<Rightarrow> cluster_data \<Rightarrow> bool" where
  "describes_upstream spec cd \<longleftrightarrow> cs_StandbyConfig spec \<noteq> None \<or>
     \<not> list_ex (\<lambda>(u, d). follows_external d) (cd_DBs cd)"

lemma spec_inv:
  assumes "cluster_inv cd" and "Validate spec = Inr ()" and "describes_upstream spec cd"
  shows "cluster_inv (cd\<lparr>cd_Cluster := (cd_Cluster cd)\<lparr>cl_Spec := spec\<rparr>\<rparr>)"
proof -
  let ?cd = "cd\<lparr>cd_Cluster := (cd_Cluster cd)\<lparr>cl_Spec := spec\<rparr>\<rparr>"
  have "links_ok ?cd"
    using inv_links [OF assms(1)] assms(3)
    by (auto simp: links_ok_def link_ok_def describes_upstream_def list_all_iff list_ex_iff)
  then show ?thesis
    using assms(1) Validate_shape [OF assms(2)]
    by (auto simp: cluster_inv_def serving_def bootstrapping_def master_ok_def wf_cd_def DefSpec_def
        split: cluster_phase.splits)
qed

lemma UpdateSpec_result:
  assumes "UpdateSpec c spec = Some (Inr c')"
  shows "Validate spec = Inr () \<and> c' = c\<lparr>cl_Spec := spec\<rparr>"
  using assms by (auto simp: UpdateSpec_def Let_def split: sum.splits bind_splits if_splits)

lemma promote_inv:
  assumes "cluster_inv cd" and "promoteChange cd = Some (Inr (Some cd'))"
  shows "cluster_inv cd'"
proof -
  let ?spec = "(cl_Spec (cd_Cluster cd))\<lparr>cs_Role := Some ClusterRoleMaster\<rparr>"
  let ?c = "(cd_Cluster cd)\<lparr>cl_Spec := ?spec\<rparr>"
  obtain c' where c': "UpdateSpec ?c ?spec = Some (Inr c')" "cd' = cd\<lparr>cd_Cluster := c'\<rparr>"
    using assms(2) by (auto simp: promoteChange_def Let_def split: if_splits bind_splits sum.splits)
  have "describes_upstream ?spec cd"
    using inv_links [OF assms(1)]
    by (auto simp: describes_upstream_def links_ok_def link_ok_def list_all_iff list_ex_iff)
  with spec_inv [OF assms(1)] UpdateSpec_result [OF c'(1)] c'(2) show ?thesis by simp
qed

lemma updateSpec_inv:
  assumes "cluster_inv cd" and "updateSpecChange next msg cd = Some (Inr (Some cd'))"
    and "describes_upstream (cl_Spec (cd_Cluster cd')) cd"
  shows "cluster_inv cd'"
proof -
  obtain spec c' where c': "UpdateSpec (cd_Cluster cd) spec = Some (Inr c')" "cd' = cd\<lparr>cd_Cluster := c'\<rparr>"
    using assms(2) by (auto simp: updateSpecChange_def split: bind_splits sum.splits option.splits)
  with spec_inv [OF assms(1)] UpdateSpec_result [OF c'(1)] assms(3) show ?thesis by simp
qed

lemma initial_inv:
  assumes "initialClusterData t u parsed = Some (Inr cd)"
  shows "cluster_inv cd"
proof -
  obtain spec where "Validate spec = Inr ()" "cd = NewClusterData (NewCluster t u spec)"
    using assms by (auto simp: initialClusterData_def split: sum.splits option.splits)
  then show ?thesis
    using Validate_shape [of spec]
    by (simp add: cluster_inv_def bootstrapping_def NewClusterData_def NewCluster_def DefSpec_def
        wf_cd_def wf_keepers_def wf_dbs_def wf_map_def mkeys_def mvals_def links_ok_def)
qed

lemma failKeeper_inv:
  "cluster_inv cd \<Longrightarrow> failKeeperChange u cd = Some (Inr (Some cd')) \<Longrightarrow> cluster_inv cd'"
  by (auto simp: failKeeperChange_def forceFail_inv split: option.splits)

lemma forceFailover_inv:
  "cluster_inv cd \<Longrightarrow> forceFailoverChange cd = Some (Inr (Some cd')) \<Longrightarrow> cluster_inv cd'"
  by (auto simp: forceFailoverChange_def Let_def forceFail_inv split: option.splits if_splits)

lemma mutation_inv:
  "cluster_inv cd \<Longrightarrow> pauseMutation reason ttl t cd = Inr cd' \<Longrightarrow> cluster_inv cd'"
  "cluster_inv cd \<Longrightarrow> resumeMutation t cd = Inr cd' \<Longrightarrow> cluster_inv cd'"
  "cluster_inv cd \<Longrightarrow> switchMutation u mode t cd = Inr cd' \<Longrightarrow> cluster_inv cd'"
  by (auto simp: pauseMutation_def resumeMutation_def switchMutation_def inv_status split: option.splits)

section \<open>Commands against the store\<close>

text \<open>One successful attempt replaced the data it had read; one that met a conflict wrote nothing.\<close>

definition swapped ::
  "'w client \<Rightarrow> (string \<Rightarrow> 'w \<Rightarrow> (document \<times> int) option) \<Rightarrow> string \<Rightarrow> 'w \<Rightarrow> cluster_data \<Rightarrow>
     cluster_data \<Rightarrow> 'w \<Rightarrow> bool" where
  "swapped c rd path w cd cd' w' \<longleftrightarrow>
     (\<exists>r r'. rd (clusterDataPath path) w = Some (ClusterDoc cd, r) \<and>
        ec_Txn c (ModRevisionEq r) (clusterDataPath path) (ClusterDoc cd') None w = (Inr (True, r'), w') \<and>
        rd (clusterDataPath path) w' = Some (ClusterDoc cd', r'))"

lemma GetClusterData_read:
  "GetClusterData c path w = Inr (Some cd, Some p) \<Longrightarrow>
     Get c (clusterDataPath path) w = Inr p \<and> kv_Value p = ClusterDoc cd"
  by (auto simp: GetClusterData_def unmarshalClusterData_def split: sum.splits if_splits document.splits)

lemma attempt_swapped:
  assumes "etcd_ok c rd" and "etcd_env rd f" and "GetClusterData c path w = Inr (Some cd, Some p)"
    and "AtomicPutClusterData c path cd' (Some p) (f w) = (Inr q, w')"
  shows "swapped c rd path (f w) cd cd' w'"
proof -
  let ?k = "clusterDataPath path"
  obtain r where r: "rd ?k w = Some (ClusterDoc cd, r)" "lastIndexToRevision (kv_LastIndex p) = Inr r"
    using Get_content [OF assms(1), of ?k w p] GetClusterData_read [OF assms(3)] by auto
  obtain r' where t: "ec_Txn c (ModRevisionEq r) ?k (ClusterDoc cd') None (f w) = (Inr (True, r'), w')"
    using assms(4) r(2)
    by (auto simp: AtomicPutClusterData_def AtomicPut_def split: prod.splits sum.splits if_splits)
  obtain v0 r1 where v: "rd ?k (f w) = Some (v0, r)" "rd ?k w' = Some (ClusterDoc cd', r1)"
    using AtomicPut_content [OF assms(1) assms(4) [unfolded AtomicPutClusterData_def] r(2)] by blast
  have "v0 = ClusterDoc cd" using assms(2) r(1) v(1) unfolding etcd_env_def by blast
  moreover have "rd ?k w' = Some (ClusterDoc cd', r')"
    using assms(1) t unfolding etcd_ok_def by (metis (full_types))
  ultimately show ?thesis using v t by (auto simp: swapped_def)
qed

lemma attempt_conflict:
  assumes "etcd_ok c rd" and "AtomicPutClusterData c path cd' (Some p) w = (Inl ErrKeyModified, w')"
  shows "w' = w"
proof -
  have "\<exists>r i. ec_Txn c (ModRevisionEq r) (clusterDataPath path) (ClusterDoc cd') None w = (Inr (False, i), w')"
    using assms(2) etcd_okD(3) [OF assms(1)]
    by (auto simp: AtomicPutClusterData_def AtomicPut_def lastIndexToRevision_def revisionToLastIndex_def
        ErrKeyModified_def split: prod.splits sum.splits if_splits)
  then show ?thesis using etcd_okD(2) [OF assms(1)] by blast
qed

text \<open>
  A command that succeeds has applied its change, in one step, to the data that was there at that
  moment: nothing another client wrote before is lost.
\<close>

lemma mutateLoop_swapped:
  assumes "etcd_ok c rd" and "list_all (\<lambda>(t, f). etcd_env rd f) attempts"
    and "mutateLoop c path rej mutate attempts w = (Inr (), w')"
  shows "\<exists>n cd cd'. n < length attempts \<and>
    swapped c rd path (fold snd (take (Suc n) attempts) w) cd cd' w' \<and>
    mutate (fst (attempts ! n)) cd = Inr cd' \<and>
    \<not> (rej \<and> PauseActive (cl_Status (cd_Cluster cd)) (fst (attempts ! n)))"
  using assms(2,3)
proof (induction attempts arbitrary: w)
  case (Cons a as)
  obtain t f where a: "a = (t, f)" by (cases a)
  obtain cd p where g: "GetClusterData c path w = Inr (Some cd, Some p)"
    and np: "\<not> (rej \<and> PauseActive (cl_Status (cd_Cluster cd)) t)"
    using Cons.prems(2) a by (auto split: sum.splits option.splits prod.splits if_splits)
  obtain cd' where m: "mutate t cd = Inr cd'"
    using Cons.prems(2) a g np by (cases "mutate t cd") (auto split: if_splits)
  obtain r w1 where put: "AtomicPutClusterData c path cd' (Some p) (f w) = (r, w1)" by fastforce
  show ?case
  proof (cases r)
    case (Inr q)
    then have "w' = w1" using Cons.prems(2) a g np m put by (auto split: if_splits)
    then have "swapped c rd path (f w) cd cd' w'"
      using attempt_swapped [OF assms(1) _ g] put Inr Cons.prems(1) a by auto
    then show ?thesis using m np a by (intro exI [of _ 0] exI [of _ cd] exI [of _ cd']) simp
  next
    case (Inl err)
    then have e: "err = ErrKeyModified" and r: "mutateLoop c path rej mutate as w1 = (Inr (), w')"
      using Cons.prems(2) a g np m put by (auto split: if_splits)
    have "w1 = f w" using attempt_conflict [OF assms(1)] put Inl e by blast
    with r have "mutateLoop c path rej mutate as (f w) = (Inr (), w')" by simp
    moreover have "list_all (\<lambda>(t, f). etcd_env rd f) as" using Cons.prems(1) by simp
    ultimately obtain n cd2 cd2' where "n < length as"
      "swapped c rd path (fold snd (take (Suc n) as) (f w)) cd2 cd2' w'"
      "mutate (fst (as ! n)) cd2 = Inr cd2'"
      "\<not> (rej \<and> PauseActive (cl_Status (cd_Cluster cd2)) (fst (as ! n)))"
      using Cons.IH by blast
    then show ?thesis using a by (intro exI [of _ "Suc n"] exI [of _ cd2] exI [of _ cd2']) simp
  qed
qed simp

lemma changeLoop_swapped:
  assumes "etcd_ok c rd" and "list_all (\<lambda>(t, f). etcd_env rd f) attempts"
    and "changeLoop c path retry change attempts w = Some (Inr (), w')"
  shows "\<exists>n cd. n < length attempts \<and>
    Validate (cl_Spec (cd_Cluster cd)) = Inr () \<and>
    \<not> PauseActive (cl_Status (cd_Cluster cd)) (fst (attempts ! n)) \<and>
    (change cd = Some (Inr None) \<and> w' = fold snd (take n attempts) w \<or>
     (\<exists>cd'. change cd = Some (Inr (Some cd')) \<and>
        swapped c rd path (fold snd (take (Suc n) attempts) w) cd cd' w'))"
  using assms(2,3)
proof (induction attempts arbitrary: w)
  case (Cons a as)
  obtain t f where a: "a = (t, f)" by (cases a)
  obtain cd p where v: "validatedClusterData c path w = Inr (cd, p)"
    using Cons.prems(2) a by (cases "validatedClusterData c path w") auto
  have g: "GetClusterData c path w = Inr (Some cd, Some p)" and ok: "Validate (cl_Spec (cd_Cluster cd)) = Inr ()"
    using v by (auto simp: validatedClusterData_def checkDocument_def split: sum.splits option.splits if_splits)
  have np: "\<not> PauseActive (cl_Status (cd_Cluster cd)) t"
    using Cons.prems(2) a v by (auto simp: ensureClusterNotPaused_def guard_def split: if_splits)
  then have e: "ensureClusterNotPaused t cd = Inr ()" by (simp add: ensureClusterNotPaused_def guard_def)
  obtain nxt where ch: "change cd = Some (Inr nxt)"
    using Cons.prems(2) a v e by (auto split: option.splits sum.splits)
  show ?case
  proof (cases nxt)
    case None
    then have "w' = w" using Cons.prems(2) a v e ch by simp
    then show ?thesis using None ch ok np a by (intro exI [of _ 0] exI [of _ cd]) simp
  next
    case (Some cd')
    obtain r w1 where put: "AtomicPutClusterData c path cd' (Some p) (f w) = (r, w1)" by fastforce
    show ?thesis
    proof (cases r)
      case (Inr q)
      then have "w' = w1" using Cons.prems(2) a v e ch Some put by simp
      then have "swapped c rd path (f w) cd cd' w'"
        using attempt_swapped [OF assms(1) _ g] put Inr Cons.prems(1) a by auto
      then show ?thesis using Some ch ok np a by (intro exI [of _ 0] exI [of _ cd]) simp
    next
      case (Inl err)
      then have er: "err = ErrKeyModified" and r: "changeLoop c path retry change as w1 = Some (Inr (), w')"
        using Cons.prems(2) a v e ch Some put by (auto split: if_splits)
      have "w1 = f w" using attempt_conflict [OF assms(1)] put Inl er by blast
      with r have "changeLoop c path retry change as (f w) = Some (Inr (), w')" by simp
      moreover have "list_all (\<lambda>(t, f). etcd_env rd f) as" using Cons.prems(1) by simp
      ultimately obtain n cd2 where n: "n < length as" "Validate (cl_Spec (cd_Cluster cd2)) = Inr ()"
        "\<not> PauseActive (cl_Status (cd_Cluster cd2)) (fst (as ! n))"
        "change cd2 = Some (Inr None) \<and> w' = fold snd (take n as) (f w) \<or>
          (\<exists>cd'. change cd2 = Some (Inr (Some cd')) \<and> swapped c rd path (fold snd (take (Suc n) as) (f w)) cd2 cd' w')"
        using Cons.IH by blast
      then show ?thesis using a by (intro exI [of _ "Suc n"] exI [of _ cd2]) simp
    qed
  qed
qed simp

end
