(* ===== verification/System.thy ===== *)
theory System
  imports Operations_Safety
begin

text \<open>
  The commands run against a store that other clients use at the same time, and the system of
  initialization, sentinel checks and commands: every cluster data it can reach satisfies the
  invariant.
\<close>

section \<open>Commands\<close>

datatype command =
  CmdPause string duration | CmdResume | CmdSwitch uid manual_switch_mode | CmdReinit uid |
  CmdPromote | CmdRemove uid | CmdFail uid | CmdFailover

definition run_command ::
  "'w client \<Rightarrow> string \<Rightarrow> command \<Rightarrow> (nat \<Rightarrow> time \<times> ('w \<Rightarrow> 'w)) \<Rightarrow> 'w \<Rightarrow> (unit res \<times> 'w) option" where
  "run_command c path cmd attempt w =
     (case cmd of
        CmdPause reason ttl \<Rightarrow> Some (PauseCluster c path reason ttl attempt w)
      | CmdResume \<Rightarrow> Some (ResumeCluster c path attempt w)
      | CmdSwitch u mode \<Rightarrow> Some (RequestManualSwitch c path u mode attempt w)
      | CmdReinit u \<Rightarrow> Some (ReinitializeReplica c path u attempt w)
      | CmdPromote \<Rightarrow> PromoteCluster c path attempt w
      | CmdRemove u \<Rightarrow> RemoveKeeper c path u (attempt 0) w
      | CmdFail u \<Rightarrow> FailKeeper c path u (attempt 0) w
      | CmdFailover \<Rightarrow> ForceFailover c path attempt w)"

text \<open>The stored cluster data satisfies the invariant.\<close>

definition inv_at :: "(string \<Rightarrow> 'w \<Rightarrow> (document \<times> int) option) \<Rightarrow> string \<Rightarrow> 'w \<Rightarrow> bool" where
  "inv_at rd path w \<longleftrightarrow> (\<forall>cd r. rd (clusterDataPath path) w = Some (ClusterDoc cd, r) \<longrightarrow> cluster_inv cd)"

text \<open>Other clients that follow the protocol of etcd and keep the invariant.\<close>

definition good_client :: "(string \<Rightarrow> 'w \<Rightarrow> (document \<times> int) option) \<Rightarrow> string \<Rightarrow> ('w \<Rightarrow> 'w) \<Rightarrow> bool" where
  "good_client rd path f \<longleftrightarrow> etcd_env rd f \<and> (\<forall>w. inv_at rd path w \<longrightarrow> inv_at rd path (f w))"

lemma good_clients_fold:
  "list_all (\<lambda>(t, f). good_client rd path f) as \<Longrightarrow> inv_at rd path w \<Longrightarrow>
     inv_at rd path (fold snd (take n as) w)"
proof (induction as arbitrary: n w)
  case (Cons a as)
  then show ?case by (cases n) (auto simp: good_client_def split_beta)
qed simp

lemma good_clients_env:
  "list_all (\<lambda>(t, f). good_client rd path f) as \<Longrightarrow> list_all (\<lambda>(t, f). etcd_env rd f) as"
  by (auto simp: good_client_def list_all_iff)

lemma swapped_inv:
  assumes "swapped c rd path w cd cd' w'" and "inv_at rd path w" and "cluster_inv cd \<Longrightarrow> cluster_inv cd'"
  shows "inv_at rd path w'"
  using assms by (auto simp: swapped_def inv_at_def)

text \<open>What the loops need of a change and of a mutation.\<close>

locale safe_change =
  fixes change :: change
  assumes keeps: "cluster_inv cd \<Longrightarrow> change cd = Some (Inr (Some cd')) \<Longrightarrow> cluster_inv cd'"
begin

lemma loop_inv:
  assumes "etcd_ok c rd" and "list_all (\<lambda>(t, f). good_client rd path f) attempts" and "inv_at rd path w"
    and "changeLoop c path retry change attempts w = Some (Inr (), w')"
  shows "inv_at rd path w'"
  using changeLoop_swapped [OF assms(1) good_clients_env [OF assms(2)] assms(4)]
    good_clients_fold [OF assms(2,3)] swapped_inv keeps by metis

end

locale safe_mutation =
  fixes mutate :: mutation
  assumes keeps: "cluster_inv cd \<Longrightarrow> mutate t cd = Inr cd' \<Longrightarrow> cluster_inv cd'"
begin

lemma loop_inv:
  assumes "etcd_ok c rd" and "list_all (\<lambda>(t, f). good_client rd path f) attempts" and "inv_at rd path w"
    and "mutateLoop c path rej mutate attempts w = (Inr (), w')"
  shows "inv_at rd path w'"
  using mutateLoop_swapped [OF assms(1) good_clients_env [OF assms(2)] assms(4)]
    good_clients_fold [OF assms(2,3)] swapped_inv keeps by metis

end

interpretation pause: safe_mutation "pauseMutation reason ttl" for reason ttl
  by unfold_locales (rule mutation_inv(1))

interpretation resume: safe_mutation resumeMutation
  by unfold_locales (rule mutation_inv(2))

interpretation switch: safe_mutation "switchMutation u mode" for u mode
  by unfold_locales (rule mutation_inv(3))

interpretation reinit: safe_mutation "reinitMutation u" for u
  by unfold_locales (rule reinit_inv)

interpretation promote: safe_change promoteChange
  by unfold_locales (rule promote_inv)

interpretation removeKeeper: safe_change "removeKeeperChange u" for u
  by unfold_locales (rule remove_inv)

interpretation failKeeper: safe_change "failKeeperChange u" for u
  by unfold_locales (rule failKeeper_inv)

interpretation failover: safe_change forceFailoverChange
  by unfold_locales (rule forceFailover_inv)

lemmas command_defs =
  PauseCluster_def ResumeCluster_def RequestManualSwitch_def ReinitializeReplica_def
  PromoteCluster_def RemoveKeeper_def FailKeeper_def ForceFailover_def mutateClusterData_def retrying_def

lemma attempts_good:
  "(\<And>i. good_client rd path (snd (attempt i))) \<Longrightarrow>
     list_all (\<lambda>(t, f). good_client rd path f) (map attempt is)"
  by (auto simp: list_all_iff) (metis snd_conv)

lemma run_command_inv:
  assumes "etcd_ok c rd" and "\<And>i. good_client rd path (snd (attempt i))" and "inv_at rd path w"
    and "run_command c path cmd attempt w = Some (Inr (), w')"
  shows "inv_at rd path w'"
proof -
  have g: "list_all (\<lambda>(t, f). good_client rd path f) (map attempt is)" for "is"
    by (rule attempts_good) (rule assms(2))
  have g1: "list_all (\<lambda>(t, f). good_client rd path f) [attempt 0]" using g [of "[0]"] by simp
  note ch = assms(1) g assms(3) and ch1 = assms(1) g1 assms(3)
  show ?thesis
    using assms(4)
    by (cases cmd)
      (auto simp: run_command_def command_defs Let_def split: if_splits
        intro: pause.loop_inv [OF ch] resume.loop_inv [OF ch] switch.loop_inv [OF ch] reinit.loop_inv [OF ch]
          promote.loop_inv [OF ch] failover.loop_inv [OF ch] removeKeeper.loop_inv [OF ch1]
          failKeeper.loop_inv [OF ch1] simp del: mutateLoop.simps changeLoop.simps)
qed

section \<open>Infos read from the store\<close>

lemma update_mem: "x \<in> set (AList.update k v m) \<Longrightarrow> x = (k, v) \<or> x \<in> set m"
  by (induction m) (auto split: if_splits)

lemma wf_infos_update: "wf_infos m \<Longrightarrow> wf_infos (AList.update (ki_UID ki) ki m)"
  by (auto simp: wf_infos_def wf_map_def mkeys_def list_all_iff distinct_update dest!: update_mem)

lemma decodePairs_invariant:
  assumes "decodePairs um add ps m = Inr m'" and "P m" and "\<And>x m. P m \<Longrightarrow> P (add x m)"
  shows "P m'"
  using assms(1,2) by (induction ps arbitrary: m) (auto split: sum.splits dest: assms(3))

lemma GetKeepersInfo_wf:
  assumes "GetKeepersInfo c path w = Inr m"
  shows "wf_infos m"
proof (cases "ListDir c (JoinPath [path, keepersInfoDir]) w")
  case Inl
  then show ?thesis
    using assms by (auto simp: GetKeepersInfo_def wf_infos_def wf_map_def mkeys_def split: if_splits)
next
  case (Inr ps)
  then have "decodePairs unmarshalKeeperInfo (\<lambda>ki. AList.update (ki_UID ki) ki) ps [] = Inr m"
    using assms by (simp add: GetKeepersInfo_def)
  then show ?thesis
    by (rule decodePairs_invariant) (simp_all add: wf_infos_update, simp add: wf_infos_def wf_map_def mkeys_def)
qed

section \<open>The system\<close>

text \<open>One operator command applied to the cluster data.\<close>

inductive operator_step :: "cluster_data \<Rightarrow> cluster_data \<Rightarrow> bool" where
  pause: "pauseMutation reason ttl t cd = Inr cd' \<Longrightarrow> operator_step cd cd'"
| resume: "resumeMutation t cd = Inr cd' \<Longrightarrow> operator_step cd cd'"
| switch: "switchMutation u mode t cd = Inr cd' \<Longrightarrow> operator_step cd cd'"
| reinit: "reinitMutation u t cd = Inr cd' \<Longrightarrow> operator_step cd cd'"
| promote: "promoteChange cd = Some (Inr (Some cd')) \<Longrightarrow> operator_step cd cd'"
| remove: "removeKeeperChange u cd = Some (Inr (Some cd')) \<Longrightarrow> operator_step cd cd'"
| fail: "failKeeperChange u cd = Some (Inr (Some cd')) \<Longrightarrow> operator_step cd cd'"
| failover: "forceFailoverChange cd = Some (Inr (Some cd')) \<Longrightarrow> operator_step cd cd'"
| update: "updateSpecChange next msg cd = Some (Inr (Some cd')) \<Longrightarrow>
    describes_upstream (cl_Spec (cd_Cluster cd')) cd \<Longrightarrow> operator_step cd cd'"

lemma operator_step_inv: "operator_step cd cd' \<Longrightarrow> cluster_inv cd \<Longrightarrow> cluster_inv cd'"
  by (induction rule: operator_step.induct)
    (auto intro: mutation_inv reinit_inv promote_inv remove_inv failKeeper_inv forceFailover_inv updateSpec_inv)

text \<open>
  One check of a sentinel on the stored data: the keeper infos come from the store, the infos of
  the proxies and the answers to writes are arbitrary.
\<close>

definition checks :: "env \<Rightarrow> check_input \<Rightarrow> cluster_data \<Rightarrow> bool" where
  "checks e inp cd \<longleftrightarrow> good_env e \<and> fresh_uids e cd \<and> ci_GetClusterData inp = Inr (Some cd) \<and>
     (\<forall>m. ci_GetKeepersInfo inp = Inr m \<longrightarrow> wf_infos m)"

inductive reachable :: "cluster_data \<Rightarrow> bool" where
  initialized: "initialClusterData t u parsed = Some (Inr cd) \<Longrightarrow> reachable cd"
| checked: "reachable cd \<Longrightarrow> checks e inp cd \<Longrightarrow>
    clusterSentinelCheck e inp s = Some (Some cd', s') \<Longrightarrow> reachable cd'"
| operated: "reachable cd \<Longrightarrow> operator_step cd cd' \<Longrightarrow> reachable cd'"

lemma check_inv:
  assumes "cluster_inv cd" and "checks e inp cd"
  shows "\<exists>r s'. clusterSentinelCheck e inp s = Some (r, s') \<and> (\<forall>cd'. r = Some cd' \<longrightarrow> cluster_inv cd')"
proof -
  have rec: "\<exists>r s'. reconcile e cd m ps s0 = Some (r, s') \<and> (\<forall>cd' kihs. r = Some (cd', kihs) \<longrightarrow> cluster_inv cd')"
    if "ci_GetKeepersInfo inp = Inr m" for m ps s0
    using that assms(2) by (intro reconcile_ok [OF assms(1)]) (auto simp: checks_def)
  let ?d = "DefSpec (cd_Cluster cd)"
  let ?s = "s\<lparr>s_dcsDegradedSeen := False, s_sleepInterval := the (cs_SleepInterval ?d),
    s_requestTimeout := the (cs_RequestTimeout ?d)\<rparr>"
  show ?thesis
  proof (cases "ci_GetKeepersInfo inp")
    case m: (Inr m)
    show ?thesis
    proof (cases "ci_GetProxiesInfo inp")
      case ps: (Inr ps)
      obtain r s' where r: "reconcile e cd m ps ?s = Some (r, s')"
          "\<And>cd' kihs. r = Some (cd', kihs) \<Longrightarrow> cluster_inv cd'"
        using rec [OF m, of ps ?s] by blast
      show ?thesis
        using assms(2) m ps r
        by (cases r) (auto simp: clusterSentinelCheck_def checks_def Let_def split: sum.splits)
    qed (use assms(2) m in \<open>auto simp: clusterSentinelCheck_def checks_def Let_def split: sum.splits\<close>)
  qed (use assms(2) in \<open>auto simp: clusterSentinelCheck_def checks_def Let_def split: sum.splits\<close>)
qed

lemma reachable_inv: "reachable cd \<Longrightarrow> cluster_inv cd"
proof (induction rule: reachable.induct)
  case (checked cd e inp s cd' s')
  then show ?case using check_inv [of cd e inp s] by auto
qed (auto intro: initial_inv operator_step_inv)

end
