(* ===== verification/System_Safety.thy ===== *)
theory System_Safety
  imports System
begin

text \<open>
  Properties of the whole system: the commands against the store, every reachable cluster data,
  and what the next check does with a command.
\<close>

section \<open>A store in memory\<close>

text \<open>A single etcd member as a map from keys to values and revisions, with its last revision.\<close>

type_synonym mem = "(string \<times> document \<times> int) list \<times> int"

definition mem_read :: "string \<Rightarrow> mem \<Rightarrow> (document \<times> int) option" where
  "mem_read key w = (case map_of (fst w) key of
     None \<Rightarrow> None | Some (v, r) \<Rightarrow> if 0 < r \<and> r < 2 ^ 63 then Some (v, r) else None)"

definition mem_write :: "string \<Rightarrow> document \<Rightarrow> mem \<Rightarrow> mem" where
  "mem_write key v w = (AList.update key (v, snd w + 1) (fst w), snd w + 1)"

definition mem_kv :: "string \<Rightarrow> document \<times> int \<Rightarrow> document etcd_kv" where
  "mem_kv key x = \<lparr>ek_Key = key, ek_Value = fst x, ek_ModRevision = snd x\<rparr>"

definition mem_client :: "mem client" where
  "mem_client = \<lparr>
     ec_Get = (\<lambda>key w. Inr (case mem_read key w of None \<Rightarrow> [] | Some x \<Rightarrow> [mem_kv key x])),
     ec_List = (\<lambda>dir w. Inr (map (\<lambda>(k, x). mem_kv k x) (filter (\<lambda>(k, x). HasPrefix k dir) (fst w)))),
     ec_Grant = (\<lambda>t w. (Inr 1, w)),
     ec_Put = (\<lambda>key v l w. (Inr (), mem_write key v w)),
     ec_Delete = (\<lambda>key w. (Inr (), (AList.delete key (fst w), snd w + 1))),
     ec_Txn = (\<lambda>cmp key v l w.
       if \<not> (0 \<le> snd w \<and> snd w + 1 < 2 ^ 63) then (Inl (EtcdOther (Err ''revisions exhausted'')), w)
       else if cmp_holds cmp (mem_read key w) then (Inr (True, snd w + 1), mem_write key v w)
       else (Inr (False, snd w), w))\<rparr>"

lemma mem_ok: "etcd_ok mem_client mem_read"
  by (auto simp: etcd_ok_def mem_client_def mem_write_def mem_read_def mem_kv_def fromEtcV3Error_def
      ErrKeyModified_def update_conv' split: option.splits if_splits)

lemma good_id: "good_client rd path id"
  by (auto simp: good_client_def etcd_env_def)

section \<open>Sample worlds\<close>

definition sample_world :: "cluster_data \<Rightarrow> mem" where
  "sample_world cd = ([(clusterDataPath ''p'', ClusterDoc cd, 1)], 1)"

lemma sample_world_read:
  "mem_read key (sample_world cd) = (if key = clusterDataPath ''p'' then Some (ClusterDoc cd, 1) else None)"
  by (simp add: sample_world_def mem_read_def)

lemma sample_world_inv: "cluster_inv cd \<Longrightarrow> inv_at mem_read ''p'' (sample_world cd)"
  by (auto simp: inv_at_def sample_world_read)

text \<open>Another operator marks a keeper as failed while the first attempt is under way.\<close>

definition rival :: "mem \<Rightarrow> mem" where
  "rival w = (if w = sample_world (sample_cd new_spec three_dbs)
     then mem_write (clusterDataPath ''p'') (ClusterDoc (forceFail ''k3'' (sample_cd new_spec three_dbs))) w
     else w)"

definition rival_attempt :: "nat \<Rightarrow> time \<times> (mem \<Rightarrow> mem)" where
  "rival_attempt i = (1000 * second, if i = 0 then rival else id)"

lemma rival_good: "good_client mem_read ''p'' rival"
  using forceFail_inv [OF inv_three, of "''k3''"]
  by (auto simp: good_client_def etcd_env_def inv_at_def rival_def sample_world_def mem_write_def
      mem_read_def update_conv' split: if_splits)

lemma rival_attempt_good: "good_client mem_read ''p'' (snd (rival_attempt i))"
  using rival_good by (simp add: rival_attempt_def good_id)

section \<open>Properties\<close>


definition idle_input :: "cluster_data \<Rightarrow> check_input" where
  "idle_input cd = \<lparr>ci_GetClusterData = Inr (Some cd), ci_SetSentinelInfo = Inr (),
     ci_GetKeepersInfo = Inr [], ci_GetProxiesInfo = Inr [], ci_AtomicPutClusterData = (\<lambda>_. Inr ()),
     ci_Publish = None\<rparr>"




text \<open>
  C2. No update is lost. A mutation that succeeds wrote once, in one transaction that replaced the
  cluster data the other clients had left at that moment by the mutation of exactly this data;
  the attempts before it wrote nothing.
\<close>

theorem mutateClusterData_atomic:
  assumes "etcd_ok c rd" and "\<forall>i. etcd_env rd (snd (attempt i))"
    and "mutateClusterData c path rej mutate attempt w = (Inr (), w')"
  shows "\<exists>n < clusterMutateRetries. \<exists>cd cd'.
    swapped c rd path (fold (\<lambda>i. snd (attempt i)) [0..<Suc n] w) cd cd' w' \<and>
    mutate (fst (attempt n)) cd = Inr cd' \<and>
    \<not> (rej \<and> PauseActive (cl_Status (cd_Cluster cd)) (fst (attempt n)))"
proof -
  let ?as = "map attempt [0..<clusterMutateRetries]"
  have "list_all (\<lambda>(t, f). etcd_env rd f) ?as"
    using assms(2) by (auto simp: list_all_iff) (metis snd_conv)
  from mutateLoop_swapped [OF assms(1) this assms(3) [unfolded mutateClusterData_def]]
  obtain n cd cd' where n: "n < length ?as" "swapped c rd path (fold snd (take (Suc n) ?as) w) cd cd' w'"
    "mutate (fst (?as ! n)) cd = Inr cd'"
    "\<not> (rej \<and> PauseActive (cl_Status (cd_Cluster cd)) (fst (?as ! n)))" by blast
  have "take (Suc n) ?as = map attempt [0..<Suc n]" using n(1) by (simp add: take_map take_upt del: upt_Suc)
  then have "fold snd (take (Suc n) ?as) w = fold (\<lambda>i. snd (attempt i)) [0..<Suc n] w"
    by (simp only: fold_map comp_def)
  then show ?thesis using n by (intro exI [of _ n] exI [of _ cd] exI [of _ cd'] conjI) simp_all
qed

theorem mutateClusterData_atomic_witness:
  "\<exists>w'. mutateClusterData mem_client ''p'' True (switchMutation ''k2'' ManualSwitchModeSwitchover)
       rival_attempt (sample_world (sample_cd new_spec three_dbs)) = (Inr (), w') \<and>
     (\<exists>n < clusterMutateRetries. \<exists>cd cd'. swapped mem_client mem_read ''p''
       (fold (\<lambda>i. snd (rival_attempt i)) [0..<Suc n] (sample_world (sample_cd new_spec three_dbs))) cd cd' w' \<and>
       switchMutation ''k2'' ManualSwitchModeSwitchover (fst (rival_attempt n)) cd = Inr cd')"
proof -
  let ?r = "mutateClusterData mem_client ''p'' True (switchMutation ''k2'' ManualSwitchModeSwitchover)
    rival_attempt (sample_world (sample_cd new_spec three_dbs))"
  have "fst ?r = Inr ()" by code_simp
  then obtain w' where r: "?r = (Inr (), w')" by (cases ?r) auto
  have "\<forall>i. etcd_env mem_read (snd (rival_attempt i))"
    using rival_attempt_good by (simp add: good_client_def)
  from mutateClusterData_atomic [OF mem_ok this r] r show ?thesis by blast
qed

section \<open>The next check after a command\<close>

lemma electNewMaster_switch:
  "electNewMaster spec cur w cd = Some cd' \<Longrightarrow>
     cst_ManualSwitch (cl_Status (cd_Cluster cd')) = cst_ManualSwitch (cl_Status (cd_Cluster cd))"
  by (auto simp: electNewMaster_def clearProxyMaster_def setMaster_def upd_status_def upd_dbspec_def Let_def
      split: bind_splits)

lemma clearManualSwitch_fields [simp]:
  "cst_ManualSwitch (cl_Status (cd_Cluster (clearManualSwitch cd))) = None"
  "DefSpec (cd_Cluster (clearManualSwitch cd)) = DefSpec (cd_Cluster cd)"
  "master_of (clearManualSwitch cd) = master_of cd"
  "cd_DBs (clearManualSwitch cd) = cd_DBs cd"
  by (simp_all add: clearManualSwitch_def upd_status_def DefSpec_def)

text \<open>The pass that applies a request to an eligible database.\<close>

lemma applyManualSwitch_target:
  assumes "good_env e" and "wf_cd cd1" and "cst_ManualSwitch (cl_Status (cd_Cluster cd)) = Some req"
    and "map_of (cd_Keepers cd1) (msr_TargetKeeperUID req) = Some k" and "FindDB cd1 k = Some d"
    and "db_UID d \<noteq> u" and "master_candidate cd1 m d"
  shows "\<exists>s'. applyManualSwitch e cd m u cd1 s = Some (clearManualSwitch cd1, db_UID d, True, s')"
proof -
  obtain cs s' where cs: "findBestNewMasters e 0 cd1 m s = Some (cs, s')"
      "set cs = {d. master_candidate cd1 m d}"
    using findBestNewMasters_char [OF assms(1,2)] by blast
  have "list_ex (\<lambda>c. db_UID c = db_UID d) cs" using cs(2) assms(7) by (auto simp: list_ex_iff)
  then show ?thesis using assms(3-6) cs(1) by (simp add: applyManualSwitch_def)
qed

lemma switch_pass:
  assumes "serving cd" and "valid_shape (DefSpec (cd_Cluster cd))" and "good_env e"
    and "map_of (cd_DBs cd) (master_of cd) = Some m"
    and "cst_Phase (cl_Status (cd_Cluster cd)) = ClusterPhaseNormal"
    and "\<not> PauseActive (cl_Status (cd_Cluster cd)) (now e)"
    and "cst_ManualSwitch (cl_Status (cd_Cluster cd)) = Some req"
    and "map_of (cd_Keepers (removeOldKeepers (now e) cd cd)) (msr_TargetKeeperUID req) = Some k"
    and "FindDB cd k = Some d" and "db_UID d \<noteq> master_of cd"
    and "master_candidate (removeOldKeepers (now e) cd cd) m d"
  shows "\<exists>cd' s'. updateCluster e pis cd s = Some (Inr cd', s') \<and> master_of cd' = db_UID d \<and>
    cst_ManualSwitch (cl_Status (cd_Cluster cd')) = None"
proof -
  let ?cd1 = "removeOldKeepers (now e) cd cd" let ?cd2 = "clearManualSwitch ?cd1"
  let ?spec = "DefSpec (cd_Cluster cd)" let ?u = "master_of cd"
  have s1: "serving ?cd1" using serving_removeOldKeepers [OF assms(1)] .
  have cl: "cd_Cluster ?cd1 = cd_Cluster cd" "cd_DBs ?cd1 = cd_DBs cd" by simp_all
  have f: "FindDB ?cd1 k = Some d" using assms(9) cl(2) by (simp add: FindDB_def)
  obtain sa where a: "applyManualSwitch e cd m ?u ?cd1 s = Some (?cd2, db_UID d, True, sa)"
    using applyManualSwitch_target [OF assms(3) _ assms(7,8) f assms(10,11)] s1 by (auto simp: serving_def)
  obtain ok sb where b: "checkMaster (now e) ?spec m sa = (ok, sb)" by fastforce
  have c: "chooseWantedMaster e ?spec m ?u ok True ?cd2 (db_UID d) sb = Some (db_UID d, deleteBackoff ?u sb)"
    by (simp add: chooseWantedMaster_def)
  have "d \<in> set (mvals (cd_DBs cd))" using FindDB_mem [OF assms(9)] by blast
  then obtain ud where "(ud, d) \<in> set (cd_DBs cd)" by (auto simp: mvals_def)
  then have dd: "map_of (cd_DBs cd) (db_UID d) = Some d"
    using assms(1) wf_map_mem [of "cd_DBs cd" ud d] by (auto simp: serving_def wf_cd_def wf_dbs_def list_all_iff)
  have v2: "valid_shape (DefSpec (cd_Cluster ?cd2))" using assms(2) by (simp add: cl)
  have d2: "map_of (cd_DBs ?cd2) (db_UID d) = Some d" using dd by (simp add: cl)
  from electNewMaster_char [OF serving_clearManualSwitch [OF s1] v2 d2, of e]
  obtain cd3 where e3: "electNewMaster ?spec ?u (db_UID d) ?cd2 = Some cd3" "serving cd3"
    "master_of cd3 = db_UID d" "mkeys (cd_DBs cd3) = mkeys (cd_DBs cd)" by (auto simp: cl)
  have n3: "cst_ManualSwitch (cl_Status (cd_Cluster cd3)) = None"
    using electNewMaster_switch [OF e3(1)] by simp
  have "map_of (cd_DBs cd3) ?u \<noteq> None"
    using map_of_in_mkeys [OF assms(4)] e3(4) map_of_mkeys_iff [of "cd_DBs cd3" ?u] by simp
  from updateFollowers_char [OF e3(2) this]
  obtain cd4 where c4: "updateFollowers ?u (db_UID d) cd3 = Some cd4" "shapes (cd_DBs cd4) = shapes (cd_DBs cd3)"
    "cd_Cluster cd4 = cd_Cluster cd3" "cd_Keepers cd4 = cd_Keepers cd3" "cd_Proxy cd4 = cd_Proxy cd3" by blast
  have "links_ok cd4" using serving_shapes [OF e3(2) c4(2,4,3,5)] by (simp add: serving_def)
  from finishUpdate_char [OF this, of "now e" cd]
  obtain cd5 where c5: "finishUpdate (now e) cd cd4 = Some cd5" "cd_Cluster cd5 = cd_Cluster cd4" by blast
  have "normalPhase e pis cd ?spec s = Some (Inr cd4, deleteBackoff ?u sb)"
    using assms(4,10) a b c e3(1) c4(1) by (simp add: normalPhase_def Let_def)
  then have "updateCluster e pis cd s = Some (Inr cd5, deleteBackoff ?u sb)"
    using assms(5,6) c5(1) by (simp add: updateCluster_def Let_def)
  then show ?thesis using c4(3) c5(2) e3(3) n3 by simp
qed

text \<open>
  C6. A requested switch happens in the next pass: when the target keeper has a database that is
  eligible as new master and the cluster is not paused, the pass makes this database the master
  and clears the request.
\<close>

theorem manual_switch_applied:
  assumes "cluster_inv cd" and "good_env e"
    and "cst_Phase (cl_Status (cd_Cluster cd)) = ClusterPhaseNormal"
    and "\<not> PauseActive (cl_Status (cd_Cluster cd)) (now e)"
    and "map_of (cd_DBs cd) (master_of cd) = Some m"
    and "switchMutation ku mode t cd = Inr cd1"
    and "map_of (cd_Keepers (removeOldKeepers (now e) cd1 cd1)) ku = Some k" and "FindDB cd1 k = Some d"
    and "db_UID d \<noteq> master_of cd" and "master_candidate (removeOldKeepers (now e) cd1 cd1) m d"
  shows "\<exists>cd' s'. updateCluster e pis cd1 s = Some (Inr cd', s') \<and> master_of cd' = db_UID d \<and>
    cst_ManualSwitch (cl_Status (cd_Cluster cd')) = None"
proof -
  have cd1: "cd1 = upd_status (\<lambda>st. st\<lparr>cst_ManualSwitch :=
      Some \<lparr>msr_TargetKeeperUID = ku, msr_Mode = mode\<rparr>\<rparr>) cd"
    using assms(6) by (auto simp: switchMutation_def split: option.splits)
  have "cluster_inv cd1" using assms(1,6) by (rule mutation_inv(3))
  moreover have p: "cst_Phase (cl_Status (cd_Cluster cd1)) = ClusterPhaseNormal"
    and np: "\<not> PauseActive (cl_Status (cd_Cluster cd1)) (now e)"
    and m: "map_of (cd_DBs cd1) (master_of cd1) = Some m" "db_UID d \<noteq> master_of cd1"
    using assms(3,4,5,9) by (auto simp: cd1 upd_status_def PauseActive_def split: if_splits)
  moreover have "cst_ManualSwitch (cl_Status (cd_Cluster cd1)) =
      Some \<lparr>msr_TargetKeeperUID = ku, msr_Mode = mode\<rparr>" by (simp add: cd1 upd_status_def)
  ultimately show ?thesis
    using assms(7,8,10)
    by (intro switch_pass [where req = "\<lparr>msr_TargetKeeperUID = ku, msr_Mode = mode\<rparr>" and k = k, OF _ _ assms(2)])
      (simp_all add: cluster_inv_def)
qed

theorem manual_switch_applied_witness:
  "\<exists>cd1 cd' s'. switchMutation ''k2'' ManualSwitchModeSwitchover 0 (sample_cd new_spec three_dbs) = Inr cd1 \<and>
     updateCluster sample_env [] cd1 sample_sentinel = Some (Inr cd', s') \<and> master_of cd' = ''d2''"
proof -
  let ?cd = "sample_cd new_spec three_dbs" let ?m = "sample_master ''d1'' ''k1'' 100"
  let ?d = "sample_standby ''d2'' ''k2'' ''d1'' 90"
  define cd1 where "cd1 = upd_status (\<lambda>st. st\<lparr>cst_ManualSwitch :=
    Some \<lparr>msr_TargetKeeperUID = ''k2'', msr_Mode = ManualSwitchModeSwitchover\<rparr>\<rparr>) ?cd"
  let ?cd2 = "removeOldKeepers (now sample_env) cd1 cd1"
  have sw: "switchMutation ''k2'' ManualSwitchModeSwitchover 0 ?cd = Inr cd1"
    by (simp add: switchMutation_def cd1_def sample_defs)
  have k: "map_of (cd_Keepers ?cd2) ''k2'' = Some (sample_keeper ''k2'')" unfolding cd1_def by code_simp
  have f: "FindDB cd1 (sample_keeper ''k2'') = Some ?d" unfolding cd1_def by code_simp
  have w: "wf_cd ?cd2"
    using serving_removeOldKeepers [of cd1 "now sample_env"] serving_three
    by (simp add: serving_def cd1_def upd_status_def wf_cd_def master_ok_def links_ok_def)
  have ev: "map_option (\<lambda>(cs, s). ?d \<in> set cs) (findBestNewMasters sample_env 0 ?cd2 ?m sample_sentinel) = Some True"
    unfolding cd1_def by code_simp
  have c: "master_candidate ?cd2 ?m ?d"
    using findBestNewMasters_char [OF good_sample_env w, of 0 ?m sample_sentinel] ev by auto
  have m: "map_of (cd_DBs ?cd) (master_of ?cd) = Some ?m" by (simp add: phase_sample three_dbs_def)
  have u: "db_UID ?d = ''d2''" "''d2'' \<noteq> master_of ?cd"
    by (simp_all add: sample_standby_def phase_sample)
  from manual_switch_applied [OF inv_three good_sample_env phase_sample(1,2) m sw k f _ c, of "[]" sample_sentinel]
  show ?thesis using u sw by auto
qed

section \<open>Commands that do not do what they are meant to\<close>



lemma changeD:
  "map_option (map_sum id (map_option f)) r = Some (Inr (Some y)) \<Longrightarrow> \<exists>cd. r = Some (Inr (Some cd)) \<and> f cd = y"
  by (cases r; cases "the r") auto

text \<open>
  A standby cluster whose instances follow an external one, with a failed leading instance, and
  the specification that turns it into a cluster of its own without the standby configuration.
\<close>

definition upstream_spec :: cluster_spec where
  "upstream_spec = zero_cluster_spec\<lparr>cs_InitMode := Some ClusterInitModeExisting,
     cs_ExistingConfig := Some \<lparr>ec_KeeperUID = ''k1''\<rparr>, cs_Role := Some ClusterRoleStandby,
     cs_StandbyConfig := Some \<lparr>sc_StandbySettings = None, sc_ArchiveRecoverySettings = None,
       sc_NoStream = False\<rparr>\<rparr>"

definition detached_spec :: cluster_spec where
  "detached_spec = upstream_spec\<lparr>cs_Role := Some ClusterRoleMaster, cs_StandbyConfig := None\<rparr>"

definition upstream_cd :: cluster_data where
  "upstream_cd = sample_cd upstream_spec
     ((''d1'', failed ((sample_master ''d1'' ''k1'' 100)\<lparr>db_Spec := (db_Spec (sample_master ''d1'' ''k1'' 100))
        \<lparr>dbs_Role := RoleStandby, dbs_FollowConfig := Some \<lparr>fc_StandbySettings = None,
          fc_ArchiveRecoverySettings = None, fc_Type = FollowTypeExternal, fc_DBUID = []\<rparr>\<rparr>\<rparr>)) # tl three_dbs)"


end
