(* ===== verification/Tcp_Proxy.thy ===== *)
theory Tcp_Proxy
  imports Prelude "HOL-Library.Monad_Syntax" "HOL-Library.Multiset"
begin

text \<open>
  The TCP proxy (\<open>internal/tcpproxy/proxy.go\<close>): its set of destinations, the round robin over
  them, and the connections it forwards. A destination has a channel that is closed when the
  destination is removed; a connection ends when the channel of its destination is closed. Channels
  are numbers, given out in order. Closing a closed channel and reading a missing destination are
  panics, and none can happen. Copying bytes, dialling and keepalive options are not modelled: a
  connection exists from the choice of its destination on, or ends at once when dialling fails.
\<close>

section \<open>State\<close>

type_synonym addr = string

record tcp_proxy =
  tp_destinations :: "(addr, nat) gomap"
  tp_destinationOrder :: "addr list"
  tp_nextDestination :: nat
  tp_stopped :: bool
  tp_closed :: "nat list"
  tp_channels :: nat
  tp_conns :: "(addr \<times> nat) list"

definition NewProxy :: tcp_proxy where
  "NewProxy = \<lparr>tp_destinations = [], tp_destinationOrder = [], tp_nextDestination = 0,
     tp_stopped = False, tp_closed = [], tp_channels = 0, tp_conns = []\<rparr>"

section \<open>Operations\<close>

text \<open>A nil address is skipped, a repeated one counts once, a known one keeps its channel.\<close>

fun nextDestinations ::
  "(addr, nat) gomap \<Rightarrow> addr option list \<Rightarrow> (addr, nat) gomap \<Rightarrow> addr list \<Rightarrow> nat \<Rightarrow>
     (addr, nat) gomap \<times> addr list \<times> nat" where
  "nextDestinations cur [] next nextOrder ch = (next, nextOrder, ch)"
| "nextDestinations cur (None # addrs) next nextOrder ch = nextDestinations cur addrs next nextOrder ch"
| "nextDestinations cur (Some key # addrs) next nextOrder ch =
     (if map_of next key \<noteq> None then nextDestinations cur addrs next nextOrder ch
      else case map_of cur key of
          Some existing \<Rightarrow>
            nextDestinations cur addrs (next @ [(key, existing)]) (nextOrder @ [key]) ch
        | None \<Rightarrow> nextDestinations cur addrs (next @ [(key, ch)]) (nextOrder @ [key]) (Suc ch))"

fun sameDestinationSet :: "addr list \<Rightarrow> addr list \<Rightarrow> bool" where
  "sameDestinationSet [] [] = True"
| "sameDestinationSet (a # as) (b # bs) = (a = b \<and> sameDestinationSet as bs)"
| "sameDestinationSet _ _ = False"

definition closeChannel :: "nat \<Rightarrow> nat list \<Rightarrow> nat list option" where
  "closeChannel c closed = (if c \<in> set closed then None else Some (c # closed))"

definition SetDestinations :: "addr option list \<Rightarrow> tcp_proxy \<Rightarrow> tcp_proxy option" where
  "SetDestinations addrs p = do {
     let (next, nextOrder, ch) = nextDestinations (tp_destinations p) addrs [] [] (tp_channels p);
     if sameDestinationSet (tp_destinationOrder p) nextOrder then Some (p\<lparr>tp_channels := ch\<rparr>)
     else do {
       closed \<leftarrow> ofold (\<lambda>(key, c) closed. if map_of next key = None then closeChannel c closed
                                          else Some closed) (tp_destinations p) (tp_closed p);
       Some (p\<lparr>tp_destinations := next, tp_destinationOrder := nextOrder, tp_closed := closed,
               tp_channels := ch,
               tp_nextDestination := (if nextOrder = [] then 0
                 else tp_nextDestination p mod length nextOrder)\<rparr>)
     }
   }"

definition SetDestination :: "addr option \<Rightarrow> tcp_proxy \<Rightarrow> tcp_proxy option" where
  "SetDestination addr p =
     (case addr of None \<Rightarrow> SetDestinations [] p | Some a \<Rightarrow> SetDestinations [Some a] p)"

definition destination :: "tcp_proxy \<Rightarrow> ((addr \<times> nat) option \<times> tcp_proxy) option" where
  "destination p =
     (if tp_destinationOrder p = [] then Some (None, p)
      else do {
        let n = length (tp_destinationOrder p);
        let key = tp_destinationOrder p ! (tp_nextDestination p mod n);
        let p' = p\<lparr>tp_nextDestination := (tp_nextDestination p + 1) mod n\<rparr>;
        c \<leftarrow> map_of (tp_destinations p') key;
        Some (Some (key, c), p')
      })"

text \<open>An accepted client connection, which reaches its destination or not.\<close>

definition proxyConn :: "bool \<Rightarrow> tcp_proxy \<Rightarrow> tcp_proxy option" where
  "proxyConn dialed p = do {
     (dest, p') \<leftarrow> destination p;
     Some (case dest of
         None \<Rightarrow> p'
       | Some d \<Rightarrow> if dialed then p'\<lparr>tp_conns := d # tp_conns p'\<rparr> else p')
   }"

definition StopProxy :: "tcp_proxy \<Rightarrow> tcp_proxy option" where
  "StopProxy p =
     (if tp_stopped p then Some p
      else do {
        closed \<leftarrow> ofold (\<lambda>(key, c). closeChannel c) (tp_destinations p) (tp_closed p);
        Some (p\<lparr>tp_stopped := True, tp_closed := closed, tp_destinations := [],
                tp_destinationOrder := [], tp_nextDestination := 0\<rparr>)
      })"

section \<open>Invariant\<close>

text \<open>The connections whose channel is open.\<close>

definition live :: "tcp_proxy \<Rightarrow> (addr \<times> nat) list" where
  "live p = filter (\<lambda>(a, c). c \<notin> set (tp_closed p)) (tp_conns p)"

definition tcp_inv :: "tcp_proxy \<Rightarrow> bool" where
  "tcp_inv p \<longleftrightarrow> wf_map (tp_destinations p) \<and> mkeys (tp_destinations p) = tp_destinationOrder p \<and>
     tp_nextDestination p \<le> length (tp_destinationOrder p) - 1 \<and>
     distinct (mvals (tp_destinations p)) \<and>
     set (mvals (tp_destinations p)) \<subseteq> {..< tp_channels p} - set (tp_closed p) \<and>
     set (tp_closed p) \<subseteq> {..< tp_channels p} \<and> set (live p) \<subseteq> set (tp_destinations p)"

lemma sameDestinationSet_iff [simp]: "sameDestinationSet a b \<longleftrightarrow> a = b"
  by (induction a b rule: sameDestinationSet.induct) auto

lemma NewProxy_inv: "tcp_inv NewProxy"
  by (simp add: tcp_inv_def NewProxy_def wf_map_def mkeys_def mvals_def live_def)

text \<open>Closing distinct open channels does not panic.\<close>

lemma closeChannels:
  assumes "distinct (mvals (filter (\<lambda>(k, c). P k) m))"
    and "set (mvals (filter (\<lambda>(k, c). P k) m)) \<inter> set closed = {}"
  shows "\<exists>closed'. ofold (\<lambda>(k, c) closed. if P k then closeChannel c closed else Some closed) m closed =
      Some closed' \<and> set closed' = set (mvals (filter (\<lambda>(k, c). P k) m)) \<union> set closed"
  using assms
proof (induction m arbitrary: closed)
  case (Cons x m)
  obtain k c where x: "x = (k, c)" by (cases x)
  show ?case
  proof (cases "P k")
    case True
    then have "c \<notin> set closed" "closeChannel c closed = Some (c # closed)"
      using Cons.prems(2) x by (auto simp: mvals_def closeChannel_def)
    moreover have "\<exists>closed'. ofold (\<lambda>(k, c) closed. if P k then closeChannel c closed else Some closed) m (c # closed) =
        Some closed' \<and> set closed' = set (mvals (filter (\<lambda>(k, c). P k) m)) \<union> set (c # closed)"
      using Cons.prems True x by (intro Cons.IH) (auto simp: mvals_def)
    ultimately show ?thesis using True x by (auto simp: mvals_def)
  next
    case False
    then show ?thesis using Cons.IH [of closed] Cons.prems x by (simp add: mvals_def)
  qed
qed (simp add: mvals_def)

text \<open>The loop over the new addresses. The new order lists every address at its first occurrence.\<close>

fun firsts :: "addr option list \<Rightarrow> addr list" where
  "firsts [] = []"
| "firsts (None # as) = firsts as"
| "firsts (Some a # as) = a # filter (\<lambda>b. b \<noteq> a) (firsts as)"

lemma set_firsts [simp]: "set (firsts as) = {a. Some a \<in> set as}"
  by (induction as rule: firsts.induct) auto

definition next_ok :: "(addr, nat) gomap \<Rightarrow> nat \<Rightarrow> (addr, nat) gomap \<Rightarrow> nat \<Rightarrow> bool" where
  "next_ok cur ch0 next ch \<longleftrightarrow> ch0 \<le> ch \<and> wf_map next \<and> distinct (mvals next) \<and>
     (\<forall>(k, c) \<in> set next. map_of cur k = Some c \<or> map_of cur k = None \<and> ch0 \<le> c \<and> c < ch)"

lemma values_inj: "distinct (mvals m) \<Longrightarrow> (k, c) \<in> set m \<Longrightarrow> (k', c) \<in> set m \<Longrightarrow> k = k'"
  using inj_onD [of snd "set m" "(k, c)" "(k', c)"] by (auto simp: mvals_def distinct_map)

lemma next_ok_add:
  assumes "next_ok cur ch0 next ch" and "map_of next k = None" and "distinct (mvals cur)"
    and "set (mvals cur) \<subseteq> {..< ch0}"
  shows "map_of cur k = Some c \<Longrightarrow> next_ok cur ch0 (next @ [(k, c)]) ch"
    and "map_of cur k = None \<Longrightarrow> next_ok cur ch0 (next @ [(k, ch)]) (Suc ch)"
proof -
  have k: "k \<notin> fst ` set next" using assms(2) by (simp add: map_of_eq_None_iff)
  {
    assume c: "map_of cur k = Some c"
    have "c' \<noteq> c" if "(k', c') \<in> set next" for k' c'
    proof
      assume e: "c' = c"
      have "c < ch0" using map_of_SomeD [OF c] assms(4) by (force simp: mvals_def)
      then have "map_of cur k' = Some c" using assms(1) that e by (auto simp: next_ok_def)
      then have "(k', c) \<in> set cur" "(k, c) \<in> set cur" using c by (auto dest: map_of_SomeD)
      then have "k' = k" using values_inj [OF assms(3)] by blast
      then show False using k that by force
    qed
    then have "c \<notin> snd ` set next" by (metis imageE prod.collapse)
    then show "next_ok cur ch0 (next @ [(k, c)]) ch"
      using assms(1) c k by (auto simp: next_ok_def wf_map_def mkeys_def mvals_def)
  }
  {
    assume n: "map_of cur k = None"
    have "c' < ch" if "(k', c') \<in> set next" for k' c'
    proof -
      have "map_of cur k' = Some c' \<or> c' < ch" using assms(1) that by (auto simp: next_ok_def)
      then show ?thesis using assms(1,4) by (force simp: next_ok_def mvals_def dest!: map_of_SomeD)
    qed
    then show "next_ok cur ch0 (next @ [(k, ch)]) (Suc ch)"
      using assms(1) n k by (fastforce simp: next_ok_def wf_map_def mkeys_def mvals_def)
  }
qed

lemma nextDestinations_char:
  assumes "next_ok cur ch0 next ch" and "distinct (mvals cur)" and "set (mvals cur) \<subseteq> {..< ch0}"
    and "mkeys next = order" and "nextDestinations cur addrs next order ch = (next', order', ch')"
  shows "next_ok cur ch0 next' ch' \<and> mkeys next' = order' \<and>
    order' = order @ filter (\<lambda>a. a \<notin> set order) (firsts addrs)"
  using assms(1,4,5)
proof (induction addrs arbitrary: "next" order ch)
  case (Cons x addrs)
  show ?case
  proof (cases x)
    case None
    then show ?thesis using Cons by simp
  next
    case (Some key)
    show ?thesis
    proof (cases "map_of next key")
      case (Some c)
      then have "key \<in> set order" using Cons.prems(2) map_of_in_mkeys [OF Some] by simp
      then have "filter (\<lambda>a. a \<notin> set order) (firsts (x # addrs)) = filter (\<lambda>a. a \<notin> set order) (firsts addrs)"
        using \<open>x = Some key\<close> by (auto intro: filter_cong)
      then show ?thesis using Cons.IH [OF Cons.prems(1,2)] Cons.prems(3) Some \<open>x = Some key\<close> by simp
    next
      case None
      then have nk: "key \<notin> set order" using Cons.prems(2) by (auto simp: map_of_eq_None_iff mkeys_def)
      then have f: "order @ filter (\<lambda>a. a \<notin> set order) (firsts (x # addrs)) =
          (order @ [key]) @ filter (\<lambda>a. a \<notin> set (order @ [key])) (firsts addrs)"
        using \<open>x = Some key\<close> by (auto intro: filter_cong)
      have mk: "mkeys (next @ [(key, c)]) = order @ [key]" for c
        using Cons.prems(2) by (simp add: mkeys_def)
      show ?thesis
      proof (cases "map_of cur key")
        case (Some c)
        then show ?thesis
          using Cons.IH [OF next_ok_add(1) [OF Cons.prems(1) None assms(2,3) Some] mk] Cons.prems(3)
            None \<open>x = Some key\<close> f by simp
      next
        case m: None
        then show ?thesis
          using Cons.IH [OF next_ok_add(2) [OF Cons.prems(1) None assms(2,3) m] mk] Cons.prems(3)
            None \<open>x = Some key\<close> f by simp
      qed
    qed
  qed
qed simp

text \<open>
  Replacing the destinations: the channels of the removed ones are closed, the channels of the new
  ones are open.
\<close>

lemma gone_iff:
  assumes "distinct (mvals d)" and "(a, c) \<in> set d"
  shows "c \<in> set (mvals (filter (\<lambda>(k, c). P k) d)) \<longleftrightarrow> P a"
proof -
  have "c \<in> set (mvals (filter (\<lambda>(k, c). P k) d)) \<longleftrightarrow> (\<exists>k. (k, c) \<in> set d \<and> P k)"
    by (auto simp: mvals_def image_iff)
  then show ?thesis using assms(2) values_inj [OF assms(1) assms(2)] by blast
qed

lemma live_replaced:
  assumes "tcp_inv p" and "set cl = set (mvals (filter (\<lambda>(k, c). P k) (tp_destinations p))) \<union> set (tp_closed p)"
  shows "filter (\<lambda>(a, c). c \<notin> set cl) (tp_conns p) = filter (\<lambda>(a, c). \<not> P a) (live p)"
proof -
  have d: "distinct (mvals (tp_destinations p))" and sub: "set (live p) \<subseteq> set (tp_destinations p)"
    using assms(1) by (auto simp: tcp_inv_def)
  have "filter (\<lambda>(a, c). c \<notin> set cl) (tp_conns p) =
      filter (\<lambda>(a, c). c \<notin> set (mvals (filter (\<lambda>(k, c). P k) (tp_destinations p)))) (live p)"
    by (auto simp: live_def assms(2) intro: filter_cong)
  also have "\<dots> = filter (\<lambda>(a, c). \<not> P a) (live p)"
    using sub gone_iff [OF d] by (intro filter_cong) auto
  finally show ?thesis .
qed

lemma new_channels_open:
  assumes "tcp_inv p" and "next_ok (tp_destinations p) (tp_channels p) nx ch" and "(a, c) \<in> set nx"
    and "set cl = set (mvals (filter (\<lambda>(k, c). P k) (tp_destinations p))) \<union> set (tp_closed p)" and "\<not> P a"
  shows "c < ch \<and> c \<notin> set cl"
proof -
  let ?d = "tp_destinations p" let ?n = "tp_channels p"
  have d: "distinct (mvals ?d)" "set (mvals ?d) \<subseteq> {..< ?n} - set (tp_closed p)" "set (tp_closed p) \<subseteq> {..< ?n}"
    using assms(1) by (auto simp: tcp_inv_def)
  have old: "c' < ?n" if "c' \<in> set cl" for c'
    using that d(2,3) unfolding assms(4) by (auto simp: mvals_def)
  have n: "?n \<le> ch" "map_of ?d a = Some c \<or> ?n \<le> c \<and> c < ch" using assms(2,3) by (auto simp: next_ok_def)
  show ?thesis
  proof (cases "map_of ?d a = Some c")
    case True
    then have m: "(a, c) \<in> set ?d" by (rule map_of_SomeD)
    then have "c \<in> set (mvals ?d)" by (force simp: mvals_def)
    then show ?thesis using d(2) n(1) gone_iff [OF d(1) m, of P] assms(5) unfolding assms(4) by auto
  next
    case False
    then show ?thesis using n(2) old [of c] by auto
  qed
qed

text \<open>
  New destinations: no panic, the invariant holds, and exactly the connections to addresses that
  are no longer listed are closed.
\<close>

definition replaced :: "addr option list \<Rightarrow> tcp_proxy \<Rightarrow> tcp_proxy \<Rightarrow> bool" where
  "replaced addrs p p' \<longleftrightarrow> tcp_inv p' \<and> tp_destinationOrder p' = firsts addrs \<and>
     live p' = filter (\<lambda>(a, c). Some a \<in> set addrs) (live p) \<and> tp_stopped p' = tp_stopped p"

lemma replaced_same:
  assumes "tcp_inv p" and "tp_destinationOrder p = firsts addrs" and "tp_channels p \<le> ch"
  shows "replaced addrs p (p\<lparr>tp_channels := ch\<rparr>)"
proof -
  have d: "wf_map (tp_destinations p)" "set (live p) \<subseteq> set (tp_destinations p)"
    "mkeys (tp_destinations p) = firsts addrs" using assms(1,2) by (auto simp: tcp_inv_def)
  have "Some a \<in> set addrs" if "(a, c) \<in> set (live p)" for a c
    using map_of_in_mkeys [of "tp_destinations p" a c] that d wf_map_mem [OF d(1)] by auto
  then have "filter (\<lambda>(a, c). Some a \<in> set addrs) (live p) = live p" by (auto simp: filter_id_conv)
  then show ?thesis
    using assms by (auto simp: replaced_def tcp_inv_def live_def)
qed

lemma replaced_new:
  assumes "tcp_inv p" and "next_ok (tp_destinations p) (tp_channels p) nx ch" and "mkeys nx = firsts addrs"
    and "set cl = set (mvals (filter (\<lambda>(k, c). Some k \<notin> set addrs) (tp_destinations p))) \<union> set (tp_closed p)"
    and "i \<le> length (firsts addrs) - 1"
  shows "replaced addrs p (p\<lparr>tp_destinations := nx, tp_destinationOrder := firsts addrs, tp_closed := cl,
    tp_channels := ch, tp_nextDestination := i\<rparr>)" (is "replaced _ _ ?p")
proof -
  let ?d = "tp_destinations p"
  have d: "wf_map ?d" "set (live p) \<subseteq> set ?d" "set (mvals ?d) \<subseteq> {..< tp_channels p}"
    "set (tp_closed p) \<subseteq> {..< tp_channels p}" using assms(1) by (auto simp: tcp_inv_def)
  have lv: "live ?p = filter (\<lambda>(a, c). Some a \<in> set addrs) (live p)"
    using live_replaced [OF assms(1,4)] by (simp add: live_def)
  have listed: "Some a \<in> set addrs" if "(a, c) \<in> set nx" for a c
    using arg_cong [OF assms(3), of set] that by (force simp: mkeys_def)
  have "(a, c) \<in> set nx" if "(a, c) \<in> set (live ?p)" for a c
  proof -
    have m: "(a, c) \<in> set ?d" "Some a \<in> set addrs" using that lv d(2) by auto
    then have "a \<in> set (mkeys nx)" using assms(3) by simp
    then obtain c' where c': "map_of nx a = Some c'" using mkeys_lookup [of a nx] by blast
    have "map_of ?d a = Some c" using wf_map_mem [OF d(1)] m(1) by blast
    then show ?thesis using assms(2) map_of_SomeD [OF c'] by (auto simp: next_ok_def)
  qed
  moreover have "c < ch \<and> c \<notin> set cl" if "(a, c) \<in> set nx" for a c
    using new_channels_open [OF assms(1,2) that assms(4)] listed [OF that] by simp
  moreover have "set cl \<subseteq> {..< ch}"
  proof -
    have "set cl \<subseteq> {..< tp_channels p}" unfolding assms(4) using d(3,4) by (auto simp: mvals_def)
    then show ?thesis using assms(2) by (auto simp: next_ok_def)
  qed
  ultimately show ?thesis
    using assms(2,3,5) lv by (auto simp: replaced_def tcp_inv_def next_ok_def mvals_def)
qed

lemma SetDestinations_ok:
  assumes "tcp_inv p"
  shows "\<exists>p'. SetDestinations addrs p = Some p' \<and> replaced addrs p p'"
proof -
  let ?d = "tp_destinations p" let ?n = "tp_channels p"
  obtain nx ord ch where n: "nextDestinations ?d addrs [] [] ?n = (nx, ord, ch)" by (metis prod_cases3)
  have dd: "distinct (mvals ?d)" "set (mvals ?d) \<subseteq> {..< ?n}" "set (mvals ?d) \<inter> set (tp_closed p) = {}"
    using assms by (auto simp: tcp_inv_def)
  have "next_ok ?d ?n [] ?n" by (simp add: next_ok_def wf_map_def mkeys_def mvals_def)
  from nextDestinations_char [OF this dd(1,2) _ n]
  have nx: "next_ok ?d ?n nx ch" "mkeys nx = firsts addrs" "ord = firsts addrs" by (simp_all add: mkeys_def)
  have key: "map_of nx a = None \<longleftrightarrow> Some a \<notin> set addrs" for a
    using map_of_mkeys_iff [of nx a] nx(2) by auto
  let ?gone = "mvals (filter (\<lambda>(k, c). Some k \<notin> set addrs) ?d)"
  have "distinct ?gone" using dd(1) by (simp add: mvals_def distinct_map_filter)
  moreover have "set ?gone \<inter> set (tp_closed p) = {}" using dd(3) by (auto simp: mvals_def)
  ultimately obtain cl where cl: "ofold (\<lambda>(k, c) closed. if Some k \<notin> set addrs then closeChannel c closed
      else Some closed) ?d (tp_closed p) = Some cl" "set cl = set ?gone \<union> set (tp_closed p)"
    using closeChannels [of "\<lambda>k. Some k \<notin> set addrs" ?d "tp_closed p"] by blast
  have i: "(if ord = [] then 0 else tp_nextDestination p mod length ord) \<le> length (firsts addrs) - 1"
    unfolding nx(3) by (cases "firsts addrs") (simp_all add: less_Suc_eq_le [symmetric])
  have ch: "?n \<le> ch" using nx(1) by (simp add: next_ok_def)
  show ?thesis
  proof (cases "tp_destinationOrder p = ord")
    case True
    then show ?thesis using replaced_same [OF assms _ ch, of addrs] n nx(3) by (simp add: SetDestinations_def)
  next
    case False
    then show ?thesis
      using replaced_new [OF assms nx(1,2) cl(2) i] n cl(1) unfolding nx(3)
      by (simp add: SetDestinations_def key)
  qed
qed

section \<open>Connections\<close>

lemma nth_nextDestination:
  assumes "tcp_inv p" and "tp_destinationOrder p \<noteq> []"
  shows "tp_nextDestination p < length (tp_destinationOrder p)"
  using assms by (cases "tp_destinationOrder p") (auto simp: tcp_inv_def)

lemma destination_ok:
  assumes "tcp_inv p" and "tp_destinationOrder p \<noteq> []"
  shows "\<exists>c. destination p = Some (Some (tp_destinationOrder p ! tp_nextDestination p, c),
      p\<lparr>tp_nextDestination := Suc (tp_nextDestination p) mod length (tp_destinationOrder p)\<rparr>) \<and>
    (tp_destinationOrder p ! tp_nextDestination p, c) \<in> set (tp_destinations p)"
proof -
  let ?k = "tp_destinationOrder p ! tp_nextDestination p"
  have "?k \<in> set (mkeys (tp_destinations p))"
    using nth_nextDestination [OF assms] assms(1) by (simp add: tcp_inv_def)
  then obtain c where "map_of (tp_destinations p) ?k = Some c" using mkeys_lookup by metis
  then show ?thesis
    using assms(2) nth_nextDestination [OF assms] by (auto simp: destination_def Let_def dest: map_of_SomeD)
qed

lemma tcp_inv_next: "tcp_inv p \<Longrightarrow> tp_destinationOrder p \<noteq> [] \<Longrightarrow>
    tcp_inv (p\<lparr>tp_nextDestination := i mod length (tp_destinationOrder p)\<rparr>)"
  by (auto simp: tcp_inv_def live_def less_Suc_eq_le [symmetric])

lemma tcp_inv_conn: "tcp_inv p \<Longrightarrow> d \<in> set (tp_destinations p) \<Longrightarrow> tcp_inv (p\<lparr>tp_conns := d # tp_conns p\<rparr>)"
  by (auto simp: tcp_inv_def live_def)

lemma proxyConn_ok:
  assumes "tcp_inv p"
  shows "\<exists>p'. proxyConn dialed p = Some p' \<and> tcp_inv p' \<and> tp_destinationOrder p' = tp_destinationOrder p \<and>
    (\<forall>x \<in> set (live p'). x \<in> set (live p) \<or> fst x \<in> set (tp_destinationOrder p))"
proof (cases "tp_destinationOrder p = []")
  case True
  then show ?thesis using assms by (simp add: proxyConn_def destination_def)
next
  case False
  from destination_ok [OF assms False] obtain c where
    d: "destination p = Some (Some (tp_destinationOrder p ! tp_nextDestination p, c),
      p\<lparr>tp_nextDestination := Suc (tp_nextDestination p) mod length (tp_destinationOrder p)\<rparr>)"
    "(tp_destinationOrder p ! tp_nextDestination p, c) \<in> set (tp_destinations p)" by blast
  note i = tcp_inv_next [OF assms False, of "Suc (tp_nextDestination p)"]
  show ?thesis
    using d i tcp_inv_conn [OF i] nth_nextDestination [OF assms False]
    by (cases dialed) (auto simp: proxyConn_def live_def)
qed

lemma StopProxy_ok:
  assumes "tcp_inv p" and "\<not> tp_stopped p"
  shows "\<exists>p'. StopProxy p = Some p' \<and> tcp_inv p' \<and> live p' = [] \<and> tp_stopped p'"
proof -
  let ?d = "tp_destinations p"
  have d: "distinct (mvals ?d)" "set (mvals ?d) \<inter> set (tp_closed p) = {}" "set (live p) \<subseteq> set ?d"
    "set (mvals ?d) \<subseteq> {..< tp_channels p}" "set (tp_closed p) \<subseteq> {..< tp_channels p}"
    using assms(1) by (auto simp: tcp_inv_def)
  obtain cl where cl: "ofold (\<lambda>(k, c). closeChannel c) ?d (tp_closed p) = Some cl"
    "set cl = set (mvals ?d) \<union> set (tp_closed p)"
    using closeChannels [of "\<lambda>_. True" ?d "tp_closed p"] d(1,2) by (auto simp: case_prod_unfold)
  let ?p = "p\<lparr>tp_stopped := True, tp_closed := cl, tp_destinations := [], tp_destinationOrder := [],
    tp_nextDestination := 0\<rparr>"
  have "filter (\<lambda>(a, c). c \<notin> set cl) (tp_conns p) = filter (\<lambda>(a, c). \<not> True) (live p)"
    using cl(2) by (intro live_replaced [OF assms(1)]) (simp add: case_prod_unfold)
  then have l: "live ?p = []" by (simp add: live_def)
  moreover have "set cl \<subseteq> {..< tp_channels p}" using cl(2) d(4,5) by simp
  then have "tcp_inv ?p" using l by (simp add: tcp_inv_def wf_map_def mkeys_def mvals_def)
  ultimately show ?thesis using cl(1) assms(2) by (simp add: StopProxy_def)
qed

section \<open>Runs of the proxy\<close>

datatype tcp_event = Accepted bool | Retargeted "addr option list" | Ended "addr \<times> nat"

definition tcp_step :: "tcp_event \<Rightarrow> tcp_proxy \<Rightarrow> tcp_proxy option" where
  "tcp_step ev p =
     (case ev of
        Accepted dialed \<Rightarrow> proxyConn dialed p
      | Retargeted addrs \<Rightarrow> SetDestinations addrs p
      | Ended d \<Rightarrow> Some (p\<lparr>tp_conns := remove1 d (tp_conns p)\<rparr>))"

lemma tcp_step_ok: "tcp_inv p \<Longrightarrow> \<exists>p'. tcp_step ev p = Some p' \<and> tcp_inv p'"
proof (cases ev)
  case (Ended d)
  moreover assume i: "tcp_inv p"
  have "set (live (p\<lparr>tp_conns := remove1 d (tp_conns p)\<rparr>)) \<subseteq> set (live p)"
    using set_remove1_subset [of d "tp_conns p"] by (auto simp: live_def)
  then have "tcp_inv (p\<lparr>tp_conns := remove1 d (tp_conns p)\<rparr>)" using i by (auto simp: tcp_inv_def)
  ultimately show ?thesis by (simp add: tcp_step_def)
qed (use proxyConn_ok SetDestinations_ok in \<open>fastforce simp: tcp_step_def replaced_def\<close>)+

lemma tcp_run_ok: "tcp_inv p \<Longrightarrow> \<exists>p'. ofold tcp_step evs p = Some p' \<and> tcp_inv p'"
  using ofold_invariant [of evs tcp_inv tcp_step p] tcp_step_ok by blast

section \<open>What the proxy promises\<close>

text \<open>
  Seen from outside: a list of destinations and a collection of connections. New destinations close
  exactly the connections to other addresses, a client is connected to one of the destinations.
\<close>

type_synonym routes = "addr list \<times> addr multiset"

inductive route_step :: "tcp_event \<Rightarrow> routes \<Rightarrow> routes \<Rightarrow> bool" where
  retarget: "route_step (Retargeted addrs) (ds, cs) (firsts addrs, filter_mset (\<lambda>a. Some a \<in> set addrs) cs)"
| connect: "a \<in> set ds \<Longrightarrow> route_step (Accepted True) (ds, cs) (ds, add_mset a cs)"
| refuse: "ds = [] \<or> \<not> dialed \<Longrightarrow> route_step (Accepted dialed) (ds, cs) (ds, cs)"
| end_conn: "route_step (Ended (a, c)) (ds, cs) (ds, cs - {#a#})"
| end_closed: "route_step (Ended d) (ds, cs) (ds, cs)"

definition routes_of :: "tcp_proxy \<Rightarrow> routes" where
  "routes_of p = (tp_destinationOrder p, mset (map fst (live p)))"

lemma routes_retarget: "replaced addrs p p' \<Longrightarrow> route_step (Retargeted addrs) (routes_of p) (routes_of p')"
  using route_step.retarget [of addrs "tp_destinationOrder p" "mset (map fst (live p))"]
  by (simp add: replaced_def routes_of_def image_mset_filter_mset_swap [symmetric] case_prod_unfold)

lemma routes_accept:
  assumes "tcp_inv p" and "proxyConn dialed p = Some p'"
  shows "route_step (Accepted dialed) (routes_of p) (routes_of p')"
proof (cases "tp_destinationOrder p = []")
  case True
  then show ?thesis
    using assms(2) by (auto simp: proxyConn_def destination_def routes_of_def intro: route_step.refuse)
next
  case False
  from destination_ok [OF assms(1) False] obtain c where
    d: "destination p = Some (Some (tp_destinationOrder p ! tp_nextDestination p, c),
      p\<lparr>tp_nextDestination := Suc (tp_nextDestination p) mod length (tp_destinationOrder p)\<rparr>)"
    "(tp_destinationOrder p ! tp_nextDestination p, c) \<in> set (tp_destinations p)" by blast
  then have c: "c \<notin> set (tp_closed p)" using assms(1) by (force simp: tcp_inv_def mvals_def)
  let ?a = "tp_destinationOrder p ! tp_nextDestination p"
  have "?a \<in> set (tp_destinationOrder p)" using nth_nextDestination [OF assms(1) False] by simp
  then have "route_step (Accepted True) (routes_of p) (tp_destinationOrder p, add_mset ?a (mset (map fst (live p))))"
    unfolding routes_of_def by (rule route_step.connect)
  moreover have "route_step (Accepted False) (routes_of p) (tp_destinationOrder p, mset (map fst (live p)))"
    unfolding routes_of_def by (rule route_step.refuse) simp
  moreover have "routes_of p' = (tp_destinationOrder p,
      if dialed then add_mset ?a (mset (map fst (live p))) else mset (map fst (live p)))"
    using assms(2) d c by (auto simp: proxyConn_def routes_of_def live_def)
  ultimately show ?thesis by (cases dialed) simp_all
qed

lemma routes_end: "route_step (Ended d) (routes_of p) (routes_of (p\<lparr>tp_conns := remove1 d (tp_conns p)\<rparr>))"
proof -
  obtain a c where d: "d = (a, c)" by (cases d)
  let ?P = "\<lambda>(a, c). c \<notin> set (tp_closed p)"
  have "filter ?P (remove1 d (tp_conns p)) = (if ?P d \<and> d \<in> set (tp_conns p) then remove1 d (live p) else live p)"
    by (auto simp: live_def filter_remove1 remove1_idem)
  then show ?thesis
    using route_step.end_conn [of a c] route_step.end_closed [of d] d
    by (auto simp: routes_of_def live_def mset_remove1 image_mset_Diff)
qed



text \<open>The destinations given to successive clients.\<close>

fun choices :: "nat \<Rightarrow> tcp_proxy \<Rightarrow> addr list" where
  "choices 0 p = []"
| "choices (Suc n) p =
     (case destination p of Some (Some (a, c), p') \<Rightarrow> a # choices n p' | _ \<Rightarrow> [])"

lemma choices_nth:
  assumes "tcp_inv p" and "tp_destinationOrder p \<noteq> []"
  shows "choices k p = map (\<lambda>i. tp_destinationOrder p ! ((tp_nextDestination p + i) mod length (tp_destinationOrder p))) [0..<k]"
  using assms
proof (induction k arbitrary: p)
  case (Suc k)
  let ?o = "tp_destinationOrder p" let ?i = "tp_nextDestination p"
  let ?p = "p\<lparr>tp_nextDestination := Suc ?i mod length ?o\<rparr>"
  obtain c where d: "destination p = Some (Some (?o ! ?i, c), ?p)"
    using destination_ok [OF Suc.prems] by blast
  have "choices k ?p = map (\<lambda>i. ?o ! ((?i + Suc i) mod length ?o)) [0..<k]"
    using Suc.IH [OF tcp_inv_next [OF Suc.prems, of "Suc ?i"]] Suc.prems(2) by (simp add: mod_simps)
  moreover have "[0..<Suc k] = 0 # map Suc [0..<k]" by (simp add: map_Suc_upt upt_conv_Cons del: upt_Suc)
  ultimately show ?case
    using d nth_nextDestination [OF Suc.prems] by (simp add: comp_def del: upt_Suc)
qed simp

text \<open>
  The choice of destinations is fair: as many successive clients as there are destinations get
  each destination exactly once, in the order of the list.
\<close>

lemma destination_round_robin:
  assumes "tcp_inv p"
  shows "choices (length (tp_destinationOrder p)) p = rotate (tp_nextDestination p) (tp_destinationOrder p)"
proof (cases "tp_destinationOrder p = []")
  case False
  show ?thesis
    unfolding choices_nth [OF assms False]
    by (rule nth_equalityI) (simp_all add: nth_rotate)
qed simp

end
