(* ===== verification/Proxy.thy ===== *)
theory Proxy
  imports Tcp_Proxy Store Cluster_Spec
begin

text \<open>
  The proxy component (\<open>internal/runtime/proxy\<close>, \<open>internal/utils/readonly\<close>): the check that aligns
  its listeners with the cluster data, and the loop around it. What the check learns from outside
  is a record of answers: of the context, the store, the resolver and the operating system. Errors
  are the cause that the code wraps. The listeners hold the TCP proxies of \<open>Tcp_Proxy\<close>; \<open>None\<close> is a
  panic. The cluster data always has a proxy object, and every database has a specification.
\<close>

section \<open>Configuration\<close>

datatype proxy_mode = proxyModeWritable | proxyModeReadOnly

definition proxyModeName :: "proxy_mode \<Rightarrow> string" where
  "proxyModeName m = (case m of proxyModeWritable \<Rightarrow> ''writable'' | proxyModeReadOnly \<Rightarrow> ''read-only'')"

datatype replica_priority =
  ReplicaPrioritySync | ReplicaPriorityAsync | ReplicaPriorityAny | ReplicaPriorityOther string

record read_only_options =
  ro_ListenAddress :: string
  ro_Port :: string
  ro_ReplicaPriority :: replica_priority
  ro_MaxLag :: u64
  ro_NoFallback :: bool
  ro_IncludePrimary :: bool

record writable_options =
  wo_ListenAddress :: string
  wo_Port :: string
  wo_DisableListener :: bool

definition readOnlyListenAddress :: "writable_options \<Rightarrow> read_only_options \<Rightarrow> string" where
  "readOnlyListenAddress wo ro =
     (if ro_ListenAddress ro = [] then wo_ListenAddress wo else ro_ListenAddress ro)"

definition validateProxyListeners :: "writable_options \<Rightarrow> read_only_options \<Rightarrow> (bool \<times> bool) res" where
  "validateProxyListeners wo ro =
     (let writableEnabled = (\<not> wo_DisableListener wo);
          readOnlyEnabled = (ro_Port ro \<noteq> [])
      in if \<not> writableEnabled \<and> \<not> readOnlyEnabled
         then Inl (Err ''at least one proxy listener must be enabled'')
         else if \<not> writableEnabled then Inr (False, readOnlyEnabled)
         else if \<not> readOnlyEnabled then Inr (writableEnabled, False)
         else if wo_ListenAddress wo = readOnlyListenAddress wo ro \<and> wo_Port wo = ro_Port ro
         then Inl (Err ''writable and read-only proxy listeners cannot use the same address and port'')
         else Inr (writableEnabled, readOnlyEnabled))"

section \<open>Listeners\<close>

record proxy_listener =
  pl_tcpProxy :: "tcp_proxy option"
  pl_mode :: proxy_mode
  pl_listenAddress :: string
  pl_port :: string

definition startListener :: "unit res \<Rightarrow> proxy_listener \<Rightarrow> proxy_listener res" where
  "startListener listening l =
     (if pl_tcpProxy l \<noteq> None then Inr l
      else case listening of Inl err \<Rightarrow> Inl err | Inr _ \<Rightarrow> Inr (l\<lparr>pl_tcpProxy := Some NewProxy\<rparr>))"

definition stopListener :: "proxy_listener \<Rightarrow> proxy_listener option" where
  "stopListener l =
     (case pl_tcpProxy l of
        None \<Rightarrow> Some l
      | Some p \<Rightarrow> do { _ \<leftarrow> StopProxy p; Some (l\<lparr>pl_tcpProxy := None\<rparr>) })"

definition setListenerDestinations :: "addr option list \<Rightarrow> proxy_listener \<Rightarrow> proxy_listener option" where
  "setListenerDestinations addrs l =
     (case pl_tcpProxy l of
        None \<Rightarrow> Some l
      | Some p \<Rightarrow> do { p' \<leftarrow> SetDestinations addrs p; Some (l\<lparr>pl_tcpProxy := Some p'\<rparr>) })"

definition setListenerDestination :: "addr option \<Rightarrow> proxy_listener \<Rightarrow> proxy_listener option" where
  "setListenerDestination addr l = setListenerDestinations [addr] l"

definition isActive :: "proxy_listener \<Rightarrow> bool" where
  "isActive l \<longleftrightarrow> pl_tcpProxy l \<noteq> None"

section \<open>The checker\<close>

record cluster_checker =
  cc_writable :: "proxy_listener option"
  cc_readOnly :: "proxy_listener option"
  cc_uid :: uid
  cc_lastWritableDestination :: string
  cc_lastReadOnlyDestinations :: string
  cc_readOnlyOptions :: read_only_options
  cc_proxyCheckInterval :: duration
  cc_proxyTimeout :: duration
  cc_stopListening :: bool
  cc_lastCheckSuccessUnixNano :: int

text \<open>The last argument says whether the store could be opened.\<close>

definition NewClusterChecker ::
  "uid \<Rightarrow> writable_options \<Rightarrow> read_only_options \<Rightarrow> bool \<Rightarrow> unit res \<Rightarrow> cluster_checker res" where
  "NewClusterChecker u wo ro stopListening clusterStore =
     (case validateProxyListeners wo ro of
        Inl err \<Rightarrow> Inl err
      | Inr (writableEnabled, readOnlyEnabled) \<Rightarrow> (case clusterStore of Inl err \<Rightarrow> Inl err | Inr _ \<Rightarrow> Inr
          \<lparr>cc_writable = (if writableEnabled then Some \<lparr>pl_tcpProxy = None, pl_mode = proxyModeWritable,
             pl_listenAddress = wo_ListenAddress wo, pl_port = wo_Port wo\<rparr> else None),
           cc_readOnly = (if readOnlyEnabled then Some \<lparr>pl_tcpProxy = None, pl_mode = proxyModeReadOnly,
             pl_listenAddress = readOnlyListenAddress wo ro, pl_port = ro_Port ro\<rparr> else None),
           cc_uid = u, cc_lastWritableDestination = [], cc_lastReadOnlyDestinations = [],
           cc_readOnlyOptions = ro, cc_proxyCheckInterval = DefaultProxyCheckInterval,
           cc_proxyTimeout = DefaultProxyTimeout, cc_stopListening = stopListening,
           cc_lastCheckSuccessUnixNano = 0\<rparr>))"

definition updateRuntimeConfig :: "duration \<Rightarrow> duration \<Rightarrow> cluster_checker \<Rightarrow> cluster_checker" where
  "updateRuntimeConfig checkInterval timeout c =
     c\<lparr>cc_proxyCheckInterval := checkInterval, cc_proxyTimeout := timeout\<rparr>"

definition setWritableDestination :: "addr option \<Rightarrow> cluster_checker \<Rightarrow> cluster_checker option" where
  "setWritableDestination addr c =
     (case cc_writable c of
        None \<Rightarrow> Some c
      | Some l \<Rightarrow> do {
          l' \<leftarrow> setListenerDestination addr l;
          Some (c\<lparr>cc_lastWritableDestination := (case addr of None \<Rightarrow> [] | Some a \<Rightarrow> a),
                  cc_writable := Some l'\<rparr>)
        })"

definition setReadOnlyDestinations :: "addr option list \<Rightarrow> cluster_checker \<Rightarrow> cluster_checker option" where
  "setReadOnlyDestinations addrs c =
     (case cc_readOnly c of
        None \<Rightarrow> Some c
      | Some l \<Rightarrow> do {
          l' \<leftarrow> setListenerDestinations addrs l;
          let keys = sort (List.map_filter id addrs);
          Some (c\<lparr>cc_lastReadOnlyDestinations := JoinStr '','' keys, cc_readOnly := Some l'\<rparr>)
        })"

definition clearDestinations :: "cluster_checker \<Rightarrow> cluster_checker option" where
  "clearDestinations c = do { c' \<leftarrow> setWritableDestination None c; setReadOnlyDestinations [] c' }"

section \<open>Read-only destinations\<close>

record proxy_destination =
  pd_addr :: addr
  pd_dbUID :: uid
  pd_lag :: u64

type_synonym resolver = "string \<Rightarrow> string \<Rightarrow> addr res"

definition SelectPriority :: "replica_priority \<Rightarrow> 'a list \<Rightarrow> 'a list \<Rightarrow> 'a list" where
  "SelectPriority priority syncStandbys asyncStandbys =
     (case priority of
        ReplicaPriorityAny \<Rightarrow> syncStandbys @ asyncStandbys
      | ReplicaPriorityAsync \<Rightarrow> if asyncStandbys \<noteq> [] then asyncStandbys else syncStandbys
      | _ \<Rightarrow> if syncStandbys \<noteq> [] then syncStandbys else asyncStandbys)"

definition XLogLag :: "u64 \<Rightarrow> u64 \<Rightarrow> u64" where
  "XLogLag primaryXLogPos standbyXLogPos =
     (if primaryXLogPos > standbyXLogPos then primaryXLogPos - standbyXLogPos else 0)"

definition DBStatusEligible :: "db \<Rightarrow> bool" where
  "DBStatusEligible d \<longleftrightarrow> dst_Healthy (db_Status d) \<and>
     dst_CurrentGeneration (db_Status d) = db_Generation d \<and>
     dst_ListenAddress (db_Status d) \<noteq> [] \<and> dst_Port (db_Status d) \<noteq> []"

definition readOnlyDestinationFromDB :: "resolver \<Rightarrow> db \<Rightarrow> u64 \<Rightarrow> proxy_destination option" where
  "readOnlyDestinationFromDB resolve d lag =
     (case resolve (dst_ListenAddress (db_Status d)) (dst_Port (db_Status d)) of
        Inl err \<Rightarrow> None
      | Inr a \<Rightarrow> Some \<lparr>pd_addr = a, pd_dbUID = db_UID d, pd_lag = lag\<rparr>)"

text \<open>What one turn of the loop over the databases finds in one of them.\<close>

definition standbyCandidate :: "resolver \<Rightarrow> read_only_options \<Rightarrow> db \<Rightarrow> db \<Rightarrow> proxy_destination option" where
  "standbyCandidate resolve ro primary d =
     (if db_UID d = db_UID primary then None
      else if dbs_Role (db_Spec d) \<noteq> RoleStandby \<or> \<not> DBStatusEligible d then None
      else (let lag = XLogLag (dst_XLogPos (db_Status primary)) (dst_XLogPos (db_Status d)) in
        if lag > ro_MaxLag ro then None else readOnlyDestinationFromDB resolve d lag))"

fun standbyCandidates ::
  "resolver \<Rightarrow> read_only_options \<Rightarrow> dbs \<Rightarrow> db \<Rightarrow> uid list \<Rightarrow>
     proxy_destination list \<times> proxy_destination list \<Rightarrow> proxy_destination list \<times> proxy_destination list" where
  "standbyCandidates resolve ro ds primary [] acc = acc"
| "standbyCandidates resolve ro ds primary (dbUID # dbUIDs) acc =
     standbyCandidates resolve ro ds primary dbUIDs
       (case map_of ds dbUID \<bind> standbyCandidate resolve ro primary of
          None \<Rightarrow> acc
        | Some dest \<Rightarrow>
            if pd_dbUID dest \<in> set (els (dst_SynchronousStandbys (db_Status primary)))
            then (fst acc @ [dest], snd acc) else (fst acc, snd acc @ [dest]))"

definition readOnlyStandbyCandidates ::
  "resolver \<Rightarrow> read_only_options \<Rightarrow> cluster_data \<Rightarrow> db \<Rightarrow> proxy_destination list \<times> proxy_destination list" where
  "readOnlyStandbyCandidates resolve ro cd primary =
     standbyCandidates resolve ro (cd_DBs cd) primary (sort (mkeys (cd_DBs cd))) ([], [])"

definition readOnlyDestinations ::
  "resolver \<Rightarrow> cluster_checker \<Rightarrow> cluster_data \<Rightarrow> db \<Rightarrow> addr list" where
  "readOnlyDestinations resolve c cd primary =
     (if cc_readOnly c = None then []
      else
        (let ro = cc_readOnlyOptions c;
             (syncStandbys, asyncStandbys) = readOnlyStandbyCandidates resolve ro cd primary;
             selected = SelectPriority (ro_ReplicaPriority ro) syncStandbys asyncStandbys;
             primaryDest = (case readOnlyDestinationFromDB resolve primary 0 of
               None \<Rightarrow> [] | Some dest \<Rightarrow> [dest]);
             selected1 = (if ro_IncludePrimary ro then selected @ primaryDest else selected);
             selected2 = (if selected1 = [] \<and> \<not> ro_NoFallback ro then primaryDest else selected1)
         in map pd_addr selected2))"

section \<open>The check\<close>

text \<open>The answers a check gets from outside.\<close>

record proxy_world =
  pw_ctxErr :: "go_error option"
  pw_GetClusterData :: "cluster_data option res"
  pw_listen :: "proxy_mode \<Rightarrow> unit res"
  pw_resolve :: resolver
  pw_SetProxyInfo :: "proxy_info \<Rightarrow> duration \<Rightarrow> unit res"
  pw_infoUID :: uid
  pw_hostname :: string
  pw_nodeName :: string

definition listenerInfo :: "proxy_listener option \<Rightarrow> proxy_mode \<Rightarrow> proxy_listener_info list" where
  "listenerInfo l mode =
     (case l of
        None \<Rightarrow> []
      | Some l \<Rightarrow> [\<lparr>pli_Mode = proxyModeName mode, pli_Address = pl_listenAddress l, pli_Port = pl_port l,
                   pli_Active = isActive l\<rparr>])"

definition proxyInfoOf :: "proxy_world \<Rightarrow> int \<Rightarrow> duration \<Rightarrow> cluster_checker \<Rightarrow> proxy_info" where
  "proxyInfoOf w generation timeout c =
     \<lparr>pi_InfoUID = pw_infoUID w, pi_UID = cc_uid c, pi_Hostname = pw_hostname w, pi_NodeName = pw_nodeName w,
      pi_Listeners = Some (listenerInfo (cc_writable c) proxyModeWritable @
        listenerInfo (cc_readOnly c) proxyModeReadOnly),
      pi_Generation = generation, pi_ProxyTimeout = timeout\<rparr>"

text \<open>
  Publishing the proxy info, only done with a writable listener. The result carries the published
  infos, each with the checker at that moment.
\<close>

type_synonym published = "(proxy_info \<times> cluster_checker) list"

definition publishProxyInfo :: "proxy_world \<Rightarrow> int \<Rightarrow> duration \<Rightarrow> cluster_checker \<Rightarrow> published res" where
  "publishProxyInfo w generation timeout c =
     (if cc_writable c = None then Inr []
      else
        (let pi = proxyInfoOf w generation timeout c in
         case pw_SetProxyInfo w pi (i64 (2 * timeout)) of Inl err \<Rightarrow> Inl err | Inr _ \<Rightarrow> Inr [(pi, c)]))"

definition checkClusterData ::
  "proxy_world \<Rightarrow> cluster_data option \<Rightarrow> cluster_checker \<Rightarrow> (unit res \<times> cluster_checker \<times> published) option" where
  "checkClusterData w cdo c =
     (case cdo of
        None \<Rightarrow> do { c' \<leftarrow> clearDestinations c; Some (Inr (), c', []) }
      | Some cd \<Rightarrow>
          if cd_FormatVersion cd \<noteq> CurrentCDFormatVersion
          then do { c' \<leftarrow> clearDestinations c; Some (Inl (Err ''unsupported clusterdata format version''), c', []) }
          else case Validate (cl_Spec (cd_Cluster cd)) of
              Inl err \<Rightarrow> do { c' \<leftarrow> clearDestinations c; Some (Inl err, c', []) }
            | Inr _ \<Rightarrow>
                (let spec = DefSpec (cd_Cluster cd);
                     checkInterval = the (cs_ProxyCheckInterval spec);
                     cdTimeout = the (cs_ProxyTimeout spec);
                     timeout = max (cc_proxyTimeout c) cdTimeout;
                     p = cd_Proxy cd
                 in case map_of (cd_DBs cd) (pxs_MasterDBUID (px_Spec p)) of
                      None \<Rightarrow> do {
                        c' \<leftarrow> clearDestinations c;
                        Some (case publishProxyInfo w (px_Generation p) timeout c' of
                            Inl err \<Rightarrow> (Inr (), c', [])
                          | Inr pub \<Rightarrow> (Inr (), updateRuntimeConfig checkInterval cdTimeout c', pub))
                      }
                    | Some d \<Rightarrow>
                        (case pw_resolve w (dst_ListenAddress (db_Status d)) (dst_Port (db_Status d)) of
                           Inl err \<Rightarrow> do { c' \<leftarrow> clearDestinations c; Some (Inr (), c', []) }
                         | Inr addr \<Rightarrow>
                             (case publishProxyInfo w (px_Generation p) timeout c of
                                Inl err \<Rightarrow> Some (Inl err, c, [])
                              | Inr pub \<Rightarrow> do {
                                  let c1 = updateRuntimeConfig checkInterval cdTimeout c;
                                  c2 \<leftarrow> setWritableDestination
                                    (if cc_uid c \<in> set (els (pxs_EnabledProxies (px_Spec p)))
                                     then Some addr else None) c1;
                                  c3 \<leftarrow> setReadOnlyDestinations
                                    (map Some (readOnlyDestinations (pw_resolve w) c2 cd d)) c2;
                                  Some (Inr (), c3, pub)
                                }))))"

definition startOptional :: "unit res \<Rightarrow> proxy_listener option \<Rightarrow> proxy_listener option res" where
  "startOptional listening l =
     (case l of
        None \<Rightarrow> Inr None
      | Some l \<Rightarrow> (case startListener listening l of Inl err \<Rightarrow> Inl err | Inr l' \<Rightarrow> Inr (Some l')))"

definition Check :: "proxy_world \<Rightarrow> cluster_checker \<Rightarrow> (unit res \<times> cluster_checker \<times> published) option" where
  "Check w c =
     (case pw_ctxErr w of
        Some err \<Rightarrow> Some (Inl err, c, [])
      | None \<Rightarrow>
          (case pw_GetClusterData w of
             Inl err \<Rightarrow> Some (Inl err, c, [])
           | Inr cdo \<Rightarrow>
               (case startOptional (pw_listen w proxyModeWritable) (cc_writable c) of
                  Inl err \<Rightarrow> Some (Inl err, c, [])
                | Inr wl \<Rightarrow>
                    (let c1 = c\<lparr>cc_writable := wl\<rparr> in
                     case startOptional (pw_listen w proxyModeReadOnly) (cc_readOnly c1) of
                       Inl err \<Rightarrow> Some (Inl err, c1, [])
                     | Inr rl \<Rightarrow> checkClusterData w cdo (c1\<lparr>cc_readOnly := rl\<rparr>)))))"

section \<open>The loop\<close>

definition DeadlineExceeded :: go_error where
  "DeadlineExceeded = Err ''context deadline exceeded''"

definition Canceled :: go_error where
  "Canceled = Err ''context canceled''"

definition stopOptional :: "proxy_listener option \<Rightarrow> proxy_listener option option" where
  "stopOptional l = (case l of None \<Rightarrow> Some None | Some l \<Rightarrow> map_option Some (stopListener l))"

definition closeAll :: "cluster_checker \<Rightarrow> cluster_checker option" where
  "closeAll c = do {
     c1 \<leftarrow> clearDestinations c;
     if cc_stopListening c1 then do {
       wl \<leftarrow> stopOptional (cc_writable c1);
       rl \<leftarrow> stopOptional (cc_readOnly c1);
       Some (c1\<lparr>cc_writable := wl, cc_readOnly := rl\<rparr>)
     }
     else Some c1
   }"

text \<open>What the loop does when its timer fires.\<close>

definition tick :: "time \<Rightarrow> proxy_world \<Rightarrow> cluster_checker \<Rightarrow> (cluster_checker \<times> published) option" where
  "tick t w c = do {
     (r, c1, pub) \<leftarrow> Check w c;
     case r of
       Inl err \<Rightarrow>
         if err = DeadlineExceeded \<or> err = Canceled then do { c2 \<leftarrow> closeAll c1; Some (c2, pub) }
         else Some (c1, pub)
     | Inr _ \<Rightarrow> Some (c1\<lparr>cc_lastCheckSuccessUnixNano := t\<rparr>, pub)
   }"

text \<open>
  What reaches a running proxy, in the order it happens: the end of its context, a timer with the
  answers the check will get, the end of a listener, and a client that connects to a listener. A
  listener that is not configured has no channel and no clients. The loop has returned when the
  result is there.
\<close>

datatype loop_event =
  CtxDone | TimerFired time proxy_world | ListenerEnd proxy_mode "go_error option" | ClientConn proxy_mode bool

definition acceptClient :: "bool \<Rightarrow> proxy_listener option \<Rightarrow> proxy_listener option option" where
  "acceptClient dialed l =
     (case l of
        None \<Rightarrow> Some None
      | Some l' \<Rightarrow> (case pl_tcpProxy l' of
          None \<Rightarrow> Some l
        | Some p \<Rightarrow> map_option (\<lambda>p'. Some (l'\<lparr>pl_tcpProxy := Some p'\<rparr>)) (proxyConn dialed p)))"

definition listenerOf :: "proxy_mode \<Rightarrow> cluster_checker \<Rightarrow> proxy_listener option" where
  "listenerOf mode c = (case mode of proxyModeWritable \<Rightarrow> cc_writable c | proxyModeReadOnly \<Rightarrow> cc_readOnly c)"

fun Start :: "loop_event list \<Rightarrow> cluster_checker \<Rightarrow> (unit res option \<times> cluster_checker) option" where
  "Start [] c = Some (None, c)"
| "Start (CtxDone # es) c = do { c' \<leftarrow> closeAll c; Some (Some (Inr ()), c') }"
| "Start (TimerFired t w # es) c = do { (c', pub) \<leftarrow> tick t w c; Start es c' }"
| "Start (ListenerEnd mode e # es) c =
     (case e of
        Some err \<Rightarrow> if listenerOf mode c = None then Start es c else Some (Some (Inl err), c)
      | None \<Rightarrow> Start es c)"
| "Start (ClientConn proxyModeWritable dialed # es) c = do {
     l \<leftarrow> acceptClient dialed (cc_writable c); Start es (c\<lparr>cc_writable := l\<rparr>) }"
| "Start (ClientConn proxyModeReadOnly dialed # es) c = do {
     l \<leftarrow> acceptClient dialed (cc_readOnly c); Start es (c\<lparr>cc_readOnly := l\<rparr>) }"

section \<open>Probes\<close>

definition proxyProbeStartup :: "cluster_checker \<Rightarrow> unit res" where
  "proxyProbeStartup c = guard (cc_lastCheckSuccessUnixNano c \<le> 0) (Err ''proxy startup is not complete yet'')"

definition proxyProbeReady :: "cluster_checker \<Rightarrow> unit res" where
  "proxyProbeReady c = first_err
     [guard (cc_lastCheckSuccessUnixNano c \<le> 0) (Err ''proxy startup is not complete yet''),
      (case cc_writable c of
         None \<Rightarrow> Inr ()
       | Some l \<Rightarrow> guard (cc_lastWritableDestination c = [] \<or> \<not> isActive l)
           (Err ''proxy has no writable route''))]"

end
