(* ===== verification/Proxy_Safety.thy ===== *)
theory Proxy_Safety
  imports Proxy Samples
begin

text \<open>
  What the proxy guarantees: its connections go where the cluster data it read says, they are closed
  before it reports that it was directed nowhere, and read-only clients are sent to eligible
  standbys.
\<close>

section \<open>Listeners\<close>

definition listener_ok :: "proxy_listener option \<Rightarrow> bool" where
  "listener_ok l \<longleftrightarrow> (\<forall>l' p. l = Some l' \<longrightarrow> pl_tcpProxy l' = Some p \<longrightarrow> tcp_inv p \<and> \<not> tp_stopped p)"

text \<open>The addresses of the open connections.\<close>

definition connected :: "proxy_listener option \<Rightarrow> addr list" where
  "connected l = (case l of
     None \<Rightarrow> [] | Some l \<Rightarrow> (case pl_tcpProxy l of None \<Rightarrow> [] | Some p \<Rightarrow> map fst (live p)))"

text \<open>The addresses a new connection may be sent to.\<close>

definition offered :: "proxy_listener option \<Rightarrow> addr list" where
  "offered l = (case l of
     None \<Rightarrow> [] | Some l \<Rightarrow> (case pl_tcpProxy l of None \<Rightarrow> [] | Some p \<Rightarrow> tp_destinationOrder p))"

definition checker_inv :: "cluster_checker \<Rightarrow> bool" where
  "checker_inv c \<longleftrightarrow> listener_ok (cc_writable c) \<and> listener_ok (cc_readOnly c)"

lemma startOptional_ok:
  assumes "startOptional r l = Inr l'" and "listener_ok l"
  shows "listener_ok l' \<and> connected l' = connected l \<and> offered l' = offered l \<and> (l' = None \<longleftrightarrow> l = None)"
  using assms NewProxy_inv
  by (auto simp: startOptional_def startListener_def listener_ok_def connected_def offered_def NewProxy_def live_def
      split: option.splits sum.splits if_splits)

lemma map_fst_filter: "map fst (filter (\<lambda>(a, c). P a) xs) = filter P (map fst xs)"
  by (induction xs) auto

lemma setListenerDestinations_ok:
  assumes "listener_ok (Some l)"
  shows "\<exists>l'. setListenerDestinations addrs l = Some l' \<and> listener_ok (Some l') \<and>
    connected (Some l') = filter (\<lambda>a. Some a \<in> set addrs) (connected (Some l)) \<and>
    set (offered (Some l')) \<subseteq> {a. Some a \<in> set addrs}"
proof (cases "pl_tcpProxy l")
  case None
  then show ?thesis using assms by (simp add: setListenerDestinations_def connected_def offered_def)
next
  case (Some p)
  then obtain p' where p': "SetDestinations addrs p = Some p'" "replaced addrs p p'"
    using SetDestinations_ok assms unfolding listener_ok_def by blast
  then show ?thesis
    using assms Some map_fst_filter [of "\<lambda>a. Some a \<in> set addrs" "live p"]
    by (auto simp: setListenerDestinations_def connected_def offered_def listener_ok_def replaced_def)
qed

text \<open>The fields a change of destinations keeps.\<close>

definition same_config :: "cluster_checker \<Rightarrow> cluster_checker \<Rightarrow> bool" where
  "same_config c c' \<longleftrightarrow> cc_uid c' = cc_uid c \<and> cc_readOnlyOptions c' = cc_readOnlyOptions c \<and>
     cc_stopListening c' = cc_stopListening c \<and> cc_proxyTimeout c' = cc_proxyTimeout c \<and>
     (cc_writable c' = None \<longleftrightarrow> cc_writable c = None) \<and> (cc_readOnly c' = None \<longleftrightarrow> cc_readOnly c = None)"

lemma setWritableDestination_ok:
  assumes "checker_inv c"
  shows "\<exists>c'. setWritableDestination a c = Some c' \<and> checker_inv c' \<and> same_config c c' \<and>
    connected (cc_writable c') = filter (\<lambda>b. Some b = a) (connected (cc_writable c)) \<and>
    set (offered (cc_writable c')) \<subseteq> {b. Some b = a} \<and> cc_readOnly c' = cc_readOnly c"
proof (cases "cc_writable c")
  case None
  then show ?thesis
    using assms by (simp add: setWritableDestination_def connected_def offered_def same_config_def)
next
  case (Some l)
  then obtain l' where "setListenerDestinations [a] l = Some l'" "listener_ok (Some l')"
    "connected (Some l') = filter (\<lambda>b. Some b \<in> set [a]) (connected (Some l))"
    "set (offered (Some l')) \<subseteq> {b. Some b = a}"
    using setListenerDestinations_ok [of l "[a]"] assms by (auto simp: checker_inv_def)
  then show ?thesis
    using assms Some
    by (simp add: setWritableDestination_def setListenerDestination_def checker_inv_def same_config_def)
qed

lemma setReadOnlyDestinations_ok:
  assumes "checker_inv c"
  shows "\<exists>c'. setReadOnlyDestinations addrs c = Some c' \<and> checker_inv c' \<and> same_config c c' \<and>
    connected (cc_readOnly c') = filter (\<lambda>a. Some a \<in> set addrs) (connected (cc_readOnly c)) \<and>
    set (offered (cc_readOnly c')) \<subseteq> {a. Some a \<in> set addrs} \<and> cc_writable c' = cc_writable c"
proof (cases "cc_readOnly c")
  case None
  then show ?thesis
    using assms by (simp add: setReadOnlyDestinations_def connected_def offered_def same_config_def)
next
  case (Some l)
  then obtain l' where "setListenerDestinations addrs l = Some l'" "listener_ok (Some l')"
    "connected (Some l') = filter (\<lambda>a. Some a \<in> set addrs) (connected (Some l))"
    "set (offered (Some l')) \<subseteq> {a. Some a \<in> set addrs}"
    using setListenerDestinations_ok [of l addrs] assms by (auto simp: checker_inv_def)
  then show ?thesis
    using assms Some by (simp add: setReadOnlyDestinations_def checker_inv_def same_config_def Let_def)
qed

definition silent :: "cluster_checker \<Rightarrow> bool" where
  "silent c \<longleftrightarrow> connected (cc_writable c) = [] \<and> connected (cc_readOnly c) = [] \<and>
     offered (cc_writable c) = [] \<and> offered (cc_readOnly c) = []"

lemma clearDestinations_ok:
  assumes "checker_inv c"
  shows "\<exists>c'. clearDestinations c = Some c' \<and> checker_inv c' \<and> same_config c c' \<and> silent c'"
proof -
  obtain c1 where 1: "setWritableDestination None c = Some c1" "checker_inv c1" "same_config c c1"
    "connected (cc_writable c1) = []" "offered (cc_writable c1) = []"
    using setWritableDestination_ok [OF assms, of None] by auto
  obtain c2 where 2: "setReadOnlyDestinations [] c1 = Some c2" "checker_inv c2" "same_config c1 c2"
    "connected (cc_readOnly c2) = []" "offered (cc_readOnly c2) = []" "cc_writable c2 = cc_writable c1"
    using setReadOnlyDestinations_ok [OF 1(2), of "[]"] by auto
  then show ?thesis using 1 by (simp add: clearDestinations_def silent_def same_config_def)
qed

lemma stopOptional_ok:
  assumes "listener_ok l"
  shows "\<exists>l'. stopOptional l = Some l' \<and> listener_ok l' \<and> connected l' = [] \<and> offered l' = []"
proof (cases l)
  case (Some x)
  show ?thesis
  proof (cases "pl_tcpProxy x")
    case None
    then show ?thesis
      using assms Some by (simp add: stopOptional_def stopListener_def connected_def offered_def)
  next
    case p: (Some p)
    obtain p' where "StopProxy p = Some p'" using StopProxy_ok [of p] assms Some p by (auto simp: listener_ok_def)
    then show ?thesis
      using Some p by (simp add: stopOptional_def stopListener_def connected_def offered_def listener_ok_def)
  qed
qed (simp add: stopOptional_def connected_def offered_def listener_ok_def)

lemma closeAll_ok:
  assumes "checker_inv c"
  shows "\<exists>c'. closeAll c = Some c' \<and> checker_inv c' \<and> silent c'"
proof -
  obtain c1 where 1: "clearDestinations c = Some c1" "checker_inv c1" "silent c1"
    using clearDestinations_ok [OF assms] by blast
  obtain wl rl where "stopOptional (cc_writable c1) = Some wl" "listener_ok wl" "connected wl = []" "offered wl = []"
    "stopOptional (cc_readOnly c1) = Some rl" "listener_ok rl" "connected rl = []" "offered rl = []"
    using stopOptional_ok 1(2) unfolding checker_inv_def by metis
  then show ?thesis using 1 by (simp add: closeAll_def checker_inv_def silent_def)
qed

section \<open>Read-only destinations\<close>

text \<open>A database read-only clients may be sent to: the primary, or a healthy standby that is close enough to it.\<close>

definition readable :: "read_only_options \<Rightarrow> cluster_data \<Rightarrow> db \<Rightarrow> db \<Rightarrow> bool" where
  "readable ro cd primary d \<longleftrightarrow> d = primary \<or>
     d \<in> set (mvals (cd_DBs cd)) \<and> db_UID d \<noteq> db_UID primary \<and> dbs_Role (db_Spec d) = RoleStandby \<and>
     DBStatusEligible d \<and> XLogLag (dst_XLogPos (db_Status primary)) (dst_XLogPos (db_Status d)) \<le> ro_MaxLag ro"

definition reaches :: "resolver \<Rightarrow> (db \<Rightarrow> bool) \<Rightarrow> addr \<Rightarrow> bool" where
  "reaches resolve P a \<longleftrightarrow>
     (\<exists>d. P d \<and> resolve (dst_ListenAddress (db_Status d)) (dst_Port (db_Status d)) = Inr a)"

lemma standbyCandidate_ok:
  assumes "map_of (cd_DBs cd) u \<bind> standbyCandidate resolve ro primary = Some x"
  shows "reaches resolve (readable ro cd primary) (pd_addr x)"
proof -
  obtain d where d: "map_of (cd_DBs cd) u = Some d" "standbyCandidate resolve ro primary d = Some x"
    using assms by (auto simp: bind_eq_Some_conv)
  have "d \<in> set (mvals (cd_DBs cd))" using map_of_SomeD [OF d(1)] by (force simp: mvals_def)
  then have "readable ro cd primary d"
    using d(2) by (auto simp: standbyCandidate_def readable_def Let_def split: if_splits)
  moreover have "resolve (dst_ListenAddress (db_Status d)) (dst_Port (db_Status d)) = Inr (pd_addr x)"
    using d(2) by (auto simp: standbyCandidate_def readOnlyDestinationFromDB_def Let_def split: if_splits sum.splits)
  ultimately show ?thesis by (auto simp: reaches_def)
qed

lemma standbyCandidates_ok:
  assumes "\<forall>x \<in> set (fst acc) \<union> set (snd acc). reaches resolve (readable ro cd primary) (pd_addr x)"
    and "x \<in> set (fst (standbyCandidates resolve ro (cd_DBs cd) primary us acc)) \<union>
      set (snd (standbyCandidates resolve ro (cd_DBs cd) primary us acc))"
  shows "reaches resolve (readable ro cd primary) (pd_addr x)"
  using assms
proof (induction us arbitrary: acc)
  case (Cons u us)
  show ?case
  proof (rule Cons.IH)
    show "x \<in> set (fst (standbyCandidates resolve ro (cd_DBs cd) primary us
        (case map_of (cd_DBs cd) u \<bind> standbyCandidate resolve ro primary of None \<Rightarrow> acc
         | Some dest \<Rightarrow> if pd_dbUID dest \<in> set (els (dst_SynchronousStandbys (db_Status primary)))
            then (fst acc @ [dest], snd acc) else (fst acc, snd acc @ [dest])))) \<union>
      set (snd (standbyCandidates resolve ro (cd_DBs cd) primary us
        (case map_of (cd_DBs cd) u \<bind> standbyCandidate resolve ro primary of None \<Rightarrow> acc
         | Some dest \<Rightarrow> if pd_dbUID dest \<in> set (els (dst_SynchronousStandbys (db_Status primary)))
            then (fst acc @ [dest], snd acc) else (fst acc, snd acc @ [dest]))))"
      using Cons.prems(2) by simp
  qed (use Cons.prems(1) standbyCandidate_ok [of cd u resolve ro primary] in \<open>auto split: option.splits\<close>)
qed simp

lemma SelectPriority_subset: "set (SelectPriority pr a b) \<subseteq> set a \<union> set b"
  by (auto simp: SelectPriority_def split: replica_priority.splits if_splits)

lemma readOnlyDestinations_sound:
  assumes "a \<in> set (readOnlyDestinations resolve c cd primary)"
  shows "reaches resolve (readable (cc_readOnlyOptions c) cd primary) a"
proof -
  let ?ro = "cc_readOnlyOptions c"
  obtain sy asy where s: "readOnlyStandbyCandidates resolve ?ro cd primary = (sy, asy)" by fastforce
  have st: "reaches resolve (readable ?ro cd primary) (pd_addr x)"
    if "x \<in> set (SelectPriority (ro_ReplicaPriority ?ro) sy asy)" for x
    using that s standbyCandidates_ok [of "([], [])" resolve ?ro cd primary x "sort (mkeys (cd_DBs cd))"]
      SelectPriority_subset by (fastforce simp: readOnlyStandbyCandidates_def)
  have pr: "reaches resolve (readable ?ro cd primary) (pd_addr x)"
    if "readOnlyDestinationFromDB resolve primary 0 = Some x" for x
    using that by (auto simp: reaches_def readable_def readOnlyDestinationFromDB_def split: sum.splits)
  show ?thesis
    using assms s st pr
    by (auto simp: readOnlyDestinations_def Let_def split: if_splits option.splits)
qed

section \<open>The check\<close>

text \<open>Where writable clients may go according to the cluster data that was read.\<close>

definition writable_route :: "proxy_world \<Rightarrow> uid \<Rightarrow> cluster_data option \<Rightarrow> addr option" where
  "writable_route w u cdo =
     (case cdo of
        None \<Rightarrow> None
      | Some cd \<Rightarrow>
          if u \<notin> set (els (pxs_EnabledProxies (px_Spec (cd_Proxy cd)))) then None
          else (case map_of (cd_DBs cd) (pxs_MasterDBUID (px_Spec (cd_Proxy cd))) of
             None \<Rightarrow> None
           | Some d \<Rightarrow> (case pw_resolve w (dst_ListenAddress (db_Status d)) (dst_Port (db_Status d)) of
               Inl _ \<Rightarrow> None | Inr a \<Rightarrow> Some a)))"

text \<open>Where read-only clients may go: nowhere when the cluster data names no primary.\<close>

definition read_route :: "proxy_world \<Rightarrow> read_only_options \<Rightarrow> cluster_data option \<Rightarrow> addr \<Rightarrow> bool" where
  "read_route w ro cdo a \<longleftrightarrow>
     (case cdo of
        None \<Rightarrow> False
      | Some cd \<Rightarrow> (case map_of (cd_DBs cd) (pxs_MasterDBUID (px_Spec (cd_Proxy cd))) of
          None \<Rightarrow> False | Some d \<Rightarrow> reaches (pw_resolve w) (readable ro cd d) a))"

text \<open>
  The outcome of a check: it does not panic; when it succeeds, the connections of writable clients
  go to the route, old and new ones; and an info it published carries the generation of the cluster data, with all
  connections closed before if that data names no database.
\<close>

definition check_outcome ::
  "proxy_world \<Rightarrow> cluster_data option \<Rightarrow> cluster_checker \<Rightarrow> unit res \<times> cluster_checker \<times> published \<Rightarrow> bool" where
  "check_outcome w cdo c x \<longleftrightarrow> (case x of (r, c', pub) \<Rightarrow>
     checker_inv c' \<and> cc_uid c' = cc_uid c \<and>
     (r = Inr () \<longrightarrow> (\<forall>a \<in> set (connected (cc_writable c')) \<union> set (offered (cc_writable c')). Some a = writable_route w (cc_uid c) cdo) \<and>
        (\<forall>a \<in> set (connected (cc_readOnly c')) \<union> set (offered (cc_readOnly c')).
           read_route w (cc_readOnlyOptions c) cdo a)) \<and>
     (\<forall>(pi, cp) \<in> set pub. \<exists>cd. cdo = Some cd \<and> pi_Generation pi = px_Generation (cd_Proxy cd) \<and>
        pi_UID pi = cc_uid c \<and>
        (map_of (cd_DBs cd) (pxs_MasterDBUID (px_Spec (cd_Proxy cd))) = None \<longrightarrow> silent cp)))"

lemma publish_ok:
  "publishProxyInfo w g to c = Inr pub \<Longrightarrow> (pi, cp) \<in> set pub \<Longrightarrow>
     cp = c \<and> pi_Generation pi = g \<and> pi_UID pi = cc_uid c"
  by (auto simp: publishProxyInfo_def proxyInfoOf_def Let_def split: if_splits sum.splits)

lemma check_cleared:
  assumes "checker_inv c" and "\<And>c'. checker_inv c' \<Longrightarrow> same_config c c' \<Longrightarrow> silent c' \<Longrightarrow> P (f c')"
  shows "\<exists>x. (do { c' \<leftarrow> clearDestinations c; Some (f c') }) = Some x \<and> P x"
  using clearDestinations_ok [OF assms(1)] assms(2) by auto

lemma check_silent:
  "checker_inv c' \<Longrightarrow> same_config c c' \<Longrightarrow> silent c' \<Longrightarrow> check_outcome w cdo c (r, c', [])"
  by (simp add: check_outcome_def silent_def same_config_def)

lemma check_no_master:
  assumes "checker_inv c'" and "same_config c c'" and "silent c'"
    and "map_of (cd_DBs cd) (pxs_MasterDBUID (px_Spec (cd_Proxy cd))) = None"
  shows "check_outcome w (Some cd) c
    (case publishProxyInfo w (px_Generation (cd_Proxy cd)) to c' of
       Inl err \<Rightarrow> (Inr (), c', []) | Inr pub \<Rightarrow> (Inr (), updateRuntimeConfig i t c', pub))"
proof (cases "publishProxyInfo w (px_Generation (cd_Proxy cd)) to c'")
  case (Inr pub)
  have "pi_Generation pi = px_Generation (cd_Proxy cd) \<and> pi_UID pi = cc_uid c \<and> silent cp"
    if "(pi, cp) \<in> set pub" for pi cp
    using publish_ok [OF Inr that] assms(2,3) by (simp add: same_config_def)
  moreover have "checker_inv (updateRuntimeConfig i t c')"
    "connected (cc_writable (updateRuntimeConfig i t c')) = []" "connected (cc_readOnly (updateRuntimeConfig i t c')) = []"
    "offered (cc_writable (updateRuntimeConfig i t c')) = []" "offered (cc_readOnly (updateRuntimeConfig i t c')) = []"
    "cc_uid (updateRuntimeConfig i t c') = cc_uid c"
    using assms(1-3) by (simp_all add: updateRuntimeConfig_def checker_inv_def silent_def same_config_def)
  ultimately show ?thesis using Inr by (auto simp: check_outcome_def)
qed (use assms check_silent in simp)

lemma check_master:
  assumes "checker_inv c" and "map_of (cd_DBs cd) (pxs_MasterDBUID (px_Spec (cd_Proxy cd))) = Some d"
    and "pw_resolve w (dst_ListenAddress (db_Status d)) (dst_Port (db_Status d)) = Inr a"
    and "publishProxyInfo w (px_Generation (cd_Proxy cd)) to c = Inr pub"
  shows "\<exists>x. (do {
      c2 \<leftarrow> setWritableDestination (if cc_uid c \<in> set (els (pxs_EnabledProxies (px_Spec (cd_Proxy cd))))
        then Some a else None) (updateRuntimeConfig i t c);
      c3 \<leftarrow> setReadOnlyDestinations (map Some (readOnlyDestinations (pw_resolve w) c2 cd d)) c2;
      Some (Inr (), c3, pub) }) = Some x \<and> check_outcome w (Some cd) c x"
proof -
  let ?c1 = "updateRuntimeConfig i t c"
  let ?a = "if cc_uid c \<in> set (els (pxs_EnabledProxies (px_Spec (cd_Proxy cd)))) then Some a else None"
  have r: "writable_route w (cc_uid c) (Some cd) = ?a" using assms(2,3) by (simp add: writable_route_def)
  have "checker_inv ?c1" using assms(1) by (simp add: updateRuntimeConfig_def checker_inv_def)
  from setWritableDestination_ok [OF this, of ?a] obtain c2 where 2: "setWritableDestination ?a ?c1 = Some c2"
    "checker_inv c2" "same_config ?c1 c2"
    "connected (cc_writable c2) = filter (\<lambda>b. Some b = ?a) (connected (cc_writable ?c1))"
    "set (offered (cc_writable c2)) \<subseteq> {b. Some b = ?a}" by blast
  from setReadOnlyDestinations_ok [OF 2(2)] obtain c3 where
    3: "setReadOnlyDestinations (map Some (readOnlyDestinations (pw_resolve w) c2 cd d)) c2 = Some c3"
    "checker_inv c3" "same_config c2 c3" "cc_writable c3 = cc_writable c2"
    "connected (cc_readOnly c3) = filter (\<lambda>a. Some a \<in> set (map Some
       (readOnlyDestinations (pw_resolve w) c2 cd d))) (connected (cc_readOnly c2))"
    "set (offered (cc_readOnly c3)) \<subseteq> {a. Some a \<in> set (map Some
       (readOnlyDestinations (pw_resolve w) c2 cd d))}" by blast
  have cfg: "cc_readOnlyOptions c2 = cc_readOnlyOptions c" "cc_uid c3 = cc_uid c"
    using 2(3) 3(3) by (simp_all add: same_config_def updateRuntimeConfig_def)
  have "\<forall>b \<in> set (connected (cc_readOnly c3)) \<union> set (offered (cc_readOnly c3)).
      b \<in> set (readOnlyDestinations (pw_resolve w) c2 cd d)" using 3(5,6) by auto
  then have ro: "\<forall>b \<in> set (connected (cc_readOnly c3)) \<union> set (offered (cc_readOnly c3)).
      read_route w (cc_readOnlyOptions c) (Some cd) b"
    using readOnlyDestinations_sound [of _ "pw_resolve w" c2 cd d] assms(2) cfg(1) by (simp add: read_route_def)
  have wr: "\<forall>b \<in> set (connected (cc_writable c3)) \<union> set (offered (cc_writable c3)). Some b = ?a"
    using 2(4,5) 3(4) by auto
  have "\<forall>(pi, cp) \<in> set pub. pi_Generation pi = px_Generation (cd_Proxy cd) \<and> pi_UID pi = cc_uid c"
    using publish_ok [OF assms(4)] by blast
  then have "check_outcome w (Some cd) c (Inr (), c3, pub)"
    unfolding check_outcome_def prod.case r using 3(2) cfg(2) ro wr assms(2) by auto
  then show ?thesis using 2(1) 3(1) by simp
qed

lemma checkClusterData_ok:
  assumes "checker_inv c"
  shows "\<exists>x. checkClusterData w cdo c = Some x \<and> check_outcome w cdo c x"
proof (cases cdo)
  case None
  then show ?thesis
    using check_cleared [OF assms, of "check_outcome w None c" "\<lambda>c'. (Inr (), c', [])"] check_silent
    by (simp add: checkClusterData_def)
next
  case (Some cd)
  let ?to = "max (cc_proxyTimeout c) (the (cs_ProxyTimeout (DefSpec (cd_Cluster cd))))"
  let ?P = "check_outcome w (Some cd) c"
  consider (bad) "cd_FormatVersion cd \<noteq> CurrentCDFormatVersion"
    | (invalid) err where "cd_FormatVersion cd = CurrentCDFormatVersion" "Validate (cl_Spec (cd_Cluster cd)) = Inl err"
    | (ok) "cd_FormatVersion cd = CurrentCDFormatVersion" "Validate (cl_Spec (cd_Cluster cd)) = Inr ()"
    by (cases "Validate (cl_Spec (cd_Cluster cd))") auto
  then show ?thesis
  proof cases
    case ok
    show ?thesis
    proof (cases "map_of (cd_DBs cd) (pxs_MasterDBUID (px_Spec (cd_Proxy cd)))")
      case None
      then show ?thesis
        using check_cleared [OF assms, of ?P] check_no_master [OF _ _ _ None] ok Some
        by (simp add: checkClusterData_def Let_def)
    next
      case d: (Some d)
      show ?thesis
      proof (cases "pw_resolve w (dst_ListenAddress (db_Status d)) (dst_Port (db_Status d))")
        case (Inl err)
        then show ?thesis
          using check_cleared [OF assms, of ?P "\<lambda>c'. (Inr (), c', [])"] check_silent ok Some d
          by (simp add: checkClusterData_def Let_def)
      next
        case a: (Inr a)
        show ?thesis
          using check_master [OF assms d a, of ?to] assms ok Some d a
          by (cases "publishProxyInfo w (px_Generation (cd_Proxy cd)) ?to c")
            (auto simp: checkClusterData_def Let_def check_outcome_def)
      qed
    qed
  qed (use check_cleared [OF assms, of ?P] check_silent Some in \<open>simp add: checkClusterData_def\<close>)+
qed

lemma Check_outcome:
  assumes "checker_inv c" and "pw_ctxErr w = None" and "pw_GetClusterData w = Inr cdo"
  shows "\<exists>x. Check w c = Some x \<and> check_outcome w cdo c x"
proof (cases "startOptional (pw_listen w proxyModeWritable) (cc_writable c)")
  case (Inl err)
  then show ?thesis using assms by (simp add: Check_def check_outcome_def)
next
  case wl: (Inr wl)
  then have w: "listener_ok wl" using startOptional_ok [OF wl] assms(1) by (simp add: checker_inv_def)
  show ?thesis
  proof (cases "startOptional (pw_listen w proxyModeReadOnly) (cc_readOnly c)")
    case (Inl err)
    then show ?thesis using assms wl w by (simp add: Check_def check_outcome_def checker_inv_def)
  next
    case rl: (Inr rl)
    let ?c = "c\<lparr>cc_writable := wl, cc_readOnly := rl\<rparr>"
    have "checker_inv ?c" using w startOptional_ok [OF rl] assms(1) by (simp add: checker_inv_def)
    from checkClusterData_ok [OF this] show ?thesis
      using assms(2,3) wl rl by (auto simp: Check_def Let_def check_outcome_def)
  qed
qed

lemma Check_inv:
  assumes "checker_inv c"
  shows "\<exists>r c' pub. Check w c = Some (r, c', pub) \<and> checker_inv c'"
proof (cases "pw_ctxErr w")
  case None
  show ?thesis
  proof (cases "pw_GetClusterData w")
    case (Inr cdo)
    then show ?thesis using Check_outcome [OF assms None Inr] by (auto simp: check_outcome_def)
  qed (use assms None in \<open>simp add: Check_def\<close>)
qed (use assms in \<open>simp add: Check_def\<close>)

lemma published_fenced:
  assumes "checker_inv c" and "Check w c = Some (r, c', pub)" and "(pi, cp) \<in> set pub"
  shows "\<exists>cd. pw_GetClusterData w = Inr (Some cd) \<and> pi_UID pi = cc_uid c \<and>
    pi_Generation pi = px_Generation (cd_Proxy cd) \<and>
    (map_of (cd_DBs cd) (pxs_MasterDBUID (px_Spec (cd_Proxy cd))) = None \<longrightarrow> silent cp)"
proof -
  have n: "pw_ctxErr w = None" using assms(2,3) by (auto simp: Check_def split: option.splits)
  obtain cdo where g: "pw_GetClusterData w = Inr cdo"
    using assms(2,3) n by (cases "pw_GetClusterData w") (auto simp: Check_def)
  have "check_outcome w cdo c (r, c', pub)" using Check_outcome [OF assms(1) n g] assms(2) by simp
  then show ?thesis using assms(3) g by (auto simp: check_outcome_def)
qed

section \<open>The loop\<close>

lemma checker_inv_last [simp]: "checker_inv (c\<lparr>cc_lastCheckSuccessUnixNano := t\<rparr>) = checker_inv c"
  by (simp add: checker_inv_def)

lemma tick_inv:
  assumes "checker_inv c"
  shows "\<exists>c' pub. tick t w c = Some (c', pub) \<and> checker_inv c'"
proof -
  obtain r c1 pub where "Check w c = Some (r, c1, pub)" "checker_inv c1" using Check_inv [OF assms] by blast
  then show ?thesis using closeAll_ok [of c1] by (cases r) (auto simp: tick_def)
qed

lemma acceptClient_ok:
  assumes "listener_ok l"
  shows "\<exists>l'. acceptClient dialed l = Some l' \<and> listener_ok l' \<and> offered l' = offered l \<and>
    set (connected l') \<subseteq> set (connected l) \<union> set (offered l)"
proof (cases "l = None \<or> (\<exists>x. l = Some x \<and> pl_tcpProxy x = None)")
  case True
  then show ?thesis using assms by (auto simp: acceptClient_def)
next
  case False
  then obtain x p where l: "l = Some x" "pl_tcpProxy x = Some p" by auto
  then have p: "tcp_inv p" "\<not> tp_stopped p" using assms by (simp_all add: listener_ok_def)
  obtain p' where p': "proxyConn dialed p = Some p'" "tcp_inv p'" "tp_destinationOrder p' = tp_destinationOrder p"
    "\<forall>x \<in> set (live p'). x \<in> set (live p) \<or> fst x \<in> set (tp_destinationOrder p)"
    using proxyConn_ok [OF p(1)] by blast
  have "tp_stopped p' = tp_stopped p"
    using p'(1) by (auto simp: proxyConn_def destination_def Let_def split: if_splits bind_splits option.splits)
  then show ?thesis
    using l p p' by (force simp: acceptClient_def listener_ok_def connected_def offered_def)
qed

lemma Start_inv:
  "checker_inv c \<Longrightarrow> \<exists>r c'. Start es c = Some (r, c') \<and> checker_inv c' \<and> (r = Some (Inr ()) \<longrightarrow> silent c')"
proof (induction es c rule: Start.induct)
  case (2 es c)
  then show ?case using closeAll_ok by fastforce
next
  case (3 t w es c)
  obtain c' pub where "tick t w c = Some (c', pub)" "checker_inv c'" using tick_inv [OF 3(2)] by blast
  then show ?case using 3(1) by simp
next
  case (4 mode e es c)
  then show ?case by (auto split: option.splits)
next
  case (5 dialed es c)
  obtain l where "acceptClient dialed (cc_writable c) = Some l" "listener_ok l"
    using acceptClient_ok 5(2) unfolding checker_inv_def by blast
  then show ?case using 5 by (simp add: checker_inv_def)
next
  case (6 dialed es c)
  obtain l where "acceptClient dialed (cc_readOnly c) = Some l" "listener_ok l"
    using acceptClient_ok 6(2) unfolding checker_inv_def by blast
  then show ?case using 6 by (simp add: checker_inv_def)
qed simp

text \<open>Clients connect to the addresses that are offered.\<close>

definition is_client :: "loop_event \<Rightarrow> bool" where
  "is_client e \<longleftrightarrow> (case e of ClientConn _ _ \<Rightarrow> True | _ \<Rightarrow> False)"

lemma clients_routed:
  assumes "checker_inv c" and "list_all is_client es"
    and "set (connected (cc_writable c)) \<union> set (offered (cc_writable c)) \<subseteq> A"
    and "set (connected (cc_readOnly c)) \<union> set (offered (cc_readOnly c)) \<subseteq> B"
  shows "\<exists>c'. Start es c = Some (None, c') \<and>
    set (connected (cc_writable c')) \<subseteq> A \<and> set (connected (cc_readOnly c')) \<subseteq> B"
  using assms
proof (induction es c rule: Start.induct)
  case (5 dialed es c)
  obtain l where l: "acceptClient dialed (cc_writable c) = Some l" "listener_ok l"
    "offered l = offered (cc_writable c)"
    "set (connected l) \<subseteq> set (connected (cc_writable c)) \<union> set (offered (cc_writable c))"
    using acceptClient_ok 5(2) unfolding checker_inv_def by metis
  have "\<exists>c'. Start es (c\<lparr>cc_writable := l\<rparr>) = Some (None, c') \<and>
    set (connected (cc_writable c')) \<subseteq> A \<and> set (connected (cc_readOnly c')) \<subseteq> B"
    using 5 l by (intro 5(1)) (auto simp: checker_inv_def)
  then show ?case using l(1) by simp
next
  case (6 dialed es c)
  obtain l where l: "acceptClient dialed (cc_readOnly c) = Some l" "listener_ok l"
    "offered l = offered (cc_readOnly c)"
    "set (connected l) \<subseteq> set (connected (cc_readOnly c)) \<union> set (offered (cc_readOnly c))"
    using acceptClient_ok 6(2) unfolding checker_inv_def by metis
  have "\<exists>c'. Start es (c\<lparr>cc_readOnly := l\<rparr>) = Some (None, c') \<and>
    set (connected (cc_writable c')) \<subseteq> A \<and> set (connected (cc_readOnly c')) \<subseteq> B"
    using 6 l by (intro 6(1)) (auto simp: checker_inv_def)
  then show ?case using l(1) by simp
qed (auto simp: is_client_def)

lemma NewClusterChecker_inv: "NewClusterChecker u wo ro sl st = Inr c \<Longrightarrow> checker_inv c \<and> silent c"
  by (auto simp: NewClusterChecker_def checker_inv_def silent_def listener_ok_def connected_def offered_def
      split: sum.splits if_splits)

section \<open>Samples\<close>

definition at_port :: "string \<Rightarrow> db \<Rightarrow> db" where
  "at_port port d = d\<lparr>db_Status := (db_Status d)\<lparr>dst_ListenAddress := ''h'', dst_Port := port\<rparr>\<rparr>"

definition routed_cd :: "uid \<Rightarrow> cluster_data" where
  "routed_cd m = (let cd = sample_cd new_spec
       [(''d1'', at_port ''1'' (sample_master ''d1'' ''k1'' 100)),
        (''d2'', at_port ''2'' (sample_standby ''d2'' ''k2'' ''d1'' 90))]
     in cd\<lparr>cd_Proxy := (cd_Proxy cd)\<lparr>px_Spec := \<lparr>pxs_MasterDBUID = m, pxs_EnabledProxies = Some [''p1'']\<rparr>,
         px_Generation := 7\<rparr>\<rparr>)"

definition sample_world :: "cluster_data option res \<Rightarrow> proxy_world" where
  "sample_world r = \<lparr>pw_ctxErr = None, pw_GetClusterData = r, pw_listen = (\<lambda>_. Inr ()),
     pw_resolve = (\<lambda>h p. Inr (h @ '':'' @ p)), pw_SetProxyInfo = (\<lambda>_ _. Inr ()), pw_infoUID = ''i'',
     pw_hostname = ''h'', pw_nodeName = ''n''\<rparr>"

definition sample_checker :: "cluster_checker" where
  "sample_checker = (case NewClusterChecker ''p1''
       \<lparr>wo_ListenAddress = ''l'', wo_Port = ''1'', wo_DisableListener = False\<rparr>
       \<lparr>ro_ListenAddress = [], ro_Port = ''2'', ro_ReplicaPriority = ReplicaPriorityAny, ro_MaxLag = 20,
        ro_NoFallback = False, ro_IncludePrimary = False\<rparr> False (Inr ()) of Inr c \<Rightarrow> c)"

lemma sample_checker_inv: "checker_inv sample_checker"
  by (simp add: sample_checker_def NewClusterChecker_def validateProxyListeners_def Let_def
      readOnlyListenAddress_def checker_inv_def listener_ok_def)

definition sample_clients :: "loop_event list" where
  "sample_clients = [ClientConn proxyModeWritable True, ClientConn proxyModeReadOnly True,
     ClientConn proxyModeWritable False]"

section \<open>Properties\<close>

text \<open>
  C4. A check that reads the cluster data does not panic. If it succeeds, then whatever clients
  connect until the next check, every open connection of the writable listener goes to the address of
  the database the cluster data names as master, and only if it lists this proxy as enabled; every
  open connection of the read-only listener goes to that database or to a healthy standby within the
  lag limit. Connections opened before are included.
\<close>

theorem check_routes_clients:
  assumes "checker_inv c" and "pw_ctxErr w = None" and "pw_GetClusterData w = Inr cdo"
    and "list_all is_client es"
  shows "\<exists>r c1 pub c2. Check w c = Some (r, c1, pub) \<and> Start es c1 = Some (None, c2) \<and>
    (r = Inr () \<longrightarrow>
      (\<forall>a \<in> set (connected (cc_writable c2)). Some a = writable_route w (cc_uid c) cdo) \<and>
      (\<forall>a \<in> set (connected (cc_readOnly c2)). read_route w (cc_readOnlyOptions c) cdo a))"
proof -
  obtain r c1 pub where 1: "Check w c = Some (r, c1, pub)" "check_outcome w cdo c (r, c1, pub)"
    using Check_outcome [OF assms(1-3)] by (metis prod_cases3)
  then have inv: "checker_inv c1" by (simp add: check_outcome_def)
  let ?A = "set (connected (cc_writable c1)) \<union> set (offered (cc_writable c1))"
  let ?B = "set (connected (cc_readOnly c1)) \<union> set (offered (cc_readOnly c1))"
  obtain c2 where 2: "Start es c1 = Some (None, c2)" "set (connected (cc_writable c2)) \<subseteq> ?A"
    "set (connected (cc_readOnly c2)) \<subseteq> ?B"
    using clients_routed [OF inv assms(4), of ?A ?B] by blast
  have "r = Inr () \<longrightarrow> (\<forall>a \<in> ?A. Some a = writable_route w (cc_uid c) cdo) \<and>
      (\<forall>a \<in> ?B. read_route w (cc_readOnlyOptions c) cdo a)"
    using 1(2) by (simp add: check_outcome_def)
  then show ?thesis using 1(1) 2 by blast
qed

theorem check_routes_clients_witness:
  "\<exists>c1 pub c2. Check (sample_world (Inr (Some (routed_cd ''d1'')))) sample_checker = Some (Inr (), c1, pub) \<and>
     Start sample_clients c1 = Some (None, c2) \<and>
     connected (cc_writable c2) = [''h:1''] \<and> connected (cc_readOnly c2) = [''h:2''] \<and>
     Some ''h:1'' = writable_route (sample_world (Inr (Some (routed_cd ''d1'')))) ''p1'' (Some (routed_cd ''d1''))"
proof -
  let ?w = "sample_world (Inr (Some (routed_cd ''d1'')))"
  have u: "cc_uid sample_checker = ''p1''" by code_simp
  have ev: "map_option (\<lambda>(r, c1, pub). (r = Inr (), map_option (\<lambda>(r, c2). (connected (cc_writable c2),
      connected (cc_readOnly c2))) (Start sample_clients c1))) (Check ?w sample_checker) =
      Some (True, Some ([''h:1''], [''h:2'']))" by code_simp
  obtain r c1 pub c2 where c: "Check ?w sample_checker = Some (r, c1, pub)" "Start sample_clients c1 = Some (None, c2)"
    "r = Inr () \<longrightarrow> (\<forall>a \<in> set (connected (cc_writable c2)).
       Some a = writable_route ?w (cc_uid sample_checker) (Some (routed_cd ''d1'')))"
    using check_routes_clients [OF sample_checker_inv, of ?w "Some (routed_cd ''d1'')" sample_clients]
    by (auto simp: sample_world_def sample_clients_def is_client_def)
  then show ?thesis using ev u by auto
qed

text \<open>
  C26. When a check publishes the proxy info, the info carries the generation of the proxy object it
  read, and if that object names no existing database, no connection is open and none is accepted at
  that moment.
\<close>

theorem published_info_fenced:
  assumes "checker_inv c" and "Check w c = Some (r, c', pub)" and "(pi, cp) \<in> set pub"
  shows "\<exists>cd. pw_GetClusterData w = Inr (Some cd) \<and> pi_UID pi = cc_uid c \<and>
    pi_Generation pi = px_Generation (cd_Proxy cd) \<and>
    (map_of (cd_DBs cd) (pxs_MasterDBUID (px_Spec (cd_Proxy cd))) = None \<longrightarrow> silent cp)"
  by (rule published_fenced [OF assms])

theorem published_info_fenced_witness:
  "\<exists>c1 c' pub pi cp. Check (sample_world (Inr (Some (routed_cd ''d1'')))) sample_checker = Some (Inr (), c1, pub) \<and>
     Check (sample_world (Inr (Some (routed_cd [])))) c1 = Some (Inr (), c', [(pi, cp)]) \<and>
     pi_Generation pi = 7 \<and> silent cp"
proof -
  let ?w = "sample_world (Inr (Some (routed_cd ''d1'')))" let ?w' = "sample_world (Inr (Some (routed_cd [])))"
  have ev: "map_option (\<lambda>(r, c1, pub). (r = Inr (), map_option (\<lambda>(r, c2, pub). (r = Inr (), map (\<lambda>_. ()) pub))
      (Check ?w' c1))) (Check ?w sample_checker) = Some (True, Some (True, [()]))" by code_simp
  then obtain c1 pub c' pi cp where c: "Check ?w sample_checker = Some (Inr (), c1, pub)"
    "Check ?w' c1 = Some (Inr (), c', [(pi, cp)])" by auto
  have "checker_inv c1" using Check_inv [OF sample_checker_inv, of ?w] c(1) by simp
  from published_info_fenced [OF this c(2), of pi cp]
  have "pi_Generation pi = 7 \<and> silent cp"
    by (auto simp: sample_world_def routed_cd_def sample_defs Let_def)
  then show ?thesis using c by blast
qed

text \<open>
  C25. Whatever happens to a proxy, in whatever order, it does not panic, and when its loop ends because
  its context is done, every connection is closed and none is accepted.
\<close>

theorem proxy_run_safe:
  assumes "NewClusterChecker u wo ro stopListening clusterStore = Inr c"
  shows "\<exists>r c'. Start es c = Some (r, c') \<and> (r = Some (Inr ()) \<longrightarrow> silent c')"
  using Start_inv [of c es] NewClusterChecker_inv [OF assms] by blast

theorem proxy_run_safe_witness:
  "\<exists>c c'. NewClusterChecker ''p1'' \<lparr>wo_ListenAddress = ''l'', wo_Port = ''1'', wo_DisableListener = False\<rparr>
       \<lparr>ro_ListenAddress = [], ro_Port = [], ro_ReplicaPriority = ReplicaPriorityAny, ro_MaxLag = 20,
        ro_NoFallback = False, ro_IncludePrimary = False\<rparr> True (Inr ()) = Inr c \<and>
     Start [TimerFired 1 (sample_world (Inr (Some (routed_cd ''d1'')))), ClientConn proxyModeWritable True, CtxDone] c =
       Some (Some (Inr ()), c') \<and> silent c'"
proof -
  let ?n = "NewClusterChecker ''p1'' \<lparr>wo_ListenAddress = ''l'', wo_Port = ''1'', wo_DisableListener = False\<rparr>
       \<lparr>ro_ListenAddress = [], ro_Port = [], ro_ReplicaPriority = ReplicaPriorityAny, ro_MaxLag = 20,
        ro_NoFallback = False, ro_IncludePrimary = False\<rparr> True (Inr ())"
  let ?es = "[TimerFired 1 (sample_world (Inr (Some (routed_cd ''d1'')))), ClientConn proxyModeWritable True, CtxDone]"
  have ev: "map_sum id (\<lambda>c. map_option (\<lambda>(r, c'). r = Some (Inr ())) (Start ?es c)) ?n = Inr (Some True)" by code_simp
  then obtain c c' where c: "?n = Inr c" "Start ?es c = Some (Some (Inr ()), c')" by (cases ?n) auto
  then show ?thesis using proxy_run_safe [OF c(1), of ?es] by auto
qed



end
