(* ===== verification/Fencing.thy ===== *)
theory Fencing
  imports Proxy_Safety System
begin

text \<open>
  The sentinel and the proxies together: when the sentinel directs clients at a new master, every
  proxy it knows of had closed all its connections. The sentinel compares generations, so this rests
  on the generation of the proxy object determining the master it names, over the history of the
  cluster data.
\<close>

section \<open>Operator commands leave the proxy object alone\<close>

lemma operator_step_proxy: "operator_step cd cd' \<Longrightarrow> cd_Proxy cd' = cd_Proxy cd"
proof (induction rule: operator_step.induct)
  case (promote cd cd')
  then obtain r :: "cluster res" where "(case r of Inl err \<Rightarrow> Inl (Err ''cannot update cluster spec'')
      | Inr cl \<Rightarrow> Inr (Some (cd\<lparr>cd_Cluster := cl\<rparr>))) = Inr (Some cd')"
    by (auto simp: promoteChange_def Let_def bind_eq_Some_conv split: if_splits)
  then show ?case by (cases r) auto
next
  case (update "next" msg cd cd')
  then obtain r :: "cluster res" where "(case r of Inl err \<Rightarrow> Inl (Err ''cannot update cluster spec'')
      | Inr cl \<Rightarrow> Inr (Some (cd\<lparr>cd_Cluster := cl\<rparr>))) = Inr (Some cd')"
    by (cases "next (cl_Spec (cd_Cluster cd))") (auto simp: updateSpecChange_def bind_eq_Some_conv split: option.splits)
  then show ?case by (cases r) auto
qed (auto simp: pauseMutation_def resumeMutation_def switchMutation_def reinitMutation_def removeKeeperChange_def
    failKeeperChange_def forceFailoverChange_def forceFail_def Let_def split: if_splits option.splits)

section \<open>The history of the proxy object\<close>

abbreviation proxy_gen :: "cluster_data \<Rightarrow> int" where
  "proxy_gen cd \<equiv> px_Generation (cd_Proxy cd)"

text \<open>
  The documents the cluster data has been, the current one first. A document follows another by a
  pass of a sentinel, by an operator command, or by a change of the tracked state that leaves the
  proxy object alone.
\<close>

inductive history :: "cluster_data list \<Rightarrow> bool" where
  first: "cluster_inv cd \<Longrightarrow> history [cd]"
| pass: "history (cd # h) \<Longrightarrow> good_env e \<Longrightarrow> fresh_uids e cd \<Longrightarrow>
    cst_Phase (cl_Status (cd_Cluster cd)) = ClusterPhaseNormal \<Longrightarrow>
    updateCluster e pis cd s = Some (Inr cd', s') \<Longrightarrow> history (cd' # cd # h)"
| operated: "history (cd # h) \<Longrightarrow> operator_step cd cd' \<Longrightarrow> history (cd' # cd # h)"
| tracked: "history (cd # h) \<Longrightarrow> cluster_inv cd' \<Longrightarrow> px_Spec (cd_Proxy cd') = px_Spec (cd_Proxy cd) \<Longrightarrow>
    proxy_gen cd' = proxy_gen cd \<Longrightarrow> history (cd' # cd # h)"

inductive_cases history_pairE: "history (cd' # cd # h)"

lemma pass_proxy:
  assumes "cluster_inv cd" and "good_env e" and "fresh_uids e cd"
    and "cst_Phase (cl_Status (cd_Cluster cd)) = ClusterPhaseNormal"
    and "updateCluster e pis cd s = Some (Inr cd', s')"
  shows "cluster_inv cd' \<and>
    (proxy_gen cd' = proxy_gen cd \<and> proxy_master cd' = proxy_master cd \<or> proxy_gen cd' = inc (proxy_gen cd))"
proof (cases "PauseActive (cl_Status (cd_Cluster cd)) (now e)")
  case True
  then show ?thesis using paused_pass [OF assms(4) True] assms(1,5) by simp
next
  case False
  have "serving cd" using assms(1,4) by (simp add: cluster_inv_def)
  then obtain m where m: "map_of (cd_DBs cd) (master_of cd) = Some m" by (rule serving_master)
  note o = pass_outcome [OF assms(1-4) False assms(5) m]
  from o(3) show ?thesis
  proof
    assume "kept pis cd m cd'"
    then have "cd_Proxy cd' = cd_Proxy (updateProxies pis (master_of cd) cd)" by (simp add: kept_def)
    then show ?thesis using o(1) by (simp add: updateProxies_def Let_def)
  next
    assume "switched (removeOldKeepers (now e) cd cd) cd m cd'"
    then show ?thesis using o(1) by (auto simp: switched_def split: if_splits)
  qed
qed

lemma history_step:
  assumes "history h"
  shows "cluster_inv (hd h) \<and> (\<forall>cd cd' h'. h = cd' # cd # h' \<longrightarrow>
    proxy_gen cd' = proxy_gen cd \<and> proxy_master cd' = proxy_master cd \<or> proxy_gen cd' = inc (proxy_gen cd))"
  using assms
proof (induction rule: history.induct)
  case (pass cd h e pis s cd' s')
  then show ?case using pass_proxy [of cd e pis s cd' s'] by simp
next
  case (operated cd h cd')
  then show ?case using operator_step_inv [OF operated(2)] operator_step_proxy [OF operated(2)] by simp
qed auto

text \<open>Below the largest 64-bit number, generations only grow, and a new master means a new generation.\<close>

definition bounded :: "cluster_data \<Rightarrow> bool" where
  "bounded cd \<longleftrightarrow> 0 \<le> proxy_gen cd \<and> proxy_gen cd < 2 ^ 63 - 1"

lemma history_generation:
  assumes "history (cd # h)" and "\<forall>x \<in> set (cd # h). bounded x" and "d \<in> set h"
  shows "proxy_gen d < proxy_gen cd \<or> proxy_gen d = proxy_gen cd \<and> proxy_master d = proxy_master cd"
  using assms
proof (induction h arbitrary: cd)
  case (Cons c h)
  have st: "proxy_gen cd = proxy_gen c \<and> proxy_master cd = proxy_master c \<or> proxy_gen cd = inc (proxy_gen c)"
    using history_step [OF Cons.prems(1)] by blast
  have "bounded c" using Cons.prems(2) by simp
  then have i: "inc (proxy_gen c) = proxy_gen c + 1" by (simp add: bounded_def inc_def i64_id is_i64_def)
  have "history (c # h)" using Cons.prems(1) by (auto elim: history_pairE)
  then have "d = c \<or> proxy_gen d < proxy_gen c \<or> proxy_gen d = proxy_gen c \<and> proxy_master d = proxy_master c"
    using Cons.IH [of c] Cons.prems(2,3) by auto
  then show ?case using st i by auto
qed simp

section \<open>Fencing\<close>

text \<open>
  A proxy info that comes from a check of the proxy that read a document of the history, together
  with the state of the proxy when it was published.
\<close>

definition reported :: "cluster_data list \<Rightarrow> proxy_info \<Rightarrow> cluster_checker \<Rightarrow> bool" where
  "reported h pi cp \<longleftrightarrow> (\<exists>w c r c' pub. checker_inv c \<and> Check w c = Some (r, c', pub) \<and> (pi, cp) \<in> set pub \<and>
     (\<forall>cd. pw_GetClusterData w = Inr (Some cd) \<longrightarrow> cd \<in> set h))"

lemma reported_silent:
  assumes "history (cd # h)" and "\<forall>x \<in> set (cd # h). bounded x \<and> map_of (cd_DBs x) [] = None"
    and "reported (cd # h) pi cp" and "pi_Generation pi = proxy_gen cd" and "proxy_master cd = []"
  shows "silent cp"
proof -
  from assms(3) obtain w c r c' pub where c: "checker_inv c" "Check w c = Some (r, c', pub)" "(pi, cp) \<in> set pub"
    and g: "\<forall>d. pw_GetClusterData w = Inr (Some d) \<longrightarrow> d \<in> set (cd # h)"
    unfolding reported_def by (elim exE conjE) (rule that)
  from published_fenced [OF c] obtain d where d: "pw_GetClusterData w = Inr (Some d)"
    "pi_Generation pi = proxy_gen d" "map_of (cd_DBs d) (proxy_master d) = None \<longrightarrow> silent cp"
    by (elim exE conjE) (rule that)
  have m: "d \<in> set (cd # h)" using g d(1) by simp
  have b: "\<forall>x \<in> set (cd # h). bounded x" using assms(2) by simp
  have "proxy_master d = proxy_master cd"
  proof (cases "d \<in> set h")
    case True
    then show ?thesis using history_generation [OF assms(1) b True] d(2) assms(4) by simp
  qed (use m in simp)
  moreover have "map_of (cd_DBs d) [] = None" using assms(2) m by blast
  ultimately show ?thesis using d(3) assms(5) by simp
qed

text \<open>
  C3. When a sentinel pass directs clients at a master again, every active proxy had, when it
  published the info the sentinel acts on, closed all its connections and stopped offering any
  destination: no client is still connected to an old master through a proxy the sentinel knows of.
\<close>

theorem no_stale_connections:
  assumes "history (cd # h)" and "\<forall>x \<in> set (cd # h). bounded x \<and> map_of (cd_DBs x) [] = None"
    and "good_env e" and "fresh_uids e cd" and "cst_Phase (cl_Status (cd_Cluster cd)) = ClusterPhaseNormal"
    and "updateCluster e pis cd s = Some (Inr cd', s')"
    and "proxy_master cd = []" and "proxy_master cd' \<noteq> []"
    and "\<forall>(u, pi) \<in> set pis. reported (cd # h) pi (state u)"
  shows "\<forall>(u, pi) \<in> set pis. silent (state u)"
proof (intro ballI, clarify)
  fix u pi
  assume u: "(u, pi) \<in> set pis"
  have "cluster_inv cd" using history_step [OF assms(1)] by simp
  from pass_fencing [OF this assms(3-8)] have "pi_Generation pi = proxy_gen cd"
    using u by (force simp: mvals_def)
  moreover have "reported (cd # h) pi (state u)" using assms(9) u by blast
  ultimately show "silent (state u)" using reported_silent [OF assms(1,2)] assms(7) by blast
qed

theorem no_stale_connections_witness:
  "\<exists>c1 c' pi cp cd' s'.
     Start [TimerFired 1 (sample_world (Inr (Some (routed_cd ''d1'')))), ClientConn proxyModeWritable True]
       sample_checker = Some (None, c1) \<and> connected (cc_writable c1) = [''h:1''] \<and>
     Check (sample_world (Inr (Some (sample_cd new_spec three_dbs)))) c1 = Some (Inr (), c', [(pi, cp)]) \<and>
     updateCluster sample_env [(''p1'', pi)] (sample_cd new_spec three_dbs) sample_sentinel = Some (Inr cd', s') \<and>
     proxy_master cd' = ''d1'' \<and> silent cp"
proof -
  let ?cd = "sample_cd new_spec three_dbs" let ?w = "sample_world (Inr (Some ?cd))"
  let ?es = "[TimerFired 1 (sample_world (Inr (Some (routed_cd ''d1'')))), ClientConn proxyModeWritable True]"
  have ev: "map_option (\<lambda>(r, c1). (r = None, connected (cc_writable c1), map_option (\<lambda>(r, c', pub).
      (r = Inr (), map (\<lambda>(pi, cp). pass_result (\<lambda>cd. proxy_master cd)
        (updateCluster sample_env [(''p1'', pi)] ?cd sample_sentinel)) pub)) (Check ?w c1)))
      (Start ?es sample_checker) = Some (True, [''h:1''], Some (True, [Some ''d1'']))" by code_simp
  then obtain c1 c' pi cp where c: "Start ?es sample_checker = Some (None, c1)" "connected (cc_writable c1) = [''h:1'']"
    "Check ?w c1 = Some (Inr (), c', [(pi, cp)])" "pass_result (\<lambda>cd. proxy_master cd)
      (updateCluster sample_env [(''p1'', pi)] ?cd sample_sentinel) = Some ''d1''" by auto
  from pass_resultD [OF c(4)] obtain cd' s' where u: "proxy_master cd' = ''d1''"
    "updateCluster sample_env [(''p1'', pi)] ?cd sample_sentinel = Some (Inr cd', s')" by blast
  have "checker_inv c1" using Start_inv [OF sample_checker_inv, of ?es] c(1) by simp
  then have "reported [?cd] pi cp"
    unfolding reported_def using c(3) by (intro exI [of _ ?w] exI [of _ c1] exI [of _ "Inr ()"] exI [of _ c']
      exI [of _ "[(pi, cp)]"]) (simp add: sample_world_def)
  moreover have "bounded ?cd \<and> map_of (cd_DBs ?cd) [] = None" "proxy_master ?cd = []"
    by (simp_all add: bounded_def sample_defs)
  ultimately have "silent cp"
    using no_stale_connections [OF history.first [OF inv_three] _ good_sample_env fresh_sample phase_sample(1) u(2),
        of "\<lambda>_. cp"] u(1) by simp
  then show ?thesis using c(1-3) u by blast
qed

end
