(* ===== verification/Flow.thy ===== *)
theory Flow
  imports Go_Strings
begin

text \<open>
  Two small vocabularies for stateful code. An action is a call that returns a value or an error and
  changes a state. A step is a statement of a long function that may go on, return early or panic;
  such a function is the list of its steps. Triples say what a step makes of the state, with one
  condition for going on, one for returning early and one for panicking.
\<close>

section \<open>Actions\<close>

type_synonym ('s, 'a) act = "'s \<Rightarrow> 'a res \<times> 's"

definition return_act :: "'a \<Rightarrow> ('s, 'a) act" where
  "return_act x s = (Inr x, s)"

definition fail_act :: "go_error \<Rightarrow> ('s, 'a) act" where
  "fail_act e s = (Inl e, s)"

text \<open>Go on with the value of an action, or return its error.\<close>

definition then_act :: "('s, 'a) act \<Rightarrow> ('a \<Rightarrow> ('s, 'b) act) \<Rightarrow> ('s, 'b) act" where
  "then_act a f s = (case a s of (Inl e, s') \<Rightarrow> (Inl e, s') | (Inr x, s') \<Rightarrow> f x s')"

text \<open>Go on with the result of an action, error or not.\<close>

definition try_act :: "('s, 'a) act \<Rightarrow> ('a res \<Rightarrow> ('s, 'b) act) \<Rightarrow> ('s, 'b) act" where
  "try_act a f s = (case a s of (r, s') \<Rightarrow> f r s')"

text \<open>Actions in sequence, up to the first error.\<close>

fun acts :: "('s, unit) act list \<Rightarrow> ('s, unit) act" where
  "acts [] s = (Inr (), s)"
| "acts (a # as) s = (case a s of (Inl e, s') \<Rightarrow> (Inl e, s') | (Inr _, s') \<Rightarrow> acts as s')"

definition check_act :: "unit res \<Rightarrow> ('s, unit) act" where
  "check_act r s = (r, s)"

lemma acts_append: "acts (as @ bs) s = (case acts as s of (Inl e, s') \<Rightarrow> (Inl e, s') | (Inr _, s') \<Rightarrow> acts bs s')"
  by (induction as arbitrary: s) (auto split: prod.splits sum.splits)

section \<open>Steps\<close>

datatype flow = Next | Return | Panic

type_synonym 's step = "'s \<Rightarrow> flow \<times> 's"

fun run :: "'s step list \<Rightarrow> 's step" where
  "run [] s = (Next, s)"
| "run (m # ms) s = (case m s of (Next, s') \<Rightarrow> run ms s' | (f, s') \<Rightarrow> (f, s'))"

definition skip :: "'s step" where "skip s = (Next, s)"
definition leave :: "'s step" where "leave s = (Return, s)"
definition panic :: "'s step" where "panic s = (Panic, s)"

definition update :: "('s \<Rightarrow> 's) \<Rightarrow> 's step" where
  "update f s = (Next, f s)"

text \<open>An action whose error makes the function return, one whose error is only logged.\<close>

definition attempt :: "('s, 'a) act \<Rightarrow> 's step" where
  "attempt a s = (case a s of (Inl e, s') \<Rightarrow> (Return, s') | (Inr _, s') \<Rightarrow> (Next, s'))"

definition ignoring :: "('s, 'a) act \<Rightarrow> 's step" where
  "ignoring a s = (case a s of (r, s') \<Rightarrow> (Next, s'))"

definition fetch :: "('s, 'a) act \<Rightarrow> ('a \<Rightarrow> 's step) \<Rightarrow> 's step" where
  "fetch a f s = (case a s of (Inl e, s') \<Rightarrow> (Return, s') | (Inr x, s') \<Rightarrow> f x s')"

definition on_result :: "('s, 'a) act \<Rightarrow> ('a res \<Rightarrow> 's step) \<Rightarrow> 's step" where
  "on_result a f s = (case a s of (r, s') \<Rightarrow> f r s')"

definition reading :: "('s \<Rightarrow> 's step) \<Rightarrow> 's step" where
  "reading f s = f s s"

text \<open>A dereference: nil panics.\<close>

definition deref :: "'a option \<Rightarrow> ('a \<Rightarrow> 's step) \<Rightarrow> 's step" where
  "deref p f = (case p of None \<Rightarrow> panic | Some x \<Rightarrow> f x)"

section \<open>Triples\<close>

text \<open>One condition for going on, one for returning early and one for panicking.\<close>

definition triple ::
  "('s \<Rightarrow> bool) \<Rightarrow> 's step \<Rightarrow> ('s \<Rightarrow> bool) \<Rightarrow> ('s \<Rightarrow> bool) \<Rightarrow> ('s \<Rightarrow> bool) \<Rightarrow> bool" where
  "triple P m Q E X \<longleftrightarrow> (\<forall>s f s'. P s \<longrightarrow> m s = (f, s') \<longrightarrow>
     (case f of Next \<Rightarrow> Q s' | Return \<Rightarrow> E s' | Panic \<Rightarrow> X s'))"

definition act_triple :: "('s \<Rightarrow> bool) \<Rightarrow> ('s, 'a) act \<Rightarrow> ('a \<Rightarrow> 's \<Rightarrow> bool) \<Rightarrow> ('s \<Rightarrow> bool) \<Rightarrow> bool" where
  "act_triple P a Q E \<longleftrightarrow> (\<forall>s r s'. P s \<longrightarrow> a s = (r, s') \<longrightarrow> (case r of Inr x \<Rightarrow> Q x s' | Inl e \<Rightarrow> E s'))"

lemma tripleD: "triple P m Q E X \<Longrightarrow> P s \<Longrightarrow> m s = (f, s') \<Longrightarrow>
    (case f of Next \<Rightarrow> Q s' | Return \<Rightarrow> E s' | Panic \<Rightarrow> X s')"
  by (simp add: triple_def)

text \<open>The rules of the combinators, in the order of the code.\<close>

named_theorems triples

lemma triple_conseq:
  assumes "triple P m Q E X" and "\<And>s. P' s \<Longrightarrow> P s" and "\<And>s. Q s \<Longrightarrow> Q' s"
    and "\<And>s. E s \<Longrightarrow> E' s" and "\<And>s. X s \<Longrightarrow> X' s"
  shows "triple P' m Q' E' X'"
  using assms by (fastforce simp: triple_def split: flow.splits)

lemma act_conseq:
  assumes "act_triple P a Q E" and "\<And>s. P' s \<Longrightarrow> P s" and "\<And>x s. Q x s \<Longrightarrow> Q' x s"
    and "\<And>s. E s \<Longrightarrow> E' s"
  shows "act_triple P' a Q' E'"
  unfolding act_triple_def
proof (intro allI impI)
  fix s r s'
  assume "P' s" "a s = (r, s')"
  then have "case r of Inr x \<Rightarrow> Q x s' | Inl e \<Rightarrow> E s'"
    using assms(1,2) unfolding act_triple_def by blast
  then show "case r of Inr x \<Rightarrow> Q' x s' | Inl e \<Rightarrow> E' s'"
    using assms(3,4) by (cases r) auto
qed

lemma triple_run_Nil: "triple P (run []) P E X"
  by (auto simp: triple_def)

lemma triple_run_Cons:
  assumes "triple P m R E X" and "triple R (run ms) Q E X"
  shows "triple P (run (m # ms)) Q E X"
  unfolding triple_def
proof (intro allI impI)
  fix s f s'
  assume s: "P s" "run (m # ms) s = (f, s')"
  obtain g s1 where g: "m s = (g, s1)" by fastforce
  then have "case g of Next \<Rightarrow> R s1 | Return \<Rightarrow> E s1 | Panic \<Rightarrow> X s1" using assms(1) s(1) unfolding triple_def by blast
  then show "case f of Next \<Rightarrow> Q s' | Return \<Rightarrow> E s' | Panic \<Rightarrow> X s'"
    using g s(2) assms(2) unfolding triple_def by (cases g) auto
qed

text \<open>A function all of whose statements keep a condition.\<close>

lemma triple_run_keep:
  assumes "\<And>m. m \<in> set ms \<Longrightarrow> triple P m P E X"
  shows "triple P (run ms) P E X"
  using assms
proof (induction ms)
  case Nil
  show ?case by (rule triple_run_Nil)
next
  case (Cons m ms)
  then show ?case by (intro triple_run_Cons [of P m P]) auto
qed

lemma triple_skip [triples]: "(\<And>s. P s \<Longrightarrow> Q s) \<Longrightarrow> triple P skip Q E X"
  by (simp add: triple_def skip_def)

lemma triple_leave [triples]: "(\<And>s. P s \<Longrightarrow> E s) \<Longrightarrow> triple P leave Q E X"
  by (simp add: triple_def leave_def)

lemma triple_update [triples]: "(\<And>s. P s \<Longrightarrow> Q (f s)) \<Longrightarrow> triple P (update f) Q E X"
  by (simp add: triple_def update_def)

lemma triple_attempt [triples]: "act_triple P a (\<lambda>_. Q) E \<Longrightarrow> triple P (attempt a) Q E X"
  by (fastforce simp: triple_def act_triple_def attempt_def split: prod.splits sum.splits flow.splits)

lemma triple_ignoring [triples]: "act_triple P a (\<lambda>_. Q) Q \<Longrightarrow> triple P (ignoring a) Q E X"
  by (fastforce simp: triple_def act_triple_def ignoring_def split: prod.splits sum.splits flow.splits)

lemma triple_fetch:
  assumes "act_triple P a R E" and "\<And>x. triple (R x) (f x) Q E X"
  shows "triple P (fetch a f) Q E X"
  unfolding triple_def
proof (intro allI impI)
  fix s g s'
  assume s: "P s" "fetch a f s = (g, s')"
  obtain r s1 where r: "a s = (r, s1)" by fastforce
  then have "case r of Inr x \<Rightarrow> R x s1 | Inl e \<Rightarrow> E s1" using assms(1) s(1) unfolding act_triple_def by blast
  then show "case g of Next \<Rightarrow> Q s' | Return \<Rightarrow> E s' | Panic \<Rightarrow> X s'"
    using r s(2) assms(2) unfolding triple_def by (cases r) (auto simp: fetch_def)
qed

lemma triple_on_result:
  assumes "act_triple P a R R'" and "\<And>x. triple (R x) (f (Inr x)) Q E X" and "\<And>e. triple R' (f (Inl e)) Q E X"
  shows "triple P (on_result a f) Q E X"
  unfolding triple_def
proof (intro allI impI)
  fix s g s'
  assume s: "P s" "on_result a f s = (g, s')"
  obtain r s1 where r: "a s = (r, s1)" by fastforce
  then have "case r of Inr x \<Rightarrow> R x s1 | Inl e \<Rightarrow> R' s1" using assms(1) s(1) unfolding act_triple_def by blast
  then show "case g of Next \<Rightarrow> Q s' | Return \<Rightarrow> E s' | Panic \<Rightarrow> X s'"
    using r s(2) assms(2,3) unfolding triple_def by (cases r) (auto simp: on_result_def)
qed

lemma triple_reading:
  assumes "\<And>t. P t \<Longrightarrow> triple (\<lambda>s. P s \<and> s = t) (f t) Q E X"
  shows "triple P (reading f) Q E X"
  using assms by (simp add: triple_def reading_def)

lemma triple_reading_any:
  assumes "\<And>t. P t \<Longrightarrow> triple P (f t) Q E X"
  shows "triple P (reading f) Q E X"
  using assms by (intro triple_reading) (auto simp: triple_def)

lemma triple_deref:
  assumes "\<And>s. P s \<Longrightarrow> p = None \<Longrightarrow> X s" and "\<And>x. p = Some x \<Longrightarrow> triple P (f x) Q E X"
  shows "triple P (deref p f) Q E X"
  using assms by (cases p) (auto simp: deref_def panic_def triple_def)

lemma triple_if [triples]:
  "(b \<Longrightarrow> triple P m Q E X) \<Longrightarrow> (\<not> b \<Longrightarrow> triple P m' Q E X) \<Longrightarrow> triple P (if b then m else m') Q E X"
  by simp

text \<open>Actions.\<close>

lemma act_return: "(\<And>s. P s \<Longrightarrow> Q x s) \<Longrightarrow> act_triple P (return_act x) Q E"
  by (simp add: act_triple_def return_act_def)

lemma act_then:
  assumes "act_triple P a R E" and "\<And>x. act_triple (R x) (f x) Q E"
  shows "act_triple P (then_act a f) Q E"
  unfolding act_triple_def
proof (intro allI impI)
  fix s r s'
  assume s: "P s" "then_act a f s = (r, s')"
  obtain r1 s1 where r1: "a s = (r1, s1)" by fastforce
  then have "case r1 of Inr x \<Rightarrow> R x s1 | Inl e \<Rightarrow> E s1" using assms(1) s(1) unfolding act_triple_def by blast
  then show "case r of Inr x \<Rightarrow> Q x s' | Inl e \<Rightarrow> E s'"
    using r1 s(2) assms(2) unfolding act_triple_def by (cases r1) (auto simp: then_act_def)
qed

lemma act_try:
  assumes "act_triple P a (\<lambda>_. R) R" and "\<And>r. act_triple R (f r) Q E"
  shows "act_triple P (try_act a f) Q E"
  unfolding act_triple_def
proof (intro allI impI)
  fix s r s'
  assume s: "P s" "try_act a f s = (r, s')"
  obtain r1 s1 where r1: "a s = (r1, s1)" by fastforce
  then have "case r1 of Inr x \<Rightarrow> R s1 | Inl e \<Rightarrow> R s1" using assms(1) s(1) unfolding act_triple_def by blast
  then have "R s1" by (cases r1) auto
  then show "case r of Inr x \<Rightarrow> Q x s' | Inl e \<Rightarrow> E s'"
    using r1 s(2) assms(2) unfolding act_triple_def by (auto simp: try_act_def)
qed

lemma act_acts:
  assumes "\<And>a. a \<in> set as \<Longrightarrow> act_triple P a (\<lambda>_. P) P"
  shows "act_triple P (acts as) (\<lambda>_. P) P"
  using assms
proof (induction as)
  case Nil
  then show ?case by (simp add: act_triple_def)
next
  case (Cons a as)
  have "acts (a # as) = then_act a (\<lambda>_. acts as)" by (rule ext) (simp add: then_act_def)
  then show ?case using Cons by (auto intro: act_then)
qed

end
