(* ===== verification/Conn_String.thy ===== *)
theory Conn_String
  imports Go_Strings
begin

text \<open>
  Connection parameters and connection strings (\<open>internal/postgresql/connstring.go\<close>). A parameter
  map is the list of its entries in key order, as maps compare equal when they have the same entries.
  The functions that parse a URL and that prepare log output are not modelled.
\<close>

section \<open>String maps\<close>

type_synonym params = "(string \<times> string) list"

fun pput :: "string \<Rightarrow> string \<Rightarrow> params \<Rightarrow> params" where
  "pput k v [] = [(k, v)]"
| "pput k v ((k', v') # m) =
     (if k = k' then (k, v) # m else if k < k' then (k, v) # (k', v') # m else (k', v') # pput k v m)"

text \<open>\<open>maps.Copy\<close>\<close>

definition pcopy :: "params \<Rightarrow> params \<Rightarrow> params" where
  "pcopy dst src = fold (\<lambda>(k, v). pput k v) src dst"

definition pget :: "params \<Rightarrow> string \<Rightarrow> string" where
  "pget m k = (case map_of m k of None \<Rightarrow> [] | Some v \<Rightarrow> v)"

definition in_order :: "params \<Rightarrow> bool" where
  "in_order m \<longleftrightarrow> sorted_wrt (<) (map fst m)"

lemma map_of_pput: "in_order m \<Longrightarrow> map_of (pput k v m) = (map_of m)(k \<mapsto> v)"
proof (induction k v m rule: pput.induct)
  case (2 k v k' v' m)
  show ?case
  proof (cases "k < k'")
    case True
    then show ?thesis by auto
  next
    case False
    then show ?thesis using 2 by (auto simp: in_order_def fun_eq_iff)
  qed
qed auto

lemma set_pput: "fst ` set (pput k v m) = insert k (fst ` set m)"
  by (induction k v m rule: pput.induct) auto

lemma in_order_pput [simp]: "in_order m \<Longrightarrow> in_order (pput k v m)"
proof (induction k v m rule: pput.induct)
  case (2 k v k' v' m)
  show ?case
  proof (cases "k = k' \<or> k < k'")
    case True
    then show ?thesis using 2(2) by (auto simp: in_order_def)
  next
    case False
    then have "in_order (pput k v m)" "k' < k" using 2 by (auto simp: in_order_def)
    moreover have "\<forall>x \<in> fst ` set (pput k v m). k' < x"
      using 2(2) \<open>k' < k\<close> unfolding set_pput by (auto simp: in_order_def)
    ultimately show ?thesis using False by (auto simp: in_order_def)
  qed
qed (simp add: in_order_def)

lemma in_order_Nil [simp]: "in_order []"
  by (simp add: in_order_def)

lemma in_order_pcopy [simp]: "in_order m \<Longrightarrow> in_order (pcopy m xs)"
  unfolding pcopy_def by (induction xs arbitrary: m) auto

lemma map_of_pcopy:
  "in_order m \<Longrightarrow> distinct (map fst xs) \<Longrightarrow> map_of (pcopy m xs) = map_of m ++ map_of xs"
proof (induction xs arbitrary: m)
  case (Cons x xs)
  obtain k v where x: "x = (k, v)" by (cases x)
  have "map_of (pcopy m (x # xs)) = map_of (pcopy (pput k v m) xs)" by (simp add: pcopy_def x)
  also have "\<dots> = (map_of m)(k \<mapsto> v) ++ map_of xs" using Cons x by (simp add: map_of_pput)
  moreover have "map_of xs k = None" using Cons.prems(2) x by (simp add: map_of_eq_None_iff)
  ultimately show ?case using x by (auto simp: map_add_def fun_eq_iff split: option.splits)
qed (simp add: pcopy_def)

section \<open>Parsing\<close>

definition quote_char :: char where "quote_char = CHR 0x27"
definition backslash :: char where "backslash = CHR 0x5C"

definition key_char :: "char \<Rightarrow> bool" where
  "key_char r \<longleftrightarrow> \<not> is_space r \<and> r \<noteq> CHR ''=''"

text \<open>An unquoted value ends at white space, a quoted one at the closing quote.\<close>

fun scanPlain :: "string \<Rightarrow> (string \<times> string) res" where
  "scanPlain [] = Inr ([], [])"
| "scanPlain (r # rs) =
     (if is_space r then Inr ([], rs)
      else if r = backslash then
        (case rs of
           [] \<Rightarrow> Inl (Err ''missing character after backslash'')
         | c # cs \<Rightarrow> (case scanPlain cs of Inl e \<Rightarrow> Inl e | Inr (v, rest) \<Rightarrow> Inr (c # v, rest)))
      else (case scanPlain rs of Inl e \<Rightarrow> Inl e | Inr (v, rest) \<Rightarrow> Inr (r # v, rest)))"

fun scanQuoted :: "string \<Rightarrow> (string \<times> string) res" where
  "scanQuoted [] = Inl (Err ''unterminated quoted string literal in connection string'')"
| "scanQuoted (r # rs) =
     (if r = quote_char then Inr ([], rs)
      else if r = backslash then
        (case rs of
           [] \<Rightarrow> Inl (Err ''unterminated quoted string literal in connection string'')
         | c # cs \<Rightarrow> (case scanQuoted cs of Inl e \<Rightarrow> Inl e | Inr (v, rest) \<Rightarrow> Inr (c # v, rest)))
      else (case scanQuoted rs of Inl e \<Rightarrow> Inl e | Inr (v, rest) \<Rightarrow> Inr (r # v, rest)))"

lemma scanPlain_length: "scanPlain s = Inr (v, rest) \<Longrightarrow> length rest \<le> length s"
  by (induction s arbitrary: v rest rule: scanPlain.induct)
    (fastforce split: if_splits list.splits sum.splits)+

lemma scanQuoted_length: "scanQuoted s = Inr (v, rest) \<Longrightarrow> length rest \<le> length s"
  by (induction s arbitrary: v rest rule: scanQuoted.induct)
    (fastforce split: if_splits list.splits sum.splits)+

definition scanValue :: "string \<Rightarrow> (string \<times> string) res" where
  "scanValue s = (if hd s = quote_char then scanQuoted (tl s) else scanPlain s)"

lemma dropWhile_length: "length (dropWhile P s) \<le> length s"
  by (induction s) auto

lemma scanValue_length:
  assumes "scanValue s = Inr (v, rest)"
  shows "length rest \<le> length s"
proof (cases "hd s = quote_char")
  case True
  then show ?thesis using assms scanQuoted_length [of "tl s" v rest] by (simp add: scanValue_def)
next
  case False
  then show ?thesis using assms scanPlain_length [of s v rest] by (simp add: scanValue_def)
qed

function parseLoop :: "string \<Rightarrow> params \<Rightarrow> params res" where
  "parseLoop name p =
     (case dropWhile is_space name of
        [] \<Rightarrow> Inr p
      | r # rs \<Rightarrow>
          (let key = takeWhile key_char (r # rs);
               rest = dropWhile is_space (dropWhile key_char (r # rs))
           in if rest = [] \<or> hd rest \<noteq> CHR ''='' then Inl (Errq ''missing = after %q in connection info string'' key)
              else case dropWhile is_space (tl rest) of
                  [] \<Rightarrow> Inr (pput key [] p)
                | v # vs \<Rightarrow> (case scanValue (v # vs) of
                    Inl e \<Rightarrow> Inl e
                  | Inr (val, rest') \<Rightarrow> parseLoop rest' (pput key val p))))"
  by pat_completeness auto

termination
proof (relation "measure (\<lambda>(name, p). length name)")
  fix name p r rs key rest v vs x val rest'
  assume d: "dropWhile is_space name = r # rs" "rest = dropWhile is_space (dropWhile key_char (r # rs))"
    "\<not> (rest = [] \<or> hd rest \<noteq> CHR ''='')" "dropWhile is_space (tl rest) = v # vs"
    "scanValue (v # vs) = Inr x" "(val, rest') = x"
  have "length rest' \<le> length (v # vs)" using scanValue_length [of "v # vs" val rest'] d(5,6) by simp
  also have "\<dots> \<le> length (tl rest)" using dropWhile_length [of is_space "tl rest"] d(4) by simp
  also have "\<dots> < length rest" using d(3) by (cases rest) auto
  also have "\<dots> \<le> length (r # rs)"
    unfolding d(2) by (meson dropWhile_length order_trans)
  also have "\<dots> \<le> length name" using dropWhile_length [of is_space name] d(1) by simp
  finally show "((rest', pput key val p), name, p) \<in> measure (\<lambda>(name, p). length name)" by simp
qed simp

declare parseLoop.simps [simp del]

definition ParseConnString :: "string \<Rightarrow> params res" where
  "ParseConnString name = parseLoop name []"

section \<open>Printing\<close>

definition escape_char :: "char \<Rightarrow> string" where
  "escape_char c = (if c = CHR '' '' \<or> c = quote_char \<or> c = backslash then [backslash, c] else [c])"

definition escape :: "string \<Rightarrow> string" where
  "escape v = concat (map escape_char v)"

definition entry :: "string \<times> string \<Rightarrow> string" where
  "entry = (\<lambda>(k, v). k @ ''='' @ escape v)"

definition connEntries :: "params \<Rightarrow> string list" where
  "connEntries cp = map entry (filter (\<lambda>(k, v). v \<noteq> []) cp)"

definition ConnString :: "params \<Rightarrow> string" where
  "ConnString cp = JoinStr '' '' (sort (connEntries cp))"

section \<open>Round trip\<close>

text \<open>The printer escapes spaces but no other white space.\<close>

definition printable :: "params \<Rightarrow> bool" where
  "printable cp \<longleftrightarrow> distinct (map fst cp) \<and>
     list_all (\<lambda>(k, v). list_all key_char k \<and> list_all (\<lambda>c. is_space c \<longrightarrow> c = CHR '' '') v) cp"

lemma spaces: "is_space (CHR '' '')" "\<not> is_space backslash" "\<not> is_space (CHR ''='')" "\<not> is_space quote_char"
  "backslash \<noteq> quote_char" "backslash \<noteq> CHR '' ''"
  by (simp_all add: is_space_def backslash_def quote_char_def)

lemma scanPlain_escape:
  assumes "list_all (\<lambda>c. is_space c \<longrightarrow> c = CHR '' '') v" and "rest = [] \<or> is_space (hd rest)"
  shows "scanPlain (escape v @ rest) = Inr (v, tl rest)"
  using assms(1)
proof (induction v)
  case Nil
  then show ?case using assms(2) by (cases rest) (auto simp: escape_def)
next
  case (Cons c v)
  have e: "escape (c # v) = escape_char c @ escape v" by (simp add: escape_def)
  show ?case
  proof (cases "c = CHR '' '' \<or> c = quote_char \<or> c = backslash")
    case True
    then have "escape_char c = [backslash, c]" by (simp add: escape_char_def)
    then show ?thesis using Cons e spaces(2) by simp
  next
    case False
    then have "escape_char c = [c]" "\<not> is_space c" using Cons.prems by (auto simp: escape_char_def)
    then show ?thesis using Cons e False by simp
  qed
qed

lemma escape_start:
  assumes "list_all (\<lambda>c. is_space c \<longrightarrow> c = CHR '' '') v" and "v \<noteq> []"
  shows "\<exists>r rs. escape v = r # rs \<and> \<not> is_space r \<and> r \<noteq> quote_char"
  using assms spaces by (cases v) (auto simp: escape_def escape_char_def)

lemma parse_entry:
  assumes "list_all key_char k" and "list_all (\<lambda>c. is_space c \<longrightarrow> c = CHR '' '') v" and "v \<noteq> []"
    and "rest = [] \<or> is_space (hd rest)"
  shows "parseLoop (k @ ''='' @ escape v @ rest) p = parseLoop (tl rest) (pput k v p)"
proof -
  let ?s = "k @ ''='' @ escape v @ rest"
  obtain c cs where c: "?s = c # cs" "\<not> is_space c"
    using assms(1) spaces(3) by (cases k) (auto simp: key_char_def)
  then have d: "dropWhile is_space ?s = c # cs" by simp
  have kk: "\<forall>x \<in> set k. key_char x" "\<not> key_char (CHR ''='')"
    using assms(1) by (simp_all add: list_all_iff key_char_def)
  have t: "takeWhile key_char (c # cs) = k" "dropWhile key_char (c # cs) = ''='' @ escape v @ rest"
    unfolding c(1) [symmetric] using kk by (simp_all add: takeWhile_append2 dropWhile_append2)
  obtain r rs where r: "escape v = r # rs" "\<not> is_space r" "r \<noteq> quote_char"
    using escape_start [OF assms(2,3)] by blast
  have v: "scanValue (r # rs @ rest) = Inr (v, tl rest)"
    using scanPlain_escape [OF assms(2,4)] r by (simp add: scanValue_def)
  show ?thesis
    using d t r v spaces(3) by (subst parseLoop.simps) (simp add: Let_def)
qed

lemma parse_entries:
  assumes "printable es" and "\<forall>(k, v) \<in> set es. v \<noteq> []"
  shows "parseLoop (JoinStr '' '' (map entry es)) p = Inr (pcopy p es)"
  using assms
proof (induction es arbitrary: p)
  case Nil
  then show ?case by (subst parseLoop.simps) (simp add: pcopy_def)
next
  case (Cons e es)
  obtain k v where e: "e = (k, v)" by (cases e)
  have p: "list_all key_char k" "list_all (\<lambda>c. is_space c \<longrightarrow> c = CHR '' '') v" "v \<noteq> []" "printable es"
    using Cons.prems e by (auto simp: printable_def)
  have ih: "parseLoop (JoinStr '' '' (map entry es)) (pput k v p) = Inr (pcopy (pput k v p) es)"
    using Cons p(4) by simp
  show ?case
  proof (cases "es = []")
    case True
    then show ?thesis using parse_entry [OF p(1-3), of "[]" p] ih e by (simp add: entry_def pcopy_def)
  next
    case False
    then have "JoinStr '' '' (map entry (e # es)) = k @ ''='' @ escape v @ '' '' @ JoinStr '' '' (map entry es)"
      using e by (simp add: JoinStr_Cons entry_def)
    then show ?thesis
      using parse_entry [OF p(1-3), of "'' '' @ JoinStr '' '' (map entry es)" p] ih e spaces(1)
      by (simp add: pcopy_def)
  qed
qed

lemma sort_map: "sort (map f xs) = map f (sort_key f xs)"
  by (intro properties_for_sort) (simp_all)



end
