(* ===== verification/Pg_Manager.thy ===== *)
theory Pg_Manager
  imports Flow Conn_String Pg_Wal Cluster_Types
begin

text \<open>
  The manager of the local PostgreSQL instance (\<open>internal/postgresql/manager_*.go\<close>,
  \<open>path_safety.go\<close>, parts of \<open>utils.go\<close>): the desired and the applied configuration, the files it
  writes, and the programs it runs. The operating system and the PostgreSQL server are a record of
  actions on an unknown world; nothing is assumed of them here. Temporary password files, output
  streams and timeouts of single SQL statements are left out.
\<close>

unbundle bit_operations_syntax

section \<open>Types\<close>

datatype recovery_mode = RecoveryModeNone | RecoveryModeStandby | RecoveryModeRecovery

record recovery_options =
  rco_RecoveryParameters :: params
  rco_RecoveryMode :: recovery_mode

definition NewRecoveryOptions :: recovery_options where
  "NewRecoveryOptions = \<lparr>rco_RecoveryParameters = [], rco_RecoveryMode = RecoveryModeNone\<rparr>"

record restart_requirement =
  rr_PendingParams :: "string list"
  rr_Required :: bool

record physical_slot =
  phs_Name :: string
  phs_Active :: bool
  phs_HasXmin :: bool

record logical_slot =
  lgs_Name :: string
  lgs_Database :: string
  lgs_Plugin :: string
  lgs_ConfirmedFlushLSN :: u64
  lgs_Active :: bool
  lgs_Failover :: bool
  lgs_Synced :: bool

record system_data =
  sd_SystemID :: string
  sd_TimelineID :: u64
  sd_XLogPos :: u64

record init_config =
  ic_Locale :: string
  ic_Encoding :: string
  ic_DataChecksums :: bool

record manager =
  pm_parameters :: params
  pm_recoveryOptions :: recovery_options
  pm_curParameters :: params
  pm_curRecoveryOptions :: recovery_options
  pm_localConnParams :: params
  pm_replConnParams :: params
  pm_pgBinPath :: string
  pm_dataDir :: string
  pm_walDir :: string
  pm_suAuthMethod :: string
  pm_suUsername :: string
  pm_suPassword :: string
  pm_replAuthMethod :: string
  pm_replUsername :: string
  pm_replPassword :: string
  pm_tablespaceDirRoots :: "string list"
  pm_hba :: "string slice"
  pm_ident :: "string slice"
  pm_curHba :: "string slice"
  pm_curIdent :: "string slice"
  pm_requestTimeout :: duration
  pm_walDirConfigured :: bool

text \<open>
  What the manager uses of the operating system and of the server. \<open>h_exists\<close> tells a missing file
  from a failed lookup; \<open>h_remove\<close> succeeds on a missing file; \<open>h_exitStatus\<close> is the exit status of
  a program that could be run; \<open>h_spawn\<close> starts the server and waits for its pid file;
  \<open>h_attempts\<close> is how many times a polling loop runs within a timeout; a timeout of zero sets no bound
  in the source, and the number is then that of the attempts until one succeeds.
\<close>

record 'w host =
  h_now :: "'w \<Rightarrow> time"
  h_attempts :: "duration \<Rightarrow> 'w \<Rightarrow> nat"
  h_exists :: "string \<Rightarrow> ('w, bool) act"
  h_removeAll :: "string \<Rightarrow> ('w, unit) act"
  h_remove :: "string \<Rightarrow> ('w, unit) act"
  h_mkdirAll :: "string \<Rightarrow> ('w, unit) act"
  h_symlink :: "string \<Rightarrow> string \<Rightarrow> ('w, unit) act"
  h_readDir :: "string \<Rightarrow> ('w, string list option) act"
  h_readlink :: "string \<Rightarrow> ('w, string option) act"
  h_fileNames :: "string \<Rightarrow> ('w, string list) act"
  h_fileSize :: "string \<Rightarrow> ('w, int) act"
  h_writeFile :: "string \<Rightarrow> string list \<Rightarrow> ('w, unit) act"
  h_run :: "string \<Rightarrow> string list \<Rightarrow> ('w, unit) act"
  h_exitStatus :: "string \<Rightarrow> string list \<Rightarrow> ('w, nat) act"
  h_spawn :: "string \<Rightarrow> string list \<Rightarrow> ('w, unit) act"
  h_binaryVersion :: "('w, int \<times> int) act"
  h_systemID :: "string \<Rightarrow> ('w, string) act"
  h_ping :: "('w, unit) act"
  h_checkpoint :: "params \<Rightarrow> ('w, unit) act"
  h_tablespaces :: "params \<Rightarrow> ('w, string list) act"
  h_alterPasswordlessRole :: "string \<Rightarrow> ('w, unit) act"
  h_alterRole :: "string \<Rightarrow> string \<Rightarrow> string \<Rightarrow> ('w, unit) act"
  h_setPassword :: "string \<Rightarrow> string \<Rightarrow> string \<Rightarrow> ('w, unit) act"
  h_createRole :: "string \<Rightarrow> string \<Rightarrow> string \<Rightarrow> ('w, unit) act"
  h_createPasswordlessRole :: "string \<Rightarrow> ('w, unit) act"
  h_systemData :: "('w, system_data) act"
  h_timelinesHistory :: "u64 \<Rightarrow> ('w, timeline_history list) act"
  h_configParameters :: "('w, params) act"
  h_restartRequirement :: "('w, restart_requirement) act"
  h_syncStandbys :: "('w, string list) act"
  h_physicalSlots :: "('w, physical_slot list) act"
  h_createSlot :: "string \<Rightarrow> ('w, unit) act"
  h_dropSlot :: "string \<Rightarrow> ('w, unit) act"
  h_logicalSlots :: "('w, logical_slot list) act"
  h_createLogicalSlot :: "string \<Rightarrow> string \<Rightarrow> string \<Rightarrow> bool \<Rightarrow> ('w, unit) act"
  h_dropLogicalSlot :: "string \<Rightarrow> ('w, unit) act"
  h_advanceLogicalSlot :: "string \<Rightarrow> string \<Rightarrow> u64 \<Rightarrow> ('w, unit) act"
  h_replayPaused :: "('w, bool) act"
  h_resumeReplay :: "('w, unit) act"

type_synonym 'w mst = "manager \<times> 'w"

definition on_host :: "('w, 'a) act \<Rightarrow> ('w mst, 'a) act" where
  "on_host a = (\<lambda>(m, w). case a w of (r, w') \<Rightarrow> (r, (m, w')))"

definition with_manager :: "(manager \<Rightarrow> ('w mst, 'a) act) \<Rightarrow> ('w mst, 'a) act" where
  "with_manager f = (\<lambda>(m, w). f m (m, w))"

definition set_manager :: "(manager \<Rightarrow> manager) \<Rightarrow> ('w mst, unit) act" where
  "set_manager f = (\<lambda>(m, w). (Inr (), (f m, w)))"

section \<open>Paths\<close>

text \<open>\<open>filepath.IsAbs\<close>, \<open>Base\<close>, \<open>Dir\<close> and \<open>Rel\<close> on Unix.\<close>

definition IsAbs :: "string \<Rightarrow> bool" where
  "IsAbs p \<longleftrightarrow> HasPrefix p ''/''"

definition trim_slashes :: "string \<Rightarrow> string" where
  "trim_slashes p = rev (dropWhile (\<lambda>c. c = CHR ''/'') (rev p))"

definition BasePath :: "string \<Rightarrow> string" where
  "BasePath p =
     (if p = [] then ''.''
      else let q = trim_slashes p in if q = [] then ''/'' else last (Split (CHR ''/'') q))"

definition DirPath :: "string \<Rightarrow> string" where
  "DirPath p = CleanPath (rev (dropWhile (\<lambda>c. c \<noteq> CHR ''/'') (rev p)))"

definition segments :: "string \<Rightarrow> string list" where
  "segments p = clean_segments (IsAbs p) [] (Split (CHR ''/'') p)"

fun strip_common :: "string list \<Rightarrow> string list \<Rightarrow> string list \<times> string list" where
  "strip_common (a # as) (b # bs) = (if a = b then strip_common as bs else (a # as, b # bs))"
| "strip_common as bs = (as, bs)"

definition Rel :: "string \<Rightarrow> string \<Rightarrow> string res" where
  "Rel basepath targpath =
     (if CleanPath basepath = CleanPath targpath then Inr ''.''
      else if IsAbs basepath \<noteq> IsAbs targpath then Inl (Err ''cannot make relative'')
      else case strip_common (segments basepath) (segments targpath) of
          (b, t) \<Rightarrow>
            if b \<noteq> [] \<and> hd b = ''..'' then Inl (Err ''cannot make relative'')
            else Inr (JoinStr ''/'' (map (\<lambda>_. ''..'') b @ t)))"

definition hasPathPrefix :: "string \<Rightarrow> string \<Rightarrow> bool" where
  "hasPathPrefix path pre =
     (case Rel pre path of
        Inl _ \<Rightarrow> False
      | Inr rel \<Rightarrow> rel = ''.'' \<or> rel \<noteq> ''..'' \<and> \<not> HasPrefix rel ''../'')"

definition validateRemovablePath :: "string \<Rightarrow> string \<Rightarrow> unit res" where
  "validateRemovablePath path kind =
     (let cleaned = CleanPath path in first_err
       [guard (TrimSpace path = []) (Err (kind @ '' is empty'')),
        guard (\<not> IsAbs cleaned) (Errq (kind @ '' %q must be absolute'') path),
        guard (cleaned = ''.'') (Errq (kind @ '' %q is unsafe'') path),
        guard (DirPath cleaned = cleaned) (Errq (kind @ '' %q points to filesystem root and is unsafe'') path)])"

definition validateManagedDirs :: "manager \<Rightarrow> unit res" where
  "validateManagedDirs m = first_err
     ([validateRemovablePath (pm_dataDir m) ''data dir'', validateRemovablePath (pm_walDir m) ''wal dir''] @
      (if pm_walDirConfigured m then
         [guard (pm_walDir m \<noteq> JoinPath [pm_dataDir m, ''pg_wal''] \<and> hasPathPrefix (pm_walDir m) (pm_dataDir m))
            (Errq ''configured wal dir %q cannot be inside postgres data dir'' (pm_walDir m)),
          guard (hasPathPrefix (pm_dataDir m) (pm_walDir m))
            (Errq ''postgres data dir %q cannot be inside configured wal dir'' (pm_dataDir m))]
       else []) @
      concat (map (\<lambda>root.
         [validateRemovablePath root ''tablespace dir root'',
          guard (hasPathPrefix root (pm_dataDir m) \<or> hasPathPrefix (pm_dataDir m) root)
            (Errq ''tablespace dir root %q cannot overlap postgres data dir'' root),
          guard (hasPathPrefix root (pm_walDir m) \<or> hasPathPrefix (pm_walDir m) root)
            (Errq ''tablespace dir root %q cannot overlap wal dir'' root)]) (pm_tablespaceDirRoots m)))"

definition isManagedTablespacePath :: "manager \<Rightarrow> string \<Rightarrow> bool" where
  "isManagedTablespacePath m path =
     (let keeperOwnedPrefix = BasePath (DirPath (pm_dataDir m)) in
      list_ex (\<lambda>root. hasPathPrefix path (JoinPath [root, keeperOwnedPrefix])) (pm_tablespaceDirRoots m))"

text \<open>The targets of the links in \<open>pg_tblspc\<close> that are managed are removed, each once.\<close>

fun removeTargets ::
  "'w host \<Rightarrow> manager \<Rightarrow> string \<Rightarrow> string list \<Rightarrow> string list \<Rightarrow> ('w, unit) act" where
  "removeTargets h m dir [] seen = return_act ()"
| "removeTargets h m dir (e # es) seen =
     then_act (h_readlink h (JoinPath [dir, e])) (\<lambda>target.
       case target of
         None \<Rightarrow> removeTargets h m dir es seen
       | Some t \<Rightarrow>
           (let resolved = CleanPath (if IsAbs t then t else JoinPath [dir, t]) in
            if \<not> isManagedTablespacePath m resolved \<or> resolved \<in> set seen then removeTargets h m dir es seen
            else then_act (h_removeAll h resolved) (\<lambda>_. removeTargets h m dir es (seen @ [resolved]))))"

definition removeManagedTablespaceTargets :: "'w host \<Rightarrow> manager \<Rightarrow> ('w, unit) act" where
  "removeManagedTablespaceTargets h m =
     (if pm_tablespaceDirRoots m = [] then return_act ()
      else let dir = JoinPath [pm_dataDir m, ''pg_tblspc''] in
        then_act (h_readDir h dir) (\<lambda>entries.
          case entries of None \<Rightarrow> return_act () | Some es \<Rightarrow> removeTargets h m dir es []))"

definition removeManagedDirs :: "'w host \<Rightarrow> manager \<Rightarrow> ('w, unit) act" where
  "removeManagedDirs h m = acts
     ([check_act (validateManagedDirs m), removeManagedTablespaceTargets h m, h_removeAll h (pm_dataDir m)] @
      (if pm_walDirConfigured m \<and> pm_walDir m \<noteq> pm_dataDir m then [h_removeAll h (pm_walDir m)] else []))"

section \<open>Desired and applied configuration\<close>

definition SetParameters :: "params \<Rightarrow> manager \<Rightarrow> manager" where
  "SetParameters ps m = m\<lparr>pm_parameters := ps\<rparr>"

definition SetRecoveryOptions :: "recovery_options option \<Rightarrow> manager \<Rightarrow> manager" where
  "SetRecoveryOptions ro m =
     m\<lparr>pm_recoveryOptions := (case ro of None \<Rightarrow> NewRecoveryOptions | Some r \<Rightarrow> r)\<rparr>"

definition SetHba :: "string slice \<Rightarrow> manager \<Rightarrow> manager" where
  "SetHba hba m = m\<lparr>pm_hba := hba\<rparr>"

definition SetIdent :: "string slice \<Rightarrow> manager \<Rightarrow> manager" where
  "SetIdent ident m = m\<lparr>pm_ident := ident\<rparr>"

text \<open>\<open>append([]string(nil), xs...)\<close> of an empty slice is nil.\<close>

definition clone_slice :: "string slice \<Rightarrow> string slice" where
  "clone_slice xs = (if els xs = [] then None else xs)"

definition UpdateCurParameters :: "manager \<Rightarrow> manager" where
  "UpdateCurParameters m = m\<lparr>pm_curParameters := pm_parameters m\<rparr>"

definition UpdateCurRecoveryOptions :: "manager \<Rightarrow> manager" where
  "UpdateCurRecoveryOptions m = m\<lparr>pm_curRecoveryOptions := pm_recoveryOptions m\<rparr>"

definition UpdateCurHba :: "manager \<Rightarrow> manager" where
  "UpdateCurHba m = m\<lparr>pm_curHba := clone_slice (pm_hba m)\<rparr>"

definition UpdateCurIdent :: "manager \<Rightarrow> manager" where
  "UpdateCurIdent m = m\<lparr>pm_curIdent := clone_slice (pm_ident m)\<rparr>"

definition updateCur :: "manager \<Rightarrow> manager" where
  "updateCur m = UpdateCurIdent (UpdateCurHba (UpdateCurRecoveryOptions (UpdateCurParameters m)))"

definition NewManager ::
  "string \<Rightarrow> string \<Rightarrow> string \<Rightarrow> params \<Rightarrow> params \<Rightarrow> string \<Rightarrow> string \<Rightarrow> string \<Rightarrow> string \<Rightarrow> string \<Rightarrow> string \<Rightarrow>
     duration \<Rightarrow> string list \<Rightarrow> manager" where
  "NewManager pgBinPath dataDir walDir localConnParams replConnParams suAuthMethod suUsername suPassword
     replAuthMethod replUsername replPassword requestTimeout tablespaceDirRoots =
     (let pgDataDir = JoinPath [dataDir, ''postgres''] in
      \<lparr>pm_parameters = [], pm_recoveryOptions = NewRecoveryOptions, pm_curParameters = [],
       pm_curRecoveryOptions = NewRecoveryOptions, pm_localConnParams = localConnParams,
       pm_replConnParams = replConnParams, pm_pgBinPath = pgBinPath, pm_dataDir = pgDataDir,
       pm_walDir = (if walDir \<noteq> [] then walDir else JoinPath [pgDataDir, ''pg_wal'']),
       pm_suAuthMethod = suAuthMethod, pm_suUsername = suUsername, pm_suPassword = suPassword,
       pm_replAuthMethod = replAuthMethod, pm_replUsername = replUsername, pm_replPassword = replPassword,
       pm_tablespaceDirRoots = tablespaceDirRoots, pm_hba = None, pm_ident = None, pm_curHba = None,
       pm_curIdent = None, pm_requestTimeout = requestTimeout, pm_walDirConfigured = (walDir \<noteq> [])\<rparr>)"

section \<open>Configuration files\<close>

definition postgresConf :: string where "postgresConf = ''postgresql.conf''"
definition postgresStandbySignal :: string where "postgresStandbySignal = ''standby.signal''"
definition postgresRecoverySignal :: string where "postgresRecoverySignal = ''recovery.signal''"
definition postgresAutoConf :: string where "postgresAutoConf = ''postgresql.auto.conf''"
definition tmpPostgresConf :: string where "tmpPostgresConf = ''hysteron-temp-postgresql.conf''"

definition double_quotes :: "string \<Rightarrow> string" where
  "double_quotes v = concat (map (\<lambda>c. if c = quote_char then [quote_char, quote_char] else [c]) v)"

definition conf_line :: "string \<Rightarrow> string \<Rightarrow> string" where
  "conf_line k v = k @ '' = '' @ [quote_char] @ v @ [quote_char]"

text \<open>The lines of \<open>postgresql.conf\<close>; the source writes the entries of a map in any order.\<close>

definition confLines :: "bool \<Rightarrow> manager \<Rightarrow> string list" where
  "confLines include m =
     (if include then [''include '' @ [quote_char] @ postgresConf @ [quote_char]] else []) @
     map (\<lambda>(k, v). conf_line k (double_quotes v)) (pm_parameters m) @
     (if rco_RecoveryMode (pm_recoveryOptions m) \<noteq> RecoveryModeNone
      then map (\<lambda>(k, v). conf_line k v) (rco_RecoveryParameters (pm_recoveryOptions m)) else [])"

definition inDataDir :: "manager \<Rightarrow> string \<Rightarrow> string" where
  "inDataDir m f = JoinPath [pm_dataDir m, f]"

definition writeConf :: "'w host \<Rightarrow> bool \<Rightarrow> manager \<Rightarrow> ('w, unit) act" where
  "writeConf h useTmp m =
     (if useTmp then then_act (h_exists h (inDataDir m postgresConf))
        (\<lambda>ex. h_writeFile h (inDataDir m tmpPostgresConf) (confLines ex m))
      else h_writeFile h (inDataDir m postgresConf) (confLines False m))"

definition writePgHba :: "'w host \<Rightarrow> manager \<Rightarrow> ('w, unit) act" where
  "writePgHba h m = h_writeFile h (inDataDir m ''pg_hba.conf'') (els (pm_hba m))"

definition writePgIdent :: "'w host \<Rightarrow> manager \<Rightarrow> ('w, unit) act" where
  "writePgIdent h m = h_writeFile h (inDataDir m ''pg_ident.conf'') (els (pm_ident m))"

definition writeStandbySignal :: "'w host \<Rightarrow> manager \<Rightarrow> ('w, unit) act" where
  "writeStandbySignal h m =
     (if rco_RecoveryMode (pm_recoveryOptions m) \<noteq> RecoveryModeStandby then return_act ()
      else h_writeFile h (inDataDir m postgresStandbySignal) [])"

definition writeRecoverySignal :: "'w host \<Rightarrow> manager \<Rightarrow> ('w, unit) act" where
  "writeRecoverySignal h m =
     (if rco_RecoveryMode (pm_recoveryOptions m) \<noteq> RecoveryModeRecovery then return_act ()
      else h_writeFile h (inDataDir m postgresRecoverySignal) [])"

definition writeConfs :: "'w host \<Rightarrow> bool \<Rightarrow> manager \<Rightarrow> ('w, unit) act" where
  "writeConfs h useTmp m =
     acts [writeConf h useTmp m, writePgHba h m, writePgIdent h m, writeStandbySignal h m, writeRecoverySignal h m]"

definition createPostgresqlAutoConf :: "'w host \<Rightarrow> manager \<Rightarrow> ('w, unit) act" where
  "createPostgresqlAutoConf h m =
     acts [h_remove h (inDataDir m postgresAutoConf), h_symlink h ''/dev/null'' (inDataDir m postgresAutoConf)]"

section \<open>State of the instance\<close>

definition PgUnixSocketDirectories :: string where "PgUnixSocketDirectories = ''/tmp''"

definition ErrUnknownState :: go_error where "ErrUnknownState = Err ''unknown postgres state''"

definition socketOption :: string where
  "socketOption = ''-c unix_socket_directories='' @ PgUnixSocketDirectories"

definition bin :: "manager \<Rightarrow> string \<Rightarrow> string" where
  "bin m name = JoinPath [pm_pgBinPath m, name]"

definition requiredFiles :: "string list" where
  "requiredFiles = [''PG_VERSION'', ''base'', ''global'', ''pg_dynshmem'', ''pg_logical'', ''pg_multixact'',
     ''pg_notify'', ''pg_replslot'', ''pg_serial'', ''pg_snapshots'', ''pg_stat'', ''pg_stat_tmp'',
     ''pg_subtrans'', ''pg_tblspc'', ''pg_twophase'', ''global/pg_control'', ''pg_xact'', ''pg_wal'']"

fun allExist :: "'w host \<Rightarrow> manager \<Rightarrow> string list \<Rightarrow> ('w, bool) act" where
  "allExist h m [] = return_act True"
| "allExist h m (f # fs) =
     then_act (h_exists h (inDataDir m f)) (\<lambda>ex. if ex then allExist h m fs else return_act False)"

definition IsInitialized :: "'w host \<Rightarrow> manager \<Rightarrow> ('w, bool) act" where
  "IsInitialized h m =
     then_act (h_exists h (inDataDir m ''PG_VERSION''))
       (\<lambda>ex. if ex then allExist h m requiredFiles else return_act False)"

definition IsStarted :: "'w host \<Rightarrow> manager \<Rightarrow> ('w, bool) act" where
  "IsStarted h m =
     then_act (h_exists h (pm_dataDir m)) (\<lambda>ex.
       if \<not> ex then return_act False
       else then_act (h_exitStatus h (bin m ''pg_ctl'') [''status'', ''-D'', pm_dataDir m, ''-o'', socketOption])
         (\<lambda>status. if status = 0 then return_act True
           else if status = 3 then return_act False
           else if status = 4 then fail_act ErrUnknownState
           else fail_act (Err ''cannot get instance state'')))"

definition GetRole :: "'w host \<Rightarrow> manager \<Rightarrow> ('w, role) act" where
  "GetRole h m =
     then_act (h_exists h (inDataDir m postgresStandbySignal))
       (\<lambda>ex. return_act (if ex then RoleStandby else RoleMaster))"

text \<open>The first file of the sorted listing that is a WAL file.\<close>

definition OlderWalFile :: "'w host \<Rightarrow> manager \<Rightarrow> ('w, string) act" where
  "OlderWalFile h m =
     then_act (h_fileNames h (pm_walDir m)) (\<lambda>names.
       case filter IsWalFileName (sort names) of
         [] \<Rightarrow> return_act []
       | name # _ \<Rightarrow> then_act (h_fileSize h (JoinPath [pm_walDir m, name]))
           (\<lambda>size. if size \<noteq> uint WalSegSize then fail_act (Err ''wal file has unsupported size'') else return_act name))"

definition RemoveAll :: "'w host \<Rightarrow> manager \<Rightarrow> ('w, unit) act" where
  "RemoveAll h m =
     then_act (IsInitialized h m) (\<lambda>initialized.
       then_act (if initialized then IsStarted h m else return_act False) (\<lambda>started.
         if started then fail_act (Err ''cannot remove postregsql database. Instance is active'')
         else removeManagedDirs h m))"

section \<open>Life cycle\<close>

definition initdbArgs :: "manager \<Rightarrow> init_config \<Rightarrow> string list" where
  "initdbArgs m ic =
     [''-D'', pm_dataDir m, ''-U'', pm_suUsername m] @
     (if pm_walDirConfigured m then [''--waldir'', pm_walDir m] else []) @
     (if pm_suAuthMethod m = ''md5'' \<or> pm_suAuthMethod m = ''scram-sha-256''
      then [''--auth'', pm_suAuthMethod m, ''--pwfile'', ''pwfile''] else []) @
     (if ic_Locale ic \<noteq> [] then [''--locale'', ic_Locale ic] else []) @
     (if ic_Encoding ic \<noteq> [] then [''--encoding'', ic_Encoding ic] else []) @
     (if ic_DataChecksums ic then [''--data-checksums''] else [])"

text \<open>After an error the directories are removed, and the error is returned in any case.\<close>

definition orRemove :: "'w host \<Rightarrow> manager \<Rightarrow> ('w, unit) act \<Rightarrow> ('w, unit) act" where
  "orRemove h m a = try_act a (\<lambda>r. case r of
     Inr _ \<Rightarrow> return_act ()
   | Inl err \<Rightarrow> try_act (removeManagedDirs h m) (\<lambda>_. fail_act err))"

definition InitDB :: "'w host \<Rightarrow> manager \<Rightarrow> init_config \<Rightarrow> ('w, unit) act" where
  "InitDB h m ic = orRemove h m (h_run h (bin m ''initdb'') (initdbArgs m ic))"

fun expand :: "string \<Rightarrow> string \<Rightarrow> string \<Rightarrow> string" where
  "expand [] dataDir walDir = []"
| "expand [c] dataDir walDir = [c]"
| "expand (c # d # s) dataDir walDir =
     (if c = CHR ''%'' then
        (if d = CHR ''d'' then dataDir @ expand s dataDir walDir
         else if d = CHR ''w'' then walDir @ expand s dataDir walDir
         else if d = CHR ''%'' then CHR ''%'' # expand s dataDir walDir
         else c # expand (d # s) dataDir walDir)
      else c # expand (d # s) dataDir walDir)"

definition Restore :: "'w host \<Rightarrow> manager \<Rightarrow> string \<Rightarrow> ('w, unit) act" where
  "Restore h m command = orRemove h m (acts
     [h_mkdirAll h (pm_dataDir m), h_run h ''/bin/sh'' [''-c'', expand command (pm_dataDir m) (pm_walDir m)]])"

text \<open>Starting: what was configured becomes current once the server has its pid file.\<close>

definition startWith :: "'w host \<Rightarrow> bool \<Rightarrow> string list \<Rightarrow> ('w mst, unit) act" where
  "startWith h useTmp args = with_manager (\<lambda>m. acts
     [on_host (writeConfs h useTmp m), on_host (createPostgresqlAutoConf h m),
      on_host (h_spawn h (bin m ''postgres'')
        ([''-D'', pm_dataDir m, ''-c'', ''unix_socket_directories='' @ PgUnixSocketDirectories] @ args)),
      set_manager updateCur])"

definition StartTmpMerged :: "'w host \<Rightarrow> ('w mst, unit) act" where
  "StartTmpMerged h = with_manager (\<lambda>m. startWith h True [''-c'', ''config_file='' @ inDataDir m tmpPostgresConf])"

definition StartInstance :: "'w host \<Rightarrow> ('w mst, unit) act" where
  "StartInstance h = startWith h False []"

definition StopInstance :: "'w host \<Rightarrow> manager \<Rightarrow> bool \<Rightarrow> ('w, unit) act" where
  "StopInstance h m fast = h_run h (bin m ''pg_ctl'')
     ([''stop'', ''-w'', ''-D'', pm_dataDir m, ''-o'', socketOption] @ (if fast then [''-m'', ''fast''] else []))"

definition StopIfStarted :: "'w host \<Rightarrow> manager \<Rightarrow> bool \<Rightarrow> ('w, unit) act" where
  "StopIfStarted h m fast = try_act (IsStarted h m) (\<lambda>r. case r of
     Inl err \<Rightarrow> if err = ErrUnknownState then return_act () else fail_act err
   | Inr started \<Rightarrow>
       if \<not> started then return_act ()
       else then_act (StopInstance h m fast) (\<lambda>_.
         then_act (IsStarted h m) (\<lambda>started'. if started' then fail_act (Err ''failed to stop'') else return_act ())))"

definition Restart :: "'w host \<Rightarrow> bool \<Rightarrow> ('w mst, unit) act" where
  "Restart h fast = acts [with_manager (\<lambda>m. on_host (StopIfStarted h m fast)), StartInstance h]"

definition Reload :: "'w host \<Rightarrow> ('w mst, unit) act" where
  "Reload h = with_manager (\<lambda>m. acts
     [on_host (writeConfs h False m),
      on_host (h_run h (bin m ''pg_ctl'') [''reload'', ''-D'', pm_dataDir m, ''-o'', socketOption]),
      set_manager updateCur])"

fun waitPings :: "'w host \<Rightarrow> nat \<Rightarrow> ('w, unit) act" where
  "waitPings h 0 = fail_act (Err ''timeout waiting for db ready'')"
| "waitPings h (Suc n) = try_act (h_ping h) (\<lambda>r. case r of Inr _ \<Rightarrow> return_act () | Inl _ \<Rightarrow> waitPings h n)"

definition WaitReady :: "'w host \<Rightarrow> duration \<Rightarrow> ('w, unit) act" where
  "WaitReady h timeout w = waitPings h (h_attempts h timeout w) w"

fun waitSignal :: "'w host \<Rightarrow> manager \<Rightarrow> nat \<Rightarrow> ('w, unit) act" where
  "waitSignal h m 0 = fail_act (Err ''timeout waiting for db recovery'')"
| "waitSignal h m (Suc n) =
     then_act (h_exists h (inDataDir m postgresRecoverySignal))
       (\<lambda>ex. if ex then waitSignal h m n else return_act ())"

definition WaitRecoveryDone :: "'w host \<Rightarrow> manager \<Rightarrow> duration \<Rightarrow> ('w, unit) act" where
  "WaitRecoveryDone h m timeout w = waitSignal h m (h_attempts h timeout w) w"

definition Promote :: "'w host \<Rightarrow> manager \<Rightarrow> ('w, unit) act" where
  "Promote h m = acts [h_run h (bin m ''pg_ctl'') [''promote'', ''-w'', ''-D'', pm_dataDir m], writeConfs h False m]"

definition SetupRoles :: "'w host \<Rightarrow> manager \<Rightarrow> ('w, unit) act" where
  "SetupRoles h m =
     (if pm_suUsername m = pm_replUsername m then
        (if pm_suAuthMethod m = ''trust'' then h_alterPasswordlessRole h (pm_suUsername m)
         else h_alterRole h (pm_suUsername m) (pm_suPassword m) (pm_suAuthMethod m))
      else acts
        [if pm_suAuthMethod m \<noteq> ''trust'' \<and> pm_suPassword m \<noteq> []
         then h_setPassword h (pm_suUsername m) (pm_suPassword m) (pm_suAuthMethod m) else return_act (),
         if pm_replAuthMethod m \<noteq> ''trust''
         then h_createRole h (pm_replUsername m) (pm_replPassword m) (pm_replAuthMethod m)
         else h_createPasswordlessRole h (pm_replUsername m)])"

section \<open>Synchronization from another instance\<close>

definition SyncFromFollowedPGRewind :: "'w host \<Rightarrow> manager \<Rightarrow> params \<Rightarrow> bool \<Rightarrow> ('w, unit) act" where
  "SyncFromFollowedPGRewind h m followedConnParams checkpointBeforeRewind =
     (let cp = pput ''options'' ''-c synchronous_commit=off'' followedConnParams in acts
       [h_remove h (inDataDir m postgresAutoConf),
        if checkpointBeforeRewind then h_checkpoint h cp else return_act (),
        h_run h (bin m ''pg_rewind'') [''--debug'', ''-D'', pm_dataDir m, ''--source-server='' @ ConnString cp]])"

definition selectTablespaceRootForPath :: "manager \<Rightarrow> string \<Rightarrow> string" where
  "selectTablespaceRootForPath m path =
     (case filter (hasPathPrefix path) (pm_tablespaceDirRoots m) of
        root # _ \<Rightarrow> root | [] \<Rightarrow> hd (pm_tablespaceDirRoots m))"

text \<open>\<open>fnv.New32a\<close>\<close>

definition pathHash :: "string \<Rightarrow> string" where
  "pathHash path = ToLower (hexpad 8 (unat
     (fold (\<lambda>c hash. (hash XOR of_nat (of_char c)) * 16777619) path (2166136261 :: u32))))"

definition sanitizePathComponent :: "string \<Rightarrow> string" where
  "sanitizePathComponent name =
     (if name = [] \<or> name = ''.'' \<or> name = ''/'' then ''tablespace''
      else map (\<lambda>c. if c \<in> {backslash, CHR ''/'', CHR '':'', CHR '' ''} then CHR ''_'' else c) name)"

definition tablespaceMappedPath :: "manager \<Rightarrow> string \<Rightarrow> string \<Rightarrow> string" where
  "tablespaceMappedPath m root oldDir =
     JoinPath [root, BasePath (DirPath (pm_dataDir m)),
       sanitizePathComponent (BasePath oldDir) @ ''-'' @ pathHash oldDir]"

fun mapTablespaces :: "'w host \<Rightarrow> manager \<Rightarrow> string list \<Rightarrow> ('w, (string \<times> string) list) act" where
  "mapTablespaces h m [] = return_act []"
| "mapTablespaces h m (oldDir # dirs) =
     (let newDir = tablespaceMappedPath m (selectTablespaceRootForPath m oldDir) oldDir in
      then_act (h_removeAll h newDir) (\<lambda>_. then_act (h_mkdirAll h newDir) (\<lambda>_.
        then_act (mapTablespaces h m dirs) (\<lambda>ms. return_act ((oldDir, newDir) # ms)))))"

definition tablespaceMappingsForBasebackup ::
  "'w host \<Rightarrow> manager \<Rightarrow> params \<Rightarrow> ('w, (string \<times> string) list) act" where
  "tablespaceMappingsForBasebackup h m followedConnParams =
     (if pm_tablespaceDirRoots m = [] then return_act []
      else
        (let cp = (if pget followedConnParams ''dbname'' = [] then pput ''dbname'' ''postgres'' followedConnParams
                   else followedConnParams)
         in then_act (h_tablespaces h cp) (\<lambda>locations. mapTablespaces h m (sort locations))))"

definition basebackupArgs :: "manager \<Rightarrow> params \<Rightarrow> (string \<times> string) list \<Rightarrow> string \<Rightarrow> string list" where
  "basebackupArgs m followedConnParams mappings replSlot =
     (let cp = pput ''options'' ''-c synchronous_commit=off'' (AList.delete ''password'' followedConnParams) in
      [''-R'', ''-v'', ''-P'', ''-Xs'', ''-D'', pm_dataDir m, ''-d'', ConnString cp] @
      (if pm_walDirConfigured m then [''--waldir'', pm_walDir m] else []) @
      concat (map (\<lambda>(old, new). [''--tablespace-mapping'', old @ ''='' @ new]) mappings) @
      (if replSlot \<noteq> [] then [''--slot'', replSlot] else []))"

definition SyncFromFollowed :: "'w host \<Rightarrow> manager \<Rightarrow> params \<Rightarrow> string \<Rightarrow> ('w, unit) act" where
  "SyncFromFollowed h m followedConnParams replSlot =
     then_act (tablespaceMappingsForBasebackup h m followedConnParams)
       (\<lambda>mappings. h_run h (bin m ''pg_basebackup'') (basebackupArgs m followedConnParams mappings replSlot))"

end
