(* ===== verification/Keeper_Types.thy ===== *)
theory Keeper_Types
  imports Pg_Manager Cluster_Spec Slices
begin

text \<open>
  The state of a keeper (\<open>internal/runtime/keeper/structs.go\<close>, \<open>types.go\<close>, \<open>runtime_config.go\<close>,
  \<open>local_state.go\<close>, \<open>hooks.go\<close>). The struct \<open>PostgresKeeper\<close> is a record whose fields are grouped:
  settings that do not change, the state of the logical slots, and the failsafe state. A call to the
  manager that acts on the instance is recorded in a trace, with keeper and manager as they were when
  it was made; the trace is only used to state properties.
\<close>

section \<open>State\<close>

record local_state =
  ls_UID :: uid
  ls_ClusterUID :: uid

record db_local_state =
  dls_InitPGParameters :: params
  dls_UID :: uid
  dls_Generation :: int
  dls_Initializing :: bool

datatype failsafe_state =
  failsafeStateDisabled | failsafeStateInactive | failsafeStateActive | failsafeStateExpired

record queued_advance =
  qa_Name :: string
  qa_Database :: string
  qa_DesiredLSN :: u64
  qa_ReplayLSN :: u64
  qa_TargetLSN :: u64

record keeper_config =
  kc_bootUUID :: string
  kc_dataDir :: string
  kc_pgListenAddress :: string
  kc_pgAdvertiseAddress :: string
  kc_pgPort :: string
  kc_pgAdvertisePort :: string
  kc_pgBinPath :: string
  kc_pgWALDir :: string
  kc_pgReplAuthMethod :: string
  kc_pgReplUsername :: string
  kc_pgReplPassword :: string
  kc_pgSUAuthMethod :: string
  kc_pgSUUsername :: string
  kc_pgSUPassword :: string
  kc_pgTablespaceDirs :: "string list"
  kc_logicalSlotStandbyAdvanceRetryDelay :: duration
  kc_AllowNewerPG :: bool
  kc_canBeMaster :: "bool option"
  kc_canBeSynchronousReplica :: "bool option"
  kc_masterPriority :: "int option"

record logical_slot_state =
  lss_retryAfter :: "(string, time) gomap"
  lss_pending :: "(string, queued_advance) gomap"
  lss_readinessLast :: string
  lss_gateNoticeEmitted :: bool
  lss_legacyModeNoticeEmitted :: bool
  lss_nativeModeNoticeEmitted :: bool
  lss_advanceUnavailableNoticeEmitted :: bool
  lss_noStreamNoticeEmitted :: bool

record failsafe =
  fs_state :: failsafe_state
  fs_enabled :: bool
  fs_probeInterval :: duration
  fs_probeTimeout :: duration
  fs_maxMissingPeers :: u16
  fs_TTL :: duration
  fs_dcsDegraded :: bool
  fs_dcsDegradedSince :: time

record postgres_keeper =
  pk_config :: keeper_config
  pk_keeperLocalState :: local_state
  pk_dbLocalState :: db_local_state
  pk_lastPGState :: "postgres_state option"
  pk_slots :: logical_slot_state
  pk_failsafe :: failsafe
  pk_sleepInterval :: duration
  pk_requestTimeout :: duration
  pk_waitSyncStandbysSynced :: bool

section \<open>Calls to the manager\<close>

datatype pg_call =
  CallStop | CallStart | CallStartTmp | CallRestart | CallReload | CallPromote | CallRemoveAll | CallInit
| CallRestore | CallSetupRoles | CallRewind | CallBasebackup | CallSaveState db_local_state

record 'w kst =
  ks_keeper :: postgres_keeper
  ks_manager :: manager
  ks_world :: 'w
  ks_trace :: "(pg_call \<times> postgres_keeper \<times> manager) list"

text \<open>
  What the keeper uses besides the manager: the store, the files of its own state, and hook commands.
  A map of slots is created in the order the run time chooses.
\<close>

record 'w keeper_host =
  kh_pg :: "'w host"
  kh_GetClusterData :: "('w, cluster_data option) act"
  kh_saveKeeperState :: "local_state \<Rightarrow> ('w, unit) act"
  kh_saveDBState :: "db_local_state \<Rightarrow> ('w, unit) act"
  kh_hook :: "string \<Rightarrow> ('w, unit) act"
  kh_order :: "string list \<Rightarrow> string list"
  kh_SetKeeperInfo :: "keeper_info \<Rightarrow> duration \<Rightarrow> ('w, unit) act"
  kh_newUID :: "'w \<Rightarrow> uid"
  kh_hostname :: string
  kh_nodeName :: string

text \<open>An action of the world, of the world for a manager, and of a manager with its world.\<close>

definition io :: "('w, 'a) act \<Rightarrow> ('w kst, 'a) act" where
  "io a s = (case a (ks_world s) of (r, w) \<Rightarrow> (r, s\<lparr>ks_world := w\<rparr>))"

definition with_pgm :: "(manager \<Rightarrow> ('w, 'a) act) \<Rightarrow> ('w kst, 'a) act" where
  "with_pgm f s = io (f (ks_manager s)) s"

definition pgm :: "('w mst, 'a) act \<Rightarrow> ('w kst, 'a) act" where
  "pgm a s = (case a (ks_manager s, ks_world s) of (r, m, w) \<Rightarrow> (r, s\<lparr>ks_manager := m, ks_world := w\<rparr>))"

definition record_call :: "pg_call \<Rightarrow> 'w kst \<Rightarrow> 'w kst" where
  "record_call c s = s\<lparr>ks_trace := (c, ks_keeper s, ks_manager s) # ks_trace s\<rparr>"

definition calling :: "pg_call \<Rightarrow> ('w kst, 'a) act \<Rightarrow> ('w kst, 'a) act" where
  "calling c a s = a (record_call c s)"

definition upd_keeper :: "(postgres_keeper \<Rightarrow> postgres_keeper) \<Rightarrow> 'w kst \<Rightarrow> 'w kst" where
  "upd_keeper f s = s\<lparr>ks_keeper := f (ks_keeper s)\<rparr>"

definition upd_manager :: "(manager \<Rightarrow> manager) \<Rightarrow> 'w kst \<Rightarrow> 'w kst" where
  "upd_manager f s = s\<lparr>ks_manager := f (ks_manager s)\<rparr>"

definition upd_slots :: "(logical_slot_state \<Rightarrow> logical_slot_state) \<Rightarrow> 'w kst \<Rightarrow> 'w kst" where
  "upd_slots f = upd_keeper (\<lambda>k. k\<lparr>pk_slots := f (pk_slots k)\<rparr>)"

section \<open>Local state\<close>

text \<open>The state in memory changes only after the file has been written.\<close>

definition saveDBLocalState :: "'w keeper_host \<Rightarrow> db_local_state \<Rightarrow> ('w kst, unit) act" where
  "saveDBLocalState h next =
     then_act (calling (CallSaveState next) (io (kh_saveDBState h next)))
       (\<lambda>_ s. (Inr (), upd_keeper (\<lambda>k. k\<lparr>pk_dbLocalState := next\<rparr>) s))"

definition saveKeeperLocalState :: "'w keeper_host \<Rightarrow> ('w kst, unit) act" where
  "saveKeeperLocalState h s = io (kh_saveKeeperState h (pk_keeperLocalState (ks_keeper s))) s"

section \<open>Hooks\<close>

definition runHookCommand :: "'w keeper_host \<Rightarrow> string \<Rightarrow> ('w, unit) act" where
  "runHookCommand h command =
     (let c = TrimSpace command in if c = [] then return_act () else kh_hook h c)"

definition runBeforeStopHook :: "'w keeper_host \<Rightarrow> db option \<Rightarrow> ('w, unit) act" where
  "runBeforeStopHook h d =
     (case d of
        None \<Rightarrow> return_act ()
      | Some d \<Rightarrow> try_act (runHookCommand h (dbs_BeforeStopCommand (db_Spec d))) (\<lambda>_. return_act ()))"

definition runPrePromoteHook :: "'w keeper_host \<Rightarrow> db \<Rightarrow> ('w, unit) act" where
  "runPrePromoteHook h d = runHookCommand h (dbs_PrePromoteCommand (db_Spec d))"

definition stopPostgresIfStarted :: "'w keeper_host \<Rightarrow> db option \<Rightarrow> ('w kst, unit) act" where
  "stopPostgresIfStarted h d =
     acts [io (runBeforeStopHook h d), calling CallStop (with_pgm (\<lambda>m. StopIfStarted (kh_pg h) m True))]"

section \<open>Runtime configuration and failsafe state\<close>

definition setFailsafeState :: "failsafe_state \<Rightarrow> failsafe \<Rightarrow> failsafe" where
  "setFailsafeState st f = f\<lparr>fs_state := st\<rparr>"

definition applyFailsafeRuntimeConfig :: "cluster_spec \<Rightarrow> failsafe \<Rightarrow> failsafe" where
  "applyFailsafeRuntimeConfig spec f =
     (let en = the (cs_EnableFailsafeMode spec) in
      setFailsafeState (if en then failsafeStateInactive else failsafeStateDisabled)
        (f\<lparr>fs_enabled := en, fs_probeInterval := the (cs_FailsafeProbeInterval spec),
           fs_probeTimeout := the (cs_FailsafeProbeTimeout spec),
           fs_maxMissingPeers := the (cs_FailsafeMaxMissingPeers spec), fs_TTL := the (cs_FailsafeTTL spec)\<rparr>))"

definition handleDCSDegraded :: "time \<Rightarrow> failsafe \<Rightarrow> failsafe" where
  "handleDCSDegraded t f =
     (let f1 = (if fs_dcsDegraded f then f else f\<lparr>fs_dcsDegraded := True, fs_dcsDegradedSince := t\<rparr>) in
      setFailsafeState
        (if \<not> fs_enabled f1 then failsafeStateDisabled
         else if time_sub t (fs_dcsDegradedSince f1) \<ge> fs_TTL f1 then failsafeStateExpired
         else failsafeStateActive) f1)"

definition handleDCSRecovered :: "failsafe \<Rightarrow> failsafe" where
  "handleDCSRecovered f =
     (if \<not> fs_dcsDegraded f then f
      else setFailsafeState (if fs_enabled f then failsafeStateInactive else failsafeStateDisabled)
        (f\<lparr>fs_dcsDegraded := False, fs_dcsDegradedSince := 0\<rparr>))"

definition applyRuntimeConfigFromClusterData :: "cluster_data \<Rightarrow> 'w kst \<Rightarrow> 'w kst" where
  "applyRuntimeConfigFromClusterData cd s =
     (let spec = DefSpec (cd_Cluster cd); rt = the (cs_RequestTimeout spec) in
      s\<lparr>ks_keeper := (ks_keeper s)
          \<lparr>pk_sleepInterval := the (cs_SleepInterval spec), pk_requestTimeout := rt,
           pk_failsafe := applyFailsafeRuntimeConfig spec (pk_failsafe (ks_keeper s))\<rparr>,
        ks_manager := (if pk_requestTimeout (ks_keeper s) \<noteq> rt
          then (ks_manager s)\<lparr>pm_requestTimeout := rt\<rparr> else ks_manager s)\<rparr>)"

end
