(* ===== verification/Keeper_Params.thy ===== *)
theory Keeper_Params
  imports Keeper_Types Timeline
begin

text \<open>
  The configuration a keeper gives its instance: PostgreSQL parameters, connection and recovery
  parameters (\<open>pg_params.go\<close>, \<open>pg_state.go\<close>), access rules (\<open>hba.go\<close>), the choice between rewinding
  and cloning (\<open>resync.go\<close>), the accepted server versions (\<open>version.go\<close>, \<open>postgresql/utils.go\<close>) and
  the size format of PostgreSQL (\<open>utils/units/postgresql_size.go\<close>).
\<close>

section \<open>Numbers\<close>

text \<open>\<open>strconv.Itoa\<close> and \<open>strconv.Atoi\<close>\<close>

fun decimal :: "nat \<Rightarrow> string" where
  "decimal n = (if n < 10 then [char_of (48 + n)] else decimal (n div 10) @ [char_of (48 + n mod 10)])"

declare decimal.simps [simp del]

definition Itoa :: "int \<Rightarrow> string" where
  "Itoa i = (if i < 0 then CHR ''-'' # decimal (nat (- i)) else decimal (nat i))"

definition Atoi :: "string \<Rightarrow> int res" where
  "Atoi s =
     (let neg = HasPrefix s ''-'';
          ds = (if neg \<or> HasPrefix s ''+'' then tl s else s);
          mx = (if neg then 2 ^ 63 else 2 ^ 63 - 1)
      in if ds = [] then Inl (Err ''invalid syntax'')
         else case parse_digits 10 mx 0 ds of
             Inl e \<Rightarrow> Inl e | Inr n \<Rightarrow> Inr (if neg then - int n else int n))"

definition ErrInvalidBytesValue :: go_error where "ErrInvalidBytesValue = Err ''invalid bytes value''"

text \<open>Sizes are 64-bit; the multiplication wraps around.\<close>

definition ParsePostgreSQLBytes :: "string \<Rightarrow> u64 res" where
  "ParsePostgreSQLBytes value =
     (let trimmed = TrimSpace value;
          digits = takeWhile is_digit trimmed;
          sizeUnit = ToUpper (TrimSpace (dropWhile is_digit trimmed))
      in if trimmed = [] \<or> digits = [] then Inl ErrInvalidBytesValue
         else case ParseUint digits 10 64 of
             Inl e \<Rightarrow> Inl ErrInvalidBytesValue
           | Inr k \<Rightarrow>
               (let n = of_nat k in
                if sizeUnit = [] then Inr (n * 1024 * 1024)
                else if sizeUnit = ''B'' then Inr n
                else if sizeUnit = ''KB'' then Inr (n * 1024)
                else if sizeUnit = ''MB'' then Inr (n * 1024 * 1024)
                else if sizeUnit = ''GB'' then Inr (n * 1024 * 1024 * 1024)
                else if sizeUnit = ''TB'' then Inr (n * 1024 * 1024 * 1024 * 1024)
                else Inl ErrInvalidBytesValue))"

section \<open>Versions\<close>

definition supportedMajorVersions :: "int list" where "supportedMajorVersions = [14, 15, 16, 17, 18]"
definition supportedLegacyMajorVersions :: "int list" where "supportedLegacyMajorVersions = [12, 13]"

definition ParseVersion :: "string \<Rightarrow> (int \<times> int) res" where
  "ParseVersion v =
     (let parts = Split (CHR ''.'') v in
      case Atoi (hd parts) of
        Inl e \<Rightarrow> Inl e
      | Inr maj \<Rightarrow>
          if length parts > 1 then (case Atoi (parts ! 1) of Inl e \<Rightarrow> Inl e | Inr minor \<Rightarrow> Inr (maj, minor))
          else Inr (maj, 0))"

definition ValidateKnownMajorVersion :: "int \<Rightarrow> unit res" where
  "ValidateKnownMajorVersion major =
     guard (major \<notin> set supportedMajorVersions \<and> major \<notin> set supportedLegacyMajorVersions)
       (Err ''unsupported PostgreSQL major version'')"

definition MaxKnownMajorVersion :: int where
  "MaxKnownMajorVersion =
     (case supportedLegacyMajorVersions @ supportedMajorVersions of [] \<Rightarrow> 0 | v # vs \<Rightarrow> fold max vs v)"

definition validatePostgresVersion :: "bool \<Rightarrow> (int \<times> int) res \<Rightarrow> unit res" where
  "validatePostgresVersion allowNewer version =
     (case version of
        Inl e \<Rightarrow> Inl (Err ''failed to get postgres binary version'')
      | Inr (major, minor) \<Rightarrow>
          (case ValidateKnownMajorVersion major of
             Inl e \<Rightarrow> if allowNewer \<and> major > MaxKnownMajorVersion then Inr () else Inl e
           | Inr _ \<Rightarrow> Inr ()))"

section \<open>PostgreSQL parameters\<close>

definition minWalKeepSegments :: int where "minWalKeepSegments = 8"

definition walLevel :: "db \<Rightarrow> string" where
  "walLevel d = (if pg_param (dbs_PGParameters (db_Spec d)) ''wal_level'' = Some ''logical'' then ''logical'' else ''replica'')"

definition walKeepSegments :: "db \<Rightarrow> int" where
  "walKeepSegments d =
     (case pg_param (dbs_PGParameters (db_Spec d)) ''wal_keep_segments'' of
        None \<Rightarrow> minWalKeepSegments
      | Some v \<Rightarrow> (case Atoi v of Inl _ \<Rightarrow> minWalKeepSegments | Inr n \<Rightarrow> max minWalKeepSegments n))"

definition minMiB :: u64 where
  "minMiB = of_int minWalKeepSegments * (ucast (WalSegSize div (1024 * 1024)))"

definition defaultWalKeepSize :: string where
  "defaultWalKeepSize = decimal (unat minMiB) @ ''MB''"

definition walKeepSize :: "db \<Rightarrow> string" where
  "walKeepSize d =
     (case pg_param (dbs_PGParameters (db_Spec d)) ''wal_keep_size'' of
        None \<Rightarrow> defaultWalKeepSize
      | Some v \<Rightarrow>
          (case ParsePostgreSQLBytes v of
             Inl _ \<Rightarrow> defaultWalKeepSize
           | Inr sizeBytes \<Rightarrow> if sizeBytes < minMiB * 1024 * 1024 then defaultWalKeepSize else TrimSpace v))"

definition mandatoryPGParameters :: "(int \<times> int) res \<Rightarrow> db \<Rightarrow> params" where
  "mandatoryPGParameters version d =
     (let ps = [(''hot_standby'', ''on''), (''unix_socket_directories'', PgUnixSocketDirectories),
                (''wal_level'', walLevel d)]
      in case version of
           Inl _ \<Rightarrow> ps
         | Inr (major, _) \<Rightarrow>
             if major \<ge> 13 then pput ''wal_keep_size'' (walKeepSize d) ps
             else pput ''wal_keep_segments'' (Itoa (walKeepSegments d)) ps)"

definition currentPGParameterInt :: "postgres_keeper \<Rightarrow> string \<Rightarrow> int option" where
  "currentPGParameterInt k name =
     (case pk_lastPGState k of
        None \<Rightarrow> None
      | Some st \<Rightarrow> (case pg_param (pgs_PGParameters st) name of
          None \<Rightarrow> None
        | Some raw \<Rightarrow> if raw = [] then None else (case Atoi raw of Inl _ \<Rightarrow> None | Inr n \<Rightarrow> Some n)))"

text \<open>A limit is never lowered below what the instance runs with.\<close>

definition atLeastCurrent :: "postgres_keeper \<Rightarrow> string \<Rightarrow> int \<Rightarrow> int" where
  "atLeastCurrent k name desired =
     (case currentPGParameterInt k name of
        None \<Rightarrow> desired | Some current \<Rightarrow> if current > desired then current else desired)"

definition syncStandbyNames :: "db \<Rightarrow> string" where
  "syncStandbyNames d =
     (let names = map HysteronName (els (dbs_SynchronousStandbys (db_Spec d))) @
            els (dbs_ExternalSynchronousStandbys (db_Spec d))
      in if \<not> dbs_SynchronousReplication (db_Spec d) \<or> names = [] then []
         else if length names > 1 then Itoa (int (length names)) @ '' ('' @ JoinStr '','' names @ '')''
         else JoinStr '','' names)"

definition pgParameters :: "postgres_keeper \<Rightarrow> (int \<times> int) res \<Rightarrow> db \<Rightarrow> params" where
  "pgParameters k version d =
     (let sp = db_Spec d;
          p1 = (if dbs_IncludeConfig sp then pcopy [] (dls_InitPGParameters (pk_dbLocalState k)) else []);
          p2 = pcopy p1 (els (dbs_PGParameters sp));
          p3 = pcopy p2 (mandatoryPGParameters version d);
          p4 = (if dbs_EnableLogicalSlotFailover sp then pput ''hot_standby_feedback'' ''on'' p3 else p3);
          p5 = pput ''listen_addresses'' (kc_pgListenAddress (pk_config k)) p4;
          p6 = pput ''port'' (kc_pgPort (pk_config k)) p5;
          p7 = pput ''max_replication_slots''
                 (Itoa (atLeastCurrent k ''max_replication_slots'' (uint (dbs_MaxStandbys sp)))) p6;
          p8 = pput ''max_wal_senders'' (Itoa (atLeastCurrent k ''max_wal_senders''
                 (uint (dbs_MaxStandbys sp * 2 + 2 + dbs_AdditionalWalSenders sp)))) p7;
          p9 = (if dbs_UsePgrewind sp then pput ''wal_log_hints'' ''on'' p8 else p8)
      in pput ''synchronous_standby_names'' (syncStandbyNames d) p9)"

definition createPGParameters :: "'w keeper_host \<Rightarrow> db \<Rightarrow> ('w kst, params) act" where
  "createPGParameters h d =
     try_act (io (h_binaryVersion (kh_pg h))) (\<lambda>v s. (Inr (pgParameters (ks_keeper s) v d), s))"

section \<open>Connection and recovery parameters\<close>

definition tlsModeName :: "replication_tls_mode \<Rightarrow> string" where
  "tlsModeName t = (case t of
     ReplicationTLSModePrefer \<Rightarrow> ''prefer'' | ReplicationTLSModeRequire \<Rightarrow> ''require''
   | ReplicationTLSModeVerifyCA \<Rightarrow> ''verify-ca'' | ReplicationTLSModeVerifyFull \<Rightarrow> ''verify-full''
   | ReplicationTLSModeEmpty \<Rightarrow> '''' | ReplicationTLSModeOther s \<Rightarrow> s)"

definition sslMode :: "db \<Rightarrow> string" where
  "sslMode d = (let t = tlsModeName (dbs_ReplicationTLSMode (db_Spec d)) in if t = [] then ''prefer'' else t)"

definition getReplConnParams :: "keeper_config \<Rightarrow> db \<Rightarrow> db \<Rightarrow> params" where
  "getReplConnParams c d followedDB =
     (let ps = pcopy [] [(''user'', kc_pgReplUsername c), (''host'', dst_ListenAddress (db_Status followedDB)),
            (''port'', dst_Port (db_Status followedDB)), (''application_name'', HysteronName (db_UID d)),
            (''sslmode'', sslMode d)]
      in if kc_pgReplAuthMethod c \<noteq> ''trust'' then pput ''password'' (kc_pgReplPassword c) ps else ps)"

definition getSUConnParams :: "keeper_config \<Rightarrow> db \<Rightarrow> db \<Rightarrow> params" where
  "getSUConnParams c d followedDB =
     (let ps = pcopy [] [(''user'', kc_pgSUUsername c), (''host'', dst_ListenAddress (db_Status followedDB)),
            (''port'', dst_Port (db_Status followedDB)), (''application_name'', HysteronName (db_UID d)),
            (''dbname'', ''postgres''), (''sslmode'', sslMode d)]
      in if kc_pgSUAuthMethod c \<noteq> ''trust'' then pput ''password'' (kc_pgSUPassword c) ps else ps)"

definition getLocalConnParams :: "keeper_config \<Rightarrow> params" where
  "getLocalConnParams c =
     (let ps = pcopy [] [(''user'', kc_pgSUUsername c), (''host'', PgUnixSocketDirectories),
            (''port'', kc_pgPort c), (''dbname'', ''postgres'')]
      in if kc_pgSUAuthMethod c \<noteq> ''trust'' then pput ''password'' (kc_pgSUPassword c) ps else ps)"

definition getLocalReplConnParams :: "keeper_config \<Rightarrow> params" where
  "getLocalReplConnParams c =
     (let ps = pcopy [] [(''user'', kc_pgReplUsername c), (''password'', kc_pgReplPassword c),
            (''host'', PgUnixSocketDirectories), (''port'', kc_pgPort c)]
      in if kc_pgReplAuthMethod c \<noteq> ''trust'' then pput ''password'' (kc_pgReplPassword c) ps else ps)"

definition hasRecoveryTargetSelector :: "recovery_target_settings option \<Rightarrow> bool" where
  "hasRecoveryTargetSelector r =
     (case r of
        None \<Rightarrow> False
      | Some t \<Rightarrow> list_ex (\<lambda>v. TrimSpace v \<noteq> [])
          [rts_RecoveryTarget t, rts_RecoveryTargetLsn t, rts_RecoveryTargetName t, rts_RecoveryTargetTime t,
           rts_RecoveryTargetXid t])"

definition put_unless_empty :: "string \<Rightarrow> string \<Rightarrow> params \<Rightarrow> params" where
  "put_unless_empty k v ps = (if v = [] then ps else pput k v ps)"

definition createRecoveryOptions ::
  "recovery_mode \<Rightarrow> standby_settings option \<Rightarrow> archive_recovery_settings option \<Rightarrow>
     recovery_target_settings option \<Rightarrow> recovery_options" where
  "createRecoveryOptions mode ss ars rts =
     (let p1 = (case ss of None \<Rightarrow> [] | Some s \<Rightarrow>
            put_unless_empty ''recovery_min_apply_delay'' (ss_RecoveryMinApplyDelay s)
             (put_unless_empty ''primary_slot_name'' (ss_PrimarySlotName s)
               (put_unless_empty ''primary_conninfo'' (ss_PrimaryConninfo s) [])));
          p2 = (case ars of None \<Rightarrow> p1 | Some a \<Rightarrow> pput ''restore_command'' (ars_RestoreCommand a) p1);
          p3 = pput ''recovery_target_timeline'' ''latest'' p2;
          p4 = (case rts of None \<Rightarrow> p3 | Some t \<Rightarrow>
            (let q = put_unless_empty ''recovery_target_xid'' (rts_RecoveryTargetXid t)
                 (put_unless_empty ''recovery_target_time'' (rts_RecoveryTargetTime t)
                 (put_unless_empty ''recovery_target_name'' (rts_RecoveryTargetName t)
                 (put_unless_empty ''recovery_target_lsn'' (rts_RecoveryTargetLsn t)
                 (put_unless_empty ''recovery_target'' (rts_RecoveryTarget t)
                 (put_unless_empty ''recovery_target_timeline'' (rts_RecoveryTargetTimeline t) p3)))))
             in if hasRecoveryTargetSelector rts then pput ''recovery_target_action'' ''promote'' q else q))
      in \<lparr>rco_RecoveryParameters = p4, rco_RecoveryMode = mode\<rparr>)"

definition internalStandbySettings :: "keeper_config \<Rightarrow> db \<Rightarrow> db \<Rightarrow> standby_settings" where
  "internalStandbySettings c d followedDB =
     \<lparr>ss_PrimaryConninfo = ConnString (getReplConnParams c d followedDB),
      ss_PrimarySlotName = HysteronName (db_UID d), ss_RecoveryMinApplyDelay = []\<rparr>"

section \<open>Access rules\<close>

text \<open>\<open>None\<close>: the process exits on a role that is neither master nor standby, or dereferences nil.\<close>

definition IsMaster :: "db \<Rightarrow> bool option" where
  "IsMaster d =
     (case dbs_Role (db_Spec d) of
        RoleMaster \<Rightarrow> Some True
      | RoleStandby \<Rightarrow> map_option (\<lambda>fc. fc_Type fc = FollowTypeExternal) (dbs_FollowConfig (db_Spec d))
      | _ \<Rightarrow> None)"

definition hba_line :: "string list \<Rightarrow> string" where
  "hba_line ws = JoinStr '' '' ws"

definition internalHBA :: "keeper_config \<Rightarrow> cluster_data \<Rightarrow> db \<Rightarrow> string list list option" where
  "internalHBA c cd d =
     (let su = kc_pgSUUsername c; suAuth = kc_pgSUAuthMethod c;
          repl = kc_pgReplUsername c; replAuth = kc_pgReplAuthMethod c;
          local = [[''local'', ''postgres'', su, suAuth], [''local'', ''replication'', repl, replAuth]]
      in case cs_DefaultSUReplAccessMode (DefSpec (cd_Cluster cd)) of
           None \<Rightarrow> None
         | Some SUReplAccessAll \<Rightarrow> Some (local @
             [[''host'', ''all'', su, ''0.0.0.0/0'', suAuth], [''host'', ''all'', su, ''::0/0'', suAuth],
              [''host'', ''replication'', repl, ''0.0.0.0/0'', replAuth],
              [''host'', ''replication'', repl, ''::0/0'', replAuth]])
         | Some SUReplAccessStrict \<Rightarrow>
             map_option (\<lambda>isMaster. local @
               (if isMaster then
                  concat (map (\<lambda>a. [[''host'', ''all'', su, a @ ''/32'', replAuth],
                                    [''host'', ''replication'', repl, a @ ''/32'', replAuth]])
                    (sort (map (\<lambda>e. dst_ListenAddress (db_Status e))
                       (filter (\<lambda>e. db_UID e \<noteq> db_UID d) (mvals (cd_DBs cd))))))
                else [])) (IsMaster d)
         | Some (SUReplAccessOther _) \<Rightarrow> Some local)"

definition userHBA :: "keeper_config \<Rightarrow> db \<Rightarrow> string list" where
  "userHBA c d =
     (case dbs_PGHBA (db_Spec d) of
        Some lines \<Rightarrow> lines
      | None \<Rightarrow>
          (let auth = (if kc_pgSUAuthMethod c = ''scram-sha-256'' \<or> kc_pgReplAuthMethod c = ''scram-sha-256''
             then ''scram-sha-256'' else ''md5'')
           in [''host all all 0.0.0.0/0 '' @ auth, ''host all all ::0/0 '' @ auth]))"

definition generateHBA :: "keeper_config \<Rightarrow> cluster_data \<Rightarrow> db \<Rightarrow> bool \<Rightarrow> string list option" where
  "generateHBA c cd d onlyInternal =
     map_option (\<lambda>rules. map hba_line rules @ (if onlyInternal then [] else userHBA c d)) (internalHBA c cd d)"

section \<open>Rewind or clone\<close>

datatype pgrewind_reason =
  pgrewindReasonNotInitialized | pgrewindReasonSystemIDDiff | pgrewindReasonNoMaster
| pgrewindReasonWalCheckErr | pgrewindReasonWalMissing | pgrewindReasonAllowed

definition evaluatePgrewindDecision ::
  "bool \<Rightarrow> string \<Rightarrow> string \<Rightarrow> bool \<Rightarrow> u64 \<Rightarrow> string \<Rightarrow> bool \<times> pgrewind_reason" where
  "evaluatePgrewindDecision initialized localSystemID followedSystemID hasMaster dbXLogPos masterOlderWal =
     (if \<not> initialized then (False, pgrewindReasonNotInitialized)
      else if localSystemID \<noteq> followedSystemID then (False, pgrewindReasonSystemIDDiff)
      else if \<not> hasMaster then (False, pgrewindReasonNoMaster)
      else case IsRequiredWalAvailable dbXLogPos masterOlderWal WalSegSize of
          Inl _ \<Rightarrow> (True, pgrewindReasonWalCheckErr)
        | Inr available \<Rightarrow>
            if available then (True, pgrewindReasonAllowed) else (False, pgrewindReasonWalMissing))"

definition usePgrewind :: "keeper_config \<Rightarrow> db \<Rightarrow> bool" where
  "usePgrewind c d \<longleftrightarrow> kc_pgSUUsername c \<noteq> [] \<and> kc_pgSUPassword c \<noteq> [] \<and> dbs_UsePgrewind (db_Spec d)"

definition keeperDifferentTimelineBranch :: "db \<Rightarrow> postgres_state \<Rightarrow> bool" where
  "keeperDifferentTimelineBranch followedDB pgState =
     tbd_Different (DetectTimelineBranchDivergence
       (dst_TimelineID (db_Status followedDB)) (dst_TimelinesHistory (db_Status followedDB))
       (dst_XLogPos (db_Status followedDB)) (pgs_TimelineID pgState) (pgs_TimelinesHistory pgState)
       (pgs_XLogPos pgState))"

end
