(* ===== verification/Keeper_Slots.thy ===== *)
theory Keeper_Slots
  imports Keeper_Types
begin

text \<open>
  Replication slots (\<open>internal/runtime/keeper/replication.go\<close>): which physical and logical slots an
  instance should have, which ones may be dropped, how standbys move their logical slots forward, and
  the reconciliation that carries this out. A Go set of strings is the list of its elements; where the
  code visits one, the order is the one \<open>kh_order\<close> chooses. Counters of metrics and log messages are
  left out, the flags that keep a message from being repeated are kept.
\<close>

section \<open>Physical slots\<close>

definition isIgnoredPhysicalSlotByMatcher :: "string \<Rightarrow> slot_matcher list \<Rightarrow> bool" where
  "isIgnoredPhysicalSlotByMatcher slotName matchers \<longleftrightarrow> list_ex (\<lambda>m.
     (sm_Type m = ReplicationSlotTypeEmpty \<or> sm_Type m = ReplicationSlotTypePhysical) \<and>
     (sm_Name m = [] \<or> sm_Name m = slotName) \<and> sm_Database m = [] \<and> sm_Plugin m = []) matchers"

definition isIgnoredLogicalSlotByMatcher :: "logical_slot \<Rightarrow> slot_matcher list \<Rightarrow> bool" where
  "isIgnoredLogicalSlotByMatcher slot matchers \<longleftrightarrow> list_ex (\<lambda>m.
     (sm_Type m = ReplicationSlotTypeEmpty \<or> sm_Type m = ReplicationSlotTypeLogical) \<and>
     (sm_Name m = [] \<or> sm_Name m = lgs_Name slot) \<and>
     (sm_Database m = [] \<or> sm_Database m = lgs_Database slot) \<and>
     (sm_Plugin m = [] \<or> sm_Plugin m = lgs_Plugin slot)) matchers"

definition wantedSlots ::
  "uid \<Rightarrow> uid list \<Rightarrow> string list \<Rightarrow> string list \<Rightarrow> slot_matcher list \<Rightarrow> string list" where
  "wantedSlots uid followersUIDs additionalReplSlots ignoredReplSlots matchers =
     remdups (filter (\<lambda>slot. slot \<notin> set ignoredReplSlots \<and> \<not> isIgnoredPhysicalSlotByMatcher slot matchers)
       (map HysteronName (filter (\<lambda>u. u \<noteq> uid) followersUIDs) @ map HysteronName additionalReplSlots))"

definition managedReplicationSlots ::
  "uid \<Rightarrow> uid list \<Rightarrow> string list \<Rightarrow> string list \<Rightarrow> slot_matcher list \<Rightarrow> string list \<times> string list" where
  "managedReplicationSlots uid followersUIDs additionalReplSlots ignoredReplSlots matchers =
     (wantedSlots uid followersUIDs additionalReplSlots ignoredReplSlots matchers, remdups ignoredReplSlots)"

definition shouldDropUnmanagedHysteronSlot ::
  "string \<Rightarrow> duration \<Rightarrow> (string, time) gomap \<Rightarrow> (string, physical_slot) gomap \<Rightarrow> uid list \<Rightarrow> time \<Rightarrow> bool" where
  "shouldDropUnmanagedHysteronSlot slot memberSlotTTL orphanMemberSlots physicalSlotState knownDBUIDs t =
     (if memberSlotTTL \<le> 0 then True
      else if IsHysteronName slot \<and> NameFromHysteronName slot \<in> set knownDBUIDs \<and> map_of orphanMemberSlots slot = None
      then False
      else case map_of orphanMemberSlots slot of
          None \<Rightarrow> True
        | Some orphanSince \<Rightarrow>
            if time_sub t orphanSince < memberSlotTTL then False
            else (case map_of physicalSlotState slot of
              None \<Rightarrow> False | Some st \<Rightarrow> \<not> phs_Active st \<and> \<not> phs_HasXmin st))"

text \<open>
  Dropping goes on after an error and looks at the clock for every slot; creating stops at the first
  error.
\<close>

definition dropCandidates :: "string list \<Rightarrow> string list \<Rightarrow> string list \<Rightarrow> slot_matcher list \<Rightarrow> string list" where
  "dropCandidates curReplSlots internalReplSlots ignoredSlots matchers =
     filter (\<lambda>slot. IsHysteronName slot \<and> slot \<notin> set ignoredSlots \<and> \<not> isIgnoredPhysicalSlotByMatcher slot matchers \<and>
       slot \<notin> set internalReplSlots) curReplSlots"

fun dropSlots :: "'w host \<Rightarrow> (string \<Rightarrow> time \<Rightarrow> bool) \<Rightarrow> string list \<Rightarrow> ('w, unit) act" where
  "dropSlots h shouldDrop [] w = (Inr (), w)"
| "dropSlots h shouldDrop (slot # slots) w =
     (if shouldDrop slot (h_now h w)
      then (case h_dropSlot h slot w of (_, w') \<Rightarrow> dropSlots h shouldDrop slots w')
      else dropSlots h shouldDrop slots w)"

definition updateReplSlots ::
  "'w keeper_host \<Rightarrow> string list \<Rightarrow> db \<Rightarrow> duration \<Rightarrow> (string, physical_slot) gomap \<Rightarrow> uid list \<Rightarrow> ('w, unit) act" where
  "updateReplSlots h curReplSlots d memberSlotTTL physicalSlotState knownDBUIDs =
     (let sp = db_Spec d; matchers = els (dbs_IgnoreReplicationSlotMatchers sp);
          (internalReplSlots, ignoredSlots) = managedReplicationSlots (db_UID d) (els (dbs_Followers sp))
            (els (dbs_AdditionalReplicationSlots sp)) (els (dbs_IgnoreReplicationSlots sp)) matchers;
          shouldDrop = (\<lambda>slot. shouldDropUnmanagedHysteronSlot slot memberSlotTTL
            (els (dst_OrphanMemberSlots (db_Status d))) physicalSlotState knownDBUIDs)
      in acts (dropSlots (kh_pg h) shouldDrop (dropCandidates curReplSlots internalReplSlots ignoredSlots matchers) #
           map (h_createSlot (kh_pg h)) (filter (\<lambda>slot. slot \<notin> set curReplSlots) (kh_order h internalReplSlots))))"

definition staleSlotsWithXmin ::
  "physical_slot list \<Rightarrow> string list \<Rightarrow> string list \<Rightarrow> slot_matcher list \<Rightarrow> string list" where
  "staleSlotsWithXmin slots managedSlots ignoredSlots matchers =
     sort (map phs_Name (filter (\<lambda>s. IsHysteronName (phs_Name s) \<and> \<not> phs_Active s \<and> phs_HasXmin s \<and>
       phs_Name s \<notin> set ignoredSlots \<and> \<not> isIgnoredPhysicalSlotByMatcher (phs_Name s) matchers \<and>
       phs_Name s \<notin> set managedSlots) slots))"

section \<open>Logical slots\<close>

record logical_slots_decision =
  lsd_create :: "managed_logical_slot list"
  lsd_drop :: "string list"
  lsd_mismatch :: "string list"
  lsd_active :: "string list"

text \<open>The slot a specification describes, and the last slot of a name in a listing.\<close>

definition desiredCurrent :: "managed_logical_slot \<Rightarrow> logical_slot" where
  "desiredCurrent s = \<lparr>lgs_Name = mls_Name s, lgs_Database = mls_Database s, lgs_Plugin = mls_Plugin s,
     lgs_ConfirmedFlushLSN = 0, lgs_Active = False, lgs_Failover = False, lgs_Synced = False\<rparr>"

definition currentByName :: "logical_slot list \<Rightarrow> string \<Rightarrow> logical_slot option" where
  "currentByName current n = map_of (rev (map (\<lambda>s. (lgs_Name s, s)) current)) n"

definition desiredByName :: "managed_logical_slot list \<Rightarrow> string \<Rightarrow> managed_logical_slot option" where
  "desiredByName desired n = map_of (rev (map (\<lambda>s. (mls_Name s, s)) desired)) n"

definition differs :: "logical_slot \<Rightarrow> managed_logical_slot \<Rightarrow> bool" where
  "differs s want \<longleftrightarrow> lgs_Database s \<noteq> mls_Database want \<or> lgs_Plugin s \<noteq> mls_Plugin want"

definition evaluateManagedLogicalSlotsDecision ::
  "managed_logical_slot list \<Rightarrow> logical_slot list \<Rightarrow> slot_matcher list \<Rightarrow> logical_slots_decision" where
  "evaluateManagedLogicalSlotsDecision desired current matchers =
     (let considered = filter (\<lambda>s. \<not> isIgnoredLogicalSlotByMatcher (desiredCurrent s) matchers) desired;
          unmanaged = filter (\<lambda>s. desiredByName desired (lgs_Name s) = None \<and> IsHysteronName (lgs_Name s) \<and>
            \<not> isIgnoredLogicalSlotByMatcher s matchers) current
      in \<lparr>lsd_create = filter (\<lambda>s. currentByName current (mls_Name s) = None) considered,
          lsd_drop = sort (map lgs_Name (filter (\<lambda>s. \<not> lgs_Active s) unmanaged)),
          lsd_mismatch = sort (map mls_Name (filter (\<lambda>s. case currentByName current (mls_Name s) of
             None \<Rightarrow> False | Some c \<Rightarrow> differs c s) considered)),
          lsd_active = sort (map lgs_Name (filter lgs_Active unmanaged))\<rparr>)"

definition evaluateManagedLogicalSlotReadiness ::
  "managed_logical_slot list \<Rightarrow> logical_slot list \<Rightarrow> slot_matcher list \<Rightarrow> string list \<times> string list" where
  "evaluateManagedLogicalSlotReadiness desired current matchers =
     (let considered = filter (\<lambda>s. \<not> isIgnoredLogicalSlotByMatcher (desiredCurrent s) matchers) desired
      in (sort (map mls_Name (filter (\<lambda>s. currentByName current (mls_Name s) = None) considered)),
          sort (map mls_Name (filter (\<lambda>s. case currentByName current (mls_Name s) of
             None \<Rightarrow> False | Some c \<Rightarrow> \<not> isIgnoredLogicalSlotByMatcher c matchers \<and> differs c s) considered))))"

definition managedLogicalSlotReadinessSignature :: "string list \<times> string list \<Rightarrow> string" where
  "managedLogicalSlotReadinessSignature r =
     JoinStr ''|'' (sort (map (\<lambda>s. ''missing:'' @ s) (fst r) @ map (\<lambda>s. ''mismatch:'' @ s) (snd r)))"

definition evaluateBrokenNativeFailoverLogicalSlots ::
  "managed_logical_slot list \<Rightarrow> logical_slot list \<Rightarrow> slot_matcher list \<Rightarrow> string list" where
  "evaluateBrokenNativeFailoverLogicalSlots desired current matchers =
     sort (map lgs_Name (filter (\<lambda>s. case desiredByName desired (lgs_Name s) of
         None \<Rightarrow> False
       | Some want \<Rightarrow> IsHysteronName (lgs_Name s) \<and> \<not> isIgnoredLogicalSlotByMatcher s matchers \<and>
           \<not> differs s want \<and> lgs_Failover s \<and> \<not> lgs_Synced s) current))"

datatype reconcile_reason = NotConfigured | WalLevelNotLogical | ReconcileEnabled

definition shouldReconcileManagedLogicalSlots ::
  "managed_logical_slot list \<Rightarrow> pg_parameters \<Rightarrow> bool \<times> reconcile_reason" where
  "shouldReconcileManagedLogicalSlots desired currentPGParameters =
     (if desired = [] then (False, NotConfigured)
      else if ToLower (TrimSpace (case pg_param currentPGParameters ''wal_level'' of None \<Rightarrow> [] | Some v \<Rightarrow> v)) \<noteq> ''logical''
      then (False, WalLevelNotLogical) else (True, ReconcileEnabled))"

definition shouldUseNativeLogicalSlotFailover :: "bool \<Rightarrow> int \<Rightarrow> bool" where
  "shouldUseNativeLogicalSlotFailover en pgMajor \<longleftrightarrow> en \<and> pgMajor \<ge> 17"

definition shouldUseStandbyLogicalSlotAdvance :: "bool \<Rightarrow> int \<Rightarrow> bool \<Rightarrow> bool" where
  "shouldUseStandbyLogicalSlotAdvance en pgMajor noStream \<longleftrightarrow> en \<and> pgMajor \<ge> 16 \<and> \<not> noStream"

section \<open>Moving logical slots forward on standbys\<close>

record advance_operation =
  ao_Name :: string
  ao_Database :: string
  ao_TargetLSN :: u64

definition computeLogicalSlotAdvanceTarget :: "u64 \<Rightarrow> u64 \<Rightarrow> u64 \<Rightarrow> u64 option" where
  "computeLogicalSlotAdvanceTarget desiredLSN replayLSN currentConfirmedFlushLSN =
     (if desiredLSN = 0 \<or> replayLSN = 0 then None
      else let target = min replayLSN desiredLSN in
        if target \<le> currentConfirmedFlushLSN then None else Some target)"

definition masterManagedLogicalSlotLSN :: "(uid list \<Rightarrow> uid list) \<Rightarrow> dbs \<Rightarrow> (string \<times> u64) list" where
  "masterManagedLogicalSlotLSN order ds =
     (case filter (\<lambda>d. dbs_Role (db_Spec d) = RoleMaster) (List.map_filter (map_of ds) (order (mkeys ds))) of
        [] \<Rightarrow> [] | d # _ \<Rightarrow> els (dst_ManagedLogicalSlots (db_Status d)))"

definition logicalSlotLSNMap :: "logical_slot list \<Rightarrow> (string \<times> u64) slice" where
  "logicalSlotLSNMap current =
     (if current = [] then None
      else Some (fold (\<lambda>s m. AList.update (lgs_Name s) (lgs_ConfirmedFlushLSN s) m) current []))"

definition advanceOperation ::
  "logical_slot list \<Rightarrow> (string \<times> u64) list \<Rightarrow> u64 \<Rightarrow> slot_matcher list \<Rightarrow> managed_logical_slot \<Rightarrow>
     advance_operation option" where
  "advanceOperation current masterLSN replayLSN matchers desiredSlot =
     (if isIgnoredLogicalSlotByMatcher (desiredCurrent desiredSlot) matchers then None
      else case (map_of masterLSN (mls_Name desiredSlot), currentByName current (mls_Name desiredSlot)) of
          (Some desiredLSN, Some currentSlot) \<Rightarrow>
            if isIgnoredLogicalSlotByMatcher currentSlot matchers \<or> differs currentSlot desiredSlot then None
            else map_option (\<lambda>target. \<lparr>ao_Name = mls_Name desiredSlot, ao_Database = mls_Database desiredSlot,
                ao_TargetLSN = target\<rparr>)
              (computeLogicalSlotAdvanceTarget desiredLSN replayLSN (lgs_ConfirmedFlushLSN currentSlot))
        | _ \<Rightarrow> None)"

definition evaluateManagedLogicalSlotAdvanceOperations ::
  "managed_logical_slot list \<Rightarrow> logical_slot list \<Rightarrow> (string \<times> u64) list \<Rightarrow> u64 \<Rightarrow> slot_matcher list \<Rightarrow>
     advance_operation list" where
  "evaluateManagedLogicalSlotAdvanceOperations desired current masterLSN replayLSN matchers =
     (if desired = [] \<or> current = [] \<or> masterLSN = [] \<or> replayLSN = 0 then []
      else List.map_filter (advanceOperation current masterLSN replayLSN matchers) desired)"

definition logicalSlotAdvanceRetryKey :: "string \<Rightarrow> string \<Rightarrow> string" where
  "logicalSlotAdvanceRetryKey slotName database = slotName @ ''@'' @ database"

definition shouldAttemptLogicalSlotAdvance :: "(string, time) gomap \<Rightarrow> string \<Rightarrow> time \<Rightarrow> bool" where
  "shouldAttemptLogicalSlotAdvance retryAfter key t =
     (case map_of retryAfter key of None \<Rightarrow> True | Some next \<Rightarrow> \<not> t < next)"

definition markLogicalSlotAdvanceFailure ::
  "string \<Rightarrow> time \<Rightarrow> duration \<Rightarrow> (string, time) gomap \<Rightarrow> (string, time) gomap" where
  "markLogicalSlotAdvanceFailure key t retryDelay = AList.update key (t + retryDelay)"

definition clearLogicalSlotAdvanceFailure :: "string \<Rightarrow> (string, time) gomap \<Rightarrow> (string, time) gomap" where
  "clearLogicalSlotAdvanceFailure key = AList.delete key"

definition pruneLogicalSlotAdvanceRetryAfter :: "time \<Rightarrow> (string, time) gomap \<Rightarrow> (string, time) gomap" where
  "pruneLogicalSlotAdvanceRetryAfter t = filter (\<lambda>(key, next). t < next)"

definition enqueueOperation ::
  "time \<Rightarrow> (string \<times> u64) list \<Rightarrow> u64 \<Rightarrow> advance_operation \<Rightarrow> logical_slot_state \<Rightarrow> logical_slot_state" where
  "enqueueOperation t masterLSN replayLSN op st =
     (let key = logicalSlotAdvanceRetryKey (ao_Name op) (ao_Database op) in
      if \<not> shouldAttemptLogicalSlotAdvance (lss_retryAfter st) key t then st
      else
        (let next = \<lparr>qa_Name = ao_Name op, qa_Database = ao_Database op,
               qa_DesiredLSN = (case map_of masterLSN (ao_Name op) of None \<Rightarrow> 0 | Some l \<Rightarrow> l),
               qa_ReplayLSN = replayLSN, qa_TargetLSN = ao_TargetLSN op\<rparr>
         in case map_of (lss_pending st) key of
              Some current \<Rightarrow>
                if qa_TargetLSN current \<ge> qa_TargetLSN next then st
                else st\<lparr>lss_pending := AList.update key next (lss_pending st)\<rparr>
            | None \<Rightarrow> st\<lparr>lss_pending := AList.update key next (lss_pending st)\<rparr>))"

definition enqueueLogicalSlotAdvanceOperations ::
  "time \<Rightarrow> advance_operation list \<Rightarrow> (string \<times> u64) list \<Rightarrow> u64 \<Rightarrow> logical_slot_state \<Rightarrow> logical_slot_state" where
  "enqueueLogicalSlotAdvanceOperations t ops masterLSN replayLSN st =
     (if ops = [] then st
      else fold (enqueueOperation t masterLSN replayLSN) ops
        (st\<lparr>lss_retryAfter := pruneLogicalSlotAdvanceRetryAfter t (lss_retryAfter st)\<rparr>))"

definition resetLogicalSlotAdvanceState :: "logical_slot_state \<Rightarrow> logical_slot_state" where
  "resetLogicalSlotAdvanceState st = st\<lparr>lss_retryAfter := [], lss_pending := []\<rparr>"

lemma length_delete_less: "map_of m k = Some v \<Longrightarrow> length (AList.delete k m) < length m"
proof -
  assume "map_of m k = Some v"
  then have "(k, v) \<in> set m" by (rule map_of_SomeD)
  then show ?thesis unfolding AList.delete_eq by (rule length_filter_less) simp
qed

text \<open>
  The worker, once woken: it takes one pending operation after the other, in any order, until none is
  left that may be attempted. Each turn removes an operation, so the loop ends.
\<close>

function drainAdvances ::
  "'w keeper_host \<Rightarrow> duration \<Rightarrow> logical_slot_state \<Rightarrow> 'w \<Rightarrow> logical_slot_state \<times> 'w" where
  "drainAdvances h retryDelay st w =
     (if lss_pending st = [] then (st, w)
      else
        (let t = h_now (kh_pg h) w;
             retry = pruneLogicalSlotAdvanceRetryAfter t (lss_retryAfter st);
             keys = filter (\<lambda>key. shouldAttemptLogicalSlotAdvance retry key t) (kh_order h (mkeys (lss_pending st)))
         in case keys of
              [] \<Rightarrow> (st\<lparr>lss_retryAfter := retry\<rparr>, w)
            | key # _ \<Rightarrow>
                (case map_of (lss_pending st) key of
                   None \<Rightarrow> (st\<lparr>lss_retryAfter := retry\<rparr>, w)
                 | Some op \<Rightarrow>
                     (case h_advanceLogicalSlot (kh_pg h) (qa_Name op) (qa_Database op) (qa_TargetLSN op) w of
                        (r, w') \<Rightarrow>
                          drainAdvances h retryDelay
                            (st\<lparr>lss_pending := AList.delete key (lss_pending st),
                                lss_retryAfter := (case r of
                                  Inl _ \<Rightarrow> markLogicalSlotAdvanceFailure key t retryDelay retry
                                | Inr _ \<Rightarrow> clearLogicalSlotAdvanceFailure key retry)\<rparr>) w'))))"
  by pat_completeness auto

termination
  by (relation "measure (\<lambda>(h, d, st, w). length (lss_pending st))") (auto simp: length_delete_less)

declare drainAdvances.simps [simp del]

section \<open>Reconciliation\<close>

definition modifySlots :: "(logical_slot_state \<Rightarrow> logical_slot_state) \<Rightarrow> ('w kst, unit) act" where
  "modifySlots f s = (Inr (), upd_slots f s)"

definition dropLogicalSlots :: "'w keeper_host \<Rightarrow> string list \<Rightarrow> ('w kst, unit) act" where
  "dropLogicalSlots h slots = acts (map (\<lambda>slot. io (h_dropLogicalSlot (kh_pg h) slot)) slots)"

fun tryDropLogicalSlots :: "'w keeper_host \<Rightarrow> string list \<Rightarrow> ('w kst, unit) act" where
  "tryDropLogicalSlots h [] = return_act ()"
| "tryDropLogicalSlots h (slot # slots) =
     try_act (io (h_dropLogicalSlot (kh_pg h) slot)) (\<lambda>_. tryDropLogicalSlots h slots)"

definition standbyAdvance ::
  "'w keeper_host \<Rightarrow> db \<Rightarrow> dbs \<Rightarrow> logical_slot list \<Rightarrow> int res \<Rightarrow> ('w kst, unit) act" where
  "standbyAdvance h d ds current version s =
     (let sp = db_Spec d in
      case version of
        Inl _ \<Rightarrow> (Inr (), s)
      | Inr pgMajor \<Rightarrow>
          if shouldUseStandbyLogicalSlotAdvance (dbs_EnableLogicalSlotFailover sp) pgMajor (dbs_NoStream sp) then
            (let masterLSN = masterManagedLogicalSlotLSN (kh_order h) ds;
                 ops = evaluateManagedLogicalSlotAdvanceOperations (els (dbs_ManagedLogicalReplicationSlots sp)) current
                   masterLSN (dst_XLogPos (db_Status d)) (els (dbs_IgnoreReplicationSlotMatchers sp))
             in modifySlots (\<lambda>st. enqueueLogicalSlotAdvanceOperations (h_now (kh_pg h) (ks_world s)) ops masterLSN
                  (dst_XLogPos (db_Status d)) (st\<lparr>lss_advanceUnavailableNoticeEmitted := False\<rparr>)) s)
          else modifySlots (\<lambda>st. st\<lparr>lss_advanceUnavailableNoticeEmitted := True\<rparr>) s)"

definition refreshStandbySlots ::
  "'w keeper_host \<Rightarrow> db \<Rightarrow> dbs \<Rightarrow> logical_slot list \<Rightarrow> ('w kst, unit) act" where
  "refreshStandbySlots h d ds current =
     (let sp = db_Spec d; desired = els (dbs_ManagedLogicalReplicationSlots sp);
          matchers = els (dbs_IgnoreReplicationSlotMatchers sp)
      in if \<not> dbs_EnableLogicalSlotFailover sp then
           modifySlots (\<lambda>st. resetLogicalSlotAdvanceState (st\<lparr>lss_readinessLast := [],
             lss_advanceUnavailableNoticeEmitted := False, lss_noStreamNoticeEmitted := False\<rparr>))
         else if dbs_NoStream sp then
           modifySlots (\<lambda>st. resetLogicalSlotAdvanceState (st\<lparr>lss_readinessLast := [],
             lss_advanceUnavailableNoticeEmitted := False, lss_noStreamNoticeEmitted := True\<rparr>))
         else acts
           [modifySlots (\<lambda>st. st\<lparr>lss_noStreamNoticeEmitted := False\<rparr>),
            try_act (io (h_binaryVersion (kh_pg h))) (\<lambda>v.
              let version = (case v of Inl e \<Rightarrow> Inl e | Inr (major, _) \<Rightarrow> Inr major) in acts
                [standbyAdvance h d ds current version,
                 case version of
                   Inl _ \<Rightarrow> return_act ()
                 | Inr pgMajor \<Rightarrow>
                     if shouldUseNativeLogicalSlotFailover (dbs_EnableLogicalSlotFailover sp) pgMajor
                     then tryDropLogicalSlots h (evaluateBrokenNativeFailoverLogicalSlots desired current matchers)
                     else return_act ()]),
            modifySlots (\<lambda>st. st\<lparr>lss_readinessLast := managedLogicalSlotReadinessSignature
              (evaluateManagedLogicalSlotReadiness desired current matchers)\<rparr>)])"

text \<open>The flag of new logical slots, and the notices about the mode.\<close>

definition slotMode :: "bool \<Rightarrow> (int \<times> int) res \<Rightarrow> bool \<times> (logical_slot_state \<Rightarrow> logical_slot_state)" where
  "slotMode en v =
     (if \<not> en then (False, \<lambda>st. st\<lparr>lss_legacyModeNoticeEmitted := False, lss_nativeModeNoticeEmitted := False\<rparr>)
      else case v of
          Inl _ \<Rightarrow> (False, id)
        | Inr (pgMajor, _) \<Rightarrow>
            if shouldUseNativeLogicalSlotFailover en pgMajor
            then (True, \<lambda>st. st\<lparr>lss_nativeModeNoticeEmitted := True, lss_legacyModeNoticeEmitted := False\<rparr>)
            else (False, \<lambda>st. st\<lparr>lss_legacyModeNoticeEmitted := True, lss_nativeModeNoticeEmitted := False\<rparr>))"

definition refreshMasterSlots :: "'w keeper_host \<Rightarrow> db \<Rightarrow> logical_slot list \<Rightarrow> ('w kst, unit) act" where
  "refreshMasterSlots h d current =
     (let sp = db_Spec d;
          dec = evaluateManagedLogicalSlotsDecision (els (dbs_ManagedLogicalReplicationSlots sp)) current
            (els (dbs_IgnoreReplicationSlotMatchers sp))
      in acts
        [modifySlots (\<lambda>st. (resetLogicalSlotAdvanceState st)\<lparr>lss_readinessLast := []\<rparr>),
         try_act (if dbs_EnableLogicalSlotFailover sp then io (h_binaryVersion (kh_pg h)) else return_act (0, 0)) (\<lambda>v.
           case slotMode (dbs_EnableLogicalSlotFailover sp) v of
             (createFailoverSlot, notices) \<Rightarrow> acts
               (modifySlots notices #
                map (\<lambda>slot. io (h_createLogicalSlot (kh_pg h) (mls_Name slot) (mls_Database slot) (mls_Plugin slot)
                  createFailoverSlot)) (lsd_create dec) @
                [dropLogicalSlots h (lsd_drop dec)]))])"

definition refreshLogicalSlots ::
  "'w keeper_host \<Rightarrow> db \<Rightarrow> dbs \<Rightarrow> logical_slot list \<Rightarrow> ('w kst, unit) act" where
  "refreshLogicalSlots h d ds current =
     (let sp = db_Spec d in
      case shouldReconcileManagedLogicalSlots (els (dbs_ManagedLogicalReplicationSlots sp)) (dst_PGParameters (db_Status d)) of
        (False, reason) \<Rightarrow>
          if reason = NotConfigured \<and> dbs_Role sp = RoleMaster
          then dropLogicalSlots h (lsd_drop (evaluateManagedLogicalSlotsDecision [] current
            (els (dbs_IgnoreReplicationSlotMatchers sp))))
          else return_act ()
      | (True, _) \<Rightarrow>
          if dbs_Role sp \<noteq> RoleMaster then refreshStandbySlots h d ds current else refreshMasterSlots h d current)"

definition refreshReplicationSlots ::
  "'w keeper_host \<Rightarrow> cluster_spec \<Rightarrow> db \<Rightarrow> dbs \<Rightarrow> ('w kst, unit) act" where
  "refreshReplicationSlots h cspec d ds =
     try_act (io (h_physicalSlots (kh_pg h))) (\<lambda>r.
       let physicalSlots = (case r of Inl _ \<Rightarrow> [] | Inr xs \<Rightarrow> xs);
           memberSlotTTL = (case cs_MemberReplicationSlotTTL cspec of None \<Rightarrow> 0 | Some ttl \<Rightarrow> ttl)
       in acts
         [io (updateReplSlots h (map phs_Name physicalSlots) d memberSlotTTL
            (rev (map (\<lambda>s. (phs_Name s, s)) physicalSlots)) (mkeys ds)),
          modifySlots (\<lambda>st. st\<lparr>lss_gateNoticeEmitted := dbs_EnableLogicalSlotFailover (db_Spec d)\<rparr>),
          try_act (io (h_logicalSlots (kh_pg h))) (\<lambda>l. case l of
              Inl _ \<Rightarrow> return_act ()
            | Inr current \<Rightarrow> refreshLogicalSlots h d ds current)])"

end
