(* ===== verification/Keeper.thy ===== *)
theory Keeper
  imports Keeper_Params Keeper_Slots
begin

text \<open>
  The keeper (\<open>internal/runtime/keeper/keeper.go\<close>, \<open>resync.go\<close>, \<open>status.go\<close>, \<open>pg_state.go\<close>): one tick
  of its state machine, which makes the local instance what the cluster data says, and the state it
  publishes. The tick is a step in the sense of \<open>Flow\<close>: it goes on to its end, returns early or
  panics. Every early return of the source is one here; errors that are only logged are ignored.
\<close>

section \<open>Published state\<close>

definition managedPGParameters :: "string list" where
  "managedPGParameters =
     [''unix_socket_directories'', ''wal_keep_segments'', ''wal_keep_size'', ''hot_standby'', ''listen_addresses'',
      ''port'', ''max_replication_slots'', ''max_wal_senders'', ''wal_log_hints'', ''synchronous_standby_names'',
      ''primary_conninfo'', ''primary_slot_name'', ''recovery_min_apply_delay'', ''restore_command'',
      ''recovery_target_timeline'', ''recovery_target'', ''recovery_target_lsn'', ''recovery_target_name'',
      ''recovery_target_time'', ''recovery_target_xid'', ''recovery_target_timeline'', ''recovery_target_action'']"

definition maxPostgresTimelinesHistory :: nat where "maxPostgresTimelinesHistory = 2"

definition GetInSyncStandbys :: "'w keeper_host \<Rightarrow> ('w kst, uid list) act" where
  "GetInSyncStandbys h =
     then_act (io (h_syncStandbys (kh_pg h)))
       (\<lambda>names. return_act (map NameFromHysteronName (filter IsHysteronName names)))"

definition getTimeLinesHistory :: "'w keeper_host \<Rightarrow> postgres_state \<Rightarrow> ('w kst, timeline_history list) act" where
  "getTimeLinesHistory h st =
     (if pgs_TimelineID st > 1 then
        then_act (io (h_timelinesHistory (kh_pg h) (pgs_TimelineID st)))
          (\<lambda>es. return_act (drop (length es - maxPostgresTimelinesHistory) es))
      else return_act [])"

text \<open>Stages that fill in the state; the first that fails ends it, keeping what is there.\<close>

fun stages ::
  "(postgres_state \<Rightarrow> ('w kst, postgres_state) act) list \<Rightarrow> postgres_state \<Rightarrow> 'w kst \<Rightarrow> postgres_state \<times> 'w kst" where
  "stages [] st s = (st, s)"
| "stages (f # fs) st s = (case f st s of (Inl _, s') \<Rightarrow> (st, s') | (Inr st', s') \<Rightarrow> stages fs st' s')"

definition initialState :: "postgres_keeper \<Rightarrow> postgres_state" where
  "initialState k =
     \<lparr>pgs_PGParameters = None, pgs_ManagedLogicalSlots = None, pgs_UID = dls_UID (pk_dbLocalState k),
      pgs_ListenAddress = kc_pgAdvertiseAddress (pk_config k), pgs_Port = kc_pgAdvertisePort (pk_config k),
      pgs_SystemID = [], pgs_OlderWalFile = [], pgs_TimelinesHistory = None, pgs_SynchronousStandbys = None,
      pgs_Generation = dls_Generation (pk_dbLocalState k), pgs_TimelineID = 0, pgs_XLogPos = 0, pgs_Healthy = False\<rparr>"

definition pgStateStages ::
  "'w keeper_host \<Rightarrow> (postgres_state \<Rightarrow> ('w kst, postgres_state) act) list" where
  "pgStateStages h =
     [\<lambda>st. then_act (io (h_configParameters (kh_pg h))) (\<lambda>ps. return_act (st\<lparr>pgs_PGParameters :=
        Some (filter (\<lambda>(k, v). k \<notin> set managedPGParameters) ps)\<rparr>)),
      \<lambda>st. then_act (GetInSyncStandbys h) (\<lambda>xs. return_act (st\<lparr>pgs_SynchronousStandbys := Some xs\<rparr>)),
      \<lambda>st. then_act (io (h_systemData (kh_pg h))) (\<lambda>d. return_act (st\<lparr>pgs_SystemID := sd_SystemID d,
        pgs_TimelineID := sd_TimelineID d, pgs_XLogPos := sd_XLogPos d\<rparr>)),
      \<lambda>st. then_act (getTimeLinesHistory h st) (\<lambda>es. return_act (st\<lparr>pgs_TimelinesHistory := Some es\<rparr>)),
      \<lambda>st. try_act (with_pgm (OlderWalFile (kh_pg h))) (\<lambda>r. return_act (case r of
        Inl _ \<Rightarrow> st\<lparr>pgs_Healthy := True\<rparr> | Inr f \<Rightarrow> st\<lparr>pgs_OlderWalFile := f, pgs_Healthy := True\<rparr>)),
      \<lambda>st. then_act (with_pgm (GetRole (kh_pg h))) (\<lambda>role.
        if role = RoleMaster then then_act (io (h_logicalSlots (kh_pg h)))
          (\<lambda>slots. return_act (st\<lparr>pgs_ManagedLogicalSlots := logicalSlotLSNMap slots\<rparr>))
        else return_act st)]"

text \<open>The error is the one of the first check; later ones are logged and leave the state unhealthy.\<close>

definition GetPGState :: "'w keeper_host \<Rightarrow> 'w kst \<Rightarrow> (unit res \<times> postgres_state) \<times> 'w kst" where
  "GetPGState h s =
     (let st = initialState (ks_keeper s) in
      case with_pgm (IsInitialized (kh_pg h)) s of
        (Inl e, s') \<Rightarrow> ((Inl e, st), s')
      | (Inr initialized, s') \<Rightarrow>
          if initialized then (case stages (pgStateStages h) st s' of (st', s'') \<Rightarrow> ((Inr (), st'), s''))
          else ((Inr (), st), s'))"

definition updatePGState :: "'w keeper_host \<Rightarrow> 'w kst \<Rightarrow> 'w kst" where
  "updatePGState h s =
     (case GetPGState h s of ((r, st), s') \<Rightarrow> upd_keeper (\<lambda>k. k\<lparr>pk_lastPGState := Some st\<rparr>) s')"

definition keeperInfo :: "'w keeper_host \<Rightarrow> postgres_keeper \<Rightarrow> uid \<Rightarrow> (int \<times> int) res \<Rightarrow> keeper_info" where
  "keeperInfo h k infoUID version =
     (let c = pk_config k; (major, minor) = (case version of Inl _ \<Rightarrow> (0, 0) | Inr v \<Rightarrow> v) in
      \<lparr>ki_PostgresState = pk_lastPGState k, ki_CanBeMaster = kc_canBeMaster c,
       ki_CanBeSynchronousReplica = kc_canBeSynchronousReplica c, ki_InfoUID = infoUID,
       ki_UID = ls_UID (pk_keeperLocalState k), ki_ClusterUID = ls_ClusterUID (pk_keeperLocalState k),
       ki_BootUUID = kc_bootUUID c, ki_Hostname = kh_hostname h, ki_NodeName = kh_nodeName h,
       ki_PostgresBinaryVersion = \<lparr>bv_Maj = major, bv_Min = minor\<rparr>,
       ki_MasterPriority = (case kc_masterPriority c of None \<Rightarrow> 0 | Some p \<Rightarrow> p)\<rparr>)"

definition updateKeeperInfo :: "'w keeper_host \<Rightarrow> ('w kst, unit) act" where
  "updateKeeperInfo h s =
     (if ls_ClusterUID (pk_keeperLocalState (ks_keeper s)) = [] then (Inr (), s)
      else try_act (io (h_binaryVersion (kh_pg h))) (\<lambda>v s'.
        io (kh_SetKeeperInfo h (keeperInfo h (ks_keeper s') (kh_newUID h (ks_world s')) v)
          (pk_sleepInterval (ks_keeper s'))) s') s)"

section \<open>Helpers of the tick\<close>

definition set_params :: "'w keeper_host \<Rightarrow> db \<Rightarrow> 'w kst step" where
  "set_params h d = fetch (createPGParameters h d) (\<lambda>ps. update (upd_manager (SetParameters ps)))"

definition set_recovery :: "recovery_options option \<Rightarrow> 'w kst step" where
  "set_recovery ro = update (upd_manager (SetRecoveryOptions ro))"

definition set_wait :: "bool \<Rightarrow> 'w kst step" where
  "set_wait b = update (upd_keeper (\<lambda>k. k\<lparr>pk_waitSyncStandbysSynced := b\<rparr>))"

definition set_hba :: "cluster_data \<Rightarrow> db \<Rightarrow> bool \<Rightarrow> 'w kst step" where
  "set_hba cd d onlyInternal = reading (\<lambda>s.
     deref (generateHBA (pk_config (ks_keeper s)) cd d onlyInternal) (\<lambda>hba. update (upd_manager (SetHba (Some hba)))))"

definition stop_instance :: "'w keeper_host \<Rightarrow> db \<Rightarrow> 'w kst step" where
  "stop_instance h d = attempt (stopPostgresIfStarted h (Some d))"

definition remove_data :: "'w keeper_host \<Rightarrow> 'w kst step" where
  "remove_data h = attempt (calling CallRemoveAll (with_pgm (RemoveAll (kh_pg h))))"

definition start_instance :: "'w keeper_host \<Rightarrow> 'w kst step" where
  "start_instance h = attempt (calling CallStart (pgm (StartInstance (kh_pg h))))"

definition start_tmp :: "'w keeper_host \<Rightarrow> 'w kst step" where
  "start_tmp h = attempt (calling CallStartTmp (pgm (StartTmpMerged (kh_pg h))))"

definition wait_ready :: "'w keeper_host \<Rightarrow> duration option \<Rightarrow> 'w kst step" where
  "wait_ready h timeout = deref timeout (\<lambda>t. attempt (io (WaitReady (kh_pg h) t)))"

definition save_state :: "'w keeper_host \<Rightarrow> db_local_state \<Rightarrow> 'w kst step" where
  "save_state h st = attempt (saveDBLocalState h st)"

definition no_local_state :: db_local_state where
  "no_local_state = \<lparr>dls_InitPGParameters = [], dls_UID = [], dls_Generation = NoGeneration, dls_Initializing = False\<rparr>"

definition assigned_state :: "db \<Rightarrow> bool \<Rightarrow> db_local_state" where
  "assigned_state d initializing = \<lparr>dls_InitPGParameters = [], dls_UID = db_UID d, dls_Generation = NoGeneration,
     dls_Initializing = initializing\<rparr>"

definition include_config :: "'w keeper_host \<Rightarrow> db \<Rightarrow> db_local_state \<Rightarrow> 'w kst step" where
  "include_config h d st =
     (if dbs_IncludeConfig (db_Spec d) then
        fetch (io (h_configParameters (kh_pg h))) (\<lambda>ps. save_state h (st\<lparr>dls_InitPGParameters := ps\<rparr>))
      else skip)"

section \<open>Initialization\<close>

definition newInitConfig :: "db \<Rightarrow> init_config" where
  "newInitConfig d =
     (case dbs_NewConfig (db_Spec d) of
        None \<Rightarrow> \<lparr>ic_Locale = [], ic_Encoding = [], ic_DataChecksums = False\<rparr>
      | Some c \<Rightarrow> \<lparr>ic_Locale = nc_Locale c, ic_Encoding = nc_Encoding c, ic_DataChecksums = nc_DataChecksums c\<rparr>)"

definition init_new :: "'w keeper_host \<Rightarrow> cluster_data \<Rightarrow> db \<Rightarrow> 'w kst step" where
  "init_new h cd d =
     (let st = assigned_state d True; spec = DefSpec (cd_Cluster cd) in run
       [save_state h st, set_params h d, stop_instance h d, remove_data h,
        attempt (calling CallInit (with_pgm (\<lambda>m. InitDB (kh_pg h) m (newInitConfig d)))),
        start_tmp h, wait_ready h (cs_DBWaitReadyTimeout spec), include_config h d st,
        attempt (calling CallSetupRoles (with_pgm (SetupRoles (kh_pg h)))), stop_instance h d])"

definition pitr_external :: "db \<Rightarrow> follow_config option" where
  "pitr_external d =
     (case dbs_FollowConfig (db_Spec d) of
        None \<Rightarrow> None | Some fc \<Rightarrow> if fc_Type fc = FollowTypeExternal then Some fc else None)"

definition init_pitr :: "'w keeper_host \<Rightarrow> cluster_data \<Rightarrow> db \<Rightarrow> 'w kst step" where
  "init_pitr h cd d =
     (let st = assigned_state d True; spec = DefSpec (cd_Cluster cd) in run
       [save_state h st, set_params h d, stop_instance h d, remove_data h,
        deref (dbs_PITRConfig (db_Spec d)) (\<lambda>pc. run
          [attempt (calling CallRestore (with_pgm (\<lambda>m. Restore (kh_pg h) m (pc_DataRestoreCommand pc)))),
           set_recovery (Some (case pitr_external d of
             None \<Rightarrow> createRecoveryOptions RecoveryModeRecovery None (pc_ArchiveRecoverySettings pc)
               (pc_RecoveryTargetSettings pc)
           | Some fc \<Rightarrow> createRecoveryOptions RecoveryModeStandby (fc_StandbySettings fc)
               (pc_ArchiveRecoverySettings pc) (pc_RecoveryTargetSettings pc)))]),
        start_tmp h,
        if pitr_external d = None then deref (cs_SyncTimeout spec)
          (\<lambda>t. attempt (with_pgm (\<lambda>m. WaitRecoveryDone (kh_pg h) m t))) else skip,
        wait_ready h (cs_SyncTimeout spec), include_config h d st, stop_instance h d])"

definition clone_instance :: "'w keeper_host \<Rightarrow> db \<Rightarrow> params \<Rightarrow> 'w kst step" where
  "clone_instance h d replConnParams = run
     [ignoring (io (h_binaryVersion (kh_pg h))), remove_data h,
      attempt (calling CallBasebackup
        (with_pgm (\<lambda>m. SyncFromFollowed (kh_pg h) m replConnParams (HysteronName (db_UID d)))))]"

definition resync :: "'w keeper_host \<Rightarrow> db \<Rightarrow> db option \<Rightarrow> db \<Rightarrow> bool \<Rightarrow> 'w kst step" where
  "resync h d masterDB followedDB tryPgrewind = reading (\<lambda>s.
     let c = pk_config (ks_keeper s); replConnParams = getReplConnParams c d followedDB in
     if tryPgrewind \<and> usePgrewind c d then
       deref masterDB (\<lambda>master.
         on_result (calling CallRewind (with_pgm (\<lambda>m. SyncFromFollowedPGRewind (kh_pg h) m
             (getSUConnParams c d master) (dbs_CheckpointBeforePgrewind (db_Spec d))))) (\<lambda>r. case r of
           Inl _ \<Rightarrow> clone_instance h d replConnParams
         | Inr _ \<Rightarrow> set_recovery (Some (createRecoveryOptions RecoveryModeStandby
             (Some (internalStandbySettings c d followedDB)) None None))))
     else clone_instance h d replConnParams)"

text \<open>After a rewind: a standby that is not ready, or still on another branch, is cloned.\<close>

definition after_rewind :: "'w keeper_host \<Rightarrow> cluster_data \<Rightarrow> db \<Rightarrow> db option \<Rightarrow> db \<Rightarrow> 'w kst step" where
  "after_rewind h cd d masterDB followedDB =
     (let full = run [stop_instance h d, resync h d masterDB followedDB False] in
      deref (cs_DBWaitReadyTimeout (DefSpec (cd_Cluster cd))) (\<lambda>t.
        on_result (io (WaitReady (kh_pg h) t)) (\<lambda>r. case r of
            Inl _ \<Rightarrow> full
          | Inr _ \<Rightarrow> (\<lambda>s. case GetPGState h s of
              ((Inl _, _), s') \<Rightarrow> (Return, s')
            | ((Inr _, st), s') \<Rightarrow> if keeperDifferentTimelineBranch followedDB st then full s' else (Next, s')))))"

definition resync_from :: "'w keeper_host \<Rightarrow> cluster_data \<Rightarrow> db \<Rightarrow> bool \<Rightarrow> string \<Rightarrow> db \<Rightarrow> 'w kst step" where
  "resync_from h cd d initialized systemID followedDB =
     (let masterDB = map_of (cd_DBs cd) (cst_Master (cl_Status (cd_Cluster cd)));
          masterOlderWal = (case masterDB of None \<Rightarrow> [] | Some m \<Rightarrow> dst_OlderWalFile (db_Status m));
          tryPgrewind = fst (evaluatePgrewindDecision initialized systemID
            (dst_SystemID (db_Status followedDB)) (masterDB \<noteq> None) (dst_XLogPos (db_Status d)) masterOlderWal)
      in run
        [resync h d masterDB followedDB tryPgrewind, start_instance h,
         if tryPgrewind then after_rewind h cd d masterDB followedDB else skip])"

definition init_resync :: "'w keeper_host \<Rightarrow> cluster_data \<Rightarrow> db \<Rightarrow> bool \<Rightarrow> 'w kst step" where
  "init_resync h cd d initialized = run
     [save_state h (assigned_state d True), stop_instance h d, set_params h d,
      fetch (if initialized then with_pgm (\<lambda>m. h_systemID (kh_pg h) (pm_dataDir m)) else return_act []) (\<lambda>systemID.
        deref (dbs_FollowConfig (db_Spec d)) (\<lambda>fc.
          case map_of (cd_DBs cd) (fc_DBUID fc) of
            None \<Rightarrow> leave
          | Some followedDB \<Rightarrow> resync_from h cd d initialized systemID followedDB))]"

definition init_existing :: "'w keeper_host \<Rightarrow> cluster_data \<Rightarrow> db \<Rightarrow> 'w kst step" where
  "init_existing h cd d =
     (let st = assigned_state d False in run
       [save_state h st, set_params h d, stop_instance h d, start_tmp h,
        wait_ready h (cs_DBWaitReadyTimeout (DefSpec (cd_Cluster cd))), include_config h d st, stop_instance h d])"

definition initialize :: "'w keeper_host \<Rightarrow> cluster_data \<Rightarrow> db \<Rightarrow> 'w kst step" where
  "initialize h cd d = reading (\<lambda>s.
     if dls_UID (pk_dbLocalState (ks_keeper s)) = db_UID d then skip
     else fetch (with_pgm (IsInitialized (kh_pg h))) (\<lambda>initialized. run
       [set_recovery None, set_wait False,
        case dbs_InitMode (db_Spec d) of
          DBInitModeNew \<Rightarrow> init_new h cd d
        | DBInitModePITR \<Rightarrow> init_pitr h cd d
        | DBInitModeResync \<Rightarrow> init_resync h cd d initialized
        | DBInitModeExisting \<Rightarrow> init_existing h cd d
        | _ \<Rightarrow> leave]))"

text \<open>An initialization that did not finish: its data is removed first.\<close>

definition cleanup :: "'w keeper_host \<Rightarrow> db \<Rightarrow> 'w kst step" where
  "cleanup h d = reading (\<lambda>s.
     if dls_Initializing (pk_dbLocalState (ks_keeper s))
     then run [stop_instance h d, remove_data h, save_state h no_local_state] else skip)"

section \<open>Roles\<close>

definition master_role :: "'w keeper_host \<Rightarrow> cluster_data \<Rightarrow> db \<Rightarrow> role \<Rightarrow> 'w kst step" where
  "master_role h cd d localRole =
     (if localRole = RoleUndefined then leave
      else run
        [set_recovery None,
         fetch (with_pgm (IsStarted (kh_pg h))) (\<lambda>started.
           if started then skip
           else run
             [if dbs_SynchronousReplication (db_Spec d) then run [set_wait True, set_hba cd d True] else skip,
              start_instance h, wait_ready h (cs_DBWaitReadyTimeout (DefSpec (cd_Cluster cd)))]),
         if localRole = RoleStandby
         then run [attempt (io (runPrePromoteHook h d)), attempt (calling CallPromote (with_pgm (Promote (kh_pg h))))]
         else skip,
         attempt (refreshReplicationSlots h (DefSpec (cd_Cluster cd)) d (cd_DBs cd))])"

definition restart_instance :: "'w keeper_host \<Rightarrow> db \<Rightarrow> ('w kst, unit) act" where
  "restart_instance h d = acts [io (runBeforeStopHook h (Some d)), calling CallRestart (pgm (Restart (kh_pg h) True))]"

definition ensureStandbyWALReplayRunning :: "'w keeper_host \<Rightarrow> ('w, unit) act" where
  "ensureStandbyWALReplayRunning h =
     then_act (h_replayPaused (kh_pg h)) (\<lambda>paused. if paused then h_resumeReplay (kh_pg h) else return_act ())"

definition running_standby ::
  "'w keeper_host \<Rightarrow> cluster_data \<Rightarrow> db \<Rightarrow> recovery_options \<Rightarrow> recovery_options \<Rightarrow> 'w kst step" where
  "running_standby h cd d startOptions newOptions =
     fetch (with_pgm (IsStarted (kh_pg h))) (\<lambda>started. run
       [if started then skip else run [set_recovery (Some startOptions), start_instance h],
        reading (\<lambda>s.
          if rco_RecoveryParameters (pm_curRecoveryOptions (ks_manager s)) = rco_RecoveryParameters newOptions then skip
          else run [set_recovery (Some newOptions), attempt (restart_instance h d)]),
        ignoring (refreshReplicationSlots h (DefSpec (cd_Cluster cd)) d (cd_DBs cd)),
        ignoring (io (ensureStandbyWALReplayRunning h))])"

definition standby_role :: "'w keeper_host \<Rightarrow> cluster_data \<Rightarrow> db \<Rightarrow> role \<Rightarrow> 'w kst step" where
  "standby_role h cd d localRole = reading (\<lambda>s.
     deref (dbs_FollowConfig (db_Spec d)) (\<lambda>fc.
       let enter = (\<lambda>startSettings archive.
             case localRole of
               RoleStandby \<Rightarrow> running_standby h cd d (createRecoveryOptions RecoveryModeStandby startSettings None None)
                 (createRecoveryOptions RecoveryModeStandby startSettings archive None)
             | RoleMaster \<Rightarrow> leave
             | RoleUndefined \<Rightarrow> leave
             | RoleOther _ \<Rightarrow> skip)
       in case fc_Type fc of
            FollowTypeInternal \<Rightarrow> (case map_of (cd_DBs cd) (fc_DBUID fc) of
              None \<Rightarrow> leave
            | Some followedDB \<Rightarrow> enter (Some (internalStandbySettings (pk_config (ks_keeper s)) d followedDB)) None)
          | FollowTypeExternal \<Rightarrow> enter (fc_StandbySettings fc) (fc_ArchiveRecoverySettings fc)
          | FollowTypeOther _ \<Rightarrow> leave))"

definition apply_role :: "'w keeper_host \<Rightarrow> cluster_data \<Rightarrow> db \<Rightarrow> role \<Rightarrow> 'w kst step" where
  "apply_role h cd d localRole =
     (case dbs_Role (db_Spec d) of
        RoleMaster \<Rightarrow> master_role h cd d localRole
      | RoleStandby \<Rightarrow> standby_role h cd d localRole
      | RoleUndefined \<Rightarrow> leave
      | RoleOther _ \<Rightarrow> skip)"

definition align :: "'w keeper_host \<Rightarrow> cluster_data \<Rightarrow> db \<Rightarrow> 'w kst step" where
  "align h cd d =
     fetch (with_pgm (IsInitialized (kh_pg h))) (\<lambda>initialized. run
       [if initialized then ignoring (with_pgm (IsStarted (kh_pg h))) else skip, set_params h d,
        if initialized then fetch (with_pgm (GetRole (kh_pg h))) (apply_role h cd d)
        else apply_role h cd d RoleUndefined])"

section \<open>Configuration and convergence\<close>

definition wait_sync :: "'w keeper_host \<Rightarrow> db \<Rightarrow> 'w kst step" where
  "wait_sync h d = reading (\<lambda>s.
     if dbs_SynchronousReplication (db_Spec d) \<and> pk_waitSyncStandbysSynced (ks_keeper s) then
       fetch (GetInSyncStandbys h) (\<lambda>inSync.
         if CompareStringSliceNoOrder inSync (els (dbs_SynchronousStandbys (db_Spec d))) then set_wait False else skip)
     else set_wait False)"

definition reload_config :: "'w keeper_host \<Rightarrow> cluster_data \<Rightarrow> db \<Rightarrow> bool \<Rightarrow> 'w kst step" where
  "reload_config h cd d paramsChanged = reading (\<lambda>s.
     deref (generateHBA (pk_config (ks_keeper s)) cd d (pk_waitSyncStandbysSynced (ks_keeper s))) (\<lambda>newHBA.
       let hbaChanged = (Some newHBA \<noteq> pm_curHba (ks_manager s));
           identChanged = (dbs_PGIdent (db_Spec d) \<noteq> pm_curIdent (ks_manager s))
       in run
         [if hbaChanged then update (upd_manager (SetHba (Some newHBA))) else skip,
          if identChanged then update (upd_manager (SetIdent (dbs_PGIdent (db_Spec d)))) else skip,
          if paramsChanged \<or> hbaChanged \<or> identChanged
          then ignoring (calling CallReload (pgm (Reload (kh_pg h)))) else skip]))"

definition restart_if_required :: "'w keeper_host \<Rightarrow> cluster_data \<Rightarrow> db \<Rightarrow> 'w kst step" where
  "restart_if_required h cd d =
     deref (cs_AutomaticPgRestart (DefSpec (cd_Cluster cd))) (\<lambda>automatic.
       on_result (io (h_restartRequirement (kh_pg h))) (\<lambda>r. case r of
           Inl _ \<Rightarrow> skip
         | Inr req \<Rightarrow> if rr_Required req \<and> automatic then ignoring (restart_instance h d) else skip))"

definition converged_state :: "'w keeper_host \<Rightarrow> db \<Rightarrow> 'w kst step" where
  "converged_state h d = reading (\<lambda>s. save_state h ((pk_dbLocalState (ks_keeper s))
     \<lparr>dls_Generation := db_Generation d, dls_Initializing := False\<rparr>))"

definition configure :: "'w keeper_host \<Rightarrow> cluster_data \<Rightarrow> db \<Rightarrow> 'w kst step" where
  "configure h cd d =
     fetch (createPGParameters h d) (\<lambda>ps. reading (\<lambda>s.
       let paramsChanged = (ps \<noteq> pm_curParameters (ks_manager s)) in run
         [if paramsChanged then update (upd_manager (SetParameters ps)) else skip,
          wait_sync h d, reload_config h cd d paramsChanged, restart_if_required h cd d, converged_state h d]))"

section \<open>The tick\<close>

definition reconcile_db :: "'w keeper_host \<Rightarrow> cluster_data \<Rightarrow> db \<Rightarrow> 'w kst step" where
  "reconcile_db h cd d = run
     [reading (\<lambda>s. set_hba cd d (pk_waitSyncStandbysSynced (ks_keeper s))),
      update (upd_manager (SetIdent (dbs_PGIdent (db_Spec d)))),
      cleanup h d, initialize h cd d, align h cd d, configure h cd d]"

definition bind_cluster :: "'w keeper_host \<Rightarrow> cluster_data \<Rightarrow> 'w kst step" where
  "bind_cluster h cd = reading (\<lambda>s.
     if ls_ClusterUID (pk_keeperLocalState (ks_keeper s)) = cl_UID (cd_Cluster cd) then skip
     else run
       [update (upd_keeper (\<lambda>k. k\<lparr>pk_keeperLocalState :=
          (pk_keeperLocalState k)\<lparr>ls_ClusterUID := cl_UID (cd_Cluster cd)\<rparr>\<rparr>)),
        attempt (saveKeeperLocalState h)])"

definition dispatch :: "'w keeper_host \<Rightarrow> cluster_data \<Rightarrow> 'w kst step" where
  "dispatch h cd = reading (\<lambda>s.
     case map_of (cd_Keepers cd) (ls_UID (pk_keeperLocalState (ks_keeper s))) of
       None \<Rightarrow> leave
     | Some k \<Rightarrow> (case FindDB cd k of
         None \<Rightarrow> run [ignoring (stopPostgresIfStarted h None), leave]
       | Some d \<Rightarrow>
           if kc_bootUUID (pk_config (ks_keeper s)) \<noteq> kst_BootUUID (k_Status k)
           then run [ignoring (stopPostgresIfStarted h (Some d)), leave]
           else reconcile_db h cd d))"

definition tick_data :: "'w keeper_host \<Rightarrow> cluster_data \<Rightarrow> 'w kst step" where
  "tick_data h cd =
     (if cd_FormatVersion cd \<noteq> CurrentCDFormatVersion then leave
      else case Validate (cl_Spec (cd_Cluster cd)) of
          Inl _ \<Rightarrow> leave
        | Inr _ \<Rightarrow> run [update (applyRuntimeConfigFromClusterData cd), bind_cluster h cd, dispatch h cd])"

definition upd_failsafe :: "(failsafe \<Rightarrow> failsafe) \<Rightarrow> 'w kst \<Rightarrow> 'w kst" where
  "upd_failsafe f = upd_keeper (\<lambda>k. k\<lparr>pk_failsafe := f (pk_failsafe k)\<rparr>)"

definition postgresKeeperSM :: "'w keeper_host \<Rightarrow> 'w kst step" where
  "postgresKeeperSM h = on_result (io (kh_GetClusterData h)) (\<lambda>r. case r of
     Inl _ \<Rightarrow> run [update (\<lambda>s. upd_failsafe (handleDCSDegraded (h_now (kh_pg h) (ks_world s))) s), leave]
   | Inr cdo \<Rightarrow> run
       [update (upd_failsafe handleDCSRecovered), case cdo of None \<Rightarrow> leave | Some cd \<Rightarrow> tick_data h cd])"

end
