(* ===== verification/Keeper_Tick.thy ===== *)
theory Keeper_Tick
  imports Keeper
begin

text \<open>
  What a tick of the keeper does to its instance. The calls it makes are recorded with the state in
  which they were made; \<open>call_ok\<close> says what holds of each. The triples carry this through every
  statement of the tick, together with the local state that is saved, for every branch: going on,
  returning early and panicking.
\<close>

section \<open>What is promised of a call\<close>

definition destructive :: "pg_call \<Rightarrow> bool" where
  "destructive c \<longleftrightarrow> c \<in> {CallRemoveAll, CallInit, CallRestore, CallRewind, CallBasebackup}"

text \<open>These calls write \<open>pg_hba.conf\<close>.\<close>

definition writes_hba :: "pg_call \<Rightarrow> bool" where
  "writes_hba c \<longleftrightarrow> c \<in> {CallStart, CallStartTmp, CallRestart, CallReload, CallPromote}"

text \<open>Rules for users are configured only when the keeper does not wait for synchronous standbys.\<close>

definition hba_ok :: "cluster_data \<Rightarrow> db \<Rightarrow> postgres_keeper \<Rightarrow> manager \<Rightarrow> bool" where
  "hba_ok cd d k m \<longleftrightarrow> pm_hba m = generateHBA (pk_config k) cd d True \<or>
     \<not> pk_waitSyncStandbysSynced k \<and> pm_hba m = generateHBA (pk_config k) cd d False"

definition guarded_start :: "db \<Rightarrow> bool" where
  "guarded_start d \<longleftrightarrow> dbs_Role (db_Spec d) = RoleMaster \<and> dbs_SynchronousReplication (db_Spec d) \<and>
     dbs_InitMode (db_Spec d) \<noteq> DBInitModeResync"

definition call_ok :: "bool \<Rightarrow> cluster_data \<Rightarrow> db \<Rightarrow> pg_call \<times> postgres_keeper \<times> manager \<Rightarrow> bool" where
  "call_ok waiting cd d = (\<lambda>(c, k, m).
     (destructive c \<longrightarrow> dls_Initializing (pk_dbLocalState k)) \<and>
     (c = CallPromote \<longrightarrow> dbs_Role (db_Spec d) = RoleMaster) \<and>
     (writes_hba c \<longrightarrow> hba_ok cd d k m) \<and>
     (c = CallStart \<and> guarded_start d \<longrightarrow> pk_waitSyncStandbysSynced k) \<and>
     (waiting \<longrightarrow> pk_waitSyncStandbysSynced k))"

text \<open>What the source dereferences is there.\<close>

definition startable :: "cluster_data \<Rightarrow> db \<Rightarrow> bool" where
  "startable cd d \<longleftrightarrow>
     (cs_DefaultSUReplAccessMode (DefSpec (cd_Cluster cd)) = Some SUReplAccessStrict \<longrightarrow>
        dbs_Role (db_Spec d) \<in> {RoleMaster, RoleStandby}) \<and>
     (dbs_Role (db_Spec d) = RoleStandby \<or> dbs_InitMode (db_Spec d) = DBInitModeResync \<longrightarrow>
        dbs_FollowConfig (db_Spec d) \<noteq> None) \<and>
     (dbs_InitMode (db_Spec d) = DBInitModePITR \<longrightarrow> dbs_PITRConfig (db_Spec d) \<noteq> None)"

section \<open>Assertions\<close>

type_synonym local_pred = "db_local_state \<Rightarrow> bool \<Rightarrow> bool"

definition kept_local :: "local_pred \<Rightarrow> 'w kst \<Rightarrow> bool" where
  "kept_local R s \<longleftrightarrow> R (pk_dbLocalState (ks_keeper s)) (pk_waitSyncStandbysSynced (ks_keeper s))"

definition traced ::
  "bool \<Rightarrow> cluster_data \<Rightarrow> db \<Rightarrow> (pg_call \<times> postgres_keeper \<times> manager) list \<Rightarrow> local_pred \<Rightarrow> 'w kst \<Rightarrow> bool" where
  "traced W cd d old R s \<longleftrightarrow>
     (\<exists>new. ks_trace s = new @ old \<and> list_all (call_ok W cd d) new) \<and> kept_local R s"

definition asr ::
  "bool \<Rightarrow> cluster_data \<Rightarrow> db \<Rightarrow> (pg_call \<times> postgres_keeper \<times> manager) list \<Rightarrow> local_pred \<Rightarrow> 'w kst \<Rightarrow> bool" where
  "asr W cd d old R s \<longleftrightarrow> traced W cd d old R s \<and> hba_ok cd d (ks_keeper s) (ks_manager s)"

definition unstartable ::
  "bool \<Rightarrow> cluster_data \<Rightarrow> db \<Rightarrow> (pg_call \<times> postgres_keeper \<times> manager) list \<Rightarrow> local_pred \<Rightarrow> 'w kst \<Rightarrow> bool" where
  "unstartable W cd d old E s \<longleftrightarrow> \<not> startable cd d \<and> traced W cd d old E s"

text \<open>A condition that entails the one for early returns and, when asked, that the keeper waits.\<close>

definition chain :: "bool \<Rightarrow> local_pred \<Rightarrow> local_pred \<Rightarrow> bool" where
  "chain W R E \<longleftrightarrow> (\<forall>l w. R l w \<longrightarrow> E l w \<and> (W \<longrightarrow> w))"

lemma chainD: "chain W R E \<Longrightarrow> R l w \<Longrightarrow> E l w" "chain W R E \<Longrightarrow> R l w \<Longrightarrow> W \<Longrightarrow> w"
  by (auto simp: chain_def)

lemma chain_refl: "chain W R E \<Longrightarrow> chain W R R"
  by (auto simp: chain_def)

lemma traced_mono: "traced W cd d old R s \<Longrightarrow> (\<And>l w. R l w \<Longrightarrow> E l w) \<Longrightarrow> traced W cd d old E s"
  by (auto simp: traced_def kept_local_def)

lemma asr_mono: "asr W cd d old R s \<Longrightarrow> (\<And>l w. R l w \<Longrightarrow> E l w) \<Longrightarrow> asr W cd d old E s"
  by (auto simp: asr_def intro: traced_mono)

lemma asr_traced: "asr W cd d old R s \<Longrightarrow> chain W R E \<Longrightarrow> traced W cd d old E s"
  by (auto simp: asr_def chain_def intro: traced_mono)

section \<open>Actions that leave the observed state alone\<close>

definition same :: "'w kst \<Rightarrow> 'w kst \<Rightarrow> bool" where
  "same s s' \<longleftrightarrow> ks_trace s' = ks_trace s \<and> pm_hba (ks_manager s') = pm_hba (ks_manager s) \<and>
     pk_config (ks_keeper s') = pk_config (ks_keeper s) \<and>
     pk_dbLocalState (ks_keeper s') = pk_dbLocalState (ks_keeper s) \<and>
     pk_waitSyncStandbysSynced (ks_keeper s') = pk_waitSyncStandbysSynced (ks_keeper s)"

lemma same_refl: "same s s"
  by (simp add: same_def)

lemma same_trans: "same s s' \<Longrightarrow> same s' s'' \<Longrightarrow> same s s''"
  by (simp add: same_def)

lemma asr_same: "same s s' \<Longrightarrow> asr W cd d old R s \<Longrightarrow> asr W cd d old R s'"
  by (simp add: same_def asr_def traced_def kept_local_def hba_ok_def)

definition quiet :: "('w kst, 'a) act \<Rightarrow> bool" where
  "quiet a \<longleftrightarrow> (\<forall>s. same s (snd (a s)))"

named_theorems quiets

lemma quiet_io [quiets]: "quiet (io a)"
  by (simp add: quiet_def io_def same_def split: prod.splits)

lemma quiet_with_pgm [quiets]: "quiet (with_pgm f)"
  by (simp add: quiet_def with_pgm_def io_def same_def split: prod.splits)

lemma quiet_return [quiets]: "quiet (return_act x)"
  by (simp add: quiet_def return_act_def same_refl)

lemma quiet_state: "quiet (\<lambda>s. (f s, s))"
  by (simp add: quiet_def same_refl)

lemma quiet_modify [quiets]: "quiet (modifySlots f)"
  by (simp add: quiet_def modifySlots_def upd_slots_def upd_keeper_def same_def)

lemma quiet_try [quiets]:
  assumes "quiet a" and "\<And>r. quiet (f r)"
  shows "quiet (try_act a f)"
  unfolding quiet_def
proof
  fix s
  obtain r s1 where a: "a s = (r, s1)" by fastforce
  then have "same s s1" using assms(1) unfolding quiet_def by (metis snd_conv)
  then show "same s (snd (try_act a f s))"
    using a assms(2) unfolding quiet_def by (auto simp: try_act_def intro: same_trans)
qed

lemma quiet_then [quiets]:
  assumes "quiet a" and "\<And>x. quiet (f x)"
  shows "quiet (then_act a f)"
  unfolding quiet_def
proof
  fix s
  obtain r s1 where a: "a s = (r, s1)" by fastforce
  then have "same s s1" using assms(1) unfolding quiet_def by (metis snd_conv)
  then show "same s (snd (then_act a f s))"
    using a assms(2) unfolding quiet_def by (cases r) (auto simp: then_act_def intro: same_trans)
qed

lemma quiet_acts [quiets]: "(\<And>a. a \<in> set as \<Longrightarrow> quiet a) \<Longrightarrow> quiet (acts as)"
proof (induction as)
  case Nil
  then show ?case by (simp add: quiet_def same_refl)
next
  case (Cons a as)
  have "acts (a # as) = then_act a (\<lambda>_. acts as)" by (rule ext) (simp add: then_act_def)
  then show ?case using Cons by (auto intro: quiet_then)
qed

lemma quiet_if [quiets]: "quiet a \<Longrightarrow> quiet b \<Longrightarrow> quiet (if c then a else b)"
  by simp

lemma pm_hba_updateCur [simp]: "pm_hba (updateCur m) = pm_hba m"
  by (simp add: updateCur_def UpdateCurIdent_def UpdateCurHba_def UpdateCurRecoveryOptions_def UpdateCurParameters_def)

lemma acts_hba:
  assumes "\<And>a m w. a \<in> set as \<Longrightarrow> pm_hba (fst (snd (a (m, w)))) = pm_hba m"
  shows "pm_hba (fst (snd (acts as (m, w)))) = pm_hba m"
  using assms
proof (induction as arbitrary: m w)
  case (Cons a as)
  obtain r m1 w1 where a: "a (m, w) = (r, m1, w1)" by (metis prod_cases3)
  then have "pm_hba m1 = pm_hba m" using Cons.prems [of a m w] by simp
  then show ?case using a Cons by (cases r) auto
qed simp

lemma on_host_hba: "pm_hba (fst (snd (on_host a (m, w)))) = pm_hba m"
  by (simp add: on_host_def split: prod.splits)

lemma set_manager_hba: "pm_hba (fst (snd (set_manager updateCur (m, w)))) = pm_hba m"
  by (simp add: set_manager_def)

lemma startWith_hba: "pm_hba (fst (snd (startWith h tmp args (m, w)))) = pm_hba m"
  unfolding startWith_def with_manager_def prod.case
  by (rule acts_hba) (auto simp: on_host_hba set_manager_hba)

lemma StartInstance_hba: "pm_hba (fst (snd (StartInstance h (m, w)))) = pm_hba m"
  unfolding StartInstance_def by (rule startWith_hba)

lemma quiet_pgm:
  fixes a :: "('w mst, 'a) act"
  assumes "\<And>m w. pm_hba (fst (snd (a (m, w)))) = pm_hba m"
  shows "quiet (pgm a)"
  unfolding quiet_def
proof
  fix s :: "'w kst"
  obtain r m w where a: "a (ks_manager s, ks_world s) = (r, m, w)" by (metis prod_cases3)
  then have "pm_hba m = pm_hba (ks_manager s)" using assms [of "ks_manager s" "ks_world s"] by simp
  then show "same s (snd (pgm a s))" using a by (simp add: pgm_def same_def)
qed

lemma quiet_StartInstance [quiets]: "quiet (pgm (StartInstance h))"
  by (rule quiet_pgm) (rule StartInstance_hba)

lemma quiet_StartTmpMerged [quiets]: "quiet (pgm (StartTmpMerged h))"
  by (rule quiet_pgm) (simp add: StartTmpMerged_def with_manager_def startWith_hba)

lemma quiet_Restart [quiets]: "quiet (pgm (Restart h fast))"
  unfolding Restart_def
  by (intro quiet_pgm acts_hba) (auto simp: StartInstance_hba with_manager_def on_host_hba)

lemma quiet_Reload [quiets]: "quiet (pgm (Reload h))"
  unfolding Reload_def with_manager_def
  by (rule quiet_pgm, simp only: prod.case, rule acts_hba) (auto simp: on_host_hba set_manager_hba)

lemma quiet_createPGParameters [quiets]: "quiet (createPGParameters h d)"
  unfolding createPGParameters_def by (intro quiet_try quiet_io quiet_state)

lemma quiet_GetInSyncStandbys [quiets]: "quiet (GetInSyncStandbys h)"
  unfolding GetInSyncStandbys_def by (intro quiets)

lemma quiet_dropLogicalSlots [quiets]: "quiet (dropLogicalSlots h slots)"
  unfolding dropLogicalSlots_def by (rule quiet_acts) (auto intro: quiets)

lemma quiet_tryDrop [quiets]: "quiet (tryDropLogicalSlots h slots)"
  by (induction slots) (auto intro!: quiets)

lemma quiet_standbyAdvance [quiets]: "quiet (standbyAdvance h d ds current version)"
  using quiet_modify
  by (auto simp: quiet_def standbyAdvance_def same_refl Let_def split: sum.splits)

lemma quiet_refreshStandbySlots [quiets]: "quiet (refreshStandbySlots h d ds current)"
  unfolding refreshStandbySlots_def Let_def
  by (auto intro!: quiets split: sum.splits)

lemma quiet_refreshMasterSlots [quiets]: "quiet (refreshMasterSlots h d current)"
  unfolding refreshMasterSlots_def Let_def
  by (auto intro!: quiets split: prod.splits)

lemma quiet_refreshLogicalSlots [quiets]: "quiet (refreshLogicalSlots h d ds current)"
proof (cases "shouldReconcileManagedLogicalSlots (els (dbs_ManagedLogicalReplicationSlots (db_Spec d)))
    (dst_PGParameters (db_Status d))")
  case (Pair b reason)
  then show ?thesis
    by (cases b)
      (simp_all add: refreshLogicalSlots_def Let_def quiet_dropLogicalSlots quiet_return quiet_refreshStandbySlots
        quiet_refreshMasterSlots)
qed

lemma quiet_refreshReplicationSlots [quiets]: "quiet (refreshReplicationSlots h cspec d ds)"
proof -
  have "quiet (case l of Inl _ \<Rightarrow> return_act () | Inr current \<Rightarrow> refreshLogicalSlots h d ds current)" for l
    by (cases l) (simp_all add: quiet_return quiet_refreshLogicalSlots)
  then show ?thesis
    unfolding refreshReplicationSlots_def Let_def
    by (intro quiet_try quiet_io quiet_acts) (auto intro: quiet_io quiet_modify quiet_try)
qed

section \<open>Statements\<close>

lemma asr_quiet:
  assumes "quiet a" and "chain W R E"
  shows "act_triple (asr W cd d old R) a (\<lambda>_. asr W cd d old R) (traced W cd d old E)"
  unfolding act_triple_def
proof (intro allI impI)
  fix s r s'
  assume s: "asr W cd d old R s" "a s = (r, s')"
  have "same s s'" using assms(1) s(2) unfolding quiet_def by (metis snd_conv)
  then have "asr W cd d old R s'" using asr_same s(1) by blast
  then show "case r of Inr x \<Rightarrow> asr W cd d old R s' | Inl e \<Rightarrow> traced W cd d old E s'"
    using asr_traced [OF _ assms(2)] by (cases r) auto
qed

lemma asr_quiet_keep:
  "quiet a \<Longrightarrow> act_triple (asr W cd d old R) a (\<lambda>_. asr W cd d old R) (asr W cd d old R)"
  unfolding act_triple_def quiet_def
  by (metis asr_same snd_conv sum.case_eq_if)

lemma record_call_asr:
  assumes "asr W cd d old R s" and "call_ok W cd d (c, ks_keeper s, ks_manager s)"
  shows "asr W cd d old R (record_call c s)"
proof -
  obtain new where "ks_trace s = new @ old" "list_all (call_ok W cd d) new"
    using assms(1) by (auto simp: asr_def traced_def)
  then have "ks_trace (record_call c s) = ((c, ks_keeper s, ks_manager s) # new) @ old"
    and "list_all (call_ok W cd d) ((c, ks_keeper s, ks_manager s) # new)"
    using assms(2) by (simp_all add: record_call_def)
  then show ?thesis
    using assms(1) unfolding asr_def traced_def by (auto simp: record_call_def kept_local_def hba_ok_def)
qed

text \<open>A recorded call: what is promised of it follows from the assertion.\<close>

lemma asr_calling:
  assumes "quiet a" and "chain W R E"
    and "\<And>k m. hba_ok cd d k m \<Longrightarrow> R (pk_dbLocalState k) (pk_waitSyncStandbysSynced k) \<Longrightarrow> call_ok W cd d (c, k, m)"
  shows "act_triple (asr W cd d old R) (calling c a) (\<lambda>_. asr W cd d old R) (traced W cd d old E)"
  unfolding act_triple_def
proof (intro allI impI)
  fix s r s'
  assume s: "asr W cd d old R s" "calling c a s = (r, s')"
  then have "asr W cd d old R (record_call c s)"
    using assms(3) by (intro record_call_asr) (auto simp: asr_def traced_def kept_local_def)
  moreover have "a (record_call c s) = (r, s')" using s(2) by (simp add: calling_def)
  ultimately show "case r of Inr x \<Rightarrow> asr W cd d old R s' | Inl e \<Rightarrow> traced W cd d old E s'"
    using asr_quiet [OF assms(1,2)] unfolding act_triple_def by blast
qed

lemmas call_defs = call_ok_def destructive_def writes_hba_def chain_def

lemma asr_stop:
  assumes "chain W R E"
  shows "act_triple (asr W cd d old R) (stopPostgresIfStarted h p) (\<lambda>_. asr W cd d old R) (traced W cd d old E)"
proof -
  have "stopPostgresIfStarted h p = then_act (io (runBeforeStopHook h p))
      (\<lambda>_. then_act (calling CallStop (with_pgm (\<lambda>m. StopIfStarted (kh_pg h) m True))) (\<lambda>_. return_act ()))"
    by (rule ext)
      (simp add: stopPostgresIfStarted_def then_act_def return_act_def split: prod.splits sum.splits)
  moreover have "call_ok W cd d (CallStop, k, m)" if "R (pk_dbLocalState k) (pk_waitSyncStandbysSynced k)" for k m
    using that assms by (auto simp: call_defs)
  ultimately show ?thesis
    by (simp only:)
      (intro act_then [OF asr_quiet [OF quiet_io assms]] act_then [OF asr_calling [OF quiet_with_pgm assms]] act_return)
qed

lemma step_set_params:
  assumes "chain W R E"
  shows "triple (asr W cd d old R) (set_params h d) (asr W cd d old R) (traced W cd d old E) X"
  unfolding set_params_def
  by (rule triple_fetch [OF asr_quiet [OF quiet_createPGParameters assms]], rule triple_update)
    (erule asr_same [rotated], simp add: same_def upd_manager_def SetParameters_def)

lemma step_set_recovery:
  "triple (asr W cd d old R) (set_recovery ro) (asr W cd d old R) E X"
  unfolding set_recovery_def
  by (rule triple_update) (erule asr_same [rotated], simp add: same_def upd_manager_def SetRecoveryOptions_def)

lemma step_ident:
  "triple (asr W cd d old R) (update (upd_manager (SetIdent xs))) (asr W cd d old R) E X"
  by (rule triple_update) (erule asr_same [rotated], simp add: same_def upd_manager_def SetIdent_def)

lemma step_parameters:
  "triple (asr W cd d old R) (update (upd_manager (SetParameters ps))) (asr W cd d old R) E X"
  by (rule triple_update) (erule asr_same [rotated], simp add: same_def upd_manager_def SetParameters_def)

lemma step_quiet:
  "quiet a \<Longrightarrow> chain W R E \<Longrightarrow> triple (asr W cd d old R) (attempt a) (asr W cd d old R) (traced W cd d old E) X"
  by (rule triple_attempt) (rule asr_quiet)

lemma step_ignoring:
  "quiet a \<Longrightarrow> triple (asr W cd d old R) (ignoring a) (asr W cd d old R) E X"
  by (rule triple_ignoring) (rule asr_quiet_keep)

lemma step_stop:
  "chain W R E \<Longrightarrow> triple (asr W cd d old R) (stop_instance h d') (asr W cd d old R) (traced W cd d old E) X"
  unfolding stop_instance_def by (rule triple_attempt) (rule asr_stop)

text \<open>A destructive call needs the mark in the local state.\<close>

lemma call_destructive:
  assumes "chain W R E" and "\<And>l w. R l w \<Longrightarrow> dls_Initializing l"
    and "R (pk_dbLocalState k) (pk_waitSyncStandbysSynced k)"
    and "c \<in> {CallRemoveAll, CallInit, CallRestore, CallRewind, CallBasebackup}"
  shows "call_ok W cd d (c, k, m)"
  using assms by (auto simp: call_defs)

lemma step_destructive:
  assumes "chain W R E" and "\<And>l w. R l w \<Longrightarrow> dls_Initializing l" and "quiet a"
    and "c \<in> {CallRemoveAll, CallInit, CallRestore, CallRewind, CallBasebackup}"
  shows "triple (asr W cd d old R) (attempt (calling c a)) (asr W cd d old R) (traced W cd d old E) X"
  by (intro triple_attempt asr_calling assms call_destructive [OF assms(1,2) _ assms(4)])

lemma step_remove:
  "chain W R E \<Longrightarrow> (\<And>l w. R l w \<Longrightarrow> dls_Initializing l) \<Longrightarrow>
     triple (asr W cd d old R) (remove_data h) (asr W cd d old R) (traced W cd d old E) X"
  unfolding remove_data_def by (rule step_destructive) (auto intro: quiets)

lemma step_start:
  assumes "chain W R E" and "\<And>l w. guarded_start d \<Longrightarrow> R l w \<Longrightarrow> w"
  shows "triple (asr W cd d old R) (start_instance h) (asr W cd d old R) (traced W cd d old E) X"
  unfolding start_instance_def
  using assms by (intro triple_attempt asr_calling quiets) (auto simp: call_defs)

lemma step_start_tmp:
  assumes "chain W R E"
  shows "triple (asr W cd d old R) (start_tmp h) (asr W cd d old R) (traced W cd d old E) X"
  unfolding start_tmp_def
  using assms by (intro triple_attempt asr_calling quiets) (auto simp: call_defs)

lemma step_wait_ready:
  assumes "chain W R E" and "t \<noteq> None"
  shows "triple (asr W cd d old R) (wait_ready h t) (asr W cd d old R) (traced W cd d old E) X"
  unfolding wait_ready_def
  using assms by (intro triple_deref step_quiet quiets) auto

lemma step_save:
  assumes "chain W R E" and "\<And>l w. R l w \<Longrightarrow> R' st w"
  shows "triple (asr W cd d old R) (save_state h st) (asr W cd d old R') (traced W cd d old E) X"
  unfolding save_state_def saveDBLocalState_def
proof (intro triple_attempt act_then [OF asr_calling [OF quiet_io assms(1)]])
  show "act_triple (asr W cd d old R)
      (\<lambda>s. (Inr (), upd_keeper (\<lambda>k. k\<lparr>pk_dbLocalState := st\<rparr>) s)) (\<lambda>_. asr W cd d old R') (traced W cd d old E)"
    using assms(2) by (auto simp: act_triple_def asr_def traced_def kept_local_def upd_keeper_def hba_ok_def)
qed (use assms(1) in \<open>auto simp: call_defs\<close>)

lemma step_include:
  assumes "chain W R E" and "\<And>l w ps. R l w \<Longrightarrow> R (st\<lparr>dls_InitPGParameters := ps\<rparr>) w"
  shows "triple (asr W cd d old R) (include_config h d' st) (asr W cd d old R) (traced W cd d old E) X"
  unfolding include_config_def
  by (intro triple_if triple_skip triple_fetch [OF asr_quiet [OF quiet_io assms(1)]] step_save assms)

lemma step_clear_wait:
  assumes "\<And>l w. R l w \<Longrightarrow> R l False"
  shows "triple (asr W cd d old R) (set_wait False) (asr W cd d old R) E X"
  unfolding set_wait_def
  by (rule triple_update)
    (use assms in \<open>auto simp: asr_def traced_def kept_local_def upd_keeper_def hba_ok_def\<close>)

text \<open>Waiting and the restricted rules are set together.\<close>

lemma generateHBA_None:
  assumes "generateHBA c cd d b = None"
  shows "\<not> startable cd d"
proof -
  obtain mode where mode: "cs_DefaultSUReplAccessMode (DefSpec (cd_Cluster cd)) = Some mode"
    using dflt_neq_None by (fastforce simp: DefSpec_def WithDefaults_def)
  then have "mode = SUReplAccessStrict" and "IsMaster d = None"
    using assms by (auto simp: generateHBA_def internalHBA_def Let_def split: su_repl_access_mode.splits)
  then show ?thesis using mode by (auto simp: startable_def IsMaster_def split: role.splits)
qed

lemma step_set_hba:
  assumes "\<And>l w. R l w \<Longrightarrow> E l w" and "\<And>l w. R l w \<Longrightarrow> b \<or> \<not> w"
  shows "triple (traced W cd d old R) (set_hba cd d b) (asr W cd d old R) E' (unstartable W cd d old E)"
  unfolding set_hba_def
proof (intro triple_reading triple_deref triple_update)
  fix t s :: "'a kst"
  assume "traced W cd d old R s \<and> s = t" "generateHBA (pk_config (ks_keeper t)) cd d b = None"
  then show "unstartable W cd d old E s"
    using assms(1) generateHBA_None by (auto simp: unstartable_def intro: traced_mono)
next
  fix t s :: "'a kst" and hba
  assume s: "traced W cd d old R s \<and> s = t" and "generateHBA (pk_config (ks_keeper t)) cd d b = Some hba"
  then have "pm_hba (ks_manager (upd_manager (SetHba (Some hba)) s)) = generateHBA (pk_config (ks_keeper s)) cd d b"
    by (simp add: upd_manager_def SetHba_def)
  moreover have "b \<or> \<not> pk_waitSyncStandbysSynced (ks_keeper s)"
    using s assms(2) by (auto simp: traced_def kept_local_def)
  ultimately show "asr W cd d old R (upd_manager (SetHba (Some hba)) s)"
    using s by (cases b) (auto simp: asr_def traced_def kept_local_def hba_ok_def upd_manager_def)
qed

lemma step_restrict:
  assumes "\<And>l w. R l w \<Longrightarrow> R l True" and "chain W R E"
  shows "triple (asr W cd d old R) (run [set_wait True, set_hba cd d True])
    (asr W cd d old (\<lambda>l w. R l w \<and> w)) E' (unstartable W cd d old E)"
proof (intro triple_run_Cons)
  show "triple (asr W cd d old R) (set_wait True) (traced W cd d old (\<lambda>l w. R l w \<and> w)) E' (unstartable W cd d old E)"
    unfolding set_wait_def
    using assms(1) by (intro triple_update) (auto simp: asr_def traced_def kept_local_def upd_keeper_def)
  show "triple (traced W cd d old (\<lambda>l w. R l w \<and> w)) (set_hba cd d True)
      (asr W cd d old (\<lambda>l w. R l w \<and> w)) E' (unstartable W cd d old E)"
    using assms(2) by (intro step_set_hba) (auto simp: chain_def)
qed (rule triple_run_Nil)

section \<open>Initialization\<close>

text \<open>
  The local state \<open>l0\<close> of the start of the tick; after the clean-up; marked as initializing; assigned to
  the database; and what an early return leaves.
\<close>

definition before_init :: "db_local_state \<Rightarrow> local_pred" where
  "before_init l0 l w \<longleftrightarrow> l = l0 \<or> l = no_local_state"

definition marked :: "db \<Rightarrow> local_pred" where
  "marked d l w \<longleftrightarrow> dls_UID l = db_UID d \<and> dls_Generation l = NoGeneration \<and> dls_Initializing l"

definition settled :: "db_local_state \<Rightarrow> db \<Rightarrow> local_pred" where
  "settled l0 d l w \<longleftrightarrow> dls_UID l = db_UID d \<and> (l = l0 \<or> dls_Generation l = NoGeneration)"

definition unconverged :: "db_local_state \<Rightarrow> local_pred" where
  "unconverged l0 l w \<longleftrightarrow> l = l0 \<or> dls_Generation l = NoGeneration"

lemmas local_defs = before_init_def marked_def settled_def unconverged_def no_local_state_def assigned_state_def

lemma chains [simp]:
  "chain False (before_init l0) (unconverged l0)" "chain False (marked d) (unconverged l0)"
  "chain False (settled l0 d) (unconverged l0)"
  by (auto simp: chain_def local_defs)

lemma DefSpec_present:
  "cs_DBWaitReadyTimeout (DefSpec c) \<noteq> None" "cs_SyncTimeout (DefSpec c) \<noteq> None"
  "cs_AutomaticPgRestart (DefSpec c) \<noteq> None"
  by (simp_all add: DefSpec_def WithDefaults_def)

lemmas step_ready = step_wait_ready [OF _ DefSpec_present(1)] step_wait_ready [OF _ DefSpec_present(2)]

lemma step_recovery_done:
  assumes "chain W R E"
  shows "triple (asr W cd d old R) (deref (cs_SyncTimeout (DefSpec c)) (\<lambda>t. attempt (with_pgm (f t))))
    (asr W cd d old R) (traced W cd d old E) X"
  using DefSpec_present(2) [of c] assms by (intro triple_deref step_quiet quiets) auto

lemma step_setup_roles:
  "chain W R E \<Longrightarrow> triple (asr W cd d old R) (attempt (calling CallSetupRoles (with_pgm f))) (asr W cd d old R)
     (traced W cd d old E) X"
  by (intro triple_attempt asr_calling quiets) (auto simp: call_defs)

lemma marked_init: "marked d l w \<Longrightarrow> dls_Initializing l"
  by (simp add: marked_def)

lemma marked_include: "marked d l w \<Longrightarrow> marked d ((assigned_state d True)\<lparr>dls_InitPGParameters := ps\<rparr>) w"
  by (simp add: local_defs)

lemmas marked_steps =
  step_set_params step_set_recovery step_stop step_start_tmp step_ready step_recovery_done step_setup_roles
  step_remove [where R = "marked d" for d, OF _ marked_init]
  step_destructive [where R = "marked d" for d, OF _ marked_init]
  step_include [where R = "marked d" and st = "assigned_state d True" for d, OF _ marked_include]

text \<open>After the mark, statements that keep it.\<close>

lemma marked_run:
  assumes "\<And>m. m \<in> set ms \<Longrightarrow>
      triple (asr False cd d old (marked d)) m (asr False cd d old (marked d)) (traced False cd d old (unconverged l0)) X"
  shows "triple (asr False cd d old (before_init l0)) (run (save_state h (assigned_state d True) # ms))
    (asr False cd d old (settled l0 d)) (traced False cd d old (unconverged l0)) X"
proof (rule triple_run_Cons)
  show "triple (asr False cd d old (before_init l0)) (save_state h (assigned_state d True))
      (asr False cd d old (marked d)) (traced False cd d old (unconverged l0)) X"
    by (rule step_save) (auto simp: local_defs)
  show "triple (asr False cd d old (marked d)) (run ms) (asr False cd d old (settled l0 d))
      (traced False cd d old (unconverged l0)) X"
    by (rule triple_conseq [OF triple_run_keep [OF assms]]) (auto elim!: asr_mono simp: local_defs)
qed

lemma step_init_new:
  "triple (asr False cd d old (before_init l0)) (init_new h cd d) (asr False cd d old (settled l0 d))
     (traced False cd d old (unconverged l0)) X"
  unfolding init_new_def Let_def
  by (rule marked_run) (auto intro!: marked_steps quiets)

lemma step_pitr_restore:
  assumes "dbs_InitMode (db_Spec d) = DBInitModePITR"
  shows "triple (asr False cd d old (marked d))
    (deref (dbs_PITRConfig (db_Spec d)) (\<lambda>pc. run
       [attempt (calling CallRestore (with_pgm (\<lambda>m. Restore (kh_pg h) m (pc_DataRestoreCommand pc)))), set_recovery (ro pc)]))
    (asr False cd d old (marked d)) (traced False cd d old (unconverged l0)) (unstartable False cd d old (unconverged l0))"
proof (rule triple_deref)
  fix s :: "'a kst"
  assume "asr False cd d old (marked d) s" "dbs_PITRConfig (db_Spec d) = None"
  then show "unstartable False cd d old (unconverged l0) s"
    using assms asr_traced [OF _ chains(2)] by (auto simp: unstartable_def startable_def)
qed (rule triple_run_keep, auto intro!: marked_steps quiets)

lemma step_init_pitr:
  assumes "dbs_InitMode (db_Spec d) = DBInitModePITR"
  shows "triple (asr False cd d old (before_init l0)) (init_pitr h cd d) (asr False cd d old (settled l0 d))
     (traced False cd d old (unconverged l0)) (unstartable False cd d old (unconverged l0))"
  unfolding init_pitr_def Let_def
  by (rule marked_run) (auto intro!: marked_steps quiets step_pitr_restore [OF assms] triple_skip)

lemma step_init_existing:
  "triple (asr False cd d old (before_init l0)) (init_existing h cd d) (asr False cd d old (settled l0 d))
     (traced False cd d old (unconverged l0)) X"
proof -
  have chain: "chain False (\<lambda>l w. settled l0 d l w \<and> dls_Generation l = NoGeneration) (unconverged l0)"
    by (auto simp: chain_def local_defs)
  show ?thesis
    unfolding init_existing_def Let_def
  proof (rule triple_run_Cons)
    show "triple (asr False cd d old (before_init l0)) (save_state h (assigned_state d False))
        (asr False cd d old (\<lambda>l w. settled l0 d l w \<and> dls_Generation l = NoGeneration))
        (traced False cd d old (unconverged l0)) X"
      by (rule step_save) (auto simp: local_defs)
  qed (rule triple_conseq [OF triple_run_keep],
      auto intro!: chain step_set_params step_stop step_start_tmp step_ready step_include elim!: asr_mono
        simp: local_defs)
qed

section \<open>Resynchronization\<close>

lemma step_clone:
  "triple (asr False cd d old (marked d)) (clone_instance h d ps) (asr False cd d old (marked d))
     (traced False cd d old (unconverged l0)) X"
  unfolding clone_instance_def
  by (rule triple_run_keep) (auto intro!: marked_steps quiets step_ignoring)

lemma asr_calling_keep:
  assumes "quiet a"
    and "\<And>k m. hba_ok cd d k m \<Longrightarrow> R (pk_dbLocalState k) (pk_waitSyncStandbysSynced k) \<Longrightarrow> call_ok W cd d (c, k, m)"
  shows "act_triple (asr W cd d old R) (calling c a) (\<lambda>_. asr W cd d old R) (asr W cd d old R)"
  unfolding act_triple_def
proof (intro allI impI)
  fix s r s'
  assume s: "asr W cd d old R s" "calling c a s = (r, s')"
  then have "asr W cd d old R (record_call c s)"
    using assms(2) by (intro record_call_asr) (auto simp: asr_def traced_def kept_local_def)
  moreover have "a (record_call c s) = (r, s')" using s(2) by (simp add: calling_def)
  ultimately show "case r of Inr x \<Rightarrow> asr W cd d old R s' | Inl e \<Rightarrow> asr W cd d old R s'"
    using asr_quiet_keep [OF assms(1)] unfolding act_triple_def by blast
qed

lemma step_resync:
  assumes "tryPgrewind \<Longrightarrow> masterDB \<noteq> None"
  shows "triple (asr False cd d old (marked d)) (resync h d masterDB followedDB tryPgrewind)
    (asr False cd d old (marked d)) (traced False cd d old (unconverged l0)) X"
proof -
  have rewind: "call_ok False cd d (CallRewind, k, m)" if "marked d (pk_dbLocalState k) w" for k m w
    using that by (simp add: call_defs marked_def)
  show ?thesis
    unfolding resync_def Let_def
    by (intro triple_reading_any triple_if step_clone triple_deref)
      (use assms in \<open>auto intro!: triple_on_result [OF asr_calling_keep] quiets rewind step_clone step_set_recovery\<close>)
qed

lemma stages_same:
  assumes "\<And>f st. f \<in> set fs \<Longrightarrow> quiet (f st)"
  shows "same s (snd (stages fs st s))"
  using assms
proof (induction fs arbitrary: st s)
  case (Cons f fs)
  obtain r s1 where f: "f st s = (r, s1)" by fastforce
  then have "same s s1" using Cons.prems [of f st] unfolding quiet_def by (metis list.set_intros(1) snd_conv)
  then show ?case using f Cons by (cases r) (auto intro: same_trans)
qed (simp add: same_refl)

lemma GetPGState_same: "same s (snd (GetPGState h s))"
proof -
  obtain r s1 where r: "with_pgm (IsInitialized (kh_pg h)) s = (r, s1)" by fastforce
  then have s1: "same s s1" using quiet_with_pgm unfolding quiet_def by (metis snd_conv)
  have "quiet (f st)" if "f \<in> set (pgStateStages h)" for f st
    using that by (auto simp: pgStateStages_def getTimeLinesHistory_def intro!: quiets)
  then have "same s1 (snd (stages (pgStateStages h) (initialState (ks_keeper s)) s1))" by (rule stages_same)
  then show ?thesis
    using r s1 by (cases r) (auto simp: GetPGState_def Let_def split_beta intro: same_trans)
qed

lemma step_after_rewind:
  "triple (asr False cd d old (marked d)) (after_rewind h cd d masterDB followedDB)
     (asr False cd d old (marked d)) (traced False cd d old (unconverged l0)) X"
proof -
  let ?full = "run [stop_instance h d, resync h d masterDB followedDB False]"
  have full: "triple (asr False cd d old (marked d)) ?full (asr False cd d old (marked d))
      (traced False cd d old (unconverged l0)) X"
    by (rule triple_run_keep) (auto intro!: step_stop step_resync)
  have check: "triple (asr False cd d old (marked d)) (\<lambda>s. case GetPGState h s of
        ((Inl _, _), s') \<Rightarrow> (Return, s')
      | ((Inr _, st), s') \<Rightarrow> if keeperDifferentTimelineBranch followedDB st then ?full s' else (Next, s'))
      (asr False cd d old (marked d)) (traced False cd d old (unconverged l0)) X"
    unfolding triple_def
  proof (intro allI impI)
    fix s :: "'a kst" and f s'
    assume s: "asr False cd d old (marked d) s" "(case GetPGState h s of
        ((Inl _, _), s') \<Rightarrow> (Return, s')
      | ((Inr _, st), s') \<Rightarrow> if keeperDifferentTimelineBranch followedDB st then ?full s' else (Next, s')) = (f, s')"
    obtain r st s1 where r: "GetPGState h s = ((r, st), s1)" by (metis surj_pair)
    then have s1: "asr False cd d old (marked d) s1"
      using asr_same [OF _ s(1)] GetPGState_same [of s h] by simp
    then show "case f of Next \<Rightarrow> asr False cd d old (marked d) s' | Return \<Rightarrow> traced False cd d old (unconverged l0) s'
        | Panic \<Rightarrow> X s'"
      using s(2) r tripleD [OF full s1] asr_traced [OF s1 chains(2)]
      by (cases r) (auto split: if_splits)
  qed
  show ?thesis
    unfolding after_rewind_def Let_def
    using DefSpec_present(1) [of "cd_Cluster cd"]
    by (intro triple_deref triple_on_result [OF asr_quiet_keep [OF quiet_io]]) (auto intro: full check)
qed

lemma pgrewind_master: "fst (evaluatePgrewindDecision i a b hasMaster x o') \<Longrightarrow> hasMaster"
  by (auto simp: evaluatePgrewindDecision_def split: if_splits sum.splits)

lemma step_marked_start:
  assumes "dbs_InitMode (db_Spec d) = DBInitModeResync"
  shows "triple (asr False cd d old (marked d)) (start_instance h) (asr False cd d old (marked d))
    (traced False cd d old (unconverged l0)) X"
  using assms by (intro step_start) (auto simp: guarded_start_def)

lemma step_resync_from:
  assumes "dbs_InitMode (db_Spec d) = DBInitModeResync"
  shows "triple (asr False cd d old (marked d)) (resync_from h cd d i sid followedDB) (asr False cd d old (marked d))
    (traced False cd d old (unconverged l0)) X"
  unfolding resync_from_def Let_def
  by (rule triple_run_keep)
    (auto intro!: step_resync step_marked_start [OF assms] step_after_rewind triple_skip dest: pgrewind_master)

lemma step_init_resync:
  assumes "dbs_InitMode (db_Spec d) = DBInitModeResync"
  shows "triple (asr False cd d old (before_init l0)) (init_resync h cd d initialized) (asr False cd d old (settled l0 d))
     (traced False cd d old (unconverged l0)) (unstartable False cd d old (unconverged l0))"
proof -
  let ?P = "asr False cd d old (marked d)" and ?E = "traced False cd d old (unconverged l0)"
    and ?X = "unstartable False cd d old (unconverged l0)"
  have "triple ?P (deref (dbs_FollowConfig (db_Spec d)) (\<lambda>fc. case map_of (cd_DBs cd) (fc_DBUID fc) of
      None \<Rightarrow> leave | Some followedDB \<Rightarrow> resync_from h cd d initialized sid followedDB)) ?P ?E ?X" for sid
    using asr_traced [OF _ chains(2)] assms
    by (intro triple_deref)
      (auto simp: unstartable_def startable_def split: option.split intro!: triple_leave step_resync_from)
  moreover have "quiet (if initialized then with_pgm (\<lambda>m. h_systemID (kh_pg h) (pm_dataDir m)) else return_act [])"
    by (intro quiets)
  ultimately show ?thesis
    unfolding init_resync_def
    by (intro marked_run) (auto intro!: step_stop step_set_params triple_fetch [OF asr_quiet])
qed

section \<open>Clean-up and assignment\<close>

lemma step_cleanup:
  "triple (asr False cd d old (\<lambda>l w. l = l0)) (cleanup h d) (asr False cd d old (before_init l0))
     (traced False cd d old (unconverged l0)) X"
proof -
  let ?R = "\<lambda>l w. l = l0 \<and> dls_Initializing l"
  have chain: "chain False ?R (unconverged l0)" by (auto simp: chain_def local_defs)
  have save: "triple (asr False cd d old ?R) (save_state h no_local_state) (asr False cd d old (before_init l0))
      (traced False cd d old (unconverged l0)) X"
    by (rule step_save [OF chain]) (simp add: before_init_def)
  have "triple (asr False cd d old ?R) (run [stop_instance h d, remove_data h, save_state h no_local_state])
      (asr False cd d old (before_init l0)) (traced False cd d old (unconverged l0)) X"
    by (intro triple_run_Cons [OF step_stop [OF chain]] triple_run_Cons [OF step_remove [OF chain]]
        triple_run_Cons [OF save] triple_run_Nil) simp
  then show ?thesis
    unfolding cleanup_def
    by (intro triple_reading triple_if triple_skip)
      (auto elim!: triple_conseq asr_mono simp: asr_def traced_def kept_local_def before_init_def)
qed

lemma step_init_mode:
  "triple (asr False cd d old (before_init l0))
     (case dbs_InitMode (db_Spec d) of
        DBInitModeNew \<Rightarrow> init_new h cd d | DBInitModePITR \<Rightarrow> init_pitr h cd d
      | DBInitModeResync \<Rightarrow> init_resync h cd d initialized | DBInitModeExisting \<Rightarrow> init_existing h cd d | _ \<Rightarrow> leave)
     (asr False cd d old (settled l0 d)) (traced False cd d old (unconverged l0))
     (unstartable False cd d old (unconverged l0))"
  by (auto split: db_init_mode.split
      intro!: step_init_new step_init_pitr step_init_resync step_init_existing triple_leave asr_traced [OF _ chains(1)])

lemma step_initialize:
  "triple (asr False cd d old (before_init l0)) (initialize h cd d) (asr False cd d old (settled l0 d))
     (traced False cd d old (unconverged l0)) (unstartable False cd d old (unconverged l0))"
proof -
  have clear: "triple (asr False cd d old (before_init l0)) (set_wait False) (asr False cd d old (before_init l0)) E X" for E X
    by (rule step_clear_wait) (simp add: before_init_def)
  have "triple (asr False cd d old (before_init l0))
      (fetch (with_pgm (IsInitialized (kh_pg h))) (\<lambda>initialized. run [set_recovery None, set_wait False,
         case dbs_InitMode (db_Spec d) of
           DBInitModeNew \<Rightarrow> init_new h cd d | DBInitModePITR \<Rightarrow> init_pitr h cd d
         | DBInitModeResync \<Rightarrow> init_resync h cd d initialized | DBInitModeExisting \<Rightarrow> init_existing h cd d
         | _ \<Rightarrow> leave]))
      (asr False cd d old (settled l0 d)) (traced False cd d old (unconverged l0))
      (unstartable False cd d old (unconverged l0))"
    by (intro triple_fetch [OF asr_quiet [OF quiet_with_pgm chains(1)]] triple_run_Cons [OF step_set_recovery]
        triple_run_Cons [OF clear] triple_run_Cons [OF step_init_mode] triple_run_Nil)
  then show ?thesis
    unfolding initialize_def
    by (intro triple_reading triple_if triple_skip)
      (auto elim!: triple_conseq asr_mono simp: asr_def traced_def kept_local_def local_defs)
qed

section \<open>Roles\<close>

lemma triple_run_all: "list_all (\<lambda>m. triple P m P E X) ms \<Longrightarrow> triple P (run ms) P E X"
  by (rule triple_run_keep) (simp add: list_all_iff)

lemma step_guard:
  assumes "chain W R E" and "\<And>l w. R l w \<Longrightarrow> R l True"
  shows "triple (asr W cd d old R)
    (if dbs_SynchronousReplication (db_Spec d) then run [set_wait True, set_hba cd d True] else skip)
    (asr W cd d old (\<lambda>l w. R l w \<and> (dbs_SynchronousReplication (db_Spec d) \<longrightarrow> w))) E' (unstartable W cd d old E)"
  using step_restrict [OF assms(2,1)] by (auto intro!: triple_skip elim: triple_conseq asr_mono)

lemma step_start_master:
  assumes "chain W R E" and "\<And>l w. R l w \<Longrightarrow> R l True"
  shows "triple (asr W cd d old R)
    (run [if dbs_SynchronousReplication (db_Spec d) then run [set_wait True, set_hba cd d True] else skip,
       start_instance h, wait_ready h (cs_DBWaitReadyTimeout (DefSpec c))])
    (asr W cd d old R) (traced W cd d old E) (unstartable W cd d old E)"
proof -
  let ?R = "\<lambda>l w. R l w \<and> (dbs_SynchronousReplication (db_Spec d) \<longrightarrow> w)"
  have chain: "chain W ?R E" using assms(1) by (auto simp: chain_def)
  have "triple (asr W cd d old ?R) (run [start_instance h, wait_ready h (cs_DBWaitReadyTimeout (DefSpec c))])
      (asr W cd d old ?R) (traced W cd d old E) (unstartable W cd d old E)"
    by (rule triple_run_keep) (auto intro!: step_start chain step_ready simp: guarded_start_def)
  then have rest: "triple (asr W cd d old ?R) (run [start_instance h, wait_ready h (cs_DBWaitReadyTimeout (DefSpec c))])
      (asr W cd d old R) (traced W cd d old E) (unstartable W cd d old E)"
    by (rule triple_conseq) (auto elim: asr_mono)
  have "triple (asr W cd d old R)
      (if dbs_SynchronousReplication (db_Spec d) then run [set_wait True, set_hba cd d True] else skip)
      (asr W cd d old ?R) (traced W cd d old E) (unstartable W cd d old E)"
    by (rule step_guard [OF assms])
  then show ?thesis by (rule triple_run_Cons [OF _ rest])
qed

lemma step_promote:
  assumes "chain W R E" and "dbs_Role (db_Spec d) = RoleMaster"
  shows "triple (asr W cd d old R) (attempt (calling CallPromote (with_pgm f))) (asr W cd d old R) (traced W cd d old E) X"
  using assms by (intro triple_attempt asr_calling quiets) (auto simp: call_defs)

lemma step_master:
  assumes "chain W R E" and "\<And>l w. R l w \<Longrightarrow> R l True" and "dbs_Role (db_Spec d) = RoleMaster"
  shows "triple (asr W cd d old R) (master_role h cd d localRole) (asr W cd d old R) (traced W cd d old E)
    (unstartable W cd d old E)"
proof -
  let ?T = "\<lambda>m. triple (asr W cd d old R) m (asr W cd d old R) (traced W cd d old E) (unstartable W cd d old E)"
  have start: "?T (fetch (with_pgm (IsStarted (kh_pg h))) (\<lambda>started. if started then skip
      else run [if dbs_SynchronousReplication (db_Spec d) then run [set_wait True, set_hba cd d True] else skip,
        start_instance h, wait_ready h (cs_DBWaitReadyTimeout (DefSpec (cd_Cluster cd)))]))"
    by (intro triple_fetch [OF asr_quiet [OF quiet_with_pgm assms(1)]] triple_if triple_skip step_start_master assms(1,2))
  have promote: "?T (if localRole = RoleStandby
      then run [attempt (io (runPrePromoteHook h d)), attempt (calling CallPromote (with_pgm (Promote (kh_pg h))))]
      else skip)"
    by (intro triple_if triple_skip triple_run_keep)
      (auto intro!: step_promote [OF assms(1,3)] step_quiet [OF quiet_io assms(1)])
  have slots: "?T (attempt (refreshReplicationSlots h (DefSpec (cd_Cluster cd)) d (cd_DBs cd)))"
    by (rule step_quiet [OF quiet_refreshReplicationSlots assms(1)])
  show ?thesis
    unfolding master_role_def
    by (intro triple_if triple_leave asr_traced [OF _ assms(1)] triple_run_all)
      (simp_all only: list.pred_inject start promote slots step_set_recovery simp_thms)
qed

lemma act_restart:
  assumes "chain W R E"
  shows "act_triple (asr W cd d old R) (restart_instance h d') (\<lambda>_. asr W cd d old R) (asr W cd d old R)"
proof -
  have "act_triple (asr W cd d old R) (calling CallRestart (pgm (Restart (kh_pg h) True))) (\<lambda>_. asr W cd d old R)
      (asr W cd d old R)"
    by (rule asr_calling_keep [OF quiet_Restart]) (use assms in \<open>auto simp: call_defs\<close>)
  then show ?thesis
    unfolding restart_instance_def by (intro act_acts) (auto intro: asr_quiet_keep [OF quiet_io])
qed

lemma step_restart:
  assumes "chain W R E"
  shows "triple (asr W cd d old R) (attempt (restart_instance h d')) (asr W cd d old R) (traced W cd d old E) X"
  by (rule triple_attempt, rule act_conseq [OF act_restart [OF assms]]) (auto intro: asr_traced [OF _ assms])

lemma step_running_standby:
  assumes "chain W R E" and "dbs_Role (db_Spec d) = RoleStandby"
  shows "triple (asr W cd d old R) (running_standby h cd d so no) (asr W cd d old R) (traced W cd d old E) X"
proof -
  have start: "triple (asr W cd d old R) (start_instance h) (asr W cd d old R) (traced W cd d old E) X"
    using assms by (intro step_start) (auto simp: guarded_start_def)
  show ?thesis
    unfolding running_standby_def
    by (intro triple_fetch [OF asr_quiet [OF quiet_with_pgm assms(1)]] triple_run_keep)
      (auto intro!: triple_skip triple_run_keep step_set_recovery start triple_reading_any step_restart [OF assms(1)]
        step_ignoring quiets simp del: run.simps)
qed

lemma step_standby:
  assumes "chain W R E" and "dbs_Role (db_Spec d) = RoleStandby"
  shows "triple (asr W cd d old R) (standby_role h cd d localRole) (asr W cd d old R) (traced W cd d old E)
    (unstartable W cd d old E)"
proof -
  let ?T = "\<lambda>m. triple (asr W cd d old R) m (asr W cd d old R) (traced W cd d old E) (unstartable W cd d old E)"
  have leave: "?T leave" by (rule triple_leave) (rule asr_traced [OF _ assms(1)])
  have enter: "?T (case localRole of RoleStandby \<Rightarrow> running_standby h cd d so no
      | RoleMaster \<Rightarrow> leave | RoleUndefined \<Rightarrow> leave | RoleOther _ \<Rightarrow> skip)" for so no
    using leave by (auto split: role.split intro!: step_running_standby assms triple_skip)
  have deref: "?T (deref (dbs_FollowConfig (db_Spec d)) f)" if "\<And>fc. ?T (f fc)" for f
    using that assms(2) asr_traced [OF _ assms(1)]
    by (intro triple_deref) (auto simp: unstartable_def startable_def)
  show ?thesis
    unfolding standby_role_def Let_def
  proof (rule triple_reading_any, rule deref)
    fix t :: "'a kst" and fc
    show "?T (case fc_Type fc of
        FollowTypeInternal \<Rightarrow> (case map_of (cd_DBs cd) (fc_DBUID fc) of None \<Rightarrow> leave
          | Some f \<Rightarrow> (case localRole of RoleStandby \<Rightarrow> running_standby h cd d
                (createRecoveryOptions RecoveryModeStandby
                  (Some (internalStandbySettings (pk_config (ks_keeper t)) d f)) None None)
                (createRecoveryOptions RecoveryModeStandby
                  (Some (internalStandbySettings (pk_config (ks_keeper t)) d f)) None None)
              | RoleMaster \<Rightarrow> leave | RoleUndefined \<Rightarrow> leave | RoleOther _ \<Rightarrow> skip))
      | FollowTypeExternal \<Rightarrow> (case localRole of RoleStandby \<Rightarrow> running_standby h cd d
            (createRecoveryOptions RecoveryModeStandby (fc_StandbySettings fc) None None)
            (createRecoveryOptions RecoveryModeStandby (fc_StandbySettings fc) (fc_ArchiveRecoverySettings fc) None)
          | RoleMaster \<Rightarrow> leave | RoleUndefined \<Rightarrow> leave | RoleOther _ \<Rightarrow> skip)
      | FollowTypeOther _ \<Rightarrow> leave)"
      by (cases "fc_Type fc"; cases "map_of (cd_DBs cd) (fc_DBUID fc)") (simp_all only: follow_type.case option.case enter leave)
  qed
qed

lemma step_align:
  assumes "chain W R E" and "\<And>l w. R l w \<Longrightarrow> R l True"
  shows "triple (asr W cd d old R) (align h cd d) (asr W cd d old R) (traced W cd d old E) (unstartable W cd d old E)"
proof -
  have role: "triple (asr W cd d old R) (apply_role h cd d r) (asr W cd d old R) (traced W cd d old E)
      (unstartable W cd d old E)" for r
    unfolding apply_role_def
    by (auto split: role.split intro!: step_master step_standby assms triple_skip triple_leave asr_traced [OF _ assms(1)])
  show ?thesis
    unfolding align_def
    by (intro triple_fetch [OF asr_quiet [OF quiet_with_pgm assms(1)]] triple_run_keep)
      (auto intro!: step_ignoring quiets triple_skip step_set_params assms(1) role
        triple_fetch [OF asr_quiet [OF quiet_with_pgm assms(1)]] simp del: run.simps)
qed

section \<open>Configuration\<close>

lemma step_new_hba:
  assumes "chain W R E" and "asr W cd d old R t"
    and "generateHBA (pk_config (ks_keeper t)) cd d (pk_waitSyncStandbysSynced (ks_keeper t)) = Some hba"
  shows "triple (\<lambda>s. asr W cd d old R s \<and> s = t) (update (upd_manager (SetHba (Some hba)))) (asr W cd d old R) E' X"
  using assms
  by (intro triple_update, cases "pk_waitSyncStandbysSynced (ks_keeper t)")
    (auto simp: asr_def traced_def kept_local_def hba_ok_def upd_manager_def SetHba_def)

lemma step_call_reload:
  assumes "chain W R E"
  shows "triple (asr W cd d old R) (ignoring (calling CallReload (pgm (Reload (kh_pg h))))) (asr W cd d old R) E' X"
  by (rule triple_ignoring, rule asr_calling_keep [OF quiet_Reload]) (use assms in \<open>auto simp: call_defs\<close>)

lemma step_reload:
  assumes "chain W R E"
  shows "triple (asr W cd d old R) (reload_config h cd d changed) (asr W cd d old R) (traced W cd d old E)
    (unstartable W cd d old E)"
  unfolding reload_config_def Let_def
proof (rule triple_reading, rule triple_deref)
  fix t s :: "'a kst"
  assume "asr W cd d old R s \<and> s = t"
    "generateHBA (pk_config (ks_keeper t)) cd d (pk_waitSyncStandbysSynced (ks_keeper t)) = None"
  then show "unstartable W cd d old E s"
    using asr_traced [OF _ assms] generateHBA_None by (auto simp: unstartable_def)
next
  fix t :: "'a kst" and hba
  assume t: "asr W cd d old R t"
    "generateHBA (pk_config (ks_keeper t)) cd d (pk_waitSyncStandbysSynced (ks_keeper t)) = Some hba"
  let ?E = "traced W cd d old E" and ?X = "unstartable W cd d old E"
  have first: "triple (\<lambda>s. asr W cd d old R s \<and> s = t)
      (if b then update (upd_manager (SetHba (Some hba))) else skip) (asr W cd d old R) ?E ?X" for b
    by (intro triple_if step_new_hba [OF assms t] triple_skip) simp
  have second: "triple (asr W cd d old R) (if b then update (upd_manager (SetIdent xs)) else skip) (asr W cd d old R) ?E ?X"
    for b xs by (intro triple_if step_ident triple_skip)
  have third: "triple (asr W cd d old R) (if b then ignoring (calling CallReload (pgm (Reload (kh_pg h)))) else skip)
      (asr W cd d old R) ?E ?X" for b
    by (intro triple_if step_call_reload [OF assms] triple_skip)
  show "triple (\<lambda>s. asr W cd d old R s \<and> s = t) (run
      [if Some hba \<noteq> pm_curHba (ks_manager t) then update (upd_manager (SetHba (Some hba))) else skip,
       if dbs_PGIdent (db_Spec d) \<noteq> pm_curIdent (ks_manager t)
         then update (upd_manager (SetIdent (dbs_PGIdent (db_Spec d)))) else skip,
       if changed \<or> Some hba \<noteq> pm_curHba (ks_manager t) \<or> dbs_PGIdent (db_Spec d) \<noteq> pm_curIdent (ks_manager t)
         then ignoring (calling CallReload (pgm (Reload (kh_pg h)))) else skip])
      (asr W cd d old R) ?E ?X"
    by (intro triple_run_Cons [OF first] triple_run_Cons [OF second] triple_run_Cons [OF third] triple_run_Nil)
qed

lemma step_restart_if_required:
  assumes "chain W R E"
  shows "triple (asr W cd d old R) (restart_if_required h cd d) (asr W cd d old R) (traced W cd d old E) X"
proof -
  have restart: "triple (asr W cd d old R) (ignoring (restart_instance h d)) (asr W cd d old R) (traced W cd d old E) X"
    by (rule triple_ignoring) (rule act_restart [OF assms])
  show ?thesis
    unfolding restart_if_required_def
    using DefSpec_present(3) [of "cd_Cluster cd"]
    by (intro triple_deref triple_on_result [OF asr_quiet_keep [OF quiet_io]])
      (auto intro!: restart triple_skip)
qed

lemma step_converged:
  assumes "chain W R E" and "\<And>l w. R l w \<Longrightarrow> R' (l\<lparr>dls_Generation := db_Generation d, dls_Initializing := False\<rparr>) w"
  shows "triple (asr W cd d old R) (converged_state h d) (asr W cd d old R') (traced W cd d old E) X"
  unfolding converged_state_def
proof (rule triple_reading)
  fix t :: "'a kst"
  let ?l = "pk_dbLocalState (ks_keeper t)"
  let ?R = "\<lambda>l w. R l w \<and> l = ?l"
  have "triple (asr W cd d old ?R) (save_state h (?l\<lparr>dls_Generation := db_Generation d, dls_Initializing := False\<rparr>))
      (asr W cd d old R') (traced W cd d old E) X"
    using assms by (intro step_save) (auto simp: chain_def)
  then show "triple (\<lambda>s. asr W cd d old R s \<and> s = t)
      (save_state h (?l\<lparr>dls_Generation := db_Generation d, dls_Initializing := False\<rparr>))
      (asr W cd d old R') (traced W cd d old E) X"
    by (rule triple_conseq) (auto simp: asr_def traced_def kept_local_def)
qed

lemma step_configure:
  assumes "chain W R E" and "\<And>l w. R l w \<Longrightarrow> R' (l\<lparr>dls_Generation := db_Generation d, dls_Initializing := False\<rparr>) w"
    and "triple (asr W cd d old R) (wait_sync h d) (asr W cd d old R) (traced W cd d old E) (unstartable W cd d old E)"
  shows "triple (asr W cd d old R) (configure h cd d) (asr W cd d old R') (traced W cd d old E) (unstartable W cd d old E)"
proof -
  have params: "triple (asr W cd d old R) (if b then update (upd_manager (SetParameters ps)) else skip)
      (asr W cd d old R) (traced W cd d old E) (unstartable W cd d old E)" for b ps
    by (intro triple_if step_parameters triple_skip)
  have last: "triple (asr W cd d old R) (converged_state h d) (asr W cd d old R') (traced W cd d old E)
      (unstartable W cd d old E)"
    by (rule step_converged) (fact assms)+
  show ?thesis
    unfolding configure_def Let_def
    by (intro triple_fetch [OF asr_quiet [OF quiet_createPGParameters assms(1)]] triple_reading_any
        triple_run_Cons [OF params] triple_run_Cons [OF assms(3)] triple_run_Cons [OF step_reload [OF assms(1)]]
        triple_run_Cons [OF step_restart_if_required [OF assms(1)]] triple_run_Cons [OF last] triple_run_Nil)
qed

text \<open>The keeper stops waiting when the standbys in sync are the required ones, or nothing is required.\<close>

lemma step_wait_sync:
  assumes "chain W R E" and "\<And>l w. R l w \<Longrightarrow> R l False"
  shows "triple (asr W cd d old R) (wait_sync h d) (asr W cd d old R) (traced W cd d old E) X"
  unfolding wait_sync_def
  by (intro triple_reading_any triple_if triple_fetch [OF asr_quiet [OF quiet_GetInSyncStandbys assms(1)]] triple_skip
      step_clear_wait) (use assms(2) in auto)

lemma asr_waits: "asr True cd d old R s \<Longrightarrow> chain True R E \<Longrightarrow> pk_waitSyncStandbysSynced (ks_keeper s)"
  by (auto simp: asr_def traced_def kept_local_def chain_def)

lemma act_result:
  assumes "act_triple P a Q E" and "\<And>s x s'. a s = (Inr x, s') \<Longrightarrow> T x"
  shows "act_triple P a (\<lambda>x s. Q x s \<and> T x) E"
  unfolding act_triple_def
proof (intro allI impI)
  fix s r s'
  assume "P s" "a s = (r, s')"
  then have "case r of Inr x \<Rightarrow> Q x s' | Inl e \<Rightarrow> E s'" using assms(1) unfolding act_triple_def by blast
  then show "case r of Inr x \<Rightarrow> Q x s' \<and> T x | Inl e \<Rightarrow> E s'"
    using assms(2) \<open>a s = (r, s')\<close> by (cases r) auto
qed

lemma step_keep_waiting:
  fixes h :: "'w keeper_host"
  assumes "chain True R E" and "dbs_SynchronousReplication (db_Spec d)"
    and "\<And>s inSync s'. GetInSyncStandbys h s = (Inr inSync, s') \<Longrightarrow>
      \<not> CompareStringSliceNoOrder inSync (els (dbs_SynchronousStandbys (db_Spec d)))"
  shows "triple (asr True cd d old R) (wait_sync h d) (asr True cd d old R) (traced True cd d old E) X"
proof -
  let ?match = "\<lambda>inSync. CompareStringSliceNoOrder inSync (els (dbs_SynchronousStandbys (db_Spec d)))"
  have "act_triple (asr True cd d old R) (GetInSyncStandbys h)
      (\<lambda>inSync s. asr True cd d old R s \<and> \<not> ?match inSync) (traced True cd d old E)"
    by (rule act_result [OF asr_quiet [OF quiet_GetInSyncStandbys assms(1)] assms(3)])
  moreover have "triple (\<lambda>s. asr True cd d old R s \<and> \<not> ?match inSync) (if ?match inSync then set_wait False else skip)
      (asr True cd d old R) (traced True cd d old E) X" for inSync
    by (cases "?match inSync") (auto simp: triple_def skip_def)
  ultimately have "triple (asr True cd d old R) (fetch (GetInSyncStandbys h)
      (\<lambda>inSync. if ?match inSync then set_wait False else skip)) (asr True cd d old R) (traced True cd d old E) X"
    by (rule triple_fetch)
  then show ?thesis
    unfolding wait_sync_def using assms(2) asr_waits [OF _ assms(1)]
    by (intro triple_reading_any) auto
qed

section \<open>The tick\<close>

definition converged_on :: "db \<Rightarrow> local_pred" where
  "converged_on d l w \<longleftrightarrow> dls_UID l = db_UID d \<and> dls_Generation l = db_Generation d \<and> \<not> dls_Initializing l"

lemma reconcile_triple:
  fixes h :: "'w keeper_host"
  shows "triple (traced False cd d old (\<lambda>l w. l = l0)) (reconcile_db h cd d) (asr False cd d old (converged_on d))
     (traced False cd d old (unconverged l0)) (unstartable False cd d old (unconverged l0))"
proof -
  let ?E = "traced False cd d old (unconverged l0)" and ?X = "unstartable False cd d old (unconverged l0)"
  have hba: "triple (traced False cd d old (\<lambda>l w. l = l0))
      (reading (\<lambda>s :: 'w kst. set_hba cd d (pk_waitSyncStandbysSynced (ks_keeper s)))) (asr False cd d old (\<lambda>l w. l = l0)) ?E ?X"
  proof (rule triple_reading)
    fix t :: "'w kst"
    let ?w = "pk_waitSyncStandbysSynced (ks_keeper t)"
    have "triple (traced False cd d old (\<lambda>l w. l = l0 \<and> w = ?w)) (set_hba cd d ?w)
        (asr False cd d old (\<lambda>l w. l = l0 \<and> w = ?w)) ?E ?X"
      by (rule step_set_hba) (auto simp: unconverged_def)
    then show "triple (\<lambda>s. traced False cd d old (\<lambda>l w. l = l0) s \<and> s = t) (set_hba cd d ?w)
        (asr False cd d old (\<lambda>l w. l = l0)) ?E ?X"
      by (rule triple_conseq) (auto elim: asr_mono simp: traced_def kept_local_def)
  qed
  have align: "triple (asr False cd d old (settled l0 d)) (align h cd d) (asr False cd d old (settled l0 d)) ?E ?X"
    by (rule step_align) (auto simp: settled_def)
  have wait: "triple (asr False cd d old (settled l0 d)) (wait_sync h d) (asr False cd d old (settled l0 d)) ?E ?X"
    by (rule step_wait_sync) (auto simp: settled_def)
  have configure: "triple (asr False cd d old (settled l0 d)) (configure h cd d) (asr False cd d old (converged_on d)) ?E ?X"
    by (rule step_configure [OF _ _ wait]) (auto simp: settled_def converged_on_def)
  show ?thesis
    unfolding reconcile_db_def
    by (intro triple_run_Cons [OF hba] triple_run_Cons [OF step_ident] triple_run_Cons [OF step_cleanup]
        triple_run_Cons [OF step_initialize] triple_run_Cons [OF align] triple_run_Cons [OF configure] triple_run_Nil)
qed

text \<open>While the required standbys are not in sync, the keeper waits and admits no users.\<close>

definition waits_on :: "db \<Rightarrow> local_pred" where
  "waits_on d l w \<longleftrightarrow> w \<and> dls_UID l = db_UID d \<and> \<not> dls_Initializing l"

lemma reconcile_waiting:
  fixes h :: "'w keeper_host"
  assumes "dbs_SynchronousReplication (db_Spec d)"
    and "\<And>s inSync s'. GetInSyncStandbys h s = (Inr inSync, s') \<Longrightarrow>
      \<not> CompareStringSliceNoOrder inSync (els (dbs_SynchronousStandbys (db_Spec d)))"
  shows "triple (traced True cd d old (waits_on d)) (reconcile_db h cd d) (asr True cd d old (waits_on d))
    (traced True cd d old (waits_on d)) (unstartable True cd d old (waits_on d))"
proof -
  let ?E = "traced True cd d old (waits_on d)" and ?X = "unstartable True cd d old (waits_on d)"
  have chain: "chain True (waits_on d) (waits_on d)" by (simp add: chain_def waits_on_def)
  have hba: "triple ?E (reading (\<lambda>s :: 'w kst. set_hba cd d (pk_waitSyncStandbysSynced (ks_keeper s))))
      (asr True cd d old (waits_on d)) ?E ?X"
  proof (rule triple_reading_any)
    fix t :: "'w kst"
    assume "?E t"
    then have "pk_waitSyncStandbysSynced (ks_keeper t)" by (simp add: traced_def kept_local_def waits_on_def)
    then show "triple ?E (set_hba cd d (pk_waitSyncStandbysSynced (ks_keeper t))) (asr True cd d old (waits_on d)) ?E ?X"
      by (intro step_set_hba) auto
  qed
  have cleanup: "triple (asr True cd d old (waits_on d)) (cleanup h d) (asr True cd d old (waits_on d)) ?E ?X"
    unfolding cleanup_def
    by (rule triple_reading_any) (auto simp: asr_def traced_def kept_local_def waits_on_def intro: triple_skip)
  have init: "triple (asr True cd d old (waits_on d)) (initialize h cd d) (asr True cd d old (waits_on d)) ?E ?X"
    unfolding initialize_def
    by (rule triple_reading_any) (auto simp: asr_def traced_def kept_local_def waits_on_def intro: triple_skip)
  have align: "triple (asr True cd d old (waits_on d)) (align h cd d) (asr True cd d old (waits_on d)) ?E ?X"
    by (rule step_align [OF chain]) (simp add: waits_on_def)
  have configure: "triple (asr True cd d old (waits_on d)) (configure h cd d) (asr True cd d old (waits_on d)) ?E ?X"
    by (rule step_configure [OF chain _ step_keep_waiting [OF chain assms]]) (simp_all add: waits_on_def)
  show ?thesis
    unfolding reconcile_db_def
    by (intro triple_run_Cons [OF hba] triple_run_Cons [OF step_ident] triple_run_Cons [OF cleanup]
        triple_run_Cons [OF init] triple_run_Cons [OF align] triple_run_Cons [OF configure] triple_run_Nil)
qed

section \<open>From the store to the database\<close>

text \<open>The database that the cluster data assigns to this process of the keeper.\<close>

definition assigned :: "'w keeper_host \<Rightarrow> 'w kst \<Rightarrow> cluster_data \<Rightarrow> db \<Rightarrow> bool" where
  "assigned h s cd d \<longleftrightarrow> (\<exists>kp. fst (kh_GetClusterData h (ks_world s)) = Inr (Some cd) \<and>
     map_of (cd_Keepers cd) (ls_UID (pk_keeperLocalState (ks_keeper s))) = Some kp \<and> FindDB cd kp = Some d \<and>
     kc_bootUUID (pk_config (ks_keeper s)) = kst_BootUUID (k_Status kp))"

definition unmoved :: "'w kst \<Rightarrow> 'w kst \<Rightarrow> bool" where
  "unmoved s s' \<longleftrightarrow> ks_trace s' = ks_trace s \<and> pk_config (ks_keeper s') = pk_config (ks_keeper s) \<and>
     pk_dbLocalState (ks_keeper s') = pk_dbLocalState (ks_keeper s) \<and>
     pk_waitSyncStandbysSynced (ks_keeper s') = pk_waitSyncStandbysSynced (ks_keeper s) \<and>
     ls_UID (pk_keeperLocalState (ks_keeper s')) = ls_UID (pk_keeperLocalState (ks_keeper s))"

text \<open>A tick that at most stops the instance.\<close>

definition idle :: "'w kst \<Rightarrow> 'w kst \<Rightarrow> bool" where
  "idle s s' \<longleftrightarrow> pk_dbLocalState (ks_keeper s') = pk_dbLocalState (ks_keeper s) \<and>
     pk_waitSyncStandbysSynced (ks_keeper s') = pk_waitSyncStandbysSynced (ks_keeper s) \<and>
     (\<exists>new. ks_trace s' = new @ ks_trace s \<and> list_all (\<lambda>e. fst e = CallStop) new)"

lemma unmoved_idle: "unmoved s s' \<Longrightarrow> idle s s'"
  by (simp add: unmoved_def idle_def)

lemma unmoved_then: "unmoved s s' \<Longrightarrow> idle s' s'' \<Longrightarrow> idle s s''"
  by (auto simp: unmoved_def idle_def)

lemma unmoved_trans: "unmoved s s' \<Longrightarrow> unmoved s' s'' \<Longrightarrow> unmoved s s''"
  by (simp add: unmoved_def)

lemma stop_idle: "idle s (snd (stopPostgresIfStarted h p s))"
proof -
  let ?stop = "with_pgm (\<lambda>m. StopIfStarted (kh_pg h) m True)"
  obtain r s1 where s1: "io (runBeforeStopHook h p) s = (r, s1)" by fastforce
  obtain r2 s2 where s2: "?stop (record_call CallStop s1) = (r2, s2)" by fastforce
  have "same s s1" using s1 quiet_io unfolding quiet_def by (metis snd_conv)
  moreover have "same (record_call CallStop s1) s2"
    using s2 quiet_with_pgm unfolding quiet_def by (metis snd_conv)
  ultimately have "idle s s1" and "idle s s2"
    by (simp_all add: idle_def same_def record_call_def)
  then show ?thesis
    using s1 s2 by (cases r; cases r2) (simp_all add: stopPostgresIfStarted_def calling_def)
qed

lemma bind_cluster_unmoved:
  assumes "bind_cluster h cd s = (f, s')"
  shows "f \<noteq> Panic" and "unmoved s s'"
  using assms
  by (auto simp: bind_cluster_def reading_def skip_def update_def attempt_def saveKeeperLocalState_def io_def
      upd_keeper_def unmoved_def split: if_splits prod.splits sum.splits)

lemma dispatch_cases:
  assumes "dispatch h cd s = (f, s')"
  obtains "f = Return" and "idle s s'"
  | kp d where "map_of (cd_Keepers cd) (ls_UID (pk_keeperLocalState (ks_keeper s))) = Some kp" and "FindDB cd kp = Some d"
      and "kc_bootUUID (pk_config (ks_keeper s)) = kst_BootUUID (k_Status kp)" and "reconcile_db h cd d s = (f, s')"
proof (cases "map_of (cd_Keepers cd) (ls_UID (pk_keeperLocalState (ks_keeper s)))")
  case None
  then show thesis using assms that(1) by (simp add: dispatch_def reading_def leave_def idle_def)
next
  case (Some kp)
  have stop: thesis if "run [ignoring (stopPostgresIfStarted h p), leave] s = (f, s')" for p
    using that stop_idle [of s h p] \<open>f = Return \<Longrightarrow> idle s s' \<Longrightarrow> thesis\<close>
    by (auto simp: ignoring_def leave_def split: prod.splits)
  show thesis
  proof (cases "FindDB cd kp")
    case None
    then show thesis using assms Some stop [of None] by (simp add: dispatch_def reading_def del: run.simps)
  next
    case d: (Some d)
    show thesis
    proof (cases "kc_bootUUID (pk_config (ks_keeper s)) = kst_BootUUID (k_Status kp)")
      case True
      then show thesis using assms Some d that(2) by (simp add: dispatch_def reading_def del: run.simps)
    next
      case False
      then show thesis using assms Some d stop [of "Some d"] by (simp add: dispatch_def reading_def del: run.simps)
    qed
  qed
qed

lemma tick_data_cases:
  assumes "tick_data h cd s = (f, s')"
  obtains "f = Return" and "idle s s'"
  | s1 where "unmoved s s1" and "dispatch h cd s1 = (f, s')"
proof -
  let ?s = "applyRuntimeConfigFromClusterData cd s"
  have u: "unmoved s ?s" by (simp add: applyRuntimeConfigFromClusterData_def unmoved_def Let_def)
  obtain g s1 where b: "bind_cluster h cd ?s = (g, s1)" by fastforce
  note b1 = bind_cluster_unmoved [OF b]
  have u1: "unmoved s s1" using unmoved_trans [OF u b1(2)] .
  consider (early) "f = Return" "s' = s" | (late) "run [update (applyRuntimeConfigFromClusterData cd), bind_cluster h cd,
      dispatch h cd] s = (f, s')"
    using assms by (auto simp: tick_data_def leave_def simp del: run.simps split: if_splits sum.splits)
  then show thesis
  proof cases
    case early
    then show thesis using that(1) by (simp add: idle_def)
  next
    case late
    then show thesis
      using b b1(1) u1 that unmoved_idle [OF u1]
      by (cases g) (auto simp: update_def split: prod.splits flow.splits)
  qed
qed

lemma tick_cases:
  assumes "postgresKeeperSM h s = (f, s')"
  obtains (idle) "f = Return" and "idle s s'"
  | (work) cd d s1 where "assigned h s cd d" and "unmoved s s1" and "reconcile_db h cd d s1 = (f, s')"
proof -
  obtain r w where g: "kh_GetClusterData h (ks_world s) = (r, w)" by fastforce
  let ?s = "upd_failsafe handleDCSRecovered (s\<lparr>ks_world := w\<rparr>)"
  have u: "unmoved s ?s" by (simp add: unmoved_def upd_failsafe_def upd_keeper_def)
  consider (none) "f = Return" "idle s s'" | (data) cd where "r = Inr (Some cd)" "tick_data h cd ?s = (f, s')"
  proof (cases r)
    case (Inl e)
    then show thesis
      using assms g that(1)
      by (auto simp: postgresKeeperSM_def on_result_def io_def update_def leave_def idle_def upd_failsafe_def upd_keeper_def)
  next
    case (Inr cdo)
    then show thesis
      using assms g that unmoved_idle [OF u]
      by (cases cdo) (auto simp: postgresKeeperSM_def on_result_def io_def update_def leave_def split: prod.splits flow.splits)
  qed
  then show thesis
  proof cases
    case none
    then show thesis by (rule idle)
  next
    case (data cd)
    from data(2) show thesis
    proof (cases rule: tick_data_cases)
      case 1
      then show thesis using idle unmoved_then [OF u] by blast
    next
      case (2 s1)
      have s1: "unmoved s s1" using unmoved_trans [OF u 2(1)] .
      from 2(2) show thesis
      proof (cases rule: dispatch_cases)
        case 1
        then show thesis using idle unmoved_then [OF s1] by blast
      next
        case (2 kp d)
        then have "assigned h s cd d" using s1 g data(1) by (simp add: assigned_def unmoved_def)
        then show thesis using work s1 2(4) by blast
      qed
    qed
  qed
qed

end
