(* ===== verification/Keeper_Samples.thy ===== *)
theory Keeper_Samples
  imports Keeper_Tick Samples
begin

text \<open>
  A small machine for the instances of the theorems about the keeper: a server that runs or not, may be
  slow to start, reports the given standbys as in sync, and whose \<open>pg_hba.conf\<close> and replication
  slots are kept. Its data directory is complete and that of a master.
\<close>

section \<open>The machine\<close>

record demo_world =
  dw_cd :: cluster_data
  dw_running :: bool
  dw_slow :: bool
  dw_hba :: "string list"
  dw_slots :: "string list"

definition demo_dir :: string where "demo_dir = ''/data/postgres''"

definition succeed :: "('w, unit) act" where "succeed = return_act ()"

definition demo_pg :: "string list \<Rightarrow> demo_world host" where
  "demo_pg standbys = \<lparr>h_now = (\<lambda>w. 0), h_attempts = (\<lambda>t w. 1),
     h_exists = (\<lambda>p. return_act (p \<noteq> JoinPath [demo_dir, postgresStandbySignal])),
     h_removeAll = (\<lambda>p. succeed), h_remove = (\<lambda>p. succeed), h_mkdirAll = (\<lambda>p. succeed), h_symlink = (\<lambda>a b. succeed),
     h_readDir = (\<lambda>p. return_act None), h_readlink = (\<lambda>p. return_act None), h_fileNames = (\<lambda>p. return_act []),
     h_fileSize = (\<lambda>p. return_act 0),
     h_writeFile = (\<lambda>p ls w. (Inr (), if p = JoinPath [demo_dir, ''pg_hba.conf''] then w\<lparr>dw_hba := ls\<rparr> else w)),
     h_run = (\<lambda>p args. succeed),
     h_exitStatus = (\<lambda>p args w. (Inr (if dw_running w then 0 else 3), w)),
     h_spawn = (\<lambda>p args w. (if dw_slow w then Inl (Err ''instance still starting'') else Inr (),
       w\<lparr>dw_running := True, dw_slow := False\<rparr>)),
     h_binaryVersion = return_act (17, 0), h_systemID = (\<lambda>p. return_act ''sys''), h_ping = succeed,
     h_checkpoint = (\<lambda>p. succeed), h_tablespaces = (\<lambda>p. return_act []), h_alterPasswordlessRole = (\<lambda>u. succeed),
     h_alterRole = (\<lambda>u p m. succeed), h_setPassword = (\<lambda>u p m. succeed), h_createRole = (\<lambda>u p m. succeed),
     h_createPasswordlessRole = (\<lambda>u. succeed),
     h_systemData = return_act \<lparr>sd_SystemID = ''sys'', sd_TimelineID = 1, sd_XLogPos = 100\<rparr>,
     h_timelinesHistory = (\<lambda>t. return_act []), h_configParameters = return_act [],
     h_restartRequirement = return_act \<lparr>rr_PendingParams = [], rr_Required = False\<rparr>,
     h_syncStandbys = return_act standbys, 
     h_physicalSlots = (\<lambda>w. (Inr (map (\<lambda>n. \<lparr>phs_Name = n, phs_Active = False, phs_HasXmin = False\<rparr>) (dw_slots w)), w)),
     h_createSlot = (\<lambda>n w. if n \<in> set (dw_slots w) then (Inl (Err ''already exists''), w)
       else (Inr (), w\<lparr>dw_slots := dw_slots w @ [n]\<rparr>)),
     h_dropSlot = (\<lambda>n w. (Inr (), w\<lparr>dw_slots := removeAll n (dw_slots w)\<rparr>)), h_logicalSlots = return_act [],
     h_createLogicalSlot = (\<lambda>n d p f. succeed), h_dropLogicalSlot = (\<lambda>n. succeed),
     h_advanceLogicalSlot = (\<lambda>n d l. succeed), h_replayPaused = return_act False, h_resumeReplay = succeed\<rparr>"

definition demo_host :: "string list \<Rightarrow> demo_world keeper_host" where
  "demo_host standbys = \<lparr>kh_pg = demo_pg standbys, kh_GetClusterData = (\<lambda>w. (Inr (Some (dw_cd w)), w)),
     kh_saveKeeperState = (\<lambda>l. succeed), kh_saveDBState = (\<lambda>l. succeed), kh_hook = (\<lambda>c. succeed), kh_order = id,
     kh_SetKeeperInfo = (\<lambda>i t. succeed), kh_newUID = (\<lambda>w. ''u''), kh_hostname = [], kh_nodeName = []\<rparr>"

definition demo_config :: keeper_config where
  "demo_config = \<lparr>kc_bootUUID = [], kc_dataDir = ''/data'', kc_pgListenAddress = ''10.0.0.1'',
     kc_pgAdvertiseAddress = ''10.0.0.1'', kc_pgPort = ''5432'', kc_pgAdvertisePort = ''5432'', kc_pgBinPath = [],
     kc_pgWALDir = [], kc_pgReplAuthMethod = ''md5'', kc_pgReplUsername = ''repl'', kc_pgReplPassword = ''r'',
     kc_pgSUAuthMethod = ''md5'', kc_pgSUUsername = ''postgres'', kc_pgSUPassword = ''s'', kc_pgTablespaceDirs = [],
     kc_logicalSlotStandbyAdvanceRetryDelay = 0, kc_AllowNewerPG = False, kc_canBeMaster = None,
     kc_canBeSynchronousReplica = None, kc_masterPriority = None\<rparr>"

definition demo_keeper :: "uid \<Rightarrow> db_local_state \<Rightarrow> bool \<Rightarrow> postgres_keeper" where
  "demo_keeper u l waiting = \<lparr>pk_config = demo_config, pk_keeperLocalState = \<lparr>ls_UID = u, ls_ClusterUID = ''c''\<rparr>,
     pk_dbLocalState = l, pk_lastPGState = None,
     pk_slots = \<lparr>lss_retryAfter = [], lss_pending = [], lss_readinessLast = [], lss_gateNoticeEmitted = False,
       lss_legacyModeNoticeEmitted = False, lss_nativeModeNoticeEmitted = False,
       lss_advanceUnavailableNoticeEmitted = False, lss_noStreamNoticeEmitted = False\<rparr>,
     pk_failsafe = \<lparr>fs_state = failsafeStateDisabled, fs_enabled = False, fs_probeInterval = 0, fs_probeTimeout = 0,
       fs_maxMissingPeers = 0, fs_TTL = 0, fs_dcsDegraded = False, fs_dcsDegradedSince = 0\<rparr>,
     pk_sleepInterval = 0, pk_requestTimeout = 0, pk_waitSyncStandbysSynced = waiting\<rparr>"

definition demo_manager :: manager where
  "demo_manager = NewManager [] ''/data'' [] [] [] ''md5'' ''postgres'' ''s'' ''md5'' ''repl'' ''r'' 0 []"

definition demo_state :: "postgres_keeper \<Rightarrow> manager \<Rightarrow> demo_world \<Rightarrow> demo_world kst" where
  "demo_state k m w = \<lparr>ks_keeper = k, ks_manager = m, ks_world = w, ks_trace = []\<rparr>"

definition local_db :: "uid \<Rightarrow> int \<Rightarrow> db_local_state" where
  "local_db u g = no_local_state\<lparr>dls_UID := u, dls_Generation := g\<rparr>"

section \<open>What it answers\<close>

abbreviation at_demo :: "manager \<Rightarrow> bool" where "at_demo m \<equiv> pm_dataDir m = demo_dir"

lemma demo_manager_dir [simp]: "at_demo demo_manager"
  unfolding demo_manager_def NewManager_def demo_dir_def by code_simp

lemma demo_paths: "JoinPath [demo_dir, postgresStandbySignal] \<noteq> demo_dir"
    "list_all (\<lambda>f. JoinPath [demo_dir, f] \<noteq> JoinPath [demo_dir, postgresStandbySignal]) requiredFiles"
    "JoinPath [demo_dir, ''PG_VERSION''] \<noteq> JoinPath [demo_dir, postgresStandbySignal]"
    "list_all (\<lambda>f. JoinPath [demo_dir, f] \<noteq> JoinPath [demo_dir, ''pg_hba.conf''])
      [postgresConf, ''pg_ident.conf'', postgresStandbySignal, postgresRecoverySignal]"
  by code_simp+

lemma demo_allExist:
  "at_demo m \<Longrightarrow> list_all (\<lambda>f. JoinPath [demo_dir, f] \<noteq> JoinPath [demo_dir, postgresStandbySignal]) fs \<Longrightarrow>
     allExist (demo_pg st) m fs w = (Inr True, w)"
  by (induction fs) (simp_all add: then_act_def return_act_def demo_pg_def inDataDir_def)

lemma demo_IsInitialized: "at_demo m \<Longrightarrow> IsInitialized (demo_pg st) m w = (Inr True, w)"
  using demo_allExist [OF _ demo_paths(2)] demo_paths(3)
  by (simp add: IsInitialized_def then_act_def return_act_def demo_pg_def inDataDir_def)

lemma demo_IsStarted: "at_demo m \<Longrightarrow> IsStarted (demo_pg st) m w = (Inr (dw_running w), w)"
  using demo_paths(1)
  by (auto simp: IsStarted_def then_act_def return_act_def demo_pg_def)

lemma demo_GetRole: "at_demo m \<Longrightarrow> GetRole (demo_pg st) m w = (Inr RoleMaster, w)"
  by (simp add: GetRole_def then_act_def return_act_def demo_pg_def inDataDir_def)

lemma demo_writeConfs:
  "at_demo m \<Longrightarrow> writeConfs (demo_pg st) False m w = (Inr (), w\<lparr>dw_hba := els (pm_hba m)\<rparr>)"
  using demo_paths(4)
  by (auto simp: writeConfs_def writeConf_def writePgHba_def writePgIdent_def writeStandbySignal_def
      writeRecoverySignal_def return_act_def demo_pg_def inDataDir_def)

lemma demo_start:
  assumes "at_demo m"
  shows "StartInstance (demo_pg st) (m, w) =
    (let w' = w\<lparr>dw_hba := els (pm_hba m), dw_running := True, dw_slow := False\<rparr> in
     if dw_slow w then (Inl (Err ''instance still starting''), m, w') else (Inr (), updateCur m, w'))"
  using demo_writeConfs [OF assms, of st w]
  by (simp add: StartInstance_def startWith_def with_manager_def on_host_def set_manager_def
      createPostgresqlAutoConf_def succeed_def return_act_def demo_pg_def Let_def)

lemma demo_reload:
  assumes "at_demo m"
  shows "Reload (demo_pg st) (m, w) = (Inr (), updateCur m, w\<lparr>dw_hba := els (pm_hba m)\<rparr>)"
  using demo_writeConfs [OF assms, of st w]
  by (simp add: Reload_def with_manager_def on_host_def set_manager_def succeed_def return_act_def demo_pg_def)

lemma demo_stop:
  "at_demo m \<Longrightarrow> \<not> dw_running w \<Longrightarrow> StopIfStarted (demo_pg st) m fast w = (Inr (), w)"
  by (simp add: StopIfStarted_def try_act_def demo_IsStarted return_act_def)

lemma demo_ready: "WaitReady (demo_pg st) t w = (Inr (), w)"
  by (simp add: WaitReady_def demo_pg_def try_act_def succeed_def return_act_def)

lemma demo_host_simps [simp]:
  "kh_pg (demo_host st) = demo_pg st" "kh_GetClusterData (demo_host st) w = (Inr (Some (dw_cd w)), w)"
  "kh_saveDBState (demo_host st) l = succeed" "kh_hook (demo_host st) c = succeed" "kh_order (demo_host st) = id"
  "h_binaryVersion (demo_pg st) = return_act (17, 0)" "h_syncStandbys (demo_pg st) = return_act st"
  "h_physicalSlots (demo_pg st) w =
     (Inr (map (\<lambda>n. \<lparr>phs_Name = n, phs_Active = False, phs_HasXmin = False\<rparr>) (dw_slots w)), w)"
  "h_logicalSlots (demo_pg st) = return_act []"
  "h_systemID (demo_pg st) p = return_act ''sys''"
  "h_restartRequirement (demo_pg st) = return_act \<lparr>rr_PendingParams = [], rr_Required = False\<rparr>"
  by (simp_all add: demo_host_def demo_pg_def)

lemma demo_params: "createPGParameters (demo_host st) d s = (Inr (pgParameters (ks_keeper s) (Inr (17, 0)) d), s)"
  by (simp add: createPGParameters_def try_act_def io_def return_act_def)

lemma demo_inSync:
  "GetInSyncStandbys (demo_host st) s = (Inr (map NameFromHysteronName (filter IsHysteronName st)), s)"
  by (simp add: GetInSyncStandbys_def then_act_def io_def return_act_def)

section \<open>A synchronous master\<close>

definition demo_cd :: cluster_data where "demo_cd = sample_cd sync_spec sync_dbs"

definition demo_db :: db where "demo_db = with_sync [''d2''] [''d2''] (sample_master ''d1'' ''k1'' 100)"

lemma demo_valid: "cd_FormatVersion demo_cd = CurrentCDFormatVersion" "Validate (cl_Spec (cd_Cluster demo_cd)) = Inr ()"
proof -
  have "(case Validate (cl_Spec (cd_Cluster demo_cd)) of Inl _ \<Rightarrow> False | Inr _ \<Rightarrow> True) = True" by code_simp
  then show "Validate (cl_Spec (cd_Cluster demo_cd)) = Inr ()" by (simp split: sum.splits)
qed (simp add: demo_cd_def sample_defs)

lemma demo_lookup:
  "cl_UID (cd_Cluster demo_cd) = ''c''" "map_of (cd_Keepers demo_cd) ''k1'' = Some (sample_keeper ''k1'')"
  "FindDB demo_cd (sample_keeper ''k1'') = Some demo_db" "kst_BootUUID (k_Status (sample_keeper ''k1'')) = []"
  by (simp_all add: demo_cd_def demo_db_def FindDB_def mvals_def sample_defs)

lemma demo_db_simps:
  "db_UID demo_db = ''d1''" "db_Generation demo_db = 2" "dbs_Role (db_Spec demo_db) = RoleMaster"
  "dbs_InitMode (db_Spec demo_db) = DBInitModeNone" "dbs_PGIdent (db_Spec demo_db) = None"
  "dbs_SynchronousReplication (db_Spec demo_db)" "dbs_SynchronousStandbys (db_Spec demo_db) = Some [''d2'']"
  by (simp_all add: demo_db_def sample_defs)

lemma demo_hba: "generateHBA demo_config demo_cd demo_db b \<noteq> None"
proof -
  have "generateHBA demo_config demo_cd demo_db True \<noteq> None" by code_simp
  then show ?thesis by (simp add: generateHBA_def)
qed

lemma demo_slots:
  "dw_slots (ks_world s) = [] \<Longrightarrow> refreshReplicationSlots (demo_host st) spec demo_db ds s =
     (Inr (), upd_slots (\<lambda>l. l\<lparr>lss_gateNoticeEmitted := False\<rparr>) s)"
  by (simp add: refreshReplicationSlots_def try_act_def io_def return_act_def updateReplSlots_def managedReplicationSlots_def
      wantedSlots_def dropCandidates_def modifySlots_def refreshLogicalSlots_def shouldReconcileManagedLogicalSlots_def
      dropLogicalSlots_def evaluateManagedLogicalSlotsDecision_def demo_db_def sample_defs Let_def)

text \<open>The manager has applied everything, as after a tick that went through.\<close>

definition steady :: "demo_world kst \<Rightarrow> bool" where
  "steady s \<longleftrightarrow> dw_cd (ks_world s) = demo_cd \<and> dw_slots (ks_world s) = [] \<and> pk_config (ks_keeper s) = demo_config \<and>
     pk_keeperLocalState (ks_keeper s) = \<lparr>ls_UID = ''k1'', ls_ClusterUID = ''c''\<rparr> \<and>
     pk_dbLocalState (ks_keeper s) = local_db ''d1'' 2 \<and> pk_lastPGState (ks_keeper s) = None \<and>
     at_demo (ks_manager s) \<and> pm_curHba (ks_manager s) = generateHBA demo_config demo_cd demo_db False \<and>
     pm_curIdent (ks_manager s) = None \<and>
     pm_curParameters (ks_manager s) = pgParameters (demo_keeper ''k1'' (local_db ''d1'' 2) False) (Inr (17, 0)) demo_db"

definition prepare :: "cluster_data \<Rightarrow> 'w kst \<Rightarrow> 'w kst" where
  "prepare cd s = applyRuntimeConfigFromClusterData cd (upd_failsafe handleDCSRecovered s)"

lemmas flow_defs =
  update_def reading_def deref_def fetch_def skip_def leave_def panic_def attempt_def ignoring_def on_result_def

lemma tick_prepare:
  assumes "kh_GetClusterData h (ks_world s) = (Inr (Some cd), ks_world s)"
    and "cd_FormatVersion cd = CurrentCDFormatVersion" and "Validate (cl_Spec (cd_Cluster cd)) = Inr ()"
    and "ls_ClusterUID (pk_keeperLocalState (ks_keeper s)) = cl_UID (cd_Cluster cd)"
    and "map_of (cd_Keepers cd) (ls_UID (pk_keeperLocalState (ks_keeper s))) = Some kp" and "FindDB cd kp = Some d"
    and "kst_BootUUID (k_Status kp) = kc_bootUUID (pk_config (ks_keeper s))"
  shows "postgresKeeperSM h s = reconcile_db h cd d (prepare cd s)"
  using assms
  by (auto simp: postgresKeeperSM_def prepare_def flow_defs io_def tick_data_def bind_cluster_def dispatch_def Let_def
      upd_failsafe_def upd_keeper_def applyRuntimeConfigFromClusterData_def split: prod.splits flow.splits)

lemma prepare_simps:
  "ks_world (prepare cd s) = ks_world s" "pk_config (ks_keeper (prepare cd s)) = pk_config (ks_keeper s)"
  "pk_keeperLocalState (ks_keeper (prepare cd s)) = pk_keeperLocalState (ks_keeper s)"
  "pk_dbLocalState (ks_keeper (prepare cd s)) = pk_dbLocalState (ks_keeper s)"
  "pk_lastPGState (ks_keeper (prepare cd s)) = pk_lastPGState (ks_keeper s)"
  "pk_waitSyncStandbysSynced (ks_keeper (prepare cd s)) = pk_waitSyncStandbysSynced (ks_keeper s)"
  "pm_dataDir (ks_manager (prepare cd s)) = pm_dataDir (ks_manager s)"
  "pm_curHba (ks_manager (prepare cd s)) = pm_curHba (ks_manager s)"
  "pm_curIdent (ks_manager (prepare cd s)) = pm_curIdent (ks_manager s)"
  "pm_curParameters (ks_manager (prepare cd s)) = pm_curParameters (ks_manager s)"
  "pm_walDir (ks_manager (prepare cd s)) = pm_walDir (ks_manager s)"
  "pm_walDirConfigured (ks_manager (prepare cd s)) = pm_walDirConfigured (ks_manager s)"
  "pm_tablespaceDirRoots (ks_manager (prepare cd s)) = pm_tablespaceDirRoots (ks_manager s)"
  by (simp_all add: prepare_def applyRuntimeConfigFromClusterData_def upd_failsafe_def upd_keeper_def Let_def)

lemma demo_tick:
  assumes "steady s"
  shows "postgresKeeperSM (demo_host st) s = reconcile_db (demo_host st) demo_cd demo_db (prepare demo_cd s)"
    and "steady (prepare demo_cd s)"
proof -
  show "postgresKeeperSM (demo_host st) s = reconcile_db (demo_host st) demo_cd demo_db (prepare demo_cd s)"
    by (rule tick_prepare [OF _ demo_valid]) (use assms demo_lookup in \<open>simp_all add: steady_def demo_config_def\<close>)
  show "steady (prepare demo_cd s)" using assms by (simp add: steady_def prepare_simps)
qed

lemma steady_params:
  "steady s \<Longrightarrow> pgParameters (ks_keeper s) v d = pgParameters (demo_keeper ''k1'' (local_db ''d1'' 2) False) v d"
  by (simp add: steady_def pgParameters_def demo_keeper_def atLeastCurrent_def currentPGParameterInt_def Let_def)

lemma steady_local:
  "steady s \<Longrightarrow> dls_UID (pk_dbLocalState (ks_keeper s)) = ''d1''"
  "steady s \<Longrightarrow> \<not> dls_Initializing (pk_dbLocalState (ks_keeper s))"
  "steady s \<Longrightarrow> pk_dbLocalState (ks_keeper s)\<lparr>dls_Generation := 2, dls_Initializing := False\<rparr> = pk_dbLocalState (ks_keeper s)"
  by (simp_all add: steady_def local_db_def no_local_state_def)

text \<open>Statements of the tick that keep a steady state.\<close>

lemma demo_entry:
  assumes "steady s"
  obtains s' where "run [reading (\<lambda>s. set_hba demo_cd demo_db (pk_waitSyncStandbysSynced (ks_keeper s))),
      update (upd_manager (SetIdent (dbs_PGIdent (db_Spec demo_db)))),
      cleanup (demo_host st) demo_db, initialize (demo_host st) demo_cd demo_db] s = (Next, s')"
    and "steady s'" and "ks_world s' = ks_world s"
    and "pk_waitSyncStandbysSynced (ks_keeper s') = pk_waitSyncStandbysSynced (ks_keeper s)"
proof -
  let ?k = "ks_keeper s"
  obtain hba where hba: "generateHBA demo_config demo_cd demo_db (pk_waitSyncStandbysSynced ?k) = Some hba"
    using demo_hba by fastforce
  let ?s = "upd_manager (SetIdent None) (upd_manager (SetHba (Some hba)) s)"
  have "steady ?s" "ks_world ?s = ks_world s" "pk_waitSyncStandbysSynced (ks_keeper ?s) = pk_waitSyncStandbysSynced ?k"
    using assms by (simp_all add: steady_def upd_manager_def SetIdent_def SetHba_def)
  moreover from this have "run [reading (\<lambda>s. set_hba demo_cd demo_db (pk_waitSyncStandbysSynced (ks_keeper s))),
      update (upd_manager (SetIdent (dbs_PGIdent (db_Spec demo_db)))),
      cleanup (demo_host st) demo_db, initialize (demo_host st) demo_cd demo_db] s = (Next, ?s)"
    using hba assms steady_local [of ?s]
    by (simp add: flow_defs set_hba_def cleanup_def initialize_def demo_db_simps steady_def)
  ultimately show thesis using that by blast
qed


lemmas demo_answers = demo_IsInitialized demo_IsStarted demo_GetRole demo_start demo_params demo_inSync demo_ready

lemma steady_upd:
  "steady (upd_manager (SetParameters ps) s) = steady s" "steady (upd_manager (SetRecoveryOptions ro) s) = steady s"
  "steady (upd_manager (SetHba b) s) = steady s" "steady (upd_slots f s) = steady s" "steady (record_call c s) = steady s"
  "steady (upd_keeper (\<lambda>k. k\<lparr>pk_waitSyncStandbysSynced := w\<rparr>) s) = steady s"
  by (simp_all add: steady_def upd_manager_def SetParameters_def SetRecoveryOptions_def SetHba_def upd_slots_def upd_keeper_def
      record_call_def)

lemma steady_demo: "steady s \<Longrightarrow> at_demo (ks_manager s)"
  by (simp add: steady_def)

lemma steady_slots: "steady s \<Longrightarrow> dw_slots (ks_world s) = []"
  by (simp add: steady_def)

lemma steady_config: "steady s \<Longrightarrow> pk_config (ks_keeper s) = demo_config"
  by (simp add: steady_def)

lemma steady_with_pgm:
  "steady s \<Longrightarrow> with_pgm (IsInitialized (demo_pg st)) s = (Inr True, s)"
  "steady s \<Longrightarrow> with_pgm (IsStarted (demo_pg st)) s = (Inr (dw_running (ks_world s)), s)"
  "steady s \<Longrightarrow> with_pgm (GetRole (demo_pg st)) s = (Inr RoleMaster, s)"
  by (simp_all add: with_pgm_def io_def demo_answers steady_demo)

lemma observed_upd:
  "ks_world (upd_manager f s) = ks_world s" "ks_world (upd_slots g s) = ks_world s" "ks_world (record_call c s) = ks_world s"
  "ks_world (upd_keeper k s) = ks_world s" "ks_keeper (upd_manager f s) = ks_keeper s" "ks_keeper (record_call c s) = ks_keeper s"
  "pk_config (ks_keeper (upd_keeper (\<lambda>k. k\<lparr>pk_waitSyncStandbysSynced := w\<rparr>) s)) = pk_config (ks_keeper s)"
  "pk_waitSyncStandbysSynced (ks_keeper (upd_slots g s)) = pk_waitSyncStandbysSynced (ks_keeper s)"
  by (simp_all add: upd_manager_def upd_slots_def upd_keeper_def record_call_def)

lemma demo_align_running:
  assumes "steady s" and "dw_running (ks_world s)"
  obtains s' where "align (demo_host st) demo_cd demo_db s = (Next, s')" and "steady s'" and "ks_world s' = ks_world s"
    and "pk_waitSyncStandbysSynced (ks_keeper s') = pk_waitSyncStandbysSynced (ks_keeper s)"
proof -
  let ?s = "upd_slots (\<lambda>l. l\<lparr>lss_gateNoticeEmitted := False\<rparr>) (upd_manager (SetRecoveryOptions None)
    (upd_manager (SetParameters (pgParameters (ks_keeper s) (Inr (17, 0)) demo_db)) s))"
  have "align (demo_host st) demo_cd demo_db s = (Next, ?s)"
    using assms
    by (simp add: align_def flow_defs steady_with_pgm set_params_def demo_params apply_role_def demo_db_simps master_role_def
        set_recovery_def steady_upd observed_upd demo_slots steady_slots)
  moreover have "steady ?s" using assms(1) by (simp add: steady_upd)
  ultimately show thesis using that by (simp add: observed_upd)
qed

lemma demo_align_slow:
  assumes "steady s" and "\<not> dw_running (ks_world s)" and "dw_slow (ks_world s)"
    and "generateHBA demo_config demo_cd demo_db True = Some internal"
  obtains s' where "align (demo_host st) demo_cd demo_db s = (Return, s')" and "steady s'"
    and "ks_world s' = ks_world s\<lparr>dw_hba := internal, dw_running := True, dw_slow := False\<rparr>"
proof -
  let ?s = "upd_manager (SetHba (Some internal)) (upd_keeper (\<lambda>k. k\<lparr>pk_waitSyncStandbysSynced := True\<rparr>)
     (upd_manager (SetRecoveryOptions None) (upd_manager (SetParameters (pgParameters (ks_keeper s) (Inr (17, 0)) demo_db)) s)))"
  have st: "steady ?s" "steady (record_call CallStart ?s)" using assms(1) by (simp_all add: steady_upd)
  let ?s' = "(record_call CallStart ?s)\<lparr>ks_world := ks_world s\<lparr>dw_hba := internal, dw_running := True, dw_slow := False\<rparr>\<rparr>"
  have start: "calling CallStart (pgm (StartInstance (demo_pg st))) ?s = (Inl (Err ''instance still starting''), ?s')"
    using assms(3) demo_start [OF steady_demo [OF st(2)]]
    by (simp add: calling_def pgm_def observed_upd record_call_def upd_manager_def SetHba_def upd_keeper_def)
  have "align (demo_host st) demo_cd demo_db s = (Return, ?s')"
    using assms start
    by (simp add: align_def flow_defs steady_with_pgm set_params_def demo_params apply_role_def demo_db_simps master_role_def
        set_recovery_def steady_upd observed_upd set_wait_def set_hba_def start_instance_def steady_config)
  moreover have "steady ?s'" using st(2) assms(1) by (simp add: steady_def observed_upd)
  ultimately show thesis using that by simp
qed

lemma demo_configure:
  assumes "steady s"
  obtains s' where "configure (demo_host [''hysteron_d2'']) demo_cd demo_db s = (Next, s')" and "steady s'"
    and "ks_world s' = ks_world s" and "\<not> pk_waitSyncStandbysSynced (ks_keeper s')"
proof -
  obtain hba where hba: "generateHBA demo_config demo_cd demo_db False = Some hba" using demo_hba by fastforce
  obtain automatic where auto: "cs_AutomaticPgRestart (DefSpec (cd_Cluster demo_cd)) = Some automatic"
    using DefSpec_present(3) [of "cd_Cluster demo_cd"] by auto
  have sync: "CompareStringSliceNoOrder (map NameFromHysteronName (filter IsHysteronName [''hysteron_d2''])) [''d2'']"
    by code_simp
  let ?w = "upd_keeper (\<lambda>k. k\<lparr>pk_waitSyncStandbysSynced := False\<rparr>) s"
  let ?l = "pk_dbLocalState (ks_keeper s)"
  let ?s = "upd_keeper (\<lambda>k. k\<lparr>pk_dbLocalState := ?l\<rparr>) (record_call (CallSaveState ?l) ?w)"
  have w: "steady ?w" using assms by (simp add: steady_upd)
  have "wait_sync (demo_host [''hysteron_d2'']) demo_db s = (Next, ?w)"
    using sync by (simp add: wait_sync_def flow_defs demo_db_simps demo_inSync set_wait_def)
  moreover have "reload_config (demo_host [''hysteron_d2'']) demo_cd demo_db False ?w = (Next, ?w)"
    using assms hba by (simp add: reload_config_def flow_defs demo_db_simps upd_keeper_def steady_def Let_def)
  moreover have "restart_if_required (demo_host [''hysteron_d2'']) demo_cd demo_db ?w = (Next, ?w)"
    using auto by (simp add: restart_if_required_def flow_defs io_def return_act_def)
  moreover have "converged_state (demo_host [''hysteron_d2'']) demo_db ?w = (Next, ?s)"
    using steady_local(3) [OF w]
    by (simp add: converged_state_def flow_defs save_state_def saveDBLocalState_def then_act_def calling_def io_def
        succeed_def return_act_def demo_db_simps upd_keeper_def record_call_def)
  ultimately have "configure (demo_host [''hysteron_d2'']) demo_cd demo_db s = (Next, ?s)"
    using assms steady_params [OF assms] by (simp add: configure_def flow_defs demo_params steady_def Let_def)
  moreover have "steady ?s" using w by (simp add: steady_def upd_keeper_def record_call_def)
  ultimately show thesis using that by (simp add: upd_keeper_def record_call_def)
qed


lemma run_append: "run (ms @ ns) s = (case run ms s of (Next, s') \<Rightarrow> run ns s' | (f, s') \<Rightarrow> (f, s'))"
  by (induction ms arbitrary: s) (auto split: prod.splits flow.splits)

lemma reconcile_entry:
  assumes "run [reading (\<lambda>s. set_hba cd d (pk_waitSyncStandbysSynced (ks_keeper s))),
      update (upd_manager (SetIdent (dbs_PGIdent (db_Spec d)))), cleanup h d, initialize h cd d] s = (Next, s1)"
  shows "reconcile_db h cd d s = run [align h cd d, configure h cd d] s1"
proof -
  have "reconcile_db h cd d = run ([reading (\<lambda>s. set_hba cd d (pk_waitSyncStandbysSynced (ks_keeper s))),
      update (upd_manager (SetIdent (dbs_PGIdent (db_Spec d)))), cleanup h d, initialize h cd d] @
      [align h cd d, configure h cd d])" by (simp add: reconcile_db_def)
  then show ?thesis using assms by (simp only: run_append) (simp del: run.simps)
qed

lemma demo_aligning:
  assumes "steady s"
  obtains s1 where "postgresKeeperSM (demo_host st) s =
      run [align (demo_host st) demo_cd demo_db, configure (demo_host st) demo_cd demo_db] s1"
    and "steady s1" and "ks_world s1 = ks_world s"
proof -
  note t = demo_tick [OF assms]
  show thesis
  proof (rule demo_entry [OF t(2), of st])
    fix s1
    assume e: "run [reading (\<lambda>s. set_hba demo_cd demo_db (pk_waitSyncStandbysSynced (ks_keeper s))),
        update (upd_manager (SetIdent (dbs_PGIdent (db_Spec demo_db)))), cleanup (demo_host st) demo_db,
        initialize (demo_host st) demo_cd demo_db] (prepare demo_cd s) = (Next, s1)"
      and "steady s1" "ks_world s1 = ks_world (prepare demo_cd s)"
    then show thesis using that [of s1] reconcile_entry [OF e] t by (simp del: run.simps add: prepare_simps)
  qed
qed

text \<open>The tick that starts the instance, and a tick that finds it running.\<close>

lemma demo_slow_tick:
  assumes "steady s" and "\<not> dw_running (ks_world s)" and "dw_slow (ks_world s)"
    and "generateHBA demo_config demo_cd demo_db True = Some internal"
  obtains s' where "postgresKeeperSM (demo_host st) s = (Return, s')" and "steady s'"
    and "ks_world s' = ks_world s\<lparr>dw_hba := internal, dw_running := True, dw_slow := False\<rparr>"
proof -
  obtain s1 where s1: "postgresKeeperSM (demo_host st) s =
      run [align (demo_host st) demo_cd demo_db, configure (demo_host st) demo_cd demo_db] s1"
    and "steady s1" and w: "ks_world s1 = ks_world s"
    by (rule demo_aligning [OF assms(1)])
  obtain s' where "align (demo_host st) demo_cd demo_db s1 = (Return, s')" "steady s'"
    "ks_world s' = ks_world s\<lparr>dw_hba := internal, dw_running := True, dw_slow := False\<rparr>"
    by (rule demo_align_slow [OF \<open>steady s1\<close>, of internal st]) (use assms w in simp_all)
  then show thesis using that s1 by simp
qed

lemma demo_running_tick:
  assumes "steady s" and "dw_running (ks_world s)"
  obtains s' where "postgresKeeperSM (demo_host [''hysteron_d2'']) s = (Next, s')" and "steady s'"
    and "ks_world s' = ks_world s" and "\<not> pk_waitSyncStandbysSynced (ks_keeper s')"
proof -
  let ?h = "demo_host [''hysteron_d2'']"
  obtain s1 where s1: "postgresKeeperSM ?h s = run [align ?h demo_cd demo_db, configure ?h demo_cd demo_db] s1"
    and "steady s1" and w: "ks_world s1 = ks_world s"
    by (rule demo_aligning [OF assms(1)])
  obtain s2 where s2: "align ?h demo_cd demo_db s1 = (Next, s2)" "steady s2" "ks_world s2 = ks_world s"
    by (rule demo_align_running [OF \<open>steady s1\<close>]) (use assms w in simp_all)
  obtain s' where "configure ?h demo_cd demo_db s2 = (Next, s')" "steady s'" "ks_world s' = ks_world s"
    "\<not> pk_waitSyncStandbysSynced (ks_keeper s')"
    by (rule demo_configure [OF s2(2)]) (use s2 in simp_all)
  then show thesis using that s1 s2 by simp
qed

section \<open>A keeper without its local state\<close>

text \<open>The instance is stopped; what the manager needs to remove its directories is as configured.\<close>

definition offline :: "cluster_data \<Rightarrow> uid \<Rightarrow> demo_world kst \<Rightarrow> bool" where
  "offline cd u s \<longleftrightarrow> dw_cd (ks_world s) = cd \<and> \<not> dw_running (ks_world s) \<and>
     pk_config (ks_keeper s) = demo_config \<and>
     pk_keeperLocalState (ks_keeper s) = \<lparr>ls_UID = u, ls_ClusterUID = cl_UID (cd_Cluster cd)\<rparr> \<and>
     at_demo (ks_manager s) \<and> pm_walDir (ks_manager s) = pm_walDir demo_manager \<and>
     \<not> pm_walDirConfigured (ks_manager s) \<and> pm_tablespaceDirRoots (ks_manager s) = []"

lemma offline_upd:
  "offline cd u (upd_manager (SetParameters ps) s) = offline cd u s" "offline cd u (upd_manager (SetHba b) s) = offline cd u s"
  "offline cd u (upd_manager (SetIdent b) s) = offline cd u s"
  "offline cd u (upd_manager (SetRecoveryOptions ro) s) = offline cd u s" "offline cd u (record_call c s) = offline cd u s"
  "offline cd u (upd_keeper (\<lambda>k. k\<lparr>pk_waitSyncStandbysSynced := w\<rparr>) s) = offline cd u s"
  "offline cd u (upd_keeper (\<lambda>k. k\<lparr>pk_dbLocalState := l\<rparr>) s) = offline cd u s"
  by (simp_all add: offline_def upd_manager_def SetParameters_def SetRecoveryOptions_def SetHba_def SetIdent_def upd_keeper_def
      record_call_def)

lemma offline_removeDirs:
  assumes "offline cd u s"
  shows "removeManagedDirs (demo_pg st) (ks_manager s) (ks_world s) = (Inr (), ks_world s)"
proof -
  have "validateManagedDirs demo_manager = Inr ()"
  proof -
    have "(case validateManagedDirs demo_manager of Inl _ \<Rightarrow> False | Inr _ \<Rightarrow> True) = True" by code_simp
    then show ?thesis by (simp split: sum.splits)
  qed
  moreover have "validateManagedDirs (ks_manager s) = validateManagedDirs demo_manager"
    using assms demo_manager_dir
    by (simp add: validateManagedDirs_def offline_def) (simp add: demo_manager_def NewManager_def Let_def)
  ultimately show ?thesis
    using assms by (simp add: removeManagedDirs_def check_act_def removeManagedTablespaceTargets_def return_act_def offline_def
        demo_pg_def succeed_def)
qed

lemma offline_calls:
  assumes "offline cd u s"
  shows "with_pgm (IsInitialized (demo_pg st)) s = (Inr True, s)"
    and "calling CallRemoveAll (with_pgm (RemoveAll (demo_pg st))) s = (Inr (), record_call CallRemoveAll s)"
    and "saveDBLocalState (demo_host st) l s =
      (Inr (), upd_keeper (\<lambda>k. k\<lparr>pk_dbLocalState := l\<rparr>) (record_call (CallSaveState l) s))"
  using assms offline_removeDirs [OF assms, of st]
  by (simp_all add: with_pgm_def io_def offline_def demo_answers calling_def RemoveAll_def then_act_def record_call_def
      saveDBLocalState_def succeed_def return_act_def)

lemma offline_stop:
  assumes "offline cd u s" and "dbs_BeforeStopCommand (db_Spec d) = []"
  shows "stopPostgresIfStarted (demo_host st) (Some d) s = (Inr (), record_call CallStop s)"
  using assms
  by (simp add: stopPostgresIfStarted_def runBeforeStopHook_def runHookCommand_def TrimSpace_def io_def try_act_def return_act_def
      calling_def with_pgm_def record_call_def offline_def demo_stop)


lemma offline_cleanup:
  assumes "offline cd u s" and "dbs_BeforeStopCommand (db_Spec d) = []"
    and "pk_dbLocalState (ks_keeper s) \<in> {no_local_state, assigned_state d True}"
  obtains s' where "cleanup (demo_host st) d s = (Next, s')" and "offline cd u s'" and "pk_dbLocalState (ks_keeper s') = no_local_state"
proof (cases "pk_dbLocalState (ks_keeper s) = no_local_state")
  case True
  then show thesis using that [of s] assms(1) by (simp add: cleanup_def flow_defs no_local_state_def)
next
  case False
  then have l: "pk_dbLocalState (ks_keeper s) = assigned_state d True" using assms(3) by simp
  let ?s1 = "record_call CallRemoveAll (record_call CallStop s)"
  let ?s = "upd_keeper (\<lambda>k. k\<lparr>pk_dbLocalState := no_local_state\<rparr>) (record_call (CallSaveState no_local_state) ?s1)"
  have off: "offline cd u (record_call CallStop s)" "offline cd u ?s1" using assms(1) by (simp_all add: offline_upd)
  have "cleanup (demo_host st) d s = (Next, ?s)"
    using l offline_stop [OF assms(1,2)] offline_calls(2) [OF off(1)] offline_calls(3) [OF off(2)]
    by (simp add: cleanup_def flow_defs stop_instance_def remove_data_def save_state_def assigned_state_def)
  then show thesis using that [of ?s] off by (simp add: offline_upd) (simp add: upd_keeper_def)
qed

lemma offline_initialize:
  assumes "offline cd u s" and "dbs_BeforeStopCommand (db_Spec d) = []" and "pk_dbLocalState (ks_keeper s) = no_local_state"
    and "db_UID d \<noteq> []" and "dbs_InitMode (db_Spec d) = DBInitModeResync" and "dbs_FollowConfig (db_Spec d) = None"
  obtains s' where "initialize (demo_host st) cd d s = (Panic, s')" and "offline cd u s'"
    and "pk_dbLocalState (ks_keeper s') = assigned_state d True"
proof -
  let ?l = "assigned_state d True"
  let ?s1 = "upd_keeper (\<lambda>k. k\<lparr>pk_waitSyncStandbysSynced := False\<rparr>) (upd_manager (SetRecoveryOptions None) s)"
  let ?s2 = "upd_keeper (\<lambda>k. k\<lparr>pk_dbLocalState := ?l\<rparr>) (record_call (CallSaveState ?l) ?s1)"
  let ?s3 = "record_call CallStop ?s2"
  let ?s = "upd_manager (SetParameters (pgParameters (ks_keeper ?s3) (Inr (17, 0)) d)) ?s3"
  have off: "offline cd u ?s1" "offline cd u ?s2" "offline cd u ?s" using assms(1) by (simp_all add: offline_upd)
  have "init_resync (demo_host st) cd d True ?s1 = (Panic, ?s)"
    using assms(6) offline_calls(3) [OF off(1)] offline_stop [OF off(2) assms(2)]
    by (simp add: init_resync_def flow_defs save_state_def stop_instance_def set_params_def demo_params with_pgm_def io_def return_act_def)
  then have "initialize (demo_host st) cd d s = (Panic, ?s)"
    using assms(3-5) offline_calls(1) [OF assms(1)]
    by (simp add: initialize_def flow_defs set_recovery_def set_wait_def no_local_state_def)
  then show thesis using that [of ?s] off(3) by (simp add: observed_upd) (simp add: upd_keeper_def)
qed

lemma resync_without_source:
  assumes "offline cd u s" and "dbs_BeforeStopCommand (db_Spec d) = []" and "generateHBA demo_config cd d True \<noteq> None"
    and "pk_dbLocalState (ks_keeper s) \<in> {no_local_state, assigned_state d True}"
    and "db_UID d \<noteq> []" and "dbs_InitMode (db_Spec d) = DBInitModeResync" and "dbs_FollowConfig (db_Spec d) = None"
  obtains s' where "reconcile_db (demo_host st) cd d s = (Panic, s')" and "offline cd u s'"
    and "pk_dbLocalState (ks_keeper s') = assigned_state d True"
proof -
  obtain hba where hba: "generateHBA demo_config cd d (pk_waitSyncStandbysSynced (ks_keeper s)) = Some hba"
    using assms(3) by (fastforce simp: generateHBA_def)
  let ?s = "upd_manager (SetIdent (dbs_PGIdent (db_Spec d))) (upd_manager (SetHba (Some hba)) s)"
  have off: "offline cd u ?s" using assms(1) by (simp add: offline_upd)
  obtain s1 where s1: "cleanup (demo_host st) d ?s = (Next, s1)" "offline cd u s1" "pk_dbLocalState (ks_keeper s1) = no_local_state"
    by (rule offline_cleanup [OF off assms(2), of st]) (use assms(4) in \<open>simp_all add: observed_upd\<close>)
  obtain s' where "initialize (demo_host st) cd d s1 = (Panic, s')" "offline cd u s'"
    "pk_dbLocalState (ks_keeper s') = assigned_state d True"
    by (rule offline_initialize [OF s1(2) assms(2) s1(3) assms(5-7), of st])
  then show thesis
    using that [of s'] s1(1) hba assms(1)
    by (simp add: reconcile_db_def flow_defs set_hba_def offline_def)
qed

lemma offline_tick:
  assumes "offline cd u s" and "cd_FormatVersion cd = CurrentCDFormatVersion" and "Validate (cl_Spec (cd_Cluster cd)) = Inr ()"
    and "map_of (cd_Keepers cd) u = Some kp" and "FindDB cd kp = Some d" and "kst_BootUUID (k_Status kp) = []"
  shows "postgresKeeperSM (demo_host st) s = reconcile_db (demo_host st) cd d (prepare cd s)"
    and "offline cd u (prepare cd s)"
proof -
  show "postgresKeeperSM (demo_host st) s = reconcile_db (demo_host st) cd d (prepare cd s)"
    by (rule tick_prepare [OF _ assms(2,3)]) (use assms in \<open>simp_all add: offline_def demo_config_def\<close>)
  show "offline cd u (prepare cd s)" using assms(1) by (simp add: offline_def prepare_simps)
qed

end
