(* ===== verification/Keeper_Safety.thy ===== *)
theory Keeper_Safety
  imports Keeper_Samples System_Safety
begin

text \<open>
  The properties of a tick of the keeper: what it promises of every call that acts on the instance,
  of the generation it reports, of the data of the sentinel it can work with, and of access while
  synchronous standbys are missing. Two more show where it falls short: a database elected while its
  init mode is still resync, and a server that is slow to start.
\<close>

section \<open>A synchronous master\<close>

abbreviation demo_keeper_host :: "demo_world keeper_host" where
  "demo_keeper_host \<equiv> demo_host [''hysteron_d2'']"

abbreviation demo_step :: "demo_world kst \<Rightarrow> demo_world kst" where
  "demo_step s \<equiv> snd (postgresKeeperSM demo_keeper_host s)"

text \<open>A synchronous master whose instance has stopped, with everything applied before.\<close>

definition crashed :: "demo_world kst" where
  "crashed =
     (let k = demo_keeper ''k1'' (local_db ''d1'' 2) False; hba = generateHBA demo_config demo_cd demo_db False in
      demo_state k (updateCur (SetHba hba (SetParameters (pgParameters k (Inr (17, 0)) demo_db) demo_manager)))
        \<lparr>dw_cd = demo_cd, dw_running = False, dw_slow = True, dw_hba = the hba, dw_slots = []\<rparr>)"

lemma steady_crashed: "steady crashed" "\<not> dw_running (ks_world crashed)" "dw_slow (ks_world crashed)"
proof -
  have "generateHBA demo_config demo_cd demo_db False \<noteq> Some []" by code_simp
  then have "clone_slice (generateHBA demo_config demo_cd demo_db False) = generateHBA demo_config demo_cd demo_db False"
    using demo_hba [of False] by (auto simp: clone_slice_def)
  moreover have "pm_ident demo_manager = None" by (simp add: demo_manager_def NewManager_def Let_def)
  ultimately show "steady crashed"
    using demo_manager_dir
    by (simp add: steady_def crashed_def demo_state_def Let_def demo_keeper_def updateCur_def UpdateCurIdent_def UpdateCurHba_def
        UpdateCurRecoveryOptions_def UpdateCurParameters_def SetHba_def SetParameters_def clone_slice_def)
  show "\<not> dw_running (ks_world crashed)" "dw_slow (ks_world crashed)"
    by (simp_all add: crashed_def demo_state_def Let_def)
qed

lemma assigned_crashed: "assigned (demo_host st) crashed cd d \<longleftrightarrow> cd = demo_cd \<and> d = demo_db"
  using demo_lookup
  by (auto simp: assigned_def crashed_def demo_state_def demo_keeper_def demo_config_def Let_def)

section \<open>Every tick\<close>

lemma traced_start: "traced W cd d (ks_trace s) R s \<longleftrightarrow> kept_local R s"
  by (auto simp: traced_def intro: exI [of _ "[]"])

lemma unmoved_traced:
  "unmoved s s1 \<Longrightarrow> traced W cd d (ks_trace s) R s1 \<longleftrightarrow> kept_local R s"
  using traced_start [of W cd d s1 R] by (simp add: unmoved_def kept_local_def)

lemma reconcile_result:
  assumes "unmoved s s1" and "reconcile_db h cd d s1 = (f, s')"
  shows "case f of
      Next \<Rightarrow> asr False cd d (ks_trace s) (converged_on d) s'
    | Return \<Rightarrow> traced False cd d (ks_trace s) (unconverged (pk_dbLocalState (ks_keeper s))) s'
    | Panic \<Rightarrow> unstartable False cd d (ks_trace s) (unconverged (pk_dbLocalState (ks_keeper s))) s'"
  by (rule tripleD [OF reconcile_triple _ assms(2)])
    (simp add: unmoved_traced [OF assms(1)] kept_local_def)

lemma result_traced:
  assumes "unmoved s s1" and "reconcile_db h cd d s1 = (f, s')"
  obtains new where "ks_trace s' = new @ ks_trace s" and "list_all (call_ok False cd d) new"
  using reconcile_result [OF assms] by (cases f) (auto simp: asr_def unstartable_def traced_def)


text \<open>
  C16. A tick that goes through to its end has assigned the generation of the database of the keeper
  to the local state, which then names this database and is not initializing; any other tick leaves
  the local state as it was or without a generation. So the keeper reports a generation only after
  the configuration of that generation has been applied.
\<close>

theorem keeper_generation:
  assumes "postgresKeeperSM h s = (f, s')"
  shows "if f = Next
    then \<exists>cd d. assigned h s cd d \<and> converged_on d (pk_dbLocalState (ks_keeper s')) (pk_waitSyncStandbysSynced (ks_keeper s'))
    else pk_dbLocalState (ks_keeper s') = pk_dbLocalState (ks_keeper s) \<or>
      dls_Generation (pk_dbLocalState (ks_keeper s')) = NoGeneration"
  using assms
proof (cases rule: tick_cases)
  case idle
  then show ?thesis by (simp add: idle_def)
next
  case (work cd d s1)
  then show ?thesis
    using reconcile_result [OF work(2,3)]
    by (cases f) (auto simp: asr_def unstartable_def traced_def kept_local_def unconverged_def)
qed

text \<open>The same cluster, with the instance still running.\<close>

definition undisturbed :: "demo_world kst" where
  "undisturbed = crashed\<lparr>ks_world := (ks_world crashed)\<lparr>dw_running := True, dw_slow := False\<rparr>\<rparr>"

theorem keeper_generation_witness:
  "\<exists>s'. postgresKeeperSM demo_keeper_host undisturbed = (Next, s') \<and> dls_UID (pk_dbLocalState (ks_keeper s')) = ''d1'' \<and>
     dls_Generation (pk_dbLocalState (ks_keeper s')) = 2"
proof -
  have "steady undisturbed" "dw_running (ks_world undisturbed)"
    using steady_crashed(1) by (simp_all add: undisturbed_def steady_def)
  then obtain s' where s': "postgresKeeperSM demo_keeper_host undisturbed = (Next, s')" by (rule demo_running_tick)
  have "assigned demo_keeper_host undisturbed cd d \<longleftrightarrow> cd = demo_cd \<and> d = demo_db" for cd d
    using assigned_crashed [of "[''hysteron_d2'']" cd d] by (simp add: assigned_def undisturbed_def)
  then show ?thesis using keeper_generation [OF s'] s' by (auto simp: converged_on_def demo_db_simps)
qed

lemma inv_link:
  assumes "cluster_inv cd" and "FindDB cd kp = Some d"
  shows "link_ok (cl_Spec (cd_Cluster cd)) d"
proof -
  have "d \<in> set (mvals (cd_DBs cd))" using find_SomeD assms(2) unfolding FindDB_def by metis
  moreover have "links_ok cd"
    using assms(1) by (auto simp: cluster_inv_def serving_def bootstrapping_def split: cluster_phase.splits)
  ultimately show ?thesis by (auto simp: links_ok_def list_all_iff mvals_def)
qed

text \<open>
  C14. The data the sentinel keeps is data the keeper can work with: on cluster data that satisfies
  the invariant a tick does not panic, if the database to resync follows something and the one to
  restore has a configuration for that.
\<close>

theorem keeper_no_panic:
  assumes "fst (kh_GetClusterData h (ks_world s)) = Inr (Some cd)" and "cluster_inv cd"
    and "\<And>d. assigned h s cd d \<Longrightarrow> dbs_InitMode (db_Spec d) = DBInitModeResync \<Longrightarrow> dbs_FollowConfig (db_Spec d) \<noteq> None"
    and "\<And>d. assigned h s cd d \<Longrightarrow> dbs_InitMode (db_Spec d) = DBInitModePITR \<Longrightarrow> dbs_PITRConfig (db_Spec d) \<noteq> None"
  shows "fst (postgresKeeperSM h s) \<noteq> Panic"
proof -
  obtain f s' where r: "postgresKeeperSM h s = (f, s')" by fastforce
  from r have "f \<noteq> Panic"
  proof (cases rule: tick_cases)
    case idle
    then show ?thesis by simp
  next
    case (work cd' d s1)
    have cd: "cd' = cd" using work(1) assms(1) by (simp add: assigned_def)
    have "link_ok (cl_Spec (cd_Cluster cd)) d"
      using work(1) cd inv_link [OF assms(2)] by (auto simp: assigned_def)
    then have "startable cd d"
      using assms(3,4) work(1) cd by (auto simp: startable_def link_ok_def)
    then show ?thesis using reconcile_result [OF work(2,3)] cd by (auto simp: unstartable_def)
  qed
  then show ?thesis using r by simp
qed

lemma inv_demo: "cluster_inv demo_cd"
proof -
  have "serving demo_cd"
    using wf_sync [of sync_spec] unfolding demo_cd_def
    by (simp add: serving_def master_ok_def links_ok_def link_ok_def follows_external_def primary_line_def sample_defs)
  moreover have "valid_shape (DefSpec (cd_Cluster demo_cd))"
    by (simp add: valid_shape_def demo_cd_def sample_defs DefSpec_def DefaultRole_def)
  ultimately show ?thesis by (simp add: cluster_inv_def demo_cd_def phase_sample)
qed

theorem keeper_no_panic_witness:
  "cluster_inv demo_cd \<and> fst (postgresKeeperSM demo_keeper_host crashed) \<noteq> Panic"
proof -
  have "fst (kh_GetClusterData demo_keeper_host (ks_world crashed)) = Inr (Some demo_cd)"
    by (simp add: crashed_def demo_state_def Let_def)
  from keeper_no_panic [OF this inv_demo] show ?thesis by (simp add: assigned_crashed demo_db_simps inv_demo)
qed

lemma waiting_calls:
  assumes "list_all (call_ok True cd d) new"
  shows "list_all (\<lambda>(c, k, m). writes_hba c \<longrightarrow> pm_hba m = generateHBA (pk_config k) cd d True) new"
  using assms by (auto simp: list_all_iff call_ok_def hba_ok_def)

text \<open>
  C15. A keeper that waits for its synchronous standbys goes on waiting as long as the instance never
  reports exactly the required ones in sync, and every call of the tick that writes \<open>pg_hba.conf\<close>
  writes only the rules for the users of hysteron itself: no other user can connect to an instance
  that would acknowledge transactions its standbys do not have.
\<close>

theorem keeper_waiting:
  assumes "assigned h s cd d" and "dbs_SynchronousReplication (db_Spec d)"
    and "waits_on d (pk_dbLocalState (ks_keeper s)) (pk_waitSyncStandbysSynced (ks_keeper s))"
    and "\<And>t inSync t'. GetInSyncStandbys h t = (Inr inSync, t') \<Longrightarrow>
      \<not> CompareStringSliceNoOrder inSync (els (dbs_SynchronousStandbys (db_Spec d)))"
    and "postgresKeeperSM h s = (f, s')"
  shows "pk_waitSyncStandbysSynced (ks_keeper s') \<and>
    (\<exists>new. ks_trace s' = new @ ks_trace s \<and>
       list_all (\<lambda>(c, k, m). writes_hba c \<longrightarrow> pm_hba m = generateHBA (pk_config k) cd d True) new)"
  using assms(5)
proof (cases rule: tick_cases)
  case idle
  then obtain new where "ks_trace s' = new @ ks_trace s" "list_all (\<lambda>e. fst e = CallStop) new"
    by (auto simp: idle_def)
  moreover have "pk_waitSyncStandbysSynced (ks_keeper s')" using idle assms(3) by (simp add: idle_def waits_on_def)
  ultimately show ?thesis by (auto simp: list_all_iff writes_hba_def)
next
  case (work cd' d' s1)
  have same: "cd' = cd" "d' = d" using work(1) assms(1) by (auto simp: assigned_def)
  have "traced True cd d (ks_trace s) (waits_on d) s1"
    using assms(3) by (simp add: unmoved_traced [OF work(2)] kept_local_def)
  then have "traced True cd d (ks_trace s) (waits_on d) s'"
    using tripleD [OF reconcile_waiting [OF assms(2,4)] _ work(3) [unfolded same]]
    by (cases f) (auto simp: asr_def unstartable_def)
  then show ?thesis using waiting_calls by (auto simp: traced_def kept_local_def waits_on_def)
qed

theorem keeper_waiting_witness:
  "let s = upd_keeper (\<lambda>k. k\<lparr>pk_waitSyncStandbysSynced := True\<rparr>) crashed; s' = snd (postgresKeeperSM (demo_host []) s) in
     pk_waitSyncStandbysSynced (ks_keeper s') \<and>
     (\<exists>new. ks_trace s' = new @ ks_trace s \<and>
        list_all (\<lambda>(c, k, m). writes_hba c \<longrightarrow> pm_hba m = generateHBA (pk_config k) demo_cd demo_db True) new)"
proof -
  let ?s = "upd_keeper (\<lambda>k. k\<lparr>pk_waitSyncStandbysSynced := True\<rparr>) crashed"
  have "assigned (demo_host []) ?s demo_cd demo_db"
    using assigned_crashed [of "[]"] by (simp add: assigned_def upd_keeper_def)
  moreover have "waits_on demo_db (pk_dbLocalState (ks_keeper ?s)) (pk_waitSyncStandbysSynced (ks_keeper ?s))"
    using steady_local [OF steady_crashed(1)] by (simp add: waits_on_def upd_keeper_def demo_db_simps)
  moreover have "\<not> CompareStringSliceNoOrder [] [''d2'']" by code_simp
  ultimately show ?thesis
    using keeper_waiting [of "demo_host []" ?s demo_cd demo_db]
    by (simp add: demo_db_simps demo_inSync prod_eq_iff)
qed

section \<open>A slow start\<close>

lemma running_ticks:
  assumes "steady s" and "dw_running (ks_world s)"
  shows "steady ((demo_step ^^ n) s) \<and> ks_world ((demo_step ^^ n) s) = ks_world s"
proof (induction n)
  case (Suc n)
  then obtain s' where "postgresKeeperSM demo_keeper_host ((demo_step ^^ n) s) = (Next, s')" "steady s'"
    "ks_world s' = ks_world ((demo_step ^^ n) s)"
    using demo_running_tick [of "(demo_step ^^ n) s"] assms(2) by auto
  then show ?case using Suc by simp
qed (use assms in simp)


section \<open>An election during a resync\<close>

text \<open>The standby that is elected is still to be synchronized; its keeper has lost its local state.\<close>

definition resync_dbs :: dbs where
  "resync_dbs = map (\<lambda>(u, d). (u, if u = ''d2'' then d\<lparr>db_Spec := (db_Spec d)\<lparr>dbs_InitMode := DBInitModeResync\<rparr>\<rparr> else d))
     failed_dbs"

definition elected :: "(cluster_data res \<times> sentinel) option" where
  "elected = updateCluster sample_env [] (sample_cd new_spec resync_dbs) sample_sentinel"

definition forgetful :: "cluster_data \<Rightarrow> db_local_state \<Rightarrow> demo_world kst" where
  "forgetful cd l = demo_state (demo_keeper ''k2'' l False) demo_manager
     \<lparr>dw_cd = cd, dw_running = False, dw_slow = False, dw_hba = [], dw_slots = []\<rparr>"

lemma inv_resync: "cluster_inv (sample_cd new_spec resync_dbs)"
proof -
  have "shapes resync_dbs = shapes failed_dbs"
    by (simp add: resync_dbs_def failed_dbs_def three_dbs_def shapes_def sample_standby_def sample_master_def shape_def failed_def)
  then have "serving (sample_cd new_spec resync_dbs)"
    by (intro serving_shapes [OF serving_failed]) (simp_all add: sample_cd_def)
  then show ?thesis by (simp add: cluster_inv_def phase_sample shape_new_spec)
qed


definition unsynced :: "cluster_data \<Rightarrow> keeper \<Rightarrow> db \<Rightarrow> bool" where
  "unsynced cd kp d \<longleftrightarrow> kst_BootUUID (k_Status kp) = [] \<and> dbs_InitMode (db_Spec d) = DBInitModeResync \<and>
     Option.is_none (dbs_FollowConfig (db_Spec d)) \<and> db_UID d = master_of cd \<and> db_UID d \<noteq> [] \<and>
     dbs_BeforeStopCommand (db_Spec d) = [] \<and> \<not> Option.is_none (generateHBA demo_config cd d True)"

definition leads_unsynced :: "cluster_data \<Rightarrow> bool" where
  "leads_unsynced cd \<longleftrightarrow> cd_FormatVersion cd = CurrentCDFormatVersion \<and>
     (case Validate (cl_Spec (cd_Cluster cd)) of Inl _ \<Rightarrow> False | Inr _ \<Rightarrow> True) \<and> cl_UID (cd_Cluster cd) = ''c'' \<and>
     (case map_of (cd_Keepers cd) ''k2'' of
        None \<Rightarrow> False
      | Some kp \<Rightarrow> (case FindDB cd kp of None \<Rightarrow> False | Some d \<Rightarrow> unsynced cd kp d))"

lemma elected_unsynced: "pass_result leads_unsynced elected = Some True"
  by code_simp

lemma forgetful_panics:
  assumes "leads_unsynced cd"
  obtains kp d where "map_of (cd_Keepers cd) ''k2'' = Some kp" and "FindDB cd kp = Some d" and "unsynced cd kp d"
    and "\<And>l. l \<in> {no_local_state, assigned_state d True} \<Longrightarrow>
      \<exists>s'. postgresKeeperSM demo_keeper_host (forgetful cd l) = (Panic, s') \<and>
        pk_dbLocalState (ks_keeper s') = assigned_state d True"
proof -
  obtain kp d where d: "map_of (cd_Keepers cd) ''k2'' = Some kp" "FindDB cd kp = Some d" "unsynced cd kp d"
    and cd: "cd_FormatVersion cd = CurrentCDFormatVersion" "Validate (cl_Spec (cd_Cluster cd)) = Inr ()"
      "cl_UID (cd_Cluster cd) = ''c''"
    using assms by (auto simp: leads_unsynced_def split: option.splits sum.splits)
  have "\<exists>s'. postgresKeeperSM demo_keeper_host (forgetful cd l) = (Panic, s') \<and>
      pk_dbLocalState (ks_keeper s') = assigned_state d True"
    if l: "l \<in> {no_local_state, assigned_state d True}" for l
  proof -
    have "offline cd ''k2'' (forgetful cd l)"
      using cd(3) demo_manager_dir
      by (simp add: offline_def forgetful_def demo_state_def demo_keeper_def)
        (simp add: demo_manager_def NewManager_def Let_def)
    note t = offline_tick [OF this cd(1,2) d(1,2)]
    have "pk_dbLocalState (ks_keeper (prepare cd (forgetful cd l))) = l"
      by (simp add: prepare_simps) (simp add: forgetful_def demo_state_def demo_keeper_def)
    with d(3) l obtain s' where "reconcile_db demo_keeper_host cd d (prepare cd (forgetful cd l)) = (Panic, s')"
      "pk_dbLocalState (ks_keeper s') = assigned_state d True"
      unfolding unsynced_def Option.is_none_def by (metis (no_types, lifting) resync_without_source [OF t(2)])
    then show ?thesis using t(1) d(3) by (simp add: unsynced_def)
  qed
  then show thesis using that d by blast
qed


end
