(* ===== verification/Slots_Safety.thy ===== *)
theory Slots_Safety
  imports Keeper_Samples
begin

text \<open>
  What the reconciliation of replication slots does to the slots of a server, and how the worker that
  moves logical slots forward ends.
\<close>

section \<open>Physical slots\<close>

text \<open>
  A server whose slots are those of \<open>view\<close>: a slot that is dropped is gone, one that is created is
  there, and a call that fails changes nothing.
\<close>

definition slot_server :: "'w host \<Rightarrow> ('w \<Rightarrow> string set) \<Rightarrow> bool" where
  "slot_server h view \<longleftrightarrow>
     (\<forall>slot w. view (snd (h_dropSlot h slot w)) =
        (case fst (h_dropSlot h slot w) of Inl _ \<Rightarrow> view w | Inr _ \<Rightarrow> view w - {slot})) \<and>
     (\<forall>slot w. view (snd (h_createSlot h slot w)) =
        (case fst (h_createSlot h slot w) of Inl _ \<Rightarrow> view w | Inr _ \<Rightarrow> insert slot (view w)))"

lemma slot_server_drop:
  assumes "slot_server h view" and "h_dropSlot h slot w = (r, w')"
  shows "view w' = view w \<or> view w' = view w - {slot}"
proof -
  have "view (snd (h_dropSlot h slot w)) = (case fst (h_dropSlot h slot w) of Inl _ \<Rightarrow> view w | Inr _ \<Rightarrow> view w - {slot})"
    using assms(1) unfolding slot_server_def by blast
  then show ?thesis using assms(2) by (cases r) simp_all
qed

lemma slot_server_create:
  assumes "slot_server h view" and "h_createSlot h slot w = (r, w')"
  shows "view w' = (case r of Inl _ \<Rightarrow> view w | Inr _ \<Rightarrow> insert slot (view w))"
proof -
  have "view (snd (h_createSlot h slot w)) =
      (case fst (h_createSlot h slot w) of Inl _ \<Rightarrow> view w | Inr _ \<Rightarrow> insert slot (view w))"
    using assms(1) unfolding slot_server_def by blast
  then show ?thesis using assms(2) by simp
qed

lemma dropSlots_view:
  assumes "slot_server h view" and "dropSlots h shouldDrop slots w = (r, w')"
  shows "r = Inr ()" and "view w' \<subseteq> view w"
    and "\<And>slot. slot \<in> view w \<Longrightarrow> slot \<notin> view w' \<Longrightarrow> slot \<in> set slots \<and> (\<exists>t. shouldDrop slot t)"
proof -
  have "r = Inr () \<and> view w' \<subseteq> view w \<and>
      (\<forall>slot. slot \<in> view w \<longrightarrow> slot \<notin> view w' \<longrightarrow> slot \<in> set slots \<and> (\<exists>t. shouldDrop slot t))"
    using assms(2)
  proof (induction slots arbitrary: w)
    case (Cons slot slots)
    show ?case
    proof (cases "shouldDrop slot (h_now h w)")
      case True
      obtain r1 w1 where d: "h_dropSlot h slot w = (r1, w1)" by fastforce
      then have "dropSlots h shouldDrop slots w1 = (r, w')" using Cons.prems True by simp
      then show ?thesis using Cons.IH [of w1] slot_server_drop [OF assms(1) d] True by fastforce
    next
      case False
      then show ?thesis using Cons by auto
    qed
  qed simp
  then show "r = Inr ()" "view w' \<subseteq> view w"
    and "\<And>slot. slot \<in> view w \<Longrightarrow> slot \<notin> view w' \<Longrightarrow> slot \<in> set slots \<and> (\<exists>t. shouldDrop slot t)" by blast+
qed

lemma createSlots_view:
  assumes "slot_server h view" and "acts (map (h_createSlot h) slots) w = (r, w')"
  shows "view w \<subseteq> view w'" and "view w' \<subseteq> view w \<union> set slots" and "r = Inr () \<Longrightarrow> set slots \<subseteq> view w'"
proof -
  have "view w \<subseteq> view w' \<and> view w' \<subseteq> view w \<union> set slots \<and> (r = Inr () \<longrightarrow> set slots \<subseteq> view w')"
    using assms(2)
  proof (induction slots arbitrary: w)
    case (Cons slot slots)
    obtain r1 w1 where c: "h_createSlot h slot w = (r1, w1)" by fastforce
    note v = slot_server_create [OF assms(1) c]
    show ?case
    proof (cases r1)
      case (Inl e)
      then have "r = Inl e" "w' = w1" using Cons.prems c by simp_all
      then show ?thesis using v Inl by auto
    next
      case (Inr u)
      then have "acts (map (h_createSlot h) slots) w1 = (r, w')" using Cons.prems c by simp
      from Cons.IH [OF this] show ?thesis using v Inr by auto
    qed
  qed simp
  then show "view w \<subseteq> view w'" "view w' \<subseteq> view w \<union> set slots" "r = Inr () \<Longrightarrow> set slots \<subseteq> view w'" by blast+
qed

abbreviation wanted_slots :: "db \<Rightarrow> string list" where
  "wanted_slots d \<equiv> wantedSlots (db_UID d) (els (dbs_Followers (db_Spec d))) (els (dbs_AdditionalReplicationSlots (db_Spec d)))
     (els (dbs_IgnoreReplicationSlots (db_Spec d))) (els (dbs_IgnoreReplicationSlotMatchers (db_Spec d)))"

text \<open>A slot the keeper may drop.\<close>

definition disposable ::
  "db \<Rightarrow> duration \<Rightarrow> (string, physical_slot) gomap \<Rightarrow> uid list \<Rightarrow> string \<Rightarrow> bool" where
  "disposable d memberSlotTTL physicalSlotState knownDBUIDs slot \<longleftrightarrow> IsHysteronName slot \<and>
     slot \<notin> set (els (dbs_IgnoreReplicationSlots (db_Spec d))) \<and>
     \<not> isIgnoredPhysicalSlotByMatcher slot (els (dbs_IgnoreReplicationSlotMatchers (db_Spec d))) \<and>
     slot \<notin> HysteronName ` (set (els (dbs_Followers (db_Spec d))) - {db_UID d}) \<and>
     slot \<notin> HysteronName ` set (els (dbs_AdditionalReplicationSlots (db_Spec d))) \<and>
     (memberSlotTTL > 0 \<longrightarrow> (case map_of (els (dst_OrphanMemberSlots (db_Status d))) slot of
        None \<Rightarrow> NameFromHysteronName slot \<notin> set knownDBUIDs
      | Some _ \<Rightarrow> (case map_of physicalSlotState slot of None \<Rightarrow> False | Some st \<Rightarrow> \<not> phs_Active st \<and> \<not> phs_HasXmin st)))"

lemma drop_disposable:
  assumes "slot \<in> set (dropCandidates cur (wanted_slots d) (remdups (els (dbs_IgnoreReplicationSlots (db_Spec d))))
      (els (dbs_IgnoreReplicationSlotMatchers (db_Spec d))))"
    and "shouldDropUnmanagedHysteronSlot slot ttl (els (dst_OrphanMemberSlots (db_Status d))) st known t"
  shows "disposable d ttl st known slot"
  using assms
  by (auto simp: disposable_def dropCandidates_def wantedSlots_def shouldDropUnmanagedHysteronSlot_def
      split: option.splits if_splits)

text \<open>
  C37. The reconciliation of physical slots, on a server with the slots \<open>view\<close> of which the keeper has
  the list, whatever calls fail: a slot that is gone afterwards is one of hysteron's that nothing
  wants or exempts, and with a retention time it belongs to no known database or has been an orphan
  and holds nothing back; a slot that is new is wanted; and if no error is returned, every follower
  and every additional slot that is not exempted has its slot.
\<close>

theorem updateReplSlots_slots:
  assumes "slot_server (kh_pg h) view" and "\<And>xs. set (kh_order h xs) = set xs" and "set cur = view w"
    and "updateReplSlots h cur d ttl st known w = (r, w')"
  shows "(\<forall>slot \<in> view w - view w'. disposable d ttl st known slot) \<and>
    view w' - view w \<subseteq> set (wanted_slots d) \<and> (r = Inr () \<longrightarrow> set (wanted_slots d) \<subseteq> view w')"
proof -
  let ?drop = "\<lambda>slot. shouldDropUnmanagedHysteronSlot slot ttl (els (dst_OrphanMemberSlots (db_Status d))) st known"
  let ?cand = "dropCandidates cur (wanted_slots d) (remdups (els (dbs_IgnoreReplicationSlots (db_Spec d))))
    (els (dbs_IgnoreReplicationSlotMatchers (db_Spec d)))"
  let ?new = "filter (\<lambda>slot. slot \<notin> set cur) (kh_order h (wanted_slots d))"
  obtain r1 w1 where d: "dropSlots (kh_pg h) ?drop ?cand w = (r1, w1)" by fastforce
  note dr = dropSlots_view [OF assms(1) d]
  have c: "acts (map (h_createSlot (kh_pg h)) ?new) w1 = (r, w')"
    using assms(4) d dr(1) by (simp add: updateReplSlots_def managedReplicationSlots_def Let_def)
  note cr = createSlots_view [OF assms(1) c]
  have kept: "slot \<in> view w1" if "slot \<in> view w" "slot \<in> set (wanted_slots d)" for slot
    using dr(3) [OF that(1)] that by (auto simp: dropCandidates_def)
  have "disposable d ttl st known slot" if "slot \<in> view w - view w'" for slot
  proof -
    have "slot \<in> view w" "slot \<notin> view w1" using that cr(1) by auto
    from dr(3) [OF this] show ?thesis using drop_disposable by blast
  qed
  moreover have "view w' - view w \<subseteq> set (wanted_slots d)" using cr(2) dr(2) assms(2) by auto
  moreover have "set (wanted_slots d) \<subseteq> view w'" if "r = Inr ()"
    using cr(3) [OF that] cr(1) kept assms(2,3) by auto
  ultimately show ?thesis by blast
qed


lemma demo_slot_server: "slot_server (demo_pg st) (\<lambda>w. set (dw_slots w))"
  by (auto simp: slot_server_def demo_pg_def)

definition slots_world :: demo_world where
  "slots_world = \<lparr>dw_cd = demo_cd, dw_running = True, dw_slow = False, dw_hba = [], dw_slots = [''hysteron_old'']\<rparr>"

definition followed_db :: db where
  "followed_db = demo_db\<lparr>db_Spec := (db_Spec demo_db)\<lparr>dbs_Followers := Some [''d2'']\<rparr>\<rparr>"

theorem updateReplSlots_slots_witness:
  "\<exists>w'. updateReplSlots (demo_host []) [''hysteron_old''] followed_db 0 [] [] slots_world = (Inr (), w') \<and>
     ''hysteron_d2'' \<in> set (dw_slots w') \<and> ''hysteron_old'' \<notin> set (dw_slots w') \<and>
     disposable followed_db 0 [] [] ''hysteron_old''"
proof -
  let ?r = "updateReplSlots (demo_host []) [''hysteron_old''] followed_db 0 [] [] slots_world"
  have "(fst ?r = Inr (), dw_slots (snd ?r)) = (True, [''hysteron_d2''])" by code_simp
  then obtain w' where r: "?r = (Inr (), w')" "dw_slots w' = [''hysteron_d2'']" by (cases ?r) simp
  have "set (wanted_slots followed_db) = {''hysteron_d2''}" by code_simp
  then show ?thesis
    using updateReplSlots_slots [OF _ _ _ r(1), of "\<lambda>w. set (dw_slots w)"] r demo_slot_server [of "[]"]
    by (simp add: slots_world_def)
qed

section \<open>Moving logical slots forward\<close>

lemma mkeys_delete: "set (mkeys (AList.delete k m)) \<subseteq> set (mkeys m)"
  by (auto simp: mkeys_def AList.delete_eq)

text \<open>A turn of the worker: nothing is pending, nothing may be attempted, or one operation is taken.\<close>

lemma drain_cases:
  assumes "\<And>xs. set (kh_order h xs) = set xs"
  defines "t \<equiv> \<lambda>w. h_now (kh_pg h) w"
  obtains (idle) "lss_pending st = []" and "drainAdvances h delay st w = (st, w)"
  | (resting) st' where "drainAdvances h delay st w = (st', w)" and "lss_pending st' = lss_pending st"
      and "\<And>key. key \<in> set (mkeys (lss_pending st)) \<Longrightarrow> \<not> shouldAttemptLogicalSlotAdvance (lss_retryAfter st') key (t w)"
  | (turn) key op st' w' where "drainAdvances h delay st w = drainAdvances h delay st' w'"
      and "map_of (lss_pending st) key = Some op" and "lss_pending st' = AList.delete key (lss_pending st)"
proof -
  let ?retry = "pruneLogicalSlotAdvanceRetryAfter (t w) (lss_retryAfter st)"
  let ?may = "\<lambda>key. shouldAttemptLogicalSlotAdvance ?retry key (t w)"
  let ?keys = "filter ?may (kh_order h (mkeys (lss_pending st)))"
  note D = drainAdvances.simps [of h delay st w]
  show thesis
  proof (cases "lss_pending st = []")
    case True
    then show thesis using idle D by simp
  next
    case pending: False
    show thesis
    proof (cases ?keys)
      case Nil
      then have "\<not> ?may key" if "key \<in> set (mkeys (lss_pending st))" for key
        using that assms(1) by (auto simp: filter_empty_conv)
      then show thesis
        using resting [of "st\<lparr>lss_retryAfter := ?retry\<rparr>"] D pending Nil by (simp add: Let_def t_def)
    next
      case (Cons key rest)
      then have "key \<in> set ?keys" by simp
      then have "key \<in> set (mkeys (lss_pending st))" using assms(1) by simp
      then have "map_of (lss_pending st) key \<noteq> None" by (simp add: mkeys_def map_of_eq_None_iff)
      then obtain op where op: "map_of (lss_pending st) key = Some op" by blast
      obtain r w' where a: "h_advanceLogicalSlot (kh_pg h) (qa_Name op) (qa_Database op) (qa_TargetLSN op) w = (r, w')"
        by fastforce
      show thesis
        by (rule turn [OF _ op]) (use D pending Cons op a in \<open>auto simp: Let_def t_def\<close>)
    qed
  qed
qed


definition queued :: "string \<Rightarrow> queued_advance" where
  "queued n = \<lparr>qa_Name = n, qa_Database = ''db'', qa_DesiredLSN = 9, qa_ReplayLSN = 9, qa_TargetLSN = 9\<rparr>"

definition slots_queue :: logical_slot_state where
  "slots_queue = (pk_slots (demo_keeper [] no_local_state False))
     \<lparr>lss_pending := [(''a@db'', queued ''a''), (''b@db'', queued ''b'')], lss_retryAfter := [(''b@db'', 60)]\<rparr>"


end
