(* ===== verification/Spec2Isabelle.thy ===== *)
theory Spec2Isabelle
  imports Pg_Wal Slices Timeline System_Safety Fencing Keeper_Safety Slots_Safety
begin

text \<open>
  Hysteron is the control plane of a PostgreSQL cluster with automatic failover. This library models
  its decision making and proves what the parts promise to each other.

  \<^bold>\<open>The program.\<close> The state of a cluster is one document, the cluster data, in a key-value store
  (\<open>internal/store\<close>). One keeper runs beside every PostgreSQL instance, publishes what it sees and
  makes its instance what the document says. Sentinels elect a leader; the leader reads the document
  and what keepers and proxies published, decides who is master, and writes the document back.
  Proxies read the document, forward clients to the master and publish the generation they act on.
  Operators change the document with commands. All writes of the document are conditional on the
  revision that was read.

  \<^bold>\<open>Conventions.\<close> Structs are records and enumerations datatypes, with the names of the source and a
  prefix for the fields. A Go error is the left side of \<open>'a res\<close>; a Go panic is \<open>None\<close>, so that "does
  not panic" is "returns \<open>Some\<close>", or the outcome \<open>Panic\<close> of a step. A pointer
  that may be nil is an option, a slice that may be nil is an optional list. Go maps are association
  lists with distinct keys; where the code iterates over one in no particular order, the order is a
  parameter (\<open>rng\<close> of \<open>env\<close>, \<open>kh_order\<close> of \<open>keeper_host\<close>). Clock, random numbers and generated
  identifiers come from the record \<open>env\<close>. Times are nanoseconds as integers; the arithmetic of
  durations saturates or wraps where Go does (\<open>time_sub\<close>, \<open>i64\<close>). WAL positions are 64-bit words.
  Log messages and metrics have no counterpart.

  \<^bold>\<open>Theories.\<close>
  \<^item> \<open>Prelude\<close>, \<open>Go_Strings\<close>, \<open>Slices\<close>: association lists, loops that may panic, errors, 64-bit
    arithmetic; the string functions the code uses; \<open>utils/slices\<close>.
  \<^item> \<open>Cluster_Types\<close>, \<open>Cluster_Spec\<close>, \<open>Timeline\<close>: the package \<open>cluster\<close>: the document, defaults,
    validation and updates of the specification, comparison of timeline histories.
  \<^item> \<open>Pg_Wal\<close>: WAL positions, segment file names and slot names of \<open>postgresql/utils.go\<close>.
  \<^item> \<open>Sentinel_Types\<close>, \<open>Sentinel_Health\<close>, \<open>Sentinel_Selection\<close>, \<open>Sentinel_Leadership\<close>,
    \<open>Sentinel_Init\<close>, \<open>Sentinel_Sync\<close>, \<open>Sentinel_State\<close>, \<open>Sentinel_Update\<close>, \<open>Sentinel_Check\<close>: the package
    \<open>runtime/sentinel\<close>, file by file. The function \<open>updateCluster\<close> of more than a thousand lines is cut
    at its steps (\<open>applyManualSwitch\<close>, \<open>electNewMaster\<close>, \<open>updateProxies\<close>, \<open>manageStandbys\<close>, ...), which
    \<open>normalPhase\<close> composes in the order of the code.
  \<^item> \<open>Sentinel_Invariant\<close>, \<open>Update_Shape\<close>, \<open>Sentinel_Pass\<close>, \<open>Sentinel_Reconcile\<close>: the invariant
    \<open>cluster_inv\<close> of the document (the master exists and is of the primary line, every database belongs
    to a registered keeper, a standby follows something, one that follows an external instance finds its
    configuration, the proxies are directed at the master or nowhere) and its preservation by every step.
  \<^item> \<open>Sentinel_Safety\<close>, \<open>Sentinel_Track\<close>: the properties of a reconciliation pass and of a whole check.
  \<^item> \<open>Store\<close>: the etcd client as a record of functions, with its contract \<open>etcd_ok\<close> (a transaction
    compares and writes at once, other clients may write in between); \<open>etcdv3.go\<close> and \<open>kvbacked.go\<close>
    over it, and the events of the leader election.
  \<^item> \<open>Operations\<close>, \<open>Operations_Safety\<close>: the commands of \<open>operations\<close> and \<open>app\<close> with their retry loops.
  \<^item> \<open>System\<close>, \<open>System_Safety\<close>: sentinel and commands together. \<open>reachable\<close> is the least set of documents
    closed under initialization, sentinel checks and commands; the locales \<open>safe_change\<close> and
    \<open>safe_mutation\<close> carry a mutation that keeps the invariant through the compare-and-swap loops, and
    are interpreted for every command.
  \<^item> \<open>Tcp_Proxy\<close>, \<open>Proxy\<close>, \<open>Proxy_Safety\<close>: the TCP proxy with its connections, the package
    \<open>runtime/proxy\<close> over it, and where the connections can go.
  \<^item> \<open>Fencing\<close>: sentinel and proxies together.
  \<^item> \<open>Flow\<close>: two vocabularies for stateful code, actions (a call with an error) and steps (a statement
    that goes on, returns early or panics), and a Hoare logic with one postcondition for each outcome.
  \<^item> \<open>Conn_String\<close>: \<open>postgresql/connstring.go\<close>.
  \<^item> \<open>Pg_Manager\<close>: \<open>postgresql/manager_*.go\<close> and \<open>path_safety.go\<close>. The operating system and the server are
    the record \<open>host\<close> of actions on an unknown world.
  \<^item> \<open>Keeper_Types\<close>, \<open>Keeper_Params\<close>, \<open>Keeper_Slots\<close>, \<open>Keeper\<close>: the package \<open>runtime/keeper\<close>. The tick
    \<open>postgresKeeperSM\<close> of more than a thousand lines is cut at its statements (\<open>cleanup\<close>, \<open>initialize\<close>,
    \<open>align\<close>, \<open>configure\<close>, ...), which \<open>reconcile_db\<close> runs in the order of the code. Calls that act on the
    instance are recorded, so that properties can speak of them.
  \<^item> \<open>Keeper_Tick\<close>: the triples of every statement of the tick, for every branch.
  \<^item> \<open>Keeper_Samples\<close>, \<open>Keeper_Safety\<close>, \<open>Slots_Safety\<close>: a small machine, and the properties of a tick and of the
    reconciliation of replication slots.

  \<^bold>\<open>What is shown.\<close> From a document that satisfies the invariant no pass panics, every pass and every
  command keeps it, and a command that succeeds has replaced the current document in one transaction.
  A failover goes only to an eligible database; with synchronous replication only to one that the
  master both required and reported in sync; and clients are directed at a new master only after every
  known proxy has closed its connections. Failure detection, the leader race and keeper removal
  respect their intervals, synchronous standbys stay within their bounds, generations change exactly
  with the specification. On a document that satisfies the invariant the keeper panics only where it
  has to resync from nothing or to restore without a configuration; it destroys data only after it has
  marked its local state, promotes only the master, keeps users out while synchronous
  standbys are missing, reports a generation only after applying it, and drops no replication slot that
  something needs. Some theorems state behaviour that surprises: the least advanced candidate
  is elected without synchronous replication, a reinitialization request has no effect, a specification
  update can make the next pass panic, a proxy that cannot reach the store keeps its routes, a server that
  is slow to start can leave users locked out, and a standby elected during its resync can make its
  keeper panic.

  \<^bold>\<open>Bounds.\<close> Retry loops take the list of attempts as an argument, with the length the code has
  (three). The polling loops of the manager run as often as \<open>h_attempts\<close> says for their timeout; the worker
  for logical slots has a termination proof. Every other loop recurses over the data it traverses, so no fuel is needed. Event loops are
  functions of the list of events that arrive.

  \<^bold>\<open>Samples.\<close> \<open>Samples\<close> and the sample sections hold concrete clusters at which the theorems are applied.

  \<^bold>\<open>Not modelled.\<close> The SQL statements behind the actions of \<open>host\<close>, URLs as connection strings, the loops and
  the start-up of the keeper process, the Kubernetes store and service (\<open>store/k8s*.go\<close>,
  \<open>kube_service.go\<close>), the web interface, status reports, command line, configuration files, logging and
  metrics: they are input and output or calls of libraries that are not part of the repository. The
  JSON coding of documents is a parameter of the store. Locks and goroutines appear as the order of the
  steps they allow.
\<close>

end
